(* ===== verification/Strix_Prelude.thy ===== *)
theory Strix_Prelude
  imports Main "HOL-Library.Sublist" "HOL-Library.Char_ord" "HOL-Library.List_Lexorder"
    "HOL-Library.Word"
begin

text \<open>
  Shared vocabulary of the development: the types that stand for Rust's
  \<^verbatim>\<open>Result\<close>, \<^verbatim>\<open>String\<close>, integer and time types, the string operations of
  Rust's standard library that the sources call, and the lemma collections
  the component theories extend.

  A Rust \<^verbatim>\<open>String\<close> is a \<^typ>\<open>string\<close>, one \<^typ>\<open>char\<close> per byte. Where the source walks
  over \<^verbatim>\<open>chars()\<close> this agrees with Rust on ASCII text.
\<close>

named_theorems table_simps
  \<open>how the statements on a table act on lookups and on row sets\<close>

named_theorems store_defs
  \<open>definitions of the operations of a store, for unfolding a whole handler\<close>

section \<open>Types\<close>

type_synonym ('a, 'e) result = "'e + 'a"

text \<open>Bytes, the machine integers the sources declare, and instants.
  An instant is the number of nanoseconds since the Unix epoch
  (\<^verbatim>\<open>DateTime<Utc>\<close>); the column default \<^verbatim>\<open>datetime('now')\<close> has whole seconds.\<close>

type_synonym byte = "8 word"
type_synonym bytes = "8 word list"
type_synonym u8 = "8 word"
type_synonym u16 = "16 word"
type_synonym u32 = "32 word"
type_synonym u64 = "64 word"
type_synonym u128 = "128 word"
type_synonym instant = int
type_synonym seconds = int

definition nanos_per_sec :: int where
  "nanos_per_sec = 1000000000"

definition sql_datetime :: "instant \<Rightarrow> seconds" where
  "sql_datetime now = now div nanos_per_sec"

definition of_sql_datetime :: "seconds \<Rightarrow> instant" where
  "of_sql_datetime s = s * nanos_per_sec"

section \<open>Operations of Rust strings\<close>

definition starts_with :: "string \<Rightarrow> string \<Rightarrow> bool" where
  "starts_with s p = (take (length p) s = p)"

definition ends_with :: "string \<Rightarrow> string \<Rightarrow> bool" where
  "ends_with s p = (length p \<le> length s \<and> drop (length s - length p) s = p)"

fun str_find :: "string \<Rightarrow> string \<Rightarrow> nat option" where
  "str_find [] p = (if p = [] then Some 0 else None)"
| "str_find (c # s) p =
     (if starts_with (c # s) p then Some 0 else map_option Suc (str_find s p))"

definition str_contains :: "string \<Rightarrow> string \<Rightarrow> bool" where
  "str_contains s p = (str_find s p \<noteq> None)"

definition trim_matches :: "char \<Rightarrow> string \<Rightarrow> string" where
  "trim_matches c s = rev (dropWhile (\<lambda>x. x = c) (rev (dropWhile (\<lambda>x. x = c) s)))"

definition split_once :: "char \<Rightarrow> string \<Rightarrow> (string \<times> string) option" where
  "split_once c s =
     (if c \<in> set s then Some (takeWhile (\<lambda>x. x \<noteq> c) s, tl (dropWhile (\<lambda>x. x \<noteq> c) s)) else None)"

text \<open>\<^verbatim>\<open>splitn(n, c)\<close>: at most \<open>n\<close> pieces, the last one unsplit.\<close>

fun splitn :: "nat \<Rightarrow> char \<Rightarrow> string \<Rightarrow> string list" where
  "splitn 0 c s = []"
| "splitn (Suc 0) c s = [s]"
| "splitn (Suc (Suc n)) c s =
     (case split_once c s of None \<Rightarrow> [s] | Some (a, b) \<Rightarrow> a # splitn (Suc n) c b)"

definition is_ascii_uppercase :: "char \<Rightarrow> bool" where
  "is_ascii_uppercase c = (CHR ''A'' \<le> c \<and> c \<le> CHR ''Z'')"

definition is_ascii_lowercase :: "char \<Rightarrow> bool" where
  "is_ascii_lowercase c = (CHR ''a'' \<le> c \<and> c \<le> CHR ''z'')"

definition is_ascii_digit :: "char \<Rightarrow> bool" where
  "is_ascii_digit c = (CHR ''0'' \<le> c \<and> c \<le> CHR ''9'')"

definition is_alphanumeric :: "char \<Rightarrow> bool" where
  "is_alphanumeric c = (is_ascii_uppercase c \<or> is_ascii_lowercase c \<or> is_ascii_digit c)"

definition ascii_lower :: "char \<Rightarrow> char" where
  "ascii_lower c = (if is_ascii_uppercase c then char_of (of_char c + (32::nat)) else c)"

definition ascii_upper :: "char \<Rightarrow> char" where
  "ascii_upper c = (if is_ascii_lowercase c then char_of (of_char c - (32::nat)) else c)"

definition to_lowercase :: "string \<Rightarrow> string" where
  "to_lowercase s = map ascii_lower s"

definition to_uppercase :: "string \<Rightarrow> string" where
  "to_uppercase s = map ascii_upper s"

text \<open>Decimal rendering of a natural number, as \<^verbatim>\<open>to_string\<close> and \<^verbatim>\<open>format!\<close> write it.\<close>

fun show_nat :: "nat \<Rightarrow> string" where
  "show_nat n =
     (if n < 10 then [char_of (48 + n)] else show_nat (n div 10) @ [char_of (48 + n mod 10)])"

declare show_nat.simps [simp del]

definition show_bool :: "bool \<Rightarrow> string" where
  "show_bool b = (if b then ''true'' else ''false'')"

section \<open>Lemmas on strings\<close>

lemma starts_with_iff: "starts_with s p \<longleftrightarrow> prefix p s"
  unfolding starts_with_def by (metis prefix_def append_eq_conv_conj take_is_prefix)

lemma starts_with_append [simp]: "starts_with (p @ s) p"
  by (simp add: starts_with_def)

lemma ends_with_iff: "ends_with s p \<longleftrightarrow> suffix p s"
  unfolding ends_with_def suffix_def
  by (metis append_eq_conv_conj append_take_drop_id diff_diff_cancel length_append length_drop
      le_add2 add_diff_cancel_right')

lemma split_once_Some:
  "split_once c s = Some (a, b) \<Longrightarrow> s = a @ c # b \<and> c \<notin> set a"
proof -
  assume "split_once c s = Some (a, b)"
  then have c: "c \<in> set s" and a: "a = takeWhile (\<lambda>x. x \<noteq> c) s"
    and b: "b = tl (dropWhile (\<lambda>x. x \<noteq> c) s)"
    by (auto simp: split_once_def split: if_splits)
  from c obtain ys where "dropWhile (\<lambda>x. x \<noteq> c) s = c # ys"
    by (metis (mono_tags, lifting) dropWhile_eq_Nil_conv hd_dropWhile list.collapse)
  then have "s = a @ c # b"
    using a b takeWhile_dropWhile_id [of "\<lambda>x. x \<noteq> c" s] by simp
  moreover have "c \<notin> set a" using a by (auto dest: set_takeWhileD)
  ultimately show ?thesis by simp
qed

lemma split_once_append [simp]:
  "c \<notin> set a \<Longrightarrow> split_once c (a @ c # b) = Some (a, b)"
  by (induction a) (auto simp: split_once_def)

lemma split_once_None [simp]: "c \<notin> set s \<Longrightarrow> split_once c s = None"
  by (simp add: split_once_def)

lemma length_splitn: "length (splitn n c s) \<le> n"
  by (induction n c s rule: splitn.induct) (auto split: option.splits)

lemma trim_matches_quote:
  "c \<notin> set s \<Longrightarrow> trim_matches c (c # s @ [c]) = s"
proof -
  assume c: "c \<notin> set s"
  then have id: "dropWhile (\<lambda>x. x = c) t = t" if "set t \<subseteq> set s" for t
    using that by (cases t) auto
  have "dropWhile (\<lambda>x. x = c) (s @ [c]) = (if s = [] then [] else s @ [c])"
    using c by (cases s) auto
  then show ?thesis
    using c id [of "rev s"] by (simp add: trim_matches_def)
qed

lemma trim_matches_id:
  "c \<notin> set s \<Longrightarrow> trim_matches c s = s"
proof -
  assume c: "c \<notin> set s"
  have "dropWhile (\<lambda>x. x = c) t = t" if "c \<notin> set t" for t
    using that by (cases t) auto
  then show ?thesis using c by (simp add: trim_matches_def)
qed

end
