(* ===== verification/Sql_Table.thy ===== *)
theory Sql_Table
  imports Strix_Prelude
begin

text \<open>
  The SQL statements the sources run, on a table that is the list of its rows
  in insertion order. Only the statements that occur in the sources are here:
  \<^verbatim>\<open>INSERT\<close> (refused when the primary key or a unique column is taken),
  \<^verbatim>\<open>INSERT OR REPLACE\<close>, \<^verbatim>\<open>INSERT OR IGNORE\<close>, \<^verbatim>\<open>DELETE ... WHERE\<close>,
  \<^verbatim>\<open>UPDATE ... SET ... WHERE\<close>, \<^verbatim>\<open>SELECT ... WHERE\<close> with its first row
  (\<^verbatim>\<open>query_row\<close>), and the \<^verbatim>\<open>LIKE\<close> operator with SQLite's ASCII case folding.
  A statement that reports a row count returns it.
\<close>

definition sql_select :: "('r \<Rightarrow> bool) \<Rightarrow> 'r list \<Rightarrow> 'r list" where
  "sql_select P t = filter P t"

definition sql_query_row :: "('r \<Rightarrow> bool) \<Rightarrow> 'r list \<Rightarrow> 'r option" where
  "sql_query_row P t = List.find P t"

definition sql_exists :: "('r \<Rightarrow> bool) \<Rightarrow> 'r list \<Rightarrow> bool" where
  "sql_exists P t = list_ex P t"

definition sql_count :: "('r \<Rightarrow> bool) \<Rightarrow> 'r list \<Rightarrow> nat" where
  "sql_count P t = length (filter P t)"

definition sql_insert :: "('r \<Rightarrow> 'k) \<Rightarrow> 'r \<Rightarrow> 'r list \<Rightarrow> 'r list option" where
  "sql_insert key r t = (if key r \<in> set (map key t) then None else Some (t @ [r]))"

definition sql_insert_or_replace :: "('r \<Rightarrow> 'k) \<Rightarrow> 'r \<Rightarrow> 'r list \<Rightarrow> 'r list" where
  "sql_insert_or_replace key r t = filter (\<lambda>x. key x \<noteq> key r) t @ [r]"

definition sql_insert_or_ignore :: "('r \<Rightarrow> 'k) \<Rightarrow> 'r \<Rightarrow> 'r list \<Rightarrow> 'r list" where
  "sql_insert_or_ignore key r t = (if key r \<in> set (map key t) then t else t @ [r])"

definition sql_delete :: "('r \<Rightarrow> bool) \<Rightarrow> 'r list \<Rightarrow> 'r list" where
  "sql_delete P t = filter (\<lambda>r. \<not> P r) t"

definition sql_update :: "('r \<Rightarrow> bool) \<Rightarrow> ('r \<Rightarrow> 'r) \<Rightarrow> 'r list \<Rightarrow> 'r list" where
  "sql_update P f t = map (\<lambda>r. if P r then f r else r) t"

text \<open>\<^verbatim>\<open>INSERT ... ON CONFLICT(key) DO UPDATE SET ...\<close>: the row is inserted, or the
  conflicting row is changed in place.\<close>

definition sql_upsert :: "('r \<Rightarrow> 'k) \<Rightarrow> 'r \<Rightarrow> ('r \<Rightarrow> 'r) \<Rightarrow> 'r list \<Rightarrow> 'r list" where
  "sql_upsert key r f t =
     (if key r \<in> set (map key t) then map (\<lambda>x. if key x = key r then f x else x) t else t @ [r])"

text \<open>\<^verbatim>\<open>x LIKE pattern\<close> without an \<^verbatim>\<open>ESCAPE\<close> clause: \<open>%\<close> matches any text, \<open>_\<close> one
  character, and ASCII letters match regardless of case. A backslash is an
  ordinary character.\<close>

fun sql_like :: "string \<Rightarrow> string \<Rightarrow> bool" where
  "sql_like [] s = (s = [])"
| "sql_like (p # ps) [] = (p = CHR ''%'' \<and> sql_like ps [])"
| "sql_like (p # ps) (c # s) =
     (if p = CHR ''%'' then sql_like ps (c # s) \<or> sql_like (p # ps) s
      else if p = CHR ''_'' then sql_like ps s
      else ascii_lower p = ascii_lower c \<and> sql_like ps s)"

section \<open>Keys\<close>

definition unique_key :: "('r \<Rightarrow> 'k) \<Rightarrow> 'r list \<Rightarrow> bool" where
  "unique_key key t = distinct (map key t)"

lemma sql_query_row_None [table_simps]:
  "sql_query_row P t = None \<longleftrightarrow> (\<forall>r \<in> set t. \<not> P r)"
  by (auto simp: sql_query_row_def find_None_iff)

lemma sql_query_row_SomeD:
  "sql_query_row P t = Some r \<Longrightarrow> r \<in> set t \<and> P r"
  by (auto simp: sql_query_row_def find_Some_iff)

lemma sql_exists_iff [table_simps]: "sql_exists P t \<longleftrightarrow> (\<exists>r \<in> set t. P r)"
  by (auto simp: sql_exists_def list_ex_iff)

lemma sql_count_0 [table_simps]: "sql_count P t = 0 \<longleftrightarrow> (\<forall>r \<in> set t. \<not> P r)"
  by (auto simp: sql_count_def filter_empty_conv)

lemma set_sql_select [table_simps]: "set (sql_select P t) = {r \<in> set t. P r}"
  by (auto simp: sql_select_def)

lemma set_sql_delete [table_simps]: "set (sql_delete P t) = {r \<in> set t. \<not> P r}"
  by (auto simp: sql_delete_def)

lemma set_sql_update [table_simps]:
  "set (sql_update P f t) = (\<lambda>r. if P r then f r else r) ` set t"
  by (simp add: sql_update_def)

lemma set_sql_insert: "sql_insert key r t = Some t' \<Longrightarrow> set t' = insert r (set t)"
  by (auto simp: sql_insert_def split: if_splits)

lemma sql_insert_None_iff [table_simps]:
  "sql_insert key r t = None \<longleftrightarrow> (\<exists>x \<in> set t. key x = key r)"
  by (simp add: sql_insert_def image_iff) metis

lemma sql_insert_Some_iff:
  "sql_insert key r t = Some t' \<longleftrightarrow> (\<forall>x \<in> set t. key x \<noteq> key r) \<and> t' = t @ [r]"
  by (simp add: sql_insert_def image_iff) metis

lemma set_sql_insert_or_replace [table_simps]:
  "set (sql_insert_or_replace key r t) = insert r {x \<in> set t. key x \<noteq> key r}"
  by (auto simp: sql_insert_or_replace_def)

lemma unique_key_insert:
  "sql_insert key r t = Some t' \<Longrightarrow> unique_key key t \<Longrightarrow> unique_key key t'"
  by (auto simp: sql_insert_def unique_key_def split: if_splits)

lemma unique_key_insert_or_replace [intro]:
  "unique_key key t \<Longrightarrow> unique_key key (sql_insert_or_replace key r t)"
  by (auto simp: sql_insert_or_replace_def unique_key_def distinct_map_filter)

lemma unique_key_insert_or_ignore [intro]:
  "unique_key key t \<Longrightarrow> unique_key key (sql_insert_or_ignore key r t)"
  by (auto simp: sql_insert_or_ignore_def unique_key_def)

lemma unique_key_delete [intro]: "unique_key key t \<Longrightarrow> unique_key key (sql_delete P t)"
  by (auto simp: sql_delete_def unique_key_def distinct_map_filter)

lemma map_key_sql_update:
  "(\<And>r. key (f r) = key r) \<Longrightarrow> map key (sql_update P f t) = map key t"
  by (induction t) (auto simp: sql_update_def)

lemma unique_key_update:
  "(\<And>r. key (f r) = key r) \<Longrightarrow> unique_key key t \<Longrightarrow> unique_key key (sql_update P f t)"
  by (simp add: unique_key_def map_key_sql_update)

lemma unique_keyD:
  "unique_key key t \<Longrightarrow> x \<in> set t \<Longrightarrow> y \<in> set t \<Longrightarrow> key x = key y \<Longrightarrow> x = y"
  by (auto simp: unique_key_def distinct_map dest: inj_onD)

lemma sql_query_row_unique:
  assumes "unique_key key t" and "r \<in> set t" and "P r" and "\<And>x. P x \<Longrightarrow> key x = key r"
  shows "sql_query_row P t = Some r"
proof (cases "sql_query_row P t")
  case None
  then show ?thesis using assms by (auto simp: table_simps)
next
  case (Some x)
  then have "x \<in> set t" "P x" by (auto dest: sql_query_row_SomeD)
  then have "x = r" using unique_keyD [OF assms(1)] assms(2,4) by blast
  then show ?thesis using Some by simp
qed

text \<open>A query by primary key finds exactly the row of that key.\<close>

lemma sql_query_row_key:
  assumes "unique_key key t"
  shows "sql_query_row (\<lambda>x. key x = k) t = Some r \<longleftrightarrow> r \<in> set t \<and> key r = k"
  using assms sql_query_row_unique [of key t r "\<lambda>x. key x = k"]
  by (auto dest: sql_query_row_SomeD)

lemma sql_query_row_append:
  "sql_query_row P (t @ u) = (case sql_query_row P t of None \<Rightarrow> sql_query_row P u | Some r \<Rightarrow> Some r)"
  by (induction t) (auto simp: sql_query_row_def)

lemma sql_query_row_Cons [simp]:
  "sql_query_row P (r # t) = (if P r then Some r else sql_query_row P t)"
  by (simp add: sql_query_row_def)

lemma sql_query_row_Nil [simp]: "sql_query_row P [] = None"
  by (simp add: sql_query_row_def)

lemma sql_query_row_delete:
  "(\<And>r. r \<in> set t \<Longrightarrow> P r \<Longrightarrow> \<not> Q r) \<Longrightarrow> sql_query_row P (sql_delete Q t) = sql_query_row P t"
  by (induction t) (auto simp: sql_delete_def)

lemma sql_query_row_update:
  "(\<And>r. P (f r) = P r) \<Longrightarrow>
   sql_query_row P (sql_update Q f t) = map_option (\<lambda>r. if Q r then f r else r) (sql_query_row P t)"
  by (induction t) (auto simp: sql_update_def)

section \<open>LIKE\<close>

lemma sql_like_percent [simp]: "sql_like ''%'' s"
  by (induction s) auto

text \<open>A pattern that is a literal text followed by \<open>%\<close> matches every string that starts
  with the text, but also strings that differ in case.\<close>

lemma sql_like_prefix:
  "CHR ''%'' \<notin> set p \<Longrightarrow> sql_like (p @ ''%'') (p @ s)"
  by (induction p) auto

end
