(* ===== verification/Core_Types.thy ===== *)
theory Core_Types
  imports Strix_Prelude
begin

text \<open>
  \<^verbatim>\<open>strix-core/src/error.rs\<close> and the enumerations of \<^verbatim>\<open>strix-core/src/types.rs\<close>,
  \<^verbatim>\<open>strix-storage/src/db.rs\<close> and \<^verbatim>\<open>strix-iam/src/types.rs\<close> that are written to and
  read back from text columns, with \<^verbatim>\<open>strix-s3/src/error.rs\<close>, which turns an error into
  the S3 error of a response. The contract of a text form (what is written is
  read back) is the locale \<open>text_codec\<close>, interpreted for each enumeration.
\<close>

section \<open>Errors\<close>

datatype strix_error =
    BucketNotFound string
  | BucketAlreadyExists string
  | BucketNotEmpty string
  | InvalidBucketName string
  | TenantNotFound string
  | TenantAlreadyExists string
  | ObjectNotFound string string
  | InvalidObjectKey string
  | VersionNotFound string string string
  | InvalidVersionId string
  | UploadNotFound string
  | InvalidPartNumber u16
  | InvalidPartOrder
  | EntityTooSmall
  | EntityTooLarge
  | NoSuchPart u16
  | AccessDenied
  | InvalidCredentials
  | SignatureMismatch
  | ExpiredToken
  | IncompleteSignature
  | PreconditionFailed
  | NotModified
  | InvalidRange string
  | ObjectLocked
  | InvalidObjectLockConfiguration
  | CorsNotConfigured
  | NoSuchLifecycleConfiguration
  | NoSuchNotificationConfiguration
  | Io string
  | MetadataCorruption string
  | ChecksumMismatch
  | Serialization string
  | InvalidArgument string
  | EncryptionError string
  | InvalidEncryptionKey
  | MissingSecurityHeader
  | RequestTimeout
  | ServiceUnavailable
  | SlowDown
  | Internal string

fun s3_code :: "strix_error \<Rightarrow> string" where
  "s3_code (BucketNotFound _) = ''NoSuchBucket''"
| "s3_code (BucketAlreadyExists _) = ''BucketAlreadyExists''"
| "s3_code (BucketNotEmpty _) = ''BucketNotEmpty''"
| "s3_code (InvalidBucketName _) = ''InvalidBucketName''"
| "s3_code (TenantNotFound _) = ''NoSuchTenant''"
| "s3_code (TenantAlreadyExists _) = ''TenantAlreadyExists''"
| "s3_code (ObjectNotFound _ _) = ''NoSuchKey''"
| "s3_code (InvalidObjectKey _) = ''InvalidArgument''"
| "s3_code (VersionNotFound _ _ _) = ''NoSuchVersion''"
| "s3_code (InvalidVersionId _) = ''InvalidArgument''"
| "s3_code (UploadNotFound _) = ''NoSuchUpload''"
| "s3_code (InvalidPartNumber _) = ''InvalidPart''"
| "s3_code InvalidPartOrder = ''InvalidPartOrder''"
| "s3_code EntityTooSmall = ''EntityTooSmall''"
| "s3_code EntityTooLarge = ''EntityTooLarge''"
| "s3_code (NoSuchPart _) = ''NoSuchPart''"
| "s3_code AccessDenied = ''AccessDenied''"
| "s3_code InvalidCredentials = ''InvalidAccessKeyId''"
| "s3_code SignatureMismatch = ''SignatureDoesNotMatch''"
| "s3_code ExpiredToken = ''ExpiredToken''"
| "s3_code IncompleteSignature = ''IncompleteSignature''"
| "s3_code PreconditionFailed = ''PreconditionFailed''"
| "s3_code NotModified = ''NotModified''"
| "s3_code (InvalidRange _) = ''InvalidRange''"
| "s3_code ObjectLocked = ''ObjectLocked''"
| "s3_code InvalidObjectLockConfiguration = ''InvalidObjectLockConfiguration''"
| "s3_code CorsNotConfigured = ''NoSuchCORSConfiguration''"
| "s3_code NoSuchLifecycleConfiguration = ''NoSuchLifecycleConfiguration''"
| "s3_code NoSuchNotificationConfiguration = ''NoSuchNotificationConfiguration''"
| "s3_code (Io _) = ''InternalError''"
| "s3_code (MetadataCorruption _) = ''InternalError''"
| "s3_code ChecksumMismatch = ''BadDigest''"
| "s3_code (Serialization _) = ''InternalError''"
| "s3_code (InvalidArgument _) = ''InvalidArgument''"
| "s3_code (EncryptionError _) = ''InternalError''"
| "s3_code InvalidEncryptionKey = ''InvalidArgument''"
| "s3_code MissingSecurityHeader = ''MissingSecurityHeader''"
| "s3_code RequestTimeout = ''RequestTimeout''"
| "s3_code ServiceUnavailable = ''ServiceUnavailable''"
| "s3_code SlowDown = ''SlowDown''"
| "s3_code (Internal _) = ''InternalError''"

fun http_status :: "strix_error \<Rightarrow> u16" where
  "http_status (BucketNotFound _) = 404"
| "http_status (BucketAlreadyExists _) = 409"
| "http_status (BucketNotEmpty _) = 409"
| "http_status (InvalidBucketName _) = 400"
| "http_status (TenantNotFound _) = 404"
| "http_status (TenantAlreadyExists _) = 409"
| "http_status (ObjectNotFound _ _) = 404"
| "http_status (InvalidObjectKey _) = 400"
| "http_status (VersionNotFound _ _ _) = 404"
| "http_status (InvalidVersionId _) = 400"
| "http_status (UploadNotFound _) = 404"
| "http_status (InvalidPartNumber _) = 400"
| "http_status InvalidPartOrder = 400"
| "http_status EntityTooSmall = 400"
| "http_status EntityTooLarge = 400"
| "http_status (NoSuchPart _) = 404"
| "http_status AccessDenied = 403"
| "http_status InvalidCredentials = 403"
| "http_status SignatureMismatch = 403"
| "http_status ExpiredToken = 400"
| "http_status IncompleteSignature = 400"
| "http_status PreconditionFailed = 412"
| "http_status NotModified = 304"
| "http_status (InvalidRange _) = 416"
| "http_status ObjectLocked = 403"
| "http_status InvalidObjectLockConfiguration = 400"
| "http_status CorsNotConfigured = 404"
| "http_status NoSuchLifecycleConfiguration = 404"
| "http_status NoSuchNotificationConfiguration = 404"
| "http_status (Io _) = 500"
| "http_status (MetadataCorruption _) = 500"
| "http_status ChecksumMismatch = 400"
| "http_status (Serialization _) = 500"
| "http_status (InvalidArgument _) = 400"
| "http_status (EncryptionError _) = 500"
| "http_status InvalidEncryptionKey = 400"
| "http_status MissingSecurityHeader = 400"
| "http_status RequestTimeout = 408"
| "http_status ServiceUnavailable = 503"
| "http_status SlowDown = 503"
| "http_status (Internal _) = 500"

text \<open>The S3 error of a response: the error code and the message, if any.\<close>

record s3_error =
  s3e_code :: string
  s3e_message :: "string option"

fun to_s3_error :: "strix_error \<Rightarrow> s3_error" where
  "to_s3_error (BucketNotFound name) =
     \<lparr>s3e_code = ''NoSuchBucket'', s3e_message = Some (''Bucket not found: '' @ name)\<rparr>"
| "to_s3_error (BucketAlreadyExists name) =
     \<lparr>s3e_code = ''BucketAlreadyOwnedByYou'', s3e_message = Some (''Bucket already exists: '' @ name)\<rparr>"
| "to_s3_error (BucketNotEmpty name) =
     \<lparr>s3e_code = ''BucketNotEmpty'', s3e_message = Some (''Bucket not empty: '' @ name)\<rparr>"
| "to_s3_error (InvalidBucketName msg) =
     \<lparr>s3e_code = ''InvalidBucketName'', s3e_message = Some (msg)\<rparr>"
| "to_s3_error (TenantNotFound msg) =
     \<lparr>s3e_code = ''InvalidArgument'', s3e_message = Some (''Tenant not found: '' @ msg)\<rparr>"
| "to_s3_error (TenantAlreadyExists msg) =
     \<lparr>s3e_code = ''BucketAlreadyOwnedByYou'', s3e_message = Some (''Tenant already exists: '' @ msg)\<rparr>"
| "to_s3_error (ObjectNotFound bucket key) =
     \<lparr>s3e_code = ''NoSuchKey'', s3e_message = Some (''Object not found: '' @ bucket @ ''/'' @ key)\<rparr>"
| "to_s3_error (InvalidObjectKey msg) =
     \<lparr>s3e_code = ''InvalidArgument'', s3e_message = Some (''Invalid key: '' @ msg)\<rparr>"
| "to_s3_error (VersionNotFound bucket key version_id) =
     \<lparr>s3e_code = ''NoSuchVersion'', s3e_message = Some (''Version not found: '' @ bucket @ ''/'' @ key @ ''?versionId='' @ version_id)\<rparr>"
| "to_s3_error (InvalidVersionId msg) =
     \<lparr>s3e_code = ''InvalidArgument'', s3e_message = Some (''Invalid version ID: '' @ msg)\<rparr>"
| "to_s3_error (UploadNotFound uid) =
     \<lparr>s3e_code = ''NoSuchUpload'', s3e_message = Some (''Upload not found: '' @ uid)\<rparr>"
| "to_s3_error (InvalidPartNumber n) =
     \<lparr>s3e_code = ''InvalidPart'', s3e_message = Some (''Invalid part number: '' @ show_nat (unat n))\<rparr>"
| "to_s3_error InvalidPartOrder =
     \<lparr>s3e_code = ''InvalidPartOrder'', s3e_message = Some (''Parts not in ascending order'')\<rparr>"
| "to_s3_error EntityTooSmall =
     \<lparr>s3e_code = ''EntityTooSmall'', s3e_message = Some (''Part size too small'')\<rparr>"
| "to_s3_error EntityTooLarge =
     \<lparr>s3e_code = ''EntityTooLarge'', s3e_message = Some (''Part size too large'')\<rparr>"
| "to_s3_error (NoSuchPart n) =
     \<lparr>s3e_code = ''InvalidPart'', s3e_message = Some (''No such part: '' @ show_nat (unat n))\<rparr>"
| "to_s3_error AccessDenied =
     \<lparr>s3e_code = ''AccessDenied'', s3e_message = None\<rparr>"
| "to_s3_error InvalidCredentials =
     \<lparr>s3e_code = ''InvalidAccessKeyId'', s3e_message = None\<rparr>"
| "to_s3_error SignatureMismatch =
     \<lparr>s3e_code = ''SignatureDoesNotMatch'', s3e_message = None\<rparr>"
| "to_s3_error ExpiredToken =
     \<lparr>s3e_code = ''ExpiredToken'', s3e_message = None\<rparr>"
| "to_s3_error IncompleteSignature =
     \<lparr>s3e_code = ''InvalidArgument'', s3e_message = Some (''Incomplete signature'')\<rparr>"
| "to_s3_error PreconditionFailed =
     \<lparr>s3e_code = ''PreconditionFailed'', s3e_message = None\<rparr>"
| "to_s3_error NotModified =
     \<lparr>s3e_code = ''NotModified'', s3e_message = None\<rparr>"
| "to_s3_error (InvalidRange msg) =
     \<lparr>s3e_code = ''InvalidRange'', s3e_message = Some (msg)\<rparr>"
| "to_s3_error ObjectLocked =
     \<lparr>s3e_code = ''AccessDenied'', s3e_message = Some (''Object is locked'')\<rparr>"
| "to_s3_error InvalidObjectLockConfiguration =
     \<lparr>s3e_code = ''InvalidArgument'', s3e_message = Some (''Invalid object lock configuration'')\<rparr>"
| "to_s3_error CorsNotConfigured =
     \<lparr>s3e_code = ''NoSuchCORSConfiguration'', s3e_message = Some (''CORS configuration not found'')\<rparr>"
| "to_s3_error NoSuchLifecycleConfiguration =
     \<lparr>s3e_code = ''NoSuchLifecycleConfiguration'', s3e_message = Some (''Lifecycle configuration not found'')\<rparr>"
| "to_s3_error NoSuchNotificationConfiguration =
     \<lparr>s3e_code = ''InternalError'', s3e_message = Some (''Notification configuration not found'')\<rparr>"
| "to_s3_error (Io e) =
     \<lparr>s3e_code = ''InternalError'', s3e_message = Some (''I/O error: '' @ e)\<rparr>"
| "to_s3_error (MetadataCorruption msg) =
     \<lparr>s3e_code = ''InternalError'', s3e_message = Some (''Metadata error: '' @ msg)\<rparr>"
| "to_s3_error ChecksumMismatch =
     \<lparr>s3e_code = ''BadDigest'', s3e_message = Some (''Checksum mismatch'')\<rparr>"
| "to_s3_error (Serialization msg) =
     \<lparr>s3e_code = ''InternalError'', s3e_message = Some (''Serialization error: '' @ msg)\<rparr>"
| "to_s3_error (InvalidArgument msg) =
     \<lparr>s3e_code = ''InvalidArgument'', s3e_message = Some (msg)\<rparr>"
| "to_s3_error (EncryptionError msg) =
     \<lparr>s3e_code = ''InternalError'', s3e_message = Some (''Encryption error: '' @ msg)\<rparr>"
| "to_s3_error InvalidEncryptionKey =
     \<lparr>s3e_code = ''InvalidArgument'', s3e_message = Some (''Invalid encryption key'')\<rparr>"
| "to_s3_error MissingSecurityHeader =
     \<lparr>s3e_code = ''InvalidArgument'', s3e_message = Some (''Missing required security header'')\<rparr>"
| "to_s3_error RequestTimeout =
     \<lparr>s3e_code = ''RequestTimeout'', s3e_message = None\<rparr>"
| "to_s3_error ServiceUnavailable =
     \<lparr>s3e_code = ''ServiceUnavailable'', s3e_message = None\<rparr>"
| "to_s3_error SlowDown =
     \<lparr>s3e_code = ''SlowDown'', s3e_message = None\<rparr>"
| "to_s3_error (Internal msg) =
     \<lparr>s3e_code = ''InternalError'', s3e_message = Some (msg)\<rparr>"

section \<open>Enumerations with a text form\<close>

datatype storage_class = Standard | ReducedRedundancy | Glacier | DeepArchive

fun storage_class_to_string :: "storage_class \<Rightarrow> string" where
  "storage_class_to_string Standard = ''STANDARD''"
| "storage_class_to_string ReducedRedundancy = ''REDUCED_REDUNDANCY''"
| "storage_class_to_string Glacier = ''GLACIER''"
| "storage_class_to_string DeepArchive = ''DEEP_ARCHIVE''"

definition parse_storage_class :: "string \<Rightarrow> storage_class" where
  "parse_storage_class s =
     (if s = ''REDUCED_REDUNDANCY'' then ReducedRedundancy
      else if s = ''GLACIER'' then Glacier
      else if s = ''DEEP_ARCHIVE'' then DeepArchive
      else Standard)"

datatype server_side_encryption = Aes256 | SseC

record encryption_info =
  ei_algorithm :: server_side_encryption
  ei_sse_customer_key_md5 :: "string option"

definition parse_encryption_info ::
  "string option \<Rightarrow> string option \<Rightarrow> encryption_info option" where
  "parse_encryption_info algorithm key_md5 =
     map_option (\<lambda>alg. \<lparr>ei_algorithm =
         (if alg = ''AES256'' then Aes256 else if alg = ''SSE-C'' then SseC else Aes256),
       ei_sse_customer_key_md5 = key_md5\<rparr>) algorithm"

datatype versioning_status = Unversioned | VersioningEnabled | VersioningSuspended

fun versioning_as_str :: "versioning_status \<Rightarrow> string" where
  "versioning_as_str Unversioned = ''Unversioned''"
| "versioning_as_str VersioningEnabled = ''Enabled''"
| "versioning_as_str VersioningSuspended = ''Suspended''"

definition versioning_from_db_str :: "string \<Rightarrow> versioning_status" where
  "versioning_from_db_str s =
     (if s = ''Enabled'' then VersioningEnabled
      else if s = ''Suspended'' then VersioningSuspended
      else Unversioned)"

datatype cors_method = CorsGet | CorsPut | CorsPost | CorsDelete | CorsHead

fun cors_method_to_string :: "cors_method \<Rightarrow> string" where
  "cors_method_to_string CorsGet = ''GET''"
| "cors_method_to_string CorsPut = ''PUT''"
| "cors_method_to_string CorsPost = ''POST''"
| "cors_method_to_string CorsDelete = ''DELETE''"
| "cors_method_to_string CorsHead = ''HEAD''"

definition cors_method_from_str :: "string \<Rightarrow> (cors_method, string) result" where
  "cors_method_from_str s =
     (let u = to_uppercase s in
      if u = ''GET'' then Inr CorsGet
      else if u = ''PUT'' then Inr CorsPut
      else if u = ''POST'' then Inr CorsPost
      else if u = ''DELETE'' then Inr CorsDelete
      else if u = ''HEAD'' then Inr CorsHead
      else Inl (''invalid CORS method: '' @ s))"

datatype retention_mode = Governance | Compliance

fun retention_mode_to_string :: "retention_mode \<Rightarrow> string" where
  "retention_mode_to_string Governance = ''GOVERNANCE''"
| "retention_mode_to_string Compliance = ''COMPLIANCE''"

definition retention_mode_from_str :: "string \<Rightarrow> (retention_mode, string) result" where
  "retention_mode_from_str s =
     (let u = to_uppercase s in
      if u = ''GOVERNANCE'' then Inr Governance
      else if u = ''COMPLIANCE'' then Inr Compliance
      else Inl (''invalid retention mode: '' @ s))"

datatype legal_hold_status = HoldOn | HoldOff

fun legal_hold_to_string :: "legal_hold_status \<Rightarrow> string" where
  "legal_hold_to_string HoldOn = ''ON''"
| "legal_hold_to_string HoldOff = ''OFF''"

definition legal_hold_from_str :: "string \<Rightarrow> (legal_hold_status, string) result" where
  "legal_hold_from_str s =
     (let u = to_uppercase s in
      if u = ''ON'' then Inr HoldOn
      else if u = ''OFF'' then Inr HoldOff
      else Inl (''invalid legal hold status: '' @ s))"

datatype delivery_status = DeliverySuccess | DeliveryFailed | DeliveryUnsupported

fun delivery_status_to_string :: "delivery_status \<Rightarrow> string" where
  "delivery_status_to_string DeliverySuccess = ''success''"
| "delivery_status_to_string DeliveryFailed = ''failed''"
| "delivery_status_to_string DeliveryUnsupported = ''unsupported''"

definition delivery_status_from_str :: "string \<Rightarrow> (delivery_status, unit) result" where
  "delivery_status_from_str s =
     (if s = ''success'' then Inr DeliverySuccess
      else if s = ''failed'' then Inr DeliveryFailed
      else if s = ''unsupported'' then Inr DeliveryUnsupported
      else Inl ())"

datatype user_status = UserActive | UserInactive

fun user_status_as_str :: "user_status \<Rightarrow> string" where
  "user_status_as_str UserActive = ''active''"
| "user_status_as_str UserInactive = ''inactive''"

definition user_status_from_str :: "string \<Rightarrow> (user_status, string) result" where
  "user_status_from_str s =
     (let u = to_lowercase s in
      if u = ''active'' then Inr UserActive
      else if u = ''inactive'' then Inr UserInactive
      else Inl (''Invalid user status: '' @ s))"

datatype access_key_status = KeyActive | KeyInactive

fun access_key_status_as_str :: "access_key_status \<Rightarrow> string" where
  "access_key_status_as_str KeyActive = ''active''"
| "access_key_status_as_str KeyInactive = ''inactive''"

definition access_key_status_from_str :: "string \<Rightarrow> (access_key_status, string) result" where
  "access_key_status_from_str s =
     (let u = to_lowercase s in
      if u = ''active'' then Inr KeyActive
      else if u = ''inactive'' then Inr KeyInactive
      else Inl (''Invalid access key status: '' @ s))"

section \<open>The contract of a text form\<close>

locale text_codec =
  fixes render :: "'a \<Rightarrow> string" and parse :: "string \<Rightarrow> ('a, 'e) result"
  assumes parse_render: "parse (render x) = Inr x"
begin

lemma render_inj: "render x = render y \<longleftrightarrow> x = y"
  by (metis parse_render sum.inject(2))

lemma render_image: "s \<in> range render \<Longrightarrow> \<exists>x. parse s = Inr x \<and> render x = s"
  using parse_render by auto

end

text \<open>A text form that is read without regard to case, by first folding it.\<close>

locale folded_codec = text_codec render parse
  for render :: "'a \<Rightarrow> string" and parse :: "string \<Rightarrow> ('a, 'e) result" +
  fixes fold_case :: "string \<Rightarrow> string"
  assumes parse_Inr_iff: "parse s = Inr x \<longleftrightarrow> fold_case s = render x"
begin

lemma parse_folded: "fold_case s = fold_case t \<Longrightarrow> parse s = Inr x \<longleftrightarrow> parse t = Inr x"
  by (simp add: parse_Inr_iff)

end

interpretation retention_codec:
  folded_codec retention_mode_to_string retention_mode_from_str to_uppercase
proof
  show "retention_mode_from_str (retention_mode_to_string x) = Inr x" for x
    by (cases x; hypsubst; code_simp)
  show "retention_mode_from_str s = Inr x \<longleftrightarrow> to_uppercase s = retention_mode_to_string x" for s x
    by (cases x) (auto simp: retention_mode_from_str_def Let_def)
qed

interpretation legal_hold_codec:
  folded_codec legal_hold_to_string legal_hold_from_str to_uppercase
proof
  show "legal_hold_from_str (legal_hold_to_string x) = Inr x" for x
    by (cases x; hypsubst; code_simp)
  show "legal_hold_from_str s = Inr x \<longleftrightarrow> to_uppercase s = legal_hold_to_string x" for s x
    by (cases x) (auto simp: legal_hold_from_str_def Let_def)
qed

interpretation cors_codec:
  folded_codec cors_method_to_string cors_method_from_str to_uppercase
proof
  show "cors_method_from_str (cors_method_to_string x) = Inr x" for x
    by (cases x; hypsubst; code_simp)
  show "cors_method_from_str s = Inr x \<longleftrightarrow> to_uppercase s = cors_method_to_string x" for s x
    by (cases x) (auto simp: cors_method_from_str_def Let_def)
qed

interpretation user_status_codec:
  folded_codec user_status_as_str user_status_from_str to_lowercase
proof
  show "user_status_from_str (user_status_as_str x) = Inr x" for x
    by (cases x; hypsubst; code_simp)
  show "user_status_from_str s = Inr x \<longleftrightarrow> to_lowercase s = user_status_as_str x" for s x
    by (cases x) (auto simp: user_status_from_str_def Let_def)
qed

interpretation key_status_codec:
  folded_codec access_key_status_as_str access_key_status_from_str to_lowercase
proof
  show "access_key_status_from_str (access_key_status_as_str x) = Inr x" for x
    by (cases x; hypsubst; code_simp)
  show "access_key_status_from_str s = Inr x \<longleftrightarrow> to_lowercase s = access_key_status_as_str x" for s x
    by (cases x) (auto simp: access_key_status_from_str_def Let_def)
qed

interpretation delivery_codec: text_codec delivery_status_to_string delivery_status_from_str
proof
  show "delivery_status_from_str (delivery_status_to_string x) = Inr x" for x
    by (cases x) (simp_all add: delivery_status_from_str_def)
qed

interpretation versioning_codec:
  text_codec versioning_as_str "\<lambda>s. Inr (versioning_from_db_str s) :: (versioning_status, unit) result"
proof
  show "(Inr (versioning_from_db_str (versioning_as_str x)) :: (versioning_status, unit) result) = Inr x"
    for x
    by (cases x) (simp_all add: versioning_from_db_str_def)
qed

interpretation storage_class_codec:
  text_codec storage_class_to_string "\<lambda>s. Inr (parse_storage_class s) :: (storage_class, unit) result"
proof
  show "(Inr (parse_storage_class (storage_class_to_string x)) :: (storage_class, unit) result) = Inr x"
    for x
    by (cases x) (simp_all add: parse_storage_class_def)
qed

lemma versioning_from_as_str [simp]: "versioning_from_db_str (versioning_as_str x) = x"
  using versioning_codec.parse_render [of x] by simp

lemma parse_storage_class_to_string [simp]: "parse_storage_class (storage_class_to_string x) = x"
  using storage_class_codec.parse_render [of x] by simp

end
