(* ===== verification/Wildcard.thy ===== *)
theory Wildcard
  imports Strix_Prelude
begin

text \<open>
  The wildcard matcher of \<^verbatim>\<open>strix-iam/src/policy.rs\<close> (\<^verbatim>\<open>matches_wildcard\<close>): the
  dynamic-programming table as the source fills it, cell by cell, and the
  proof that it decides membership in the language of the pattern, where
  \<open>*\<close> stands for any text, \<open>?\<close> for one character and any other character for itself.
\<close>

section \<open>The table\<close>

definition dp_get :: "bool list list \<Rightarrow> nat \<Rightarrow> nat \<Rightarrow> bool" where
  "dp_get d i j = d ! i ! j"

definition dp_set :: "bool list list \<Rightarrow> nat \<Rightarrow> nat \<Rightarrow> bool \<Rightarrow> bool list list" where
  "dp_set d i j b = d[i := (d ! i)[j := b]]"

definition wild_column :: "string \<Rightarrow> bool list list \<Rightarrow> nat \<Rightarrow> bool list list" where
  "wild_column p d i =
     (if p ! (i - 1) = CHR ''*'' then dp_set d i 0 (dp_get d (i - 1) 0) else d)"

definition wild_cell :: "string \<Rightarrow> string \<Rightarrow> nat \<Rightarrow> bool list list \<Rightarrow> nat \<Rightarrow> bool list list" where
  "wild_cell p v i d j =
     (if p ! (i - 1) = CHR ''*''
      then dp_set d i j (dp_get d (i - 1) j \<or> dp_get d i (j - 1))
      else if p ! (i - 1) = CHR ''?'' \<or> p ! (i - 1) = v ! (j - 1)
      then dp_set d i j (dp_get d (i - 1) (j - 1))
      else d)"

definition wild_row :: "string \<Rightarrow> string \<Rightarrow> bool list list \<Rightarrow> nat \<Rightarrow> bool list list" where
  "wild_row p v d i = foldl (wild_cell p v i) d [1..<length v + 1]"

definition matches_wildcard :: "string \<Rightarrow> string \<Rightarrow> bool" where
  "matches_wildcard pattern value =
     (if pattern = ''*'' then True
      else
        let m = length pattern; n = length value;
            dp = dp_set (replicate (m + 1) (replicate (n + 1) False)) 0 0 True;
            dp = foldl (wild_column pattern) dp [1..<m + 1];
            dp = foldl (wild_row pattern value) dp [1..<m + 1]
        in dp_get dp m n)"

section \<open>The language of a pattern\<close>

definition wild_atom :: "char \<Rightarrow> string set" where
  "wild_atom c =
     (if c = CHR ''*'' then UNIV else if c = CHR ''?'' then {[d] |d. True} else {[c]})"

fun wild_lang :: "string \<Rightarrow> string set" where
  "wild_lang [] = {[]}"
| "wild_lang (c # p) = {u @ w |u w. u \<in> wild_atom c \<and> w \<in> wild_lang p}"

section \<open>Correctness\<close>

lemma wild_lang_snoc:
  "wild_lang (p @ [c]) = {w @ u |w u. w \<in> wild_lang p \<and> u \<in> wild_atom c}"
proof (induction p)
  case Nil
  then show ?case by auto
next
  case (Cons a p)
  have "wild_lang ((a # p) @ [c]) =
        {u @ (w @ x) |u w x. u \<in> wild_atom a \<and> w \<in> wild_lang p \<and> x \<in> wild_atom c}"
    using Cons.IH by auto
  also have "\<dots> = {y @ x |y x. y \<in> wild_lang (a # p) \<and> x \<in> wild_atom c}"
    by auto (metis append_assoc)+
  finally show ?case .
qed

lemma snoc_star:
  "v @ [d] \<in> wild_lang (p @ ''*'') \<longleftrightarrow> v @ [d] \<in> wild_lang p \<or> v \<in> wild_lang (p @ ''*'')"
proof -
  have star: "x \<in> wild_lang (p @ ''*'') \<longleftrightarrow> (\<exists>w \<in> wild_lang p. prefix w x)" for x
    by (auto simp: wild_lang_snoc wild_atom_def prefix_def)
  show ?thesis unfolding star by (auto simp: prefix_snoc)
qed

lemma Nil_star: "[] \<in> wild_lang (p @ ''*'') \<longleftrightarrow> [] \<in> wild_lang p"
  by (auto simp: wild_lang_snoc wild_atom_def)

lemma snoc_single:
  assumes "c \<noteq> CHR ''*''"
  shows "v @ [d] \<in> wild_lang (p @ [c]) \<longleftrightarrow> (c = CHR ''?'' \<or> c = d) \<and> v \<in> wild_lang p"
  using assms by (auto simp: wild_lang_snoc wild_atom_def)

lemma Nil_single: "c \<noteq> CHR ''*'' \<Longrightarrow> [] \<notin> wild_lang (p @ [c])"
  by (auto simp: wild_lang_snoc wild_atom_def)

text \<open>Cell \<open>(i, j)\<close> of the finished table: the first \<open>i\<close> pattern characters match the first
  \<open>j\<close> characters of the value.\<close>

definition wild_spec :: "string \<Rightarrow> string \<Rightarrow> nat \<Rightarrow> nat \<Rightarrow> bool" where
  "wild_spec p v i j \<longleftrightarrow> take j v \<in> wild_lang (take i p)"

lemma wild_spec_simps:
  "wild_spec p v 0 j \<longleftrightarrow> j = 0 \<or> v = []"
  "i < length p \<Longrightarrow> wild_spec p v (Suc i) 0 \<longleftrightarrow> p ! i = CHR ''*'' \<and> wild_spec p v i 0"
  "i < length p \<Longrightarrow> j < length v \<Longrightarrow> wild_spec p v (Suc i) (Suc j) \<longleftrightarrow>
     (if p ! i = CHR ''*'' then wild_spec p v i (Suc j) \<or> wild_spec p v (Suc i) j
      else (p ! i = CHR ''?'' \<or> p ! i = v ! j) \<and> wild_spec p v i j)"
proof -
  show "wild_spec p v 0 j \<longleftrightarrow> j = 0 \<or> v = []" by (auto simp: wild_spec_def)
  show "i < length p \<Longrightarrow> wild_spec p v (Suc i) 0 \<longleftrightarrow> p ! i = CHR ''*'' \<and> wild_spec p v i 0"
    using Nil_single [of "p ! i" "take i p"]
    by (cases "p ! i = CHR ''*''") (auto simp: wild_spec_def take_Suc_conv_app_nth Nil_star)
  show "i < length p \<Longrightarrow> j < length v \<Longrightarrow> wild_spec p v (Suc i) (Suc j) \<longleftrightarrow>
     (if p ! i = CHR ''*'' then wild_spec p v i (Suc j) \<or> wild_spec p v (Suc i) j
      else (p ! i = CHR ''?'' \<or> p ! i = v ! j) \<and> wild_spec p v i j)"
    by (auto simp: wild_spec_def take_Suc_conv_app_nth snoc_star snoc_single)
qed

definition dp_shape :: "string \<Rightarrow> string \<Rightarrow> bool list list \<Rightarrow> bool" where
  "dp_shape p v d \<longleftrightarrow> length d = Suc (length p) \<and> (\<forall>r \<in> set d. length r = Suc (length v))"

text \<open>The loop invariant: row 0 and column 0 are final, and so are the cells before
  \<open>(i, j)\<close> in the order of the two loops; every later cell is still \<^verbatim>\<open>false\<close>.\<close>

definition dp_inv :: "string \<Rightarrow> string \<Rightarrow> nat \<Rightarrow> nat \<Rightarrow> bool list list \<Rightarrow> bool" where
  "dp_inv p v i j d \<longleftrightarrow> dp_shape p v d \<and>
     (\<forall>i' \<le> length p. \<forall>j' \<le> length v. dp_get d i' j' \<longleftrightarrow>
        (i' = 0 \<or> j' = 0 \<or> i' < i \<or> (i' = i \<and> j' < j)) \<and> wild_spec p v i' j')"

lemma dp_shape_set: "dp_shape p v d \<Longrightarrow> dp_shape p v (dp_set d i j b)"
  by (cases "i < length d")
    (auto simp: dp_shape_def dp_set_def list_update_beyond dest!: set_update_subset_insert [THEN subsetD])

lemma dp_get_set:
  "dp_shape p v d \<Longrightarrow> i \<le> length p \<Longrightarrow> j \<le> length v \<Longrightarrow>
   dp_get (dp_set d i j b) i' j' = (if i' = i \<and> j' = j then b else dp_get d i' j')"
  by (auto simp: dp_shape_def dp_get_def dp_set_def nth_list_update)

lemma wild_cell_inv:
  assumes inv: "dp_inv p v (Suc i) (Suc j) d" and i: "i < length p" and j: "j < length v"
  shows "dp_inv p v (Suc i) (Suc (Suc j)) (wild_cell p v (Suc i) d (Suc j))"
proof -
  let ?d = "wild_cell p v (Suc i) d (Suc j)"
  have sh: "dp_shape p v d" using inv by (simp add: dp_inv_def)
  have cell: "dp_get d i' j' \<longleftrightarrow>
      (i' = 0 \<or> j' = 0 \<or> i' < Suc i \<or> (i' = Suc i \<and> j' < Suc j)) \<and> wild_spec p v i' j'"
    if "i' \<le> length p" "j' \<le> length v" for i' j'
    using inv that by (auto simp: dp_inv_def)
  have new: "dp_get ?d i' j' \<longleftrightarrow>
      (if i' = Suc i \<and> j' = Suc j then wild_spec p v (Suc i) (Suc j) else dp_get d i' j')"
    if "i' \<le> length p" "j' \<le> length v" for i' j'
    using i j sh cell that cell [of i "Suc j"] cell [of "Suc i" j] cell [of i j]
      cell [of "Suc i" "Suc j"]
    by (auto simp: wild_cell_def dp_get_set wild_spec_simps)
  have "dp_shape p v ?d" using sh by (simp add: wild_cell_def dp_shape_set)
  then show ?thesis using new cell by (auto simp: dp_inv_def less_Suc_eq)
qed

lemma wild_row_inv:
  assumes "dp_inv p v (Suc i) 1 d" and i: "i < length p"
  shows "dp_inv p v (Suc (Suc i)) 1 (wild_row p v d (Suc i))"
proof -
  have "n \<le> length v \<Longrightarrow>
      dp_inv p v (Suc i) (Suc n) (foldl (wild_cell p v (Suc i)) d [1..<Suc n])" for n
  proof (induction n)
    case 0
    then show ?case using assms by simp
  next
    case (Suc n)
    then show ?case using wild_cell_inv [OF _ i, of v n] by simp
  qed
  from this [of "length v"] show ?thesis
    by (auto simp: wild_row_def dp_inv_def less_Suc_eq)
qed

lemma wild_table_inv:
  assumes "dp_inv p v 1 1 d"
  shows "dp_inv p v (Suc (length p)) 1 (foldl (wild_row p v) d [1..<Suc (length p)])"
proof -
  have "m \<le> length p \<Longrightarrow> dp_inv p v (Suc m) 1 (foldl (wild_row p v) d [1..<Suc m])" for m
  proof (induction m)
    case 0
    then show ?case using assms by simp
  next
    case (Suc m)
    then show ?case using wild_row_inv [of p v m] by simp
  qed
  then show ?thesis by simp
qed

text \<open>The first loop makes column 0 final.\<close>

definition column_inv :: "string \<Rightarrow> string \<Rightarrow> nat \<Rightarrow> bool list list \<Rightarrow> bool" where
  "column_inv p v i d \<longleftrightarrow> dp_shape p v d \<and>
     (\<forall>i' \<le> length p. \<forall>j' \<le> length v. dp_get d i' j' \<longleftrightarrow>
        (i' = 0 \<or> j' = 0 \<and> i' < i) \<and> wild_spec p v i' j')"

lemma wild_column_inv:
  assumes inv: "column_inv p v (Suc i) d" and i: "i < length p"
  shows "column_inv p v (Suc (Suc i)) (wild_column p d (Suc i))"
proof -
  have sh: "dp_shape p v d" using inv by (simp add: column_inv_def)
  have cell: "dp_get d i' j' \<longleftrightarrow> (i' = 0 \<or> j' = 0 \<and> i' < Suc i) \<and> wild_spec p v i' j'"
    if "i' \<le> length p" "j' \<le> length v" for i' j'
    using inv that by (auto simp: column_inv_def)
  have new: "dp_get (wild_column p d (Suc i)) i' j' \<longleftrightarrow>
      (if i' = Suc i \<and> j' = 0 then wild_spec p v (Suc i) 0 else dp_get d i' j')"
    if "i' \<le> length p" "j' \<le> length v" for i' j'
    using i sh that cell [of i 0] cell [of "Suc i" 0]
    by (auto simp: wild_column_def dp_get_set wild_spec_simps)
  have "dp_shape p v (wild_column p d (Suc i))" using sh by (simp add: wild_column_def dp_shape_set)
  then show ?thesis using new cell by (auto simp: column_inv_def less_Suc_eq)
qed

lemma wild_first_loop:
  assumes "column_inv p v 1 d"
  shows "dp_inv p v 1 1 (foldl (wild_column p) d [1..<Suc (length p)])"
proof -
  have "m \<le> length p \<Longrightarrow> column_inv p v (Suc m) (foldl (wild_column p) d [1..<Suc m])" for m
  proof (induction m)
    case 0
    then show ?case using assms by simp
  next
    case (Suc m)
    then show ?case using wild_column_inv [of p v m] by simp
  qed
  from this [of "length p"] show ?thesis
    by (auto simp: column_inv_def dp_inv_def less_Suc_eq_le)
qed

lemma dp_start_inv:
  "column_inv p v 1 (dp_set (replicate (length p + 1) (replicate (length v + 1) False)) 0 0 True)"
proof -
  let ?z = "replicate (length p + 1) (replicate (length v + 1) False)"
  have sh: "dp_shape p v ?z" by (auto simp: dp_shape_def)
  have "dp_get (dp_set ?z 0 0 True) i' j' \<longleftrightarrow> i' = 0 \<and> j' = 0"
    if "i' \<le> length p" "j' \<le> length v" for i' j'
    using that dp_get_set [OF sh, of 0 0 True i' j']
    by (simp add: dp_get_def nth_replicate del: replicate_Suc)
  then show ?thesis
    using sh by (auto simp: column_inv_def dp_shape_set wild_spec_simps)
qed

lemma wild_lang_star: "wild_lang ''*'' = UNIV"
  by (auto simp: wild_atom_def)

lemma matches_wildcard_lang: "matches_wildcard p v \<longleftrightarrow> v \<in> wild_lang p"
proof (cases "p = ''*''")
  case True
  then show ?thesis by (simp add: matches_wildcard_def wild_atom_def)
next
  case False
  have "dp_inv p v (Suc (length p)) 1
      (foldl (wild_row p v)
        (foldl (wild_column p)
          (dp_set (replicate (length p + 1) (replicate (length v + 1) False)) 0 0 True)
          [1..<Suc (length p)]) [1..<Suc (length p)])"
    by (intro wild_table_inv wild_first_loop dp_start_inv)
  then show ?thesis
    using False by (auto simp: matches_wildcard_def Let_def dp_inv_def wild_spec_def)
qed

text \<open>C5: the dynamic program of \<^verbatim>\<open>matches_wildcard\<close> accepts exactly the values in the glob
  language of the pattern, where \<^verbatim>\<open>*\<close> stands for any string and \<^verbatim>\<open>?\<close> for any one character.\<close>

theorem matches_wildcard_iff: "matches_wildcard p v \<longleftrightarrow> v \<in> wild_lang p"
  by (rule matches_wildcard_lang)

section \<open>Consequences\<close>

lemma wild_lang_append:
  "wild_lang (p @ q) = {u @ w |u w. u \<in> wild_lang p \<and> w \<in> wild_lang q}"
proof (induction p)
  case Nil
  then show ?case by simp
next
  case (Cons a p)
  then show ?case by auto (metis append_assoc)+
qed

lemma wild_lang_literal:
  "CHR ''*'' \<notin> set p \<Longrightarrow> CHR ''?'' \<notin> set p \<Longrightarrow> wild_lang p = {p}"
  by (induction p) (auto simp: wild_atom_def)

lemma matches_literal_star:
  assumes "CHR ''*'' \<notin> set p" and "CHR ''?'' \<notin> set p"
  shows "matches_wildcard (p @ ''*'') v \<longleftrightarrow> starts_with v p"
  using assms
  by (auto simp: matches_wildcard_lang wild_lang_append wild_lang_literal wild_lang_star
      starts_with_iff prefix_def simp del: wild_lang.simps)

lemma matches_literal:
  assumes "CHR ''*'' \<notin> set p" and "CHR ''?'' \<notin> set p"
  shows "matches_wildcard p v \<longleftrightarrow> v = p"
  using assms by (simp add: matches_wildcard_lang wild_lang_literal)

end
