(* ===== verification/Policy.thy ===== *)
theory Policy
  imports Wildcard
begin

text \<open>
  The IAM policy engine of \<^verbatim>\<open>strix-iam/src/policy.rs\<close>: identity policies, actions and
  resources with their ARN text, ARN parsing, and the evaluation loop shared by
  identity and bucket policies. The contract of an evaluator (an explicit deny
  wins over any allow, no applicable statement gives no decision) is the locale
  \<open>deny_overrides\<close>, interpreted here for \<^verbatim>\<open>Policy::evaluate\<close>.
\<close>

section \<open>Data\<close>

datatype effect = Allow | Deny

datatype action =
    CreateBucket | DeleteBucket | ListBucket | HeadBucket | GetBucketLocation
  | GetBucketVersioning | PutBucketVersioning | GetBucketTagging | PutBucketTagging
  | DeleteBucketTagging | GetObject | PutObject | DeleteObject | HeadObject | CopyObject
  | ListMultipartUploadParts | AbortMultipartUpload | ListAllMyBuckets
  | ListBucketMultipartUploads | AllActions

record resource =
  res_bucket :: "string option"
  res_key :: "string option"

record policy_statement =
  ps_effect :: effect
  ps_actions :: "string list"
  ps_resources :: "string list"

record policy =
  pol_name :: string
  pol_version :: string
  pol_statements :: "policy_statement list"

definition default_version :: string where
  "default_version = ''2012-10-17''"

definition policy_new :: "string \<Rightarrow> policy_statement list \<Rightarrow> policy" where
  "policy_new name statements =
     \<lparr>pol_name = name, pol_version = default_version, pol_statements = statements\<rparr>"

section \<open>Actions and resources\<close>

definition from_operation :: "string \<Rightarrow> action option" where
  "from_operation op =
     (if op = ''CreateBucket'' then Some CreateBucket
      else if op = ''DeleteBucket'' then Some DeleteBucket
      else if op = ''ListBucket'' \<or> op = ''ListObjects'' \<or> op = ''ListObjectsV2'' then Some ListBucket
      else if op = ''HeadBucket'' then Some HeadBucket
      else if op = ''GetBucketLocation'' then Some GetBucketLocation
      else if op = ''GetBucketVersioning'' then Some GetBucketVersioning
      else if op = ''PutBucketVersioning'' then Some PutBucketVersioning
      else if op = ''GetBucketTagging'' then Some GetBucketTagging
      else if op = ''PutBucketTagging'' then Some PutBucketTagging
      else if op = ''DeleteBucketTagging'' then Some DeleteBucketTagging
      else if op = ''GetObject'' then Some GetObject
      else if op = ''PutObject'' then Some PutObject
      else if op = ''DeleteObject'' \<or> op = ''DeleteObjects'' then Some DeleteObject
      else if op = ''HeadObject'' then Some HeadObject
      else if op = ''CopyObject'' then Some CopyObject
      else if op = ''ListParts'' then Some ListMultipartUploadParts
      else if op = ''AbortMultipartUpload'' then Some AbortMultipartUpload
      else if op = ''ListBuckets'' then Some ListAllMyBuckets
      else if op = ''ListMultipartUploads'' then Some ListBucketMultipartUploads
      else if op = ''*'' then Some AllActions
      else None)"

fun action_to_string :: "action \<Rightarrow> string" where
  "action_to_string CreateBucket = ''s3:CreateBucket''"
| "action_to_string DeleteBucket = ''s3:DeleteBucket''"
| "action_to_string ListBucket = ''s3:ListBucket''"
| "action_to_string HeadBucket = ''s3:HeadBucket''"
| "action_to_string GetBucketLocation = ''s3:GetBucketLocation''"
| "action_to_string GetBucketVersioning = ''s3:GetBucketVersioning''"
| "action_to_string PutBucketVersioning = ''s3:PutBucketVersioning''"
| "action_to_string GetBucketTagging = ''s3:GetBucketTagging''"
| "action_to_string PutBucketTagging = ''s3:PutBucketTagging''"
| "action_to_string DeleteBucketTagging = ''s3:DeleteBucketTagging''"
| "action_to_string GetObject = ''s3:GetObject''"
| "action_to_string PutObject = ''s3:PutObject''"
| "action_to_string DeleteObject = ''s3:DeleteObject''"
| "action_to_string HeadObject = ''s3:HeadObject''"
| "action_to_string CopyObject = ''s3:CopyObject''"
| "action_to_string ListMultipartUploadParts = ''s3:ListMultipartUploadParts''"
| "action_to_string AbortMultipartUpload = ''s3:AbortMultipartUpload''"
| "action_to_string ListAllMyBuckets = ''s3:ListAllMyBuckets''"
| "action_to_string ListBucketMultipartUploads = ''s3:ListBucketMultipartUploads''"
| "action_to_string AllActions = ''s3:*''"

definition resource_all :: resource where
  "resource_all = \<lparr>res_bucket = None, res_key = None\<rparr>"

definition resource_bucket :: "string \<Rightarrow> resource" where
  "resource_bucket name = \<lparr>res_bucket = Some name, res_key = None\<rparr>"

definition resource_object :: "string \<Rightarrow> string \<Rightarrow> resource" where
  "resource_object bucket key = \<lparr>res_bucket = Some bucket, res_key = Some key\<rparr>"

definition resource_to_string :: "resource \<Rightarrow> string" where
  "resource_to_string r =
     (case res_bucket r of
        None \<Rightarrow> ''arn:aws:s3:::*''
      | Some b \<Rightarrow> (case res_key r of
          None \<Rightarrow> ''arn:aws:s3:::'' @ b
        | Some k \<Rightarrow> ''arn:aws:s3:::'' @ b @ ''/'' @ k))"

section \<open>Statements\<close>

definition matches_action :: "policy_statement \<Rightarrow> action \<Rightarrow> bool" where
  "matches_action stmt act =
     (let action_str = action_to_string act in
      list_ex (\<lambda>pattern. pattern = ''*'' \<or> pattern = ''s3:*'' \<or> matches_wildcard pattern action_str)
        (ps_actions stmt))"

definition matches_resource :: "policy_statement \<Rightarrow> resource \<Rightarrow> bool" where
  "matches_resource stmt res =
     (let resource_str = resource_to_string res in
      list_ex (\<lambda>pattern. pattern = ''*'' \<or> matches_wildcard pattern resource_str)
        (ps_resources stmt))"

definition statement_matches :: "policy_statement \<Rightarrow> action \<Rightarrow> resource \<Rightarrow> bool" where
  "statement_matches stmt act res = (matches_action stmt act \<and> matches_resource stmt res)"

text \<open>The loop of \<^verbatim>\<open>Policy::evaluate\<close> and \<^verbatim>\<open>BucketPolicy::evaluate_with_context\<close>: it returns
  at the first matching deny and remembers a matching allow.\<close>

fun effect_loop :: "('s \<Rightarrow> bool) \<Rightarrow> ('s \<Rightarrow> effect) \<Rightarrow> effect option \<Rightarrow> 's list \<Rightarrow> effect option" where
  "effect_loop m e result [] = result"
| "effect_loop m e result (s # ss) =
     (if m s then
        (case e s of Deny \<Rightarrow> Some Deny | Allow \<Rightarrow> effect_loop m e (Some Allow) ss)
      else effect_loop m e result ss)"

definition policy_evaluate :: "policy \<Rightarrow> action \<Rightarrow> resource \<Rightarrow> effect option" where
  "policy_evaluate p act res =
     effect_loop (\<lambda>s. statement_matches s act res) ps_effect None (pol_statements p)"

section \<open>ARNs\<close>

record parsed_arn =
  arn_partition :: string
  arn_service :: string
  arn_region :: string
  arn_account :: string
  arn_resource :: string

definition arn_parse :: "string \<Rightarrow> parsed_arn option" where
  "arn_parse arn =
     (if \<not> starts_with arn ''arn:'' then None
      else
        let parts = splitn 6 (CHR '':'') arn in
        if length parts < 6 then None
        else Some \<lparr>arn_partition = parts ! 1, arn_service = parts ! 2, arn_region = parts ! 3,
                   arn_account = parts ! 4, arn_resource = parts ! 5\<rparr>)"

definition arn_matches :: "parsed_arn \<Rightarrow> parsed_arn \<Rightarrow> bool" where
  "arn_matches self pattern =
     (matches_wildcard (arn_partition pattern) (arn_partition self)
      \<and> matches_wildcard (arn_service pattern) (arn_service self)
      \<and> matches_wildcard (arn_region pattern) (arn_region self)
      \<and> matches_wildcard (arn_account pattern) (arn_account self)
      \<and> matches_wildcard (arn_resource pattern) (arn_resource self))"

section \<open>Predefined policies\<close>

definition admin_policy :: policy where
  "admin_policy = policy_new ''AdministratorAccess''
     [\<lparr>ps_effect = Allow, ps_actions = [''*''], ps_resources = [''*'']\<rparr>]"

definition read_only_policy :: policy where
  "read_only_policy = policy_new ''ReadOnlyAccess''
     [\<lparr>ps_effect = Allow,
       ps_actions = [''s3:GetObject'', ''s3:HeadObject'', ''s3:ListBucket'', ''s3:ListAllMyBuckets'',
         ''s3:HeadBucket'', ''s3:GetBucketLocation''],
       ps_resources = [''*'']\<rparr>]"

definition read_write_policy :: policy where
  "read_write_policy = policy_new ''ReadWriteAccess''
     [\<lparr>ps_effect = Allow,
       ps_actions = [''s3:GetObject'', ''s3:PutObject'', ''s3:DeleteObject'', ''s3:HeadObject'',
         ''s3:ListBucket'', ''s3:ListAllMyBuckets'', ''s3:HeadBucket'', ''s3:GetBucketLocation'',
         ''s3:ListMultipartUploadParts'', ''s3:AbortMultipartUpload'',
         ''s3:ListBucketMultipartUploads''],
       ps_resources = [''*'']\<rparr>]"

section \<open>The contract of an evaluator\<close>

text \<open>\<open>applicable p r\<close> are the effects of the statements of \<open>p\<close> that apply to request \<open>r\<close>.\<close>

locale deny_overrides =
  fixes evaluate :: "'p \<Rightarrow> 'r \<Rightarrow> effect option" and applicable :: "'p \<Rightarrow> 'r \<Rightarrow> effect set"
  assumes evaluate_eq: "evaluate p r =
    (if Deny \<in> applicable p r then Some Deny
     else if Allow \<in> applicable p r then Some Allow else None)"
begin

lemma deny_iff: "evaluate p r = Some Deny \<longleftrightarrow> Deny \<in> applicable p r"
  by (simp add: evaluate_eq)

lemma allow_iff: "evaluate p r = Some Allow \<longleftrightarrow> applicable p r = {Allow}"
  by (auto simp: evaluate_eq) (metis effect.exhaust)

lemma none_iff: "evaluate p r = None \<longleftrightarrow> applicable p r = {}"
  by (auto simp: evaluate_eq) (metis effect.exhaust)

lemma evaluate_cong: "applicable p r = applicable q r \<Longrightarrow> evaluate p r = evaluate q r"
  by (simp add: evaluate_eq)

lemma deny_mono: "applicable p r \<subseteq> applicable q r \<Longrightarrow> evaluate p r = Some Deny \<Longrightarrow> evaluate q r = Some Deny"
  by (auto simp: deny_iff)

end

section \<open>The loop meets the contract\<close>

lemma effect_loop_eq:
  "effect_loop m e result ss =
     (if \<exists>s \<in> set ss. m s \<and> e s = Deny then Some Deny
      else if \<exists>s \<in> set ss. m s \<and> e s = Allow then Some Allow else result)"
  by (induction m e result ss rule: effect_loop.induct) (auto split: effect.splits)

definition policy_applicable :: "policy \<Rightarrow> action \<times> resource \<Rightarrow> effect set" where
  "policy_applicable p r =
     ps_effect ` {s \<in> set (pol_statements p). statement_matches s (fst r) (snd r)}"

lemma policy_evaluate_eq:
  "policy_evaluate p (fst r) (snd r) =
     (if Deny \<in> policy_applicable p r then Some Deny
      else if Allow \<in> policy_applicable p r then Some Allow else None)"
  unfolding policy_evaluate_def effect_loop_eq policy_applicable_def
  by (auto simp: image_iff)

interpretation pe: deny_overrides "\<lambda>p r. policy_evaluate p (fst r) (snd r)" policy_applicable
  by unfold_locales (rule policy_evaluate_eq)

lemma policy_applicable_Deny:
  "Deny \<in> policy_applicable p (a, r) \<longleftrightarrow>
     (\<exists>s \<in> set (pol_statements p). statement_matches s a r \<and> ps_effect s = Deny)"
  by (force simp: policy_applicable_def)

lemma policy_applicable_Allow:
  "policy_applicable p (a, r) = {Allow} \<longleftrightarrow>
     (\<exists>s \<in> set (pol_statements p). statement_matches s a r \<and> ps_effect s = Allow)
     \<and> (\<forall>s \<in> set (pol_statements p). statement_matches s a r \<longrightarrow> ps_effect s = Allow)"
proof -
  have "ps_effect ` S = {Allow} \<longleftrightarrow> S \<noteq> {} \<and> (\<forall>s \<in> S. ps_effect s = Allow)" for S
    by force
  from this [of "{s \<in> set (pol_statements p). statement_matches s a r}"]
  show ?thesis unfolding policy_applicable_def fst_conv snd_conv by auto
qed

text \<open>C4: evaluation of an identity policy. A matching deny statement always wins; an
  allow is returned exactly when some statement matches and all matching statements
  allow; without a matching statement there is no decision. The order of the
  statements does not matter.\<close>

theorem policy_evaluate_deny_overrides:
  "(policy_evaluate p act res = Some Deny \<longleftrightarrow>
      (\<exists>s \<in> set (pol_statements p). statement_matches s act res \<and> ps_effect s = Deny))
   \<and> (policy_evaluate p act res = Some Allow \<longleftrightarrow>
      (\<exists>s \<in> set (pol_statements p). statement_matches s act res \<and> ps_effect s = Allow)
      \<and> (\<forall>s \<in> set (pol_statements p). statement_matches s act res \<longrightarrow> ps_effect s = Allow))
   \<and> (policy_evaluate p act res = None \<longleftrightarrow>
      (\<forall>s \<in> set (pol_statements p). \<not> statement_matches s act res))
   \<and> (\<forall>q. set (pol_statements q) = set (pol_statements p) \<longrightarrow>
      policy_evaluate q act res = policy_evaluate p act res)"
proof -
  have cong: "policy_evaluate q act res = policy_evaluate p act res"
    if "set (pol_statements q) = set (pol_statements p)" for q
    using pe.evaluate_cong [of q "(act, res)" p] that by (simp add: policy_applicable_def)
  have deny: "policy_evaluate p act res = Some Deny \<longleftrightarrow>
      (\<exists>s \<in> set (pol_statements p). statement_matches s act res \<and> ps_effect s = Deny)"
    using pe.deny_iff [of p "(act, res)"] by (simp add: policy_applicable_Deny)
  have allow: "policy_evaluate p act res = Some Allow \<longleftrightarrow>
      (\<exists>s \<in> set (pol_statements p). statement_matches s act res \<and> ps_effect s = Allow)
      \<and> (\<forall>s \<in> set (pol_statements p). statement_matches s act res \<longrightarrow> ps_effect s = Allow)"
    using pe.allow_iff [of p "(act, res)"] by (simp add: policy_applicable_Allow)
  have none: "policy_evaluate p act res = None \<longleftrightarrow>
      (\<forall>s \<in> set (pol_statements p). \<not> statement_matches s act res)"
    using pe.none_iff [of p "(act, res)"] by (simp add: policy_applicable_def) blast
  show ?thesis using deny allow none cong by blast
qed

theorem policy_evaluate_deny_overrides_witness:
  "policy_evaluate (policy_new ''p''
      [\<lparr>ps_effect = Allow, ps_actions = [''s3:*''], ps_resources = [''*'']\<rparr>,
       \<lparr>ps_effect = Deny, ps_actions = [''s3:DeleteObject''],
        ps_resources = [''arn:aws:s3:::p/*'']\<rparr>])
      DeleteObject (resource_object ''p'' ''k'') = Some Deny"
proof -
  let ?d = "\<lparr>ps_effect = Deny, ps_actions = [''s3:DeleteObject''], ps_resources = [''arn:aws:s3:::p/*'']\<rparr>"
  have "statement_matches ?d DeleteObject (resource_object ''p'' ''k'')" by code_simp
  then show ?thesis
    using policy_evaluate_deny_overrides
      [of "policy_new ''p'' [\<lparr>ps_effect = Allow, ps_actions = [''s3:*''], ps_resources = [''*'']\<rparr>, ?d]"
        DeleteObject "resource_object ''p'' ''k''"]
    by (auto simp: policy_new_def)
qed

section \<open>ARNs\<close>

definition arn_render :: "parsed_arn \<Rightarrow> string" where
  "arn_render a = ''arn:'' @ arn_partition a @ '':'' @ arn_service a @ '':'' @ arn_region a
     @ '':'' @ arn_account a @ '':'' @ arn_resource a"

definition arn_wf :: "parsed_arn \<Rightarrow> bool" where
  "arn_wf a = (CHR '':'' \<notin> set (arn_partition a) \<union> set (arn_service a)
     \<union> set (arn_region a) \<union> set (arn_account a))"

lemma splitn_arn:
  assumes "c \<notin> set a" "c \<notin> set b" "c \<notin> set d" "c \<notin> set e" "c \<notin> set f"
  shows "splitn 6 c (a @ c # b @ c # d @ c # e @ c # f @ c # g) = [a, b, d, e, f, g]"
proof -
  have "(6::nat) = Suc (Suc (Suc (Suc (Suc (Suc 0)))))" by simp
  then show ?thesis using assms by (simp only: splitn.simps) simp
qed

text \<open>ARN parsing is inverse to rendering: every ARN whose first four components
  contain no colon (the resource may) is read back component by component.\<close>

theorem arn_parse_render:
  assumes "arn_wf a"
  shows "arn_parse (arn_render a) = Some a"
proof -
  have "arn_render a = ''arn'' @ CHR '':'' # arn_partition a @ CHR '':'' # arn_service a
     @ CHR '':'' # arn_region a @ CHR '':'' # arn_account a @ CHR '':'' # arn_resource a"
    by (simp add: arn_render_def)
  then have "splitn 6 (CHR '':'') (arn_render a) =
      [''arn'', arn_partition a, arn_service a, arn_region a, arn_account a, arn_resource a]"
    using assms splitn_arn [of "CHR '':''" "''arn''" "arn_partition a" "arn_service a" "arn_region a"
        "arn_account a" "arn_resource a"]
    by (simp add: arn_wf_def)
  moreover have "starts_with (arn_render a) ''arn:''"
    by (simp add: arn_render_def starts_with_def)
  ultimately show ?thesis by (simp add: arn_parse_def Let_def)
qed

theorem arn_parse_render_witness:
  "arn_parse ''arn:aws:s3:::my-bucket/a:b'' =
     Some \<lparr>arn_partition = ''aws'', arn_service = ''s3'', arn_region = [], arn_account = [],
           arn_resource = ''my-bucket/a:b''\<rparr>"
  using arn_parse_render [of "\<lparr>arn_partition = ''aws'', arn_service = ''s3'', arn_region = [],
      arn_account = [], arn_resource = ''my-bucket/a:b''\<rparr>"]
  by (simp add: arn_wf_def arn_render_def)

end
