(* ===== verification/Bucket_Policy.thy ===== *)
theory Bucket_Policy
  imports Policy
begin

unbundle bit_operations_syntax

text \<open>
  Bucket policies of \<^verbatim>\<open>strix-iam/src/policy.rs\<close>: principals, condition blocks with
  their operators, CIDR matching on 32- and 128-bit words, evaluation, the two
  predefined bucket policies, and the validators for both kinds of policy.

  Rust's \<^verbatim>\<open>f64\<close> and the text forms of IPv6 addresses come in through a record
  \<open>std_lib\<close>: its fields are the operations of the standard library that
  \<^verbatim>\<open>evaluate_condition\<close> calls. IPv4 addresses and unsigned integers are read and
  written here.
\<close>

section \<open>Numbers and addresses as text\<close>

text \<open>\<^verbatim>\<open>str::parse\<close> of an unsigned integer type with largest value \<open>bound\<close>: an optional
  leading plus sign, then at least one digit, nothing else, no overflow.\<close>

definition digits_value :: "string \<Rightarrow> nat" where
  "digits_value ds = foldl (\<lambda>n c. 10 * n + (of_char c - 48)) 0 ds"

definition parse_unsigned :: "nat \<Rightarrow> string \<Rightarrow> nat option" where
  "parse_unsigned bound s =
     (let ds = (case s of c # cs \<Rightarrow> if c = CHR ''+'' then cs else s | [] \<Rightarrow> s) in
      if ds \<noteq> [] \<and> list_all is_ascii_digit ds \<and> digits_value ds \<le> bound
      then Some (digits_value ds) else None)"

datatype ip_addr = V4 u32 | V6 u128

fun split_on :: "char \<Rightarrow> string \<Rightarrow> string list" where
  "split_on c [] = [[]]"
| "split_on c (x # xs) =
     (if x = c then [] # split_on c xs
      else (case split_on c xs of [] \<Rightarrow> [[x]] | y # ys \<Rightarrow> (x # y) # ys))"

definition parse_octet :: "string \<Rightarrow> nat option" where
  "parse_octet s =
     (if s \<noteq> [] \<and> length s \<le> 3 \<and> list_all is_ascii_digit s
         \<and> (length s > 1 \<longrightarrow> hd s \<noteq> CHR ''0'') \<and> digits_value s \<le> 255
      then Some (digits_value s) else None)"

definition parse_ipv4 :: "string \<Rightarrow> u32 option" where
  "parse_ipv4 s =
     (case map parse_octet (split_on (CHR ''.'') s) of
        [Some a, Some b, Some c, Some d] \<Rightarrow>
          Some (word_of_nat (((a * 256 + b) * 256 + c) * 256 + d))
      | _ \<Rightarrow> None)"

definition show_ipv4 :: "u32 \<Rightarrow> string" where
  "show_ipv4 w =
     (let n = unat w in
      show_nat (n div 16777216) @ ''.'' @ show_nat (n div 65536 mod 256) @ ''.''
      @ show_nat (n div 256 mod 256) @ ''.'' @ show_nat (n mod 256))"

record 'f std_lib =
  f64_parse :: "string \<Rightarrow> 'f option"
  f64_near :: "'f \<Rightarrow> 'f \<Rightarrow> bool" \<comment> \<open>\<^verbatim>\<open>(a - b).abs() < f64::EPSILON\<close>\<close>
  f64_less :: "'f \<Rightarrow> 'f \<Rightarrow> bool"
  ipv6_parse :: "string \<Rightarrow> u128 option"
  ipv6_show :: "u128 \<Rightarrow> string"

definition ip_parse :: "'f std_lib \<Rightarrow> string \<Rightarrow> ip_addr option" where
  "ip_parse std s =
     (case parse_ipv4 s of Some w \<Rightarrow> Some (V4 w) | None \<Rightarrow> map_option V6 (ipv6_parse std s))"

fun ip_show :: "'f std_lib \<Rightarrow> ip_addr \<Rightarrow> string" where
  "ip_show std (V4 w) = show_ipv4 w"
| "ip_show std (V6 w) = ipv6_show std w"

section \<open>CIDR ranges\<close>

definition cidr_v4 :: "u32 \<Rightarrow> u32 \<Rightarrow> nat \<Rightarrow> bool" where
  "cidr_v4 ip network prefix_len =
     (if prefix_len > 32 then False
      else
        let mask = (if prefix_len = 0 then 0 else push_bit (32 - prefix_len) (- 1)) in
        (ip AND mask) = (network AND mask))"

definition cidr_v6 :: "u128 \<Rightarrow> u128 \<Rightarrow> nat \<Rightarrow> bool" where
  "cidr_v6 ip network prefix_len =
     (if prefix_len > 128 then False
      else
        let mask = (if prefix_len = 0 then 0 else push_bit (128 - prefix_len) (- 1)) in
        (ip AND mask) = (network AND mask))"

definition ip_matches_cidr :: "'f std_lib \<Rightarrow> ip_addr \<Rightarrow> string \<Rightarrow> bool" where
  "ip_matches_cidr std ip cidr =
     (case split_once (CHR ''/'') cidr of
        Some (network, len_str) \<Rightarrow>
          (case parse_unsigned 255 len_str of
             None \<Rightarrow> False
           | Some prefix_len \<Rightarrow>
               (case (ip, ip_parse std network) of
                  (V4 i, Some (V4 n)) \<Rightarrow> cidr_v4 i n prefix_len
                | (V6 i, Some (V6 n)) \<Rightarrow> cidr_v6 i n prefix_len
                | _ \<Rightarrow> False))
      | None \<Rightarrow> ip_show std ip = cidr)"

section \<open>Conditions\<close>

datatype 'f json =
    JNull | JBool bool | JNum 'f | JStr string | JArr "'f json list" | JObj "(string \<times> 'f json) list"

fun as_str :: "'f json \<Rightarrow> string option" where
  "as_str (JStr s) = Some s"
| "as_str _ = None"

fun as_bool :: "'f json \<Rightarrow> bool option" where
  "as_bool (JBool b) = Some b"
| "as_bool _ = None"

fun as_f64 :: "'f json \<Rightarrow> 'f option" where
  "as_f64 (JNum x) = Some x"
| "as_f64 _ = None"

record condition_context =
  cc_source_ip :: "ip_addr option"
  cc_current_time :: "string option"
  cc_secure_transport :: bool
  cc_headers :: "string \<rightharpoonup> string"
  cc_prefix :: "string option"
  cc_delimiter :: "string option"
  cc_max_keys :: "u32 option"
  cc_custom :: "string \<rightharpoonup> string"

definition context_default :: condition_context where
  "context_default = \<lparr>cc_source_ip = None, cc_current_time = None, cc_secure_transport = False,
     cc_headers = Map.empty, cc_prefix = None, cc_delimiter = None, cc_max_keys = None,
     cc_custom = Map.empty\<rparr>"

definition context_get :: "'f std_lib \<Rightarrow> condition_context \<Rightarrow> string \<Rightarrow> string option" where
  "context_get std ctx key =
     (if key = ''aws:SourceIp'' then map_option (ip_show std) (cc_source_ip ctx)
      else if key = ''aws:CurrentTime'' then cc_current_time ctx
      else if key = ''aws:SecureTransport'' then Some (show_bool (cc_secure_transport ctx))
      else if key = ''s3:prefix'' then cc_prefix ctx
      else if key = ''s3:delimiter'' then cc_delimiter ctx
      else if key = ''s3:max-keys'' then map_option (\<lambda>k. show_nat (unat k)) (cc_max_keys ctx)
      else if starts_with key ''aws:'' \<or> starts_with key ''s3:'' then cc_custom ctx key
      else None)"

text \<open>The two operands of a numeric operator, when both are numbers.\<close>

definition numeric_operands ::
  "'f std_lib \<Rightarrow> string option \<Rightarrow> 'f json \<Rightarrow> ('f \<times> 'f) option" where
  "numeric_operands std actual expected =
     (case (Option.bind actual (f64_parse std),
            case Option.bind (as_str expected) (f64_parse std) of Some x \<Rightarrow> Some x | None \<Rightarrow> as_f64 expected)
      of (Some a, Some e) \<Rightarrow> Some (a, e) | _ \<Rightarrow> None)"

definition condition_matches ::
  "'f std_lib \<Rightarrow> condition_context \<Rightarrow> string \<Rightarrow> string \<Rightarrow> 'f json \<Rightarrow> bool" where
  "condition_matches std ctx operator key expected =
     (let actual = context_get std ctx key in
      if operator = ''StringEquals'' then actual = as_str expected
      else if operator = ''StringNotEquals'' then actual \<noteq> as_str expected
      else if operator = ''StringLike'' then
        (case (actual, as_str expected) of (Some a, Some p) \<Rightarrow> matches_wildcard p a | _ \<Rightarrow> False)
      else if operator = ''StringNotLike'' then
        (case (actual, as_str expected) of (Some a, Some p) \<Rightarrow> \<not> matches_wildcard p a | _ \<Rightarrow> True)
      else if operator = ''IpAddress'' then
        (case cc_source_ip ctx of
           Some ip \<Rightarrow> (case as_str expected of Some c \<Rightarrow> ip_matches_cidr std ip c | None \<Rightarrow> False)
         | None \<Rightarrow> False)
      else if operator = ''NotIpAddress'' then
        (case cc_source_ip ctx of
           Some ip \<Rightarrow> (case as_str expected of Some c \<Rightarrow> \<not> ip_matches_cidr std ip c | None \<Rightarrow> True)
         | None \<Rightarrow> True)
      else if operator = ''Bool'' then
        (case as_str expected of
           Some b \<Rightarrow> actual = Some b
         | None \<Rightarrow> (case as_bool expected of Some b \<Rightarrow> actual = Some (show_bool b) | None \<Rightarrow> False))
      else if operator = ''NumericEquals'' then
        (case numeric_operands std actual expected of Some (a, e) \<Rightarrow> f64_near std a e | None \<Rightarrow> False)
      else if operator = ''NumericLessThan'' then
        (case numeric_operands std actual expected of Some (a, e) \<Rightarrow> f64_less std a e | None \<Rightarrow> False)
      else if operator = ''NumericGreaterThan'' then
        (case numeric_operands std actual expected of Some (a, e) \<Rightarrow> f64_less std e a | None \<Rightarrow> False)
      else if operator = ''Null'' then
        (let is_null = (actual = None);
             expected_null = (as_str expected = Some ''true'' \<or> as_bool expected = Some True)
         in is_null = expected_null)
      else False)"

definition evaluate_condition :: "'f std_lib \<Rightarrow> 'f json \<Rightarrow> condition_context \<Rightarrow> bool" where
  "evaluate_condition std condition ctx =
     (case condition of
        JObj obj \<Rightarrow>
          list_all (\<lambda>(operator, conditions).
            case conditions of
              JObj cs \<Rightarrow> list_all (\<lambda>(key, expected). condition_matches std ctx operator key expected) cs
            | _ \<Rightarrow> True) obj
      | _ \<Rightarrow> True)"

section \<open>Bucket policies\<close>

datatype principal_spec = Wildcard | Aws "string list"

datatype principal = Anonymous | User string | Arn string

datatype action_spec = SingleAction string | MultipleActions "string list"

datatype resource_spec = SingleResource string | MultipleResources "string list"

record 'f bucket_policy_statement =
  bps_sid :: "string option"
  bps_effect :: effect
  bps_principal :: principal_spec
  bps_actions :: action_spec
  bps_resources :: resource_spec
  bps_condition :: "'f json option"

record 'f bucket_policy =
  bp_version :: string
  bp_id :: "string option"
  bp_statements :: "'f bucket_policy_statement list"

definition bucket_policy_with_id ::
  "string \<Rightarrow> 'f bucket_policy_statement list \<Rightarrow> 'f bucket_policy" where
  "bucket_policy_with_id pid statements =
     \<lparr>bp_version = default_version, bp_id = Some pid, bp_statements = statements\<rparr>"

fun action_list :: "action_spec \<Rightarrow> string list" where
  "action_list (SingleAction a) = [a]"
| "action_list (MultipleActions a) = a"

fun resource_list :: "resource_spec \<Rightarrow> string list" where
  "resource_list (SingleResource r) = [r]"
| "resource_list (MultipleResources r) = r"

definition matches_condition ::
  "'f std_lib \<Rightarrow> 'f bucket_policy_statement \<Rightarrow> condition_context \<Rightarrow> bool" where
  "matches_condition std stmt ctx =
     (case bps_condition stmt of
        Some condition \<Rightarrow> evaluate_condition std condition ctx
      | None \<Rightarrow> True)"

definition matches_principal :: "'f bucket_policy_statement \<Rightarrow> principal \<Rightarrow> bool" where
  "matches_principal stmt who =
     (case bps_principal stmt of
        Wildcard \<Rightarrow> True
      | Aws principals \<Rightarrow>
          list_ex (\<lambda>p. p = ''*'' \<or>
            (case who of
               Anonymous \<Rightarrow> p = ''*''
             | User user \<Rightarrow> p = ''*'' \<or> p = user \<or> ends_with p (''user/'' @ user)
             | Arn arn \<Rightarrow> p = ''*'' \<or> p = arn \<or> matches_wildcard p arn)) principals)"

definition bucket_matches_action :: "'f bucket_policy_statement \<Rightarrow> action \<Rightarrow> bool" where
  "bucket_matches_action stmt act =
     (let action_str = action_to_string act in
      list_ex (\<lambda>pattern. pattern = ''*'' \<or> pattern = ''s3:*'' \<or> matches_wildcard pattern action_str)
        (action_list (bps_actions stmt)))"

definition bucket_matches_resource :: "'f bucket_policy_statement \<Rightarrow> resource \<Rightarrow> bool" where
  "bucket_matches_resource stmt res =
     (let resource_str = resource_to_string res in
      list_ex (\<lambda>pattern. pattern = ''*'' \<or> matches_wildcard pattern resource_str)
        (resource_list (bps_resources stmt)))"

definition matches_with_context ::
  "'f std_lib \<Rightarrow> 'f bucket_policy_statement \<Rightarrow> principal \<Rightarrow> action \<Rightarrow> resource \<Rightarrow>
     condition_context \<Rightarrow> bool" where
  "matches_with_context std stmt who act res ctx =
     (matches_principal stmt who \<and> bucket_matches_action stmt act
      \<and> bucket_matches_resource stmt res \<and> matches_condition std stmt ctx)"

definition evaluate_with_context ::
  "'f std_lib \<Rightarrow> 'f bucket_policy \<Rightarrow> principal \<Rightarrow> action \<Rightarrow> resource \<Rightarrow> condition_context \<Rightarrow>
     effect option" where
  "evaluate_with_context std p who act res ctx =
     effect_loop (\<lambda>s. matches_with_context std s who act res ctx) bps_effect None (bp_statements p)"

definition bucket_policy_evaluate ::
  "'f std_lib \<Rightarrow> 'f bucket_policy \<Rightarrow> principal \<Rightarrow> action \<Rightarrow> resource \<Rightarrow> effect option" where
  "bucket_policy_evaluate std p who act res = evaluate_with_context std p who act res context_default"

definition public_read_policy :: "string \<Rightarrow> 'f bucket_policy" where
  "public_read_policy bucket = bucket_policy_with_id ''PublicRead''
     [\<lparr>bps_sid = Some ''AllowPublicRead'', bps_effect = Allow, bps_principal = Wildcard,
       bps_actions = MultipleActions [''s3:GetObject'', ''s3:HeadObject''],
       bps_resources = SingleResource (''arn:aws:s3:::'' @ bucket @ ''/*''), bps_condition = None\<rparr>]"

definition block_public_access_policy :: "string \<Rightarrow> 'f bucket_policy" where
  "block_public_access_policy bucket = bucket_policy_with_id ''BlockPublicAccess''
     [\<lparr>bps_sid = Some ''DenyPublicAccess'', bps_effect = Deny, bps_principal = Wildcard,
       bps_actions = SingleAction ''s3:*'',
       bps_resources = MultipleResources [''arn:aws:s3:::'' @ bucket, ''arn:aws:s3:::'' @ bucket @ ''/*''],
       bps_condition = None\<rparr>]"

section \<open>Validation\<close>

record policy_validation_error =
  pve_message :: string
  pve_location :: "string option"

definition known_actions :: "string list" where
  "known_actions = [''s3:*'', ''s3:GetObject'', ''s3:PutObject'', ''s3:DeleteObject'',
     ''s3:ListBucket'', ''s3:CreateBucket'', ''s3:DeleteBucket'', ''s3:HeadBucket'',
     ''s3:HeadObject'', ''s3:CopyObject'', ''s3:GetBucketLocation'', ''s3:GetBucketVersioning'',
     ''s3:PutBucketVersioning'', ''s3:GetBucketTagging'', ''s3:PutBucketTagging'',
     ''s3:DeleteBucketTagging'', ''s3:ListAllMyBuckets'', ''s3:ListBucketMultipartUploads'',
     ''s3:ListMultipartUploadParts'', ''s3:AbortMultipartUpload'', ''s3:GetBucketPolicy'',
     ''s3:PutBucketPolicy'', ''s3:DeleteBucketPolicy'', ''s3:GetBucketCors'', ''s3:PutBucketCors'',
     ''s3:DeleteBucketCors'', ''s3:GetBucketNotification'', ''s3:PutBucketNotification'',
     ''s3:GetObjectVersion'', ''s3:DeleteObjectVersion'']"

definition is_valid_action :: "string \<Rightarrow> bool" where
  "is_valid_action act =
     (if act = ''*'' then True
      else if \<not> starts_with act ''s3:'' then False
      else if List.member known_actions act then True
      else if CHR ''*'' \<in> set act then True
      else length act > 3 \<and> list_all is_alphanumeric (drop 3 act))"

definition is_valid_resource :: "string \<Rightarrow> bool" where
  "is_valid_resource res =
     (if res = ''*'' then True
      else if \<not> starts_with res ''arn:'' then False
      else
        let parts = splitn 6 (CHR '':'') res in
        if length parts < 6 then False
        else if parts ! 2 \<noteq> ''s3'' \<and> parts ! 2 \<noteq> ''aws'' \<and> parts ! 2 \<noteq> ''*'' then False
        else True)"

text \<open>The errors of one statement, at its index, as both validators report them. The
  bucket validator adds one error per resource that does not name the bucket.\<close>

definition statement_loc :: "nat \<Rightarrow> string" where
  "statement_loc i = ''Statement['' @ show_nat i @ '']''"

definition action_errors :: "string \<Rightarrow> string list \<Rightarrow> policy_validation_error list" where
  "action_errors loc actions =
     (if actions = [] then
        [\<lparr>pve_message = ''Statement must have at least one action'',
          pve_location = Some (loc @ ''.Action'')\<rparr>] else [])
     @ concat (map (\<lambda>(j, act).
         if is_valid_action act then []
         else [\<lparr>pve_message = ''Invalid action: '' @ act,
                pve_location = Some (loc @ ''.Action['' @ show_nat j @ '']'')\<rparr>])
       (enumerate 0 actions))"

definition resource_errors ::
  "string option \<Rightarrow> string \<Rightarrow> string list \<Rightarrow> policy_validation_error list" where
  "resource_errors bucket loc resources =
     (if resources = [] then
        [\<lparr>pve_message = ''Statement must have at least one resource'',
          pve_location = Some (loc @ ''.Resource'')\<rparr>] else [])
     @ concat (map (\<lambda>(j, res).
         (if is_valid_resource res then []
          else [\<lparr>pve_message = ''Invalid resource ARN: '' @ res,
                 pve_location = Some (loc @ ''.Resource['' @ show_nat j @ '']'')\<rparr>])
         @ (case bucket of
              None \<Rightarrow> []
            | Some b \<Rightarrow>
                if res \<noteq> ''*'' \<and> \<not> str_contains res ('':::'' @ b) then
                  [\<lparr>pve_message = ''Resource '' @ res @ '' does not reference bucket '' @ b,
                    pve_location = Some (loc @ ''.Resource['' @ show_nat j @ '']'')\<rparr>]
                else []))
       (enumerate 0 resources))"

definition validate_policy :: "policy \<Rightarrow> (unit, policy_validation_error list) result" where
  "validate_policy p =
     (let errors =
        (if pol_name p = [] then
           [\<lparr>pve_message = ''Policy name cannot be empty'', pve_location = Some ''name''\<rparr>] else [])
        @ (if pol_statements p = [] then
             [\<lparr>pve_message = ''Policy must have at least one statement'',
               pve_location = Some ''Statement''\<rparr>] else [])
        @ concat (map (\<lambda>(i, stmt).
             action_errors (statement_loc i) (ps_actions stmt)
             @ resource_errors None (statement_loc i) (ps_resources stmt))
           (enumerate 0 (pol_statements p)))
      in if errors = [] then Inr () else Inl errors)"

definition validate_bucket_policy ::
  "'f bucket_policy \<Rightarrow> string \<Rightarrow> (unit, policy_validation_error list) result" where
  "validate_bucket_policy p bucket =
     (let errors =
        (if bp_statements p = [] then
           [\<lparr>pve_message = ''Bucket policy must have at least one statement'',
             pve_location = Some ''Statement''\<rparr>] else [])
        @ concat (map (\<lambda>(i, stmt).
             action_errors (statement_loc i) (action_list (bps_actions stmt))
             @ resource_errors (Some bucket) (statement_loc i) (resource_list (bps_resources stmt)))
           (enumerate 0 (bp_statements p)))
      in if errors = [] then Inr () else Inl errors)"

section \<open>CIDR ranges as sets of addresses\<close>

lemma mask_eq_iff_drop_bit:
  fixes a b :: "'a::len word"
  shows "a AND push_bit n (- 1) = b AND push_bit n (- 1) \<longleftrightarrow> drop_bit n a = drop_bit n b"
  (is "?l \<longleftrightarrow> ?r")
proof
  assume l: ?l
  have "bit a (n + i) = bit b (n + i)" for i
  proof (cases "n + i < LENGTH('a)")
    case True
    then show ?thesis
      using arg_cong [OF l, of "\<lambda>w. bit w (n + i)"] by (simp add: bit_simps)
  qed (use bit_imp_le_length in blast)
  then show ?r by (auto simp: bit_eq_iff bit_simps)
next
  assume r: ?r
  have "bit a i = bit b i" if "n \<le> i" for i
    using arg_cong [OF r, of "\<lambda>w. bit w (i - n)"] that by (simp add: bit_simps)
  then show ?l by (auto simp: bit_eq_iff bit_simps)
qed

lemma drop_bit_length [simp]:
  fixes w :: "'a::len word"
  shows "drop_bit LENGTH('a) w = 0"
  by (rule bit_eqI) (auto simp: bit_simps dest: bit_imp_le_length)

lemma cidr_v4_eq:
  "cidr_v4 ip network k \<longleftrightarrow> k \<le> 32 \<and> drop_bit (32 - k) ip = drop_bit (32 - k) network"
  using drop_bit_length [of ip] drop_bit_length [of network]
  by (auto simp: cidr_v4_def Let_def mask_eq_iff_drop_bit [simplified])

lemma cidr_v6_eq:
  "cidr_v6 ip network k \<longleftrightarrow> k \<le> 128 \<and> drop_bit (128 - k) ip = drop_bit (128 - k) network"
  using drop_bit_length [of ip] drop_bit_length [of network]
  by (auto simp: cidr_v6_def Let_def mask_eq_iff_drop_bit [simplified])

lemma cidr_v4_range:
  "cidr_v4 ip network k \<longleftrightarrow>
     k \<le> 32 \<and> unat ip div 2 ^ (32 - k) = unat network div 2 ^ (32 - k)"
  unfolding cidr_v4_eq by (simp only: word_unat_eq_iff unat_drop_bit_eq drop_bit_eq_div [where 'a = nat])

lemma cidr_v6_range:
  "cidr_v6 ip network k \<longleftrightarrow>
     k \<le> 128 \<and> unat ip div 2 ^ (128 - k) = unat network div 2 ^ (128 - k)"
  unfolding cidr_v6_eq by (simp only: word_unat_eq_iff unat_drop_bit_eq drop_bit_eq_div [where 'a = nat])

section \<open>Decimal text\<close>

lemma is_ascii_digit_iff: "is_ascii_digit c \<longleftrightarrow> 48 \<le> (of_char c :: nat) \<and> of_char c \<le> (57 :: nat)"
  by (simp add: is_ascii_digit_def less_eq_char_def)

lemma digit_char: "d < 10 \<Longrightarrow> is_ascii_digit (char_of (48 + d)) \<and> of_char (char_of (48 + d)) = 48 + d"
  for d :: nat
  by (simp add: is_ascii_digit_iff)

lemma digits_value_snoc: "digits_value (ds @ [c]) = 10 * digits_value ds + (of_char c - 48)"
  by (simp add: digits_value_def)

lemma show_nat_digits: "list_all is_ascii_digit (show_nat n)"
  by (induction n rule: show_nat.induct; subst show_nat.simps) (auto simp: digit_char)

lemma digits_value_show_nat: "digits_value (show_nat n) = n"
proof (induction n rule: show_nat.induct)
  case (1 n)
  show ?case
  proof (cases "n < 10")
    case True
    then show ?thesis by (subst show_nat.simps) (simp add: digits_value_def digit_char)
  next
    case False
    then show ?thesis using 1
      by (subst show_nat.simps) (simp add: digits_value_snoc digit_char)
  qed
qed

lemma show_nat_not_Nil [simp]: "show_nat n \<noteq> []"
  by (subst show_nat.simps) simp

lemma hd_show_nat: "0 < n \<Longrightarrow> hd (show_nat n) \<noteq> CHR ''0''"
proof (induction n rule: show_nat.induct)
  case (1 n)
  show ?case
  proof (cases "n < 10")
    case True
    then have "of_char (char_of (48 + n)) \<noteq> (of_char (CHR ''0'') :: nat)"
      using 1 by simp
    then have "char_of (48 + n) \<noteq> CHR ''0''" by metis
    then show ?thesis using True by (subst show_nat.simps) simp
  next
    case False
    then show ?thesis using 1 by (subst show_nat.simps) simp
  qed
qed

lemma length_show_nat: "n < 10 \<Longrightarrow> length (show_nat n) = 1"
  "10 \<le> n \<Longrightarrow> length (show_nat n) = Suc (length (show_nat (n div 10)))"
  by (subst show_nat.simps, simp)+

lemma length_show_octet: "n \<le> 255 \<Longrightarrow> length (show_nat n) \<le> 3"
  by (cases "n < 10"; cases "n div 10 < 10"; cases "n div 10 div 10 < 10")
    (simp_all add: length_show_nat)

lemma parse_unsigned_show_nat:
  "parse_unsigned b (show_nat n) = (if n \<le> b then Some n else None)"
proof -
  have "hd (show_nat n) \<noteq> CHR ''+''"
    using show_nat_digits [of n] by (cases "show_nat n") (auto simp: is_ascii_digit_iff)
  then have "(case show_nat n of c # cs \<Rightarrow> if c = CHR ''+'' then cs else show_nat n | [] \<Rightarrow> show_nat n) = show_nat n"
    by (cases "show_nat n") auto
  then show ?thesis
    by (simp add: parse_unsigned_def Let_def digits_value_show_nat show_nat_digits)
qed

lemma parse_octet_show_nat: "n \<le> 255 \<Longrightarrow> parse_octet (show_nat n) = Some n"
  using hd_show_nat [of n] length_show_nat(1) [of n]
  by (cases "n = 0") (auto simp: parse_octet_def digits_value_show_nat show_nat_digits length_show_octet)

lemma show_nat_no_char: "\<not> is_ascii_digit c \<Longrightarrow> c \<notin> set (show_nat n)"
  using show_nat_digits [of n] by (auto simp: list_all_iff)

lemma split_on_append: "c \<notin> set a \<Longrightarrow> split_on c (a @ c # b) = a # split_on c b"
  by (induction a) auto

lemma split_on_none: "c \<notin> set a \<Longrightarrow> split_on c a = [a]"
  by (induction a) auto

lemma octets_value:
  fixes n :: nat
  shows "((n div 16777216 * 256 + n div 65536 mod 256) * 256 + n div 256 mod 256) * 256 + n mod 256 = n"
proof -
  have "n div 65536 div 256 = n div 16777216" "n div 256 div 256 = n div 65536"
    by (simp_all flip: div_mult2_eq)
  then show ?thesis
    using div_mult_mod_eq [of n 256] div_mult_mod_eq [of "n div 256" 256]
      div_mult_mod_eq [of "n div 65536" 256] by simp
qed

lemma parse_ipv4_show: "parse_ipv4 (show_ipv4 w) = Some w"
proof -
  let ?n = "unat w"
  have dot: "CHR ''.'' \<notin> set (show_nat k)" for k
    by (rule show_nat_no_char) code_simp
  have "?n < 2 ^ 32" using unsigned_less [of w] by simp
  then have top: "?n div 16777216 \<le> 255" by simp
  have low: "k mod 256 \<le> 255" for k :: nat
    using mod_less_divisor [of 256 k] by linarith
  have "show_ipv4 w = show_nat (?n div 16777216) @ CHR ''.'' # show_nat (?n div 65536 mod 256)
      @ CHR ''.'' # show_nat (?n div 256 mod 256) @ CHR ''.'' # show_nat (?n mod 256)"
    by (simp add: show_ipv4_def Let_def)
  then have "map parse_octet (split_on (CHR ''.'') (show_ipv4 w)) =
      [Some (?n div 16777216), Some (?n div 65536 mod 256), Some (?n div 256 mod 256), Some (?n mod 256)]"
    using dot by (simp add: split_on_append split_on_none parse_octet_show_nat top low)
  then have "parse_ipv4 (show_ipv4 w) = Some (word_of_nat (((?n div 16777216 * 256
      + ?n div 65536 mod 256) * 256 + ?n div 256 mod 256) * 256 + ?n mod 256))"
    by (simp only: parse_ipv4_def list.case option.case)
  then show ?thesis by (simp only: octets_value) simp
qed

text \<open>C11: an address condition matches exactly the addresses of the range it writes. A
  range written as an IPv4 network, a slash and a prefix length contains the IPv4
  addresses that agree with the network on the leading bits; it contains no address
  for a length above 32, every IPv4 address for length 0, and never an IPv6 address.
  A condition without a slash matches the one address it spells. The statement covers
  \<^verbatim>\<open>u8\<close> parsing of the length and the shift by 32 that the code avoids.\<close>

theorem ip_matches_cidr_v4:
  "(ip_matches_cidr std (V4 ip) (show_ipv4 net @ ''/'' @ show_nat k) \<longleftrightarrow>
      k \<le> 32 \<and> unat ip div 2 ^ (32 - k) = unat net div 2 ^ (32 - k))
   \<and> \<not> ip_matches_cidr std (V6 ip6) (show_ipv4 net @ ''/'' @ show_nat k)
   \<and> (ip_matches_cidr std (V4 ip) (show_ipv4 net) \<longleftrightarrow> ip = net)"
proof -
  have slash: "CHR ''/'' \<notin> set (show_ipv4 w)" for w
    using show_nat_no_char [of "CHR ''/''"] by (simp add: show_ipv4_def Let_def is_ascii_digit_iff)
  have once: "split_once (CHR ''/'') (show_ipv4 net @ ''/'' @ show_nat k) = Some (show_ipv4 net, show_nat k)"
    using slash [of net] by simp
  have "show_ipv4 ip = show_ipv4 net \<longleftrightarrow> ip = net"
    by (metis parse_ipv4_show option.inject)
  then show ?thesis
    unfolding ip_matches_cidr_def once
    by (auto simp: slash parse_unsigned_show_nat ip_parse_def parse_ipv4_show cidr_v4_range)
qed

section \<open>Evaluation of bucket policies\<close>

type_synonym bucket_request = "principal \<times> action \<times> resource \<times> condition_context"

definition bucket_applicable :: "'f std_lib \<Rightarrow> 'f bucket_policy \<Rightarrow> bucket_request \<Rightarrow> effect set" where
  "bucket_applicable std p r = (case r of (who, act, res, ctx) \<Rightarrow>
     bps_effect ` {s \<in> set (bp_statements p). matches_with_context std s who act res ctx})"

interpretation bpe: deny_overrides
    "\<lambda>p (who, act, res, ctx). evaluate_with_context std p who act res ctx" "bucket_applicable std"
  for std
proof
  fix p and r :: bucket_request
  obtain who act res ctx where r: "r = (who, act, res, ctx)" by (cases r)
  have "e \<in> bucket_applicable std p r \<longleftrightarrow>
      (\<exists>s \<in> set (bp_statements p). matches_with_context std s who act res ctx \<and> bps_effect s = e)" for e
    by (force simp: bucket_applicable_def r)
  then show "(case r of (who, act, res, ctx) \<Rightarrow> evaluate_with_context std p who act res ctx) =
      (if Deny \<in> bucket_applicable std p r then Some Deny
       else if Allow \<in> bucket_applicable std p r then Some Allow else None)"
    by (auto simp: r evaluate_with_context_def effect_loop_eq)
qed

lemma evaluate_with_context_cong:
  assumes "bucket_applicable std p (who, act, res, ctx) = bucket_applicable std p' (who, act, res, ctx)"
  shows "evaluate_with_context std p who act res ctx = evaluate_with_context std p' who act res ctx"
  using bpe.evaluate_cong [OF assms] by simp

lemma address_condition_unknown:
  assumes "cc_source_ip ctx = None"
  shows "(''IpAddress'', JObj ks) \<in> set ops \<Longrightarrow> ks \<noteq> [] \<Longrightarrow> \<not> evaluate_condition std (JObj ops) ctx"
    and "evaluate_condition std (JObj (filter (\<lambda>(operator, _). operator \<noteq> ''NotIpAddress'') ops)) ctx =
      evaluate_condition std (JObj ops) ctx"
proof -
  have positive: "\<not> condition_matches std ctx ''IpAddress'' k v" for k v
    using assms by (simp add: condition_matches_def)
  have negative: "condition_matches std ctx ''NotIpAddress'' k v" for k v
    using assms by (simp add: condition_matches_def)
  show "\<not> evaluate_condition std (JObj ops) ctx" if "(''IpAddress'', JObj ks) \<in> set ops" "ks \<noteq> []"
  proof
    assume "evaluate_condition std (JObj ops) ctx"
    then have "list_all (\<lambda>(k, v). condition_matches std ctx ''IpAddress'' k v) ks"
      using that(1) by (fastforce simp: evaluate_condition_def list_all_iff)
    then show False using positive that(2) by (cases ks) auto
  qed
  have not_ip: "case conditions of JObj cs \<Rightarrow> list_all (\<lambda>(k, v). condition_matches std ctx ''NotIpAddress'' k v) cs
      | _ \<Rightarrow> True" for conditions
    using negative by (cases conditions) (auto simp: list_all_iff)
  show "evaluate_condition std (JObj (filter (\<lambda>(operator, _). operator \<noteq> ''NotIpAddress'') ops)) ctx =
      evaluate_condition std (JObj ops) ctx"
  proof (induction ops)
    case (Cons x ops)
    obtain operator conditions where x: "x = (operator, conditions)" by (cases x)
    show ?case
      using Cons not_ip [of conditions]
      by (cases "operator = ''NotIpAddress''") (simp_all add: x evaluate_condition_def)
  qed simp
qed

text \<open>C12: when the source address of a request is unknown, which is the case in the default
  context that the S3 service uses for every request, a statement of a bucket policy that has
  an \<^verbatim>\<open>IpAddress\<close> operator with a key among its conditions never applies, whatever the other
  conditions are: an allow restricted to addresses grants nothing, and a deny restricted to
  addresses denies nothing. A \<^verbatim>\<open>NotIpAddress\<close> operator, on the other hand, always holds: the
  statement applies as if the operator were not there.\<close>

theorem ip_condition_needs_source_ip:
  assumes "cc_source_ip ctx = None" and cond: "bps_condition stmt = Some (JObj ops)"
  shows "((\<exists>ks. ks \<noteq> [] \<and> (''IpAddress'', JObj ks) \<in> set ops) \<longrightarrow>
      evaluate_with_context std (bucket_policy_with_id pid (pre @ stmt # post)) who act res ctx =
      evaluate_with_context std (bucket_policy_with_id pid (pre @ post)) who act res ctx)
    \<and> evaluate_with_context std (bucket_policy_with_id pid (pre @ stmt # post)) who act res ctx =
      evaluate_with_context std (bucket_policy_with_id pid (pre @ stmt\<lparr>bps_condition :=
        Some (JObj (filter (\<lambda>(operator, _). operator \<noteq> ''NotIpAddress'') ops))\<rparr> # post)) who act res ctx"
proof (intro conjI impI evaluate_with_context_cong)
  let ?policy = "\<lambda>stmts. bucket_policy_with_id pid stmts"
  assume "\<exists>ks. ks \<noteq> [] \<and> (''IpAddress'', JObj ks) \<in> set ops"
  then have "\<not> evaluate_condition std (JObj ops) ctx" using address_condition_unknown(1) [OF assms(1)] by blast
  then have "\<not> matches_with_context std stmt who act res ctx"
    using cond by (simp add: matches_with_context_def matches_condition_def)
  then show "bucket_applicable std (?policy (pre @ stmt # post)) (who, act, res, ctx) =
      bucket_applicable std (?policy (pre @ post)) (who, act, res, ctx)"
    by (simp add: bucket_applicable_def bucket_policy_with_id_def) (metis (no_types, lifting))
next
  let ?stmt = "stmt\<lparr>bps_condition := Some (JObj (filter (\<lambda>(operator, _). operator \<noteq> ''NotIpAddress'') ops))\<rparr>"
  have parts: "matches_principal ?stmt who = matches_principal stmt who"
    "bucket_matches_action ?stmt act = bucket_matches_action stmt act"
    "bucket_matches_resource ?stmt res = bucket_matches_resource stmt res" "bps_effect ?stmt = bps_effect stmt"
    by (simp_all add: matches_principal_def bucket_matches_action_def bucket_matches_resource_def)
  moreover have "matches_condition std ?stmt ctx = matches_condition std stmt ctx"
    using address_condition_unknown(2) [OF assms(1), of std ops] cond by (simp add: matches_condition_def)
  ultimately have same: "matches_with_context std ?stmt who act res ctx = matches_with_context std stmt who act res ctx"
    by (simp only: matches_with_context_def)
  have "bps_effect ` {x \<in> set (pre @ s # post). matches_with_context std x who act res ctx} =
      bps_effect ` {x \<in> set (pre @ post). matches_with_context std x who act res ctx}
        \<union> (if matches_with_context std s who act res ctx then {bps_effect s} else {})" for s
    by auto
  from this [of stmt] this [of ?stmt]
  show "bucket_applicable std (bucket_policy_with_id pid (pre @ stmt # post)) (who, act, res, ctx) =
      bucket_applicable std (bucket_policy_with_id pid (pre @ ?stmt # post)) (who, act, res, ctx)"
    unfolding bucket_applicable_def prod.case bucket_policy_with_id_def bucket_policy.select_convs
    by (simp only: same parts(4))
qed

text \<open>A standard library whose floating point numbers are the naturals and that knows no
  IPv6 text, for concrete evaluations.\<close>

definition nat_std :: "nat std_lib" where
  "nat_std = \<lparr>f64_parse = parse_unsigned 9007199254740992, f64_near = (=), f64_less = (<),
     ipv6_parse = (\<lambda>_. None), ipv6_show = (\<lambda>_. [])\<rparr>"

theorem ip_condition_needs_source_ip_witness:
  "evaluate_with_context nat_std (bucket_policy_with_id ''p''
     [\<lparr>bps_sid = None, bps_effect = Deny, bps_principal = Wildcard,
       bps_actions = SingleAction ''s3:*'', bps_resources = SingleResource ''*'',
       bps_condition = Some (JObj [(''IpAddress'', JObj [(''aws:SourceIp'', JStr ''10.0.0.0/8'')])])\<rparr>])
     Anonymous GetObject (resource_object ''b'' ''k'') context_default = None"
  using ip_condition_needs_source_ip
    [of context_default "\<lparr>bps_sid = None, bps_effect = Deny, bps_principal = Wildcard,
       bps_actions = SingleAction ''s3:*'', bps_resources = SingleResource ''*'',
       bps_condition = Some (JObj [(''IpAddress'', JObj [(''aws:SourceIp'', JStr ''10.0.0.0/8'')])])\<rparr>"
      "[(''IpAddress'', JObj [(''aws:SourceIp'', JStr ''10.0.0.0/8'')])]" nat_std "''p''" "[]" "[]" Anonymous
      GetObject "resource_object ''b'' ''k''"]
  by (simp add: context_default_def) (simp add: evaluate_with_context_def bucket_policy_with_id_def)

lemma action_to_string_inj: "action_to_string a = action_to_string b \<longleftrightarrow> a = b"
  by (cases a; cases b) simp_all

lemma resource_in_bucket:
  assumes "CHR ''*'' \<notin> set b" "CHR ''/'' \<notin> set b"
    and "\<forall>b'. res_bucket res = Some b' \<longrightarrow> CHR ''/'' \<notin> set b'"
  shows "starts_with (resource_to_string res) (''arn:aws:s3:::'' @ b @ ''/'') \<longleftrightarrow>
    (\<exists>k. res = resource_object b k)"
proof
  assume "\<exists>k. res = resource_object b k"
  then show "starts_with (resource_to_string res) (''arn:aws:s3:::'' @ b @ ''/'')"
    by (auto simp: resource_object_def resource_to_string_def starts_with_iff prefix_def)
next
  assume p: "starts_with (resource_to_string res) (''arn:aws:s3:::'' @ b @ ''/'')"
  show "\<exists>k. res = resource_object b k"
  proof (cases "res_bucket res")
    case None
    then have "prefix (b @ ''/'') ''*''"
      using p by (simp add: resource_to_string_def starts_with_iff)
    then show ?thesis using assms(1) by (cases b) auto
  next
    case (Some b')
    then have no: "CHR ''/'' \<notin> set b'" using assms(3) by simp
    show ?thesis
    proof (cases "res_key res")
      case None
      then have "prefix (b @ ''/'') b'"
        using p Some by (simp add: resource_to_string_def starts_with_iff)
      then have "CHR ''/'' \<in> set b'" by (auto simp: prefix_def)
      then show ?thesis using no by simp
    next
      case (Some k)
      with \<open>res_bucket res = Some b'\<close> obtain r where "b @ CHR ''/'' # r = b' @ CHR ''/'' # k"
        using p by (auto simp: resource_to_string_def starts_with_iff prefix_def)
      then have "b = b'"
        using split_once_append [OF assms(2), of r] split_once_append [OF no, of k]
        by (metis option.inject prod.inject)
      then show ?thesis using Some \<open>res_bucket res = Some b'\<close>
        by (intro exI [of _ k]) (simp add: resource_object_def)
    qed
  qed
qed

lemma public_read_eval:
  assumes "CHR ''*'' \<notin> set b" "CHR ''?'' \<notin> set b" "CHR ''/'' \<notin> set b"
    and "\<forall>b'. res_bucket res = Some b' \<longrightarrow> CHR ''/'' \<notin> set b'"
  shows "evaluate_with_context std (public_read_policy b) who act res ctx =
    (if act \<in> {GetObject, HeadObject} \<and> (\<exists>k. res = resource_object b k) then Some Allow else None)"
proof -
  have get: "matches_wildcard ''s3:GetObject'' (action_to_string act) \<longleftrightarrow> act = GetObject"
    using action_to_string_inj [of act GetObject] by (subst matches_literal) simp_all
  have head: "matches_wildcard ''s3:HeadObject'' (action_to_string act) \<longleftrightarrow> act = HeadObject"
    using action_to_string_inj [of act HeadObject] by (subst matches_literal) simp_all
  have res: "matches_wildcard (''arn:aws:s3:::'' @ b @ ''/*'') (resource_to_string res) \<longleftrightarrow>
      (\<exists>k. res = resource_object b k)"
    using matches_literal_star [of "''arn:aws:s3:::'' @ b @ ''/''"] assms resource_in_bucket [of b res]
    by simp
  let ?stmt = "hd (bp_statements (public_read_policy b))"
  have "matches_with_context std ?stmt who act res ctx \<longleftrightarrow>
      act \<in> {GetObject, HeadObject} \<and> (\<exists>k. res = resource_object b k)"
    unfolding matches_with_context_def matches_principal_def bucket_matches_action_def
      bucket_matches_resource_def matches_condition_def public_read_policy_def bucket_policy_with_id_def
    by (simp add: get head res [simplified])
  then show ?thesis
    by (simp add: evaluate_with_context_def public_read_policy_def bucket_policy_with_id_def)
qed

text \<open>The predefined public-read policy of a bucket allows every principal, with no
  context, exactly \<^verbatim>\<open>GetObject\<close> and \<^verbatim>\<open>HeadObject\<close> on the objects of that bucket, and decides
  nothing else: it never denies, and it grants nothing on another bucket, on the bucket
  itself or for another action. Bucket names carry no slash and no wildcard, which
  bucket creation enforces.\<close>

theorem public_read_policy_grants:
  assumes "CHR ''*'' \<notin> set b" "CHR ''?'' \<notin> set b" "CHR ''/'' \<notin> set b"
    and "\<forall>b'. res_bucket res = Some b' \<longrightarrow> CHR ''/'' \<notin> set b'"
  shows "evaluate_with_context std (public_read_policy b) who act res ctx =
    (if act \<in> {GetObject, HeadObject} \<and> (\<exists>k. res = resource_object b k) then Some Allow else None)"
  using assms by (rule public_read_eval)

theorem public_read_policy_grants_witness:
  "evaluate_with_context nat_std (public_read_policy ''pics'') Anonymous GetObject
     (resource_object ''pics'' ''a/b.png'') context_default = Some Allow"
  using public_read_policy_grants [of "''pics''" "resource_object ''pics'' ''a/b.png''"
      nat_std Anonymous GetObject context_default]
  by (simp add: resource_object_def)

section \<open>The validators\<close>

lemma concat_enumerate_Nil:
  assumes "\<And>i x. f (i, x) = [] \<longleftrightarrow> P x"
  shows "concat (map f (enumerate n xs)) = [] \<longleftrightarrow> list_all P xs"
  by (induction xs arbitrary: n) (simp_all add: assms)

lemma action_errors_Nil:
  "action_errors loc acts = [] \<longleftrightarrow> acts \<noteq> [] \<and> list_all is_valid_action acts"
  unfolding action_errors_def
  by (subst append_is_Nil_conv, subst concat_enumerate_Nil [where P = is_valid_action]) auto

lemma resource_errors_Nil:
  "resource_errors bucket loc ress = [] \<longleftrightarrow>
     ress \<noteq> [] \<and> list_all (\<lambda>r. is_valid_resource r
       \<and> (case bucket of None \<Rightarrow> True | Some b \<Rightarrow> r = ''*'' \<or> str_contains r ('':::'' @ b))) ress"
  unfolding resource_errors_def
  by (subst append_is_Nil_conv, subst concat_enumerate_Nil [where P = "\<lambda>r. is_valid_resource r
       \<and> (case bucket of None \<Rightarrow> True | Some b \<Rightarrow> r = ''*'' \<or> str_contains r ('':::'' @ b))"])
    (auto split: option.splits)

text \<open>C13: a policy document passes validation exactly when it has a name, at least one
  statement, and every statement lists at least one action and one resource, each of them
  well formed; otherwise the errors are returned and there is at least one.\<close>

theorem validate_policy_iff:
  "(validate_policy p = Inr () \<longleftrightarrow>
     pol_name p \<noteq> [] \<and> pol_statements p \<noteq> []
     \<and> list_all (\<lambda>s. ps_actions s \<noteq> [] \<and> list_all is_valid_action (ps_actions s)
          \<and> ps_resources s \<noteq> [] \<and> list_all is_valid_resource (ps_resources s))
        (pol_statements p))
   \<and> validate_policy p \<noteq> Inl []"
proof -
  define es where "es = concat (map (\<lambda>(i, stmt). action_errors (statement_loc i) (ps_actions stmt)
      @ resource_errors None (statement_loc i) (ps_resources stmt)) (enumerate 0 (pol_statements p)))"
  have "es = [] \<longleftrightarrow> list_all (\<lambda>s. ps_actions s \<noteq> [] \<and> list_all is_valid_action (ps_actions s)
      \<and> ps_resources s \<noteq> [] \<and> list_all is_valid_resource (ps_resources s)) (pol_statements p)"
    unfolding es_def
    by (rule concat_enumerate_Nil) (auto simp: action_errors_Nil resource_errors_Nil)
  then show ?thesis
    unfolding validate_policy_def Let_def es_def [symmetric] by (auto simp: list_all_iff)
qed

text \<open>The check that a bucket policy names its own bucket is a substring test, so it
  accepts the resources of every bucket whose name extends this one.\<close>

lemma validate_bucket_policy_prefix:
  "validate_bucket_policy (public_read_policy ''logs-private'') ''logs'' = Inr ()"
  by code_simp

end
