(* ===== verification/Crypto.thy ===== *)
theory Crypto
  imports Strix_Prelude
begin

text \<open>
  \<^verbatim>\<open>strix-crypto/src/lib.rs\<close> and \<^verbatim>\<open>strix-iam/src/secrets.rs\<close>: ETags, AES-256-GCM framing
  (a random nonce in front of ciphertext and tag), the SSE-C key check and the
  encryption of access-key secrets at rest.

  The hash functions, the block cipher mode and the text encodings come from crates;
  they are the fields of a record \<open>crypto_lib\<close>. A random nonce is an argument of the
  operation that draws it.
\<close>

record crypto_lib =
  md5_raw :: "bytes \<Rightarrow> bytes"
  sha256_raw :: "bytes \<Rightarrow> bytes"
  hmac_raw :: "bytes \<Rightarrow> bytes \<Rightarrow> bytes"
  hex_encode :: "bytes \<Rightarrow> string"
  hex_decode :: "string \<Rightarrow> bytes option"
  base64_encode :: "bytes \<Rightarrow> string"
  base64_decode :: "string \<Rightarrow> bytes option"
  gcm_encrypt :: "bytes \<Rightarrow> bytes \<Rightarrow> bytes \<Rightarrow> bytes option" \<comment> \<open>key, nonce, plaintext\<close>
  gcm_decrypt :: "bytes \<Rightarrow> bytes \<Rightarrow> bytes \<Rightarrow> bytes option"

definition NONCE_SIZE :: nat where "NONCE_SIZE = 12"

definition KEY_SIZE :: nat where "KEY_SIZE = 32"

definition TAG_SIZE :: nat where "TAG_SIZE = 16"

section \<open>Bytes of a string\<close>

definition as_bytes :: "string \<Rightarrow> bytes" where
  "as_bytes s = map (\<lambda>c. word_of_nat (of_char c)) s"

text \<open>\<^verbatim>\<open>String::from_utf8\<close>: the well-formed byte sequences of UTF-8, without overlong forms
  and surrogates.\<close>

definition utf8_cont :: "byte \<Rightarrow> bool" where
  "utf8_cont b = (0x80 \<le> b \<and> b \<le> 0xBF)"

fun utf8_valid :: "bytes \<Rightarrow> bool" where
  "utf8_valid [] = True"
| "utf8_valid (a # bs) =
     (if a \<le> 0x7F then utf8_valid bs
      else case bs of
        b # cs \<Rightarrow>
          if 0xC2 \<le> a \<and> a \<le> 0xDF then utf8_cont b \<and> utf8_valid cs
          else (case cs of
            c # ds \<Rightarrow>
              if 0xE0 \<le> a \<and> a \<le> 0xEF then
                utf8_cont b \<and> utf8_cont c \<and> (a = 0xE0 \<longrightarrow> 0xA0 \<le> b) \<and> (a = 0xED \<longrightarrow> b \<le> 0x9F)
                \<and> utf8_valid ds
              else (case ds of
                d # es \<Rightarrow>
                  0xF0 \<le> a \<and> a \<le> 0xF4 \<and> utf8_cont b \<and> utf8_cont c \<and> utf8_cont d
                  \<and> (a = 0xF0 \<longrightarrow> 0x90 \<le> b) \<and> (a = 0xF4 \<longrightarrow> b \<le> 0x8F) \<and> utf8_valid es
              | [] \<Rightarrow> False)
          | [] \<Rightarrow> False)
      | [] \<Rightarrow> False)"

definition from_utf8 :: "bytes \<Rightarrow> string option" where
  "from_utf8 bs = (if utf8_valid bs then Some (map (\<lambda>b. char_of (unat b)) bs) else None)"

section \<open>Hashes and ETags\<close>

definition sha256_hex :: "crypto_lib \<Rightarrow> bytes \<Rightarrow> string" where
  "sha256_hex cl data = hex_encode cl (sha256_raw cl data)"

definition md5_hex :: "crypto_lib \<Rightarrow> bytes \<Rightarrow> string" where
  "md5_hex cl data = hex_encode cl (md5_raw cl data)"

definition md5_base64 :: "crypto_lib \<Rightarrow> bytes \<Rightarrow> string" where
  "md5_base64 cl data = base64_encode cl (md5_raw cl data)"

definition hmac_sha256_hex :: "crypto_lib \<Rightarrow> bytes \<Rightarrow> bytes \<Rightarrow> string" where
  "hmac_sha256_hex cl key data = hex_encode cl (hmac_raw cl key data)"

definition format_etag :: "string \<Rightarrow> string" where
  "format_etag md5_hash = [CHR 0x22] @ md5_hash @ [CHR 0x22]"

definition format_multipart_etag :: "crypto_lib \<Rightarrow> string list \<Rightarrow> string" where
  "format_multipart_etag cl part_etags =
     (let combined = concat (map (\<lambda>etag.
            case hex_decode cl (trim_matches (CHR 0x22) etag) of Some bs \<Rightarrow> bs | None \<Rightarrow> []) part_etags);
          hash = hex_encode cl (md5_raw cl combined)
      in [CHR 0x22] @ hash @ ''-'' @ show_nat (length part_etags) @ [CHR 0x22])"

section \<open>Encryption\<close>

datatype encryption_error =
    InvalidKeySize | InvalidNonceSize | EncryptionFailed | DecryptionFailed | InvalidCiphertext

fun encryption_error_to_string :: "encryption_error \<Rightarrow> string" where
  "encryption_error_to_string InvalidKeySize = ''Invalid key size (must be 32 bytes)''"
| "encryption_error_to_string InvalidNonceSize = ''Invalid nonce size (must be 12 bytes)''"
| "encryption_error_to_string EncryptionFailed = ''Encryption failed''"
| "encryption_error_to_string DecryptionFailed = ''Decryption failed''"
| "encryption_error_to_string InvalidCiphertext = ''Invalid ciphertext''"

definition derive_key :: "crypto_lib \<Rightarrow> bytes \<Rightarrow> bytes \<Rightarrow> bytes" where
  "derive_key cl master_key context = hmac_raw cl master_key context"

definition encrypt_aes256_gcm ::
  "crypto_lib \<Rightarrow> bytes \<Rightarrow> bytes \<Rightarrow> bytes \<Rightarrow> (bytes, encryption_error) result" where
  "encrypt_aes256_gcm cl nonce_bytes key plaintext =
     (if length key \<noteq> KEY_SIZE then Inl InvalidKeySize
      else case gcm_encrypt cl key nonce_bytes plaintext of
        None \<Rightarrow> Inl EncryptionFailed
      | Some ciphertext \<Rightarrow> Inr (nonce_bytes @ ciphertext))"

definition encrypt_aes256_gcm_with_nonce ::
  "crypto_lib \<Rightarrow> bytes \<Rightarrow> bytes \<Rightarrow> bytes \<Rightarrow> (bytes, encryption_error) result" where
  "encrypt_aes256_gcm_with_nonce cl key nonce plaintext =
     (if length key \<noteq> KEY_SIZE then Inl InvalidKeySize
      else if length nonce \<noteq> NONCE_SIZE then Inl InvalidNonceSize
      else case gcm_encrypt cl key nonce plaintext of
        None \<Rightarrow> Inl EncryptionFailed
      | Some ciphertext \<Rightarrow> Inr ciphertext)"

definition decrypt_aes256_gcm ::
  "crypto_lib \<Rightarrow> bytes \<Rightarrow> bytes \<Rightarrow> (bytes, encryption_error) result" where
  "decrypt_aes256_gcm cl key ciphertext =
     (if length key \<noteq> KEY_SIZE then Inl InvalidKeySize
      else if length ciphertext < NONCE_SIZE + TAG_SIZE then Inl InvalidCiphertext
      else
        let nonce = take NONCE_SIZE ciphertext;
            encrypted_data = drop NONCE_SIZE ciphertext
        in case gcm_decrypt cl key nonce encrypted_data of
             None \<Rightarrow> Inl DecryptionFailed
           | Some plaintext \<Rightarrow> Inr plaintext)"

definition decrypt_aes256_gcm_with_nonce ::
  "crypto_lib \<Rightarrow> bytes \<Rightarrow> bytes \<Rightarrow> bytes \<Rightarrow> (bytes, encryption_error) result" where
  "decrypt_aes256_gcm_with_nonce cl key nonce ciphertext =
     (if length key \<noteq> KEY_SIZE then Inl InvalidKeySize
      else if length nonce \<noteq> NONCE_SIZE then Inl InvalidNonceSize
      else if length ciphertext < TAG_SIZE then Inl InvalidCiphertext
      else case gcm_decrypt cl key nonce ciphertext of
             None \<Rightarrow> Inl DecryptionFailed
           | Some plaintext \<Rightarrow> Inr plaintext)"

definition validate_sse_c_key ::
  "crypto_lib \<Rightarrow> string \<Rightarrow> string option \<Rightarrow> (bytes, encryption_error) result" where
  "validate_sse_c_key cl key_base64 key_md5_base64 =
     (case base64_decode cl key_base64 of
        None \<Rightarrow> Inl InvalidKeySize
      | Some key \<Rightarrow>
          if length key \<noteq> KEY_SIZE then Inl InvalidKeySize
          else (case key_md5_base64 of
            Some md5_b64 \<Rightarrow> if md5_b64 \<noteq> md5_base64 cl key then Inl InvalidKeySize else Inr key
          | None \<Rightarrow> Inr key))"

section \<open>Secrets at rest\<close>

text \<open>The error text of \<^verbatim>\<open>base64\<close> and of \<^verbatim>\<open>from_utf8\<close> is left out of the message.\<close>

definition encrypt_secret :: "crypto_lib \<Rightarrow> bytes \<Rightarrow> string \<Rightarrow> bytes \<Rightarrow> (string, string) result" where
  "encrypt_secret cl nonce secret encryption_key =
     (case encrypt_aes256_gcm cl nonce encryption_key (as_bytes secret) of
        Inl e \<Rightarrow> Inl (encryption_error_to_string e)
      | Inr ciphertext \<Rightarrow> Inr (base64_encode cl ciphertext))"

definition decrypt_secret :: "crypto_lib \<Rightarrow> string \<Rightarrow> bytes \<Rightarrow> (string, string) result" where
  "decrypt_secret cl encrypted encryption_key =
     (case base64_decode cl encrypted of
        None \<Rightarrow> Inl ''Invalid base64: ''
      | Some ciphertext \<Rightarrow>
          (case decrypt_aes256_gcm cl encryption_key ciphertext of
             Inl e \<Rightarrow> Inl (encryption_error_to_string e)
           | Inr plaintext \<Rightarrow>
               (case from_utf8 plaintext of None \<Rightarrow> Inl ''Invalid UTF-8: '' | Some s \<Rightarrow> Inr s)))"

definition derive_encryption_key :: "crypto_lib \<Rightarrow> string \<Rightarrow> bytes" where
  "derive_encryption_key cl passphrase =
     sha256_raw cl (as_bytes (''strix-secret-encryption:'' @ passphrase))"

section \<open>What the crates promise\<close>

text \<open>AES-256-GCM decrypts what it encrypted under the same key and nonce, and its
  ciphertext is the plaintext's length plus the tag.\<close>

definition gcm_correct :: "crypto_lib \<Rightarrow> bool" where
  "gcm_correct cl = (\<forall>key nonce p c. length key = 32 \<longrightarrow> length nonce = 12 \<longrightarrow>
     gcm_encrypt cl key nonce p = Some c \<longrightarrow>
     gcm_decrypt cl key nonce c = Some p \<and> length c = length p + 16)"

text \<open>Decoding inverts encoding, for both text encodings; SHA-256 and HMAC-SHA-256 yield
  32 bytes.\<close>

definition encodings_correct :: "crypto_lib \<Rightarrow> bool" where
  "encodings_correct cl = ((\<forall>b. base64_decode cl (base64_encode cl b) = Some b)
     \<and> (\<forall>b. hex_decode cl (hex_encode cl b) = Some b)
     \<and> (\<forall>b. CHR 0x22 \<notin> set (hex_encode cl b)))"

definition digests_sized :: "crypto_lib \<Rightarrow> bool" where
  "digests_sized cl = ((\<forall>b. length (sha256_raw cl b) = 32) \<and> (\<forall>k b. length (hmac_raw cl k b) = 32))"

section \<open>Round trips\<close>

lemma char_of_byte [simp]: "char_of (unat (word_of_nat (of_char c) :: byte)) = c"
proof -
  have "unat (word_of_nat (of_char c) :: byte) = (of_char c :: nat)"
    by (simp add: unat_of_nat take_bit_nat_eq_self)
  then show ?thesis by simp
qed

lemma from_utf8_as_bytes: "utf8_valid (as_bytes s) \<Longrightarrow> from_utf8 (as_bytes s) = Some s"
  by (simp add: from_utf8_def as_bytes_def comp_def)

lemma gcm_correctD:
  assumes "gcm_correct cl" "length key = 32" "length nonce = 12" "gcm_encrypt cl key nonce p = Some c"
  shows "gcm_decrypt cl key nonce c = Some p" "length c = length p + 16"
  using assms unfolding gcm_correct_def by blast+

lemma decrypt_encrypt_aes256_gcm:
  assumes "gcm_correct cl" and "length nonce = NONCE_SIZE"
    and "encrypt_aes256_gcm cl nonce key p = Inr c"
  shows "decrypt_aes256_gcm cl key c = Inr p"
proof -
  from assms(3) obtain e where k: "length key = 32" and e: "gcm_encrypt cl key nonce p = Some e"
    and c: "c = nonce @ e"
    by (auto simp: encrypt_aes256_gcm_def KEY_SIZE_def split: if_splits option.splits)
  have "length nonce = 12" using assms(2) by (simp add: NONCE_SIZE_def)
  then show ?thesis
    using k gcm_correctD [OF assms(1) k _ e]
    by (simp add: decrypt_aes256_gcm_def c KEY_SIZE_def NONCE_SIZE_def TAG_SIZE_def)
qed

lemma decrypt_encrypt_with_nonce:
  assumes "gcm_correct cl" and "encrypt_aes256_gcm_with_nonce cl key nonce p = Inr c"
  shows "decrypt_aes256_gcm_with_nonce cl key nonce c = Inr p"
proof -
  from assms(2) have k: "length key = 32" and n: "length nonce = 12"
    and c: "gcm_encrypt cl key nonce p = Some c"
    by (auto simp: encrypt_aes256_gcm_with_nonce_def KEY_SIZE_def NONCE_SIZE_def
        split: if_splits option.splits)
  show ?thesis
    using gcm_correctD [OF assms(1) k n c] k n
    by (simp add: decrypt_aes256_gcm_with_nonce_def KEY_SIZE_def NONCE_SIZE_def TAG_SIZE_def)
qed

text \<open>What \<^verbatim>\<open>encrypt_secret\<close> returns, \<^verbatim>\<open>decrypt_secret\<close> under the same key turns into the
  secret, whatever nonce was drawn.\<close>

lemma secret_round_trip:
  assumes "gcm_correct cl" "encodings_correct cl" "length nonce = NONCE_SIZE"
    and "utf8_valid (as_bytes secret)" and "encrypt_secret cl nonce secret key = Inr enc"
  shows "decrypt_secret cl enc key = Inr secret"
proof -
  from assms(5) obtain c where c: "encrypt_aes256_gcm cl nonce key (as_bytes secret) = Inr c"
    and enc: "enc = base64_encode cl c"
    by (auto simp: encrypt_secret_def split: sum.splits)
  show ?thesis
    using decrypt_encrypt_aes256_gcm [OF assms(1,3) c] assms(2) from_utf8_as_bytes [OF assms(4)]
    by (simp add: decrypt_secret_def enc encodings_correct_def)
qed

lemma trim_format_etag: "CHR 0x22 \<notin> set h \<Longrightarrow> trim_matches (CHR 0x22) (format_etag h) = h"
  by (simp add: format_etag_def trim_matches_quote)

lemma format_multipart_etag_parts:
  assumes "encodings_correct cl"
  shows "format_multipart_etag cl (map (\<lambda>p. format_etag (md5_hex cl p)) parts) =
    [CHR 0x22] @ md5_hex cl (concat (map (md5_raw cl) parts)) @ ''-'' @ show_nat (length parts) @ [CHR 0x22]"
proof -
  have "hex_decode cl (trim_matches (CHR 0x22) (format_etag (md5_hex cl p))) = Some (md5_raw cl p)" for p
    using assms by (simp add: encodings_correct_def md5_hex_def trim_format_etag)
  then have "map (\<lambda>etag. case hex_decode cl (trim_matches (CHR 0x22) etag) of Some bs \<Rightarrow> bs | None \<Rightarrow> [])
      (map (\<lambda>p. format_etag (md5_hex cl p)) parts) = map (md5_raw cl) parts"
    by simp
  then show ?thesis
    unfolding format_multipart_etag_def Let_def by (simp only:) (simp add: md5_hex_def)
qed

lemma validate_sse_c_key_iff:
  "validate_sse_c_key cl k md5 = Inr key \<longleftrightarrow>
     base64_decode cl k = Some key \<and> length key = KEY_SIZE
     \<and> (md5 = None \<or> md5 = Some (md5_base64 cl key))"
  by (auto simp: validate_sse_c_key_def split: option.splits)

text \<open>A library whose cipher appends a zero tag and whose encodings are the identity on
  printable text, to evaluate the operations on.\<close>

definition toy_hex_digit :: "nat \<Rightarrow> char" where
  "toy_hex_digit n = (if n < 10 then char_of (48 + n) else char_of (87 + n))"

definition toy_encode :: "bytes \<Rightarrow> string" where
  "toy_encode bs = concat (map (\<lambda>b. [toy_hex_digit (unat b div 16), toy_hex_digit (unat b mod 16)]) bs)"

definition toy_hex_value :: "char \<Rightarrow> nat" where
  "toy_hex_value c = (if of_char c < (58::nat) then of_char c - 48 else of_char c - 87)"

fun toy_decode :: "string \<Rightarrow> bytes option" where
  "toy_decode [] = Some []"
| "toy_decode [c] = None"
| "toy_decode (c # d # s) =
     map_option ((#) (word_of_nat (16 * toy_hex_value c + toy_hex_value d))) (toy_decode s)"

definition toy_digest :: "bytes \<Rightarrow> bytes" where
  "toy_digest bs = replicate 31 0 @ [sum_list bs]"

definition toy_crypto :: crypto_lib where
  "toy_crypto = \<lparr>md5_raw = (\<lambda>bs. replicate 15 0 @ [sum_list bs]), sha256_raw = toy_digest,
     hmac_raw = (\<lambda>k bs. toy_digest (k @ bs)),
     hex_encode = toy_encode, hex_decode = toy_decode,
     base64_encode = toy_encode, base64_decode = toy_decode,
     gcm_encrypt = (\<lambda>k n p. Some (p @ replicate 16 0)),
     gcm_decrypt = (\<lambda>k n c. Some (take (length c - 16) c))\<rparr>"

lemma toy_hex: "n < 16 \<Longrightarrow> toy_hex_value (toy_hex_digit n) = n \<and> toy_hex_digit n \<noteq> CHR 0x22"
proof -
  assume n: "n < 16"
  then have "of_char (toy_hex_digit n) = (if n < 10 then 48 + n else 87 + n)"
    by (simp add: toy_hex_digit_def)
  moreover have "of_char (CHR 0x22) = (34 :: nat)" by simp
  ultimately have "of_char (toy_hex_digit n) \<noteq> (of_char (CHR 0x22) :: nat)"
    and "toy_hex_value (toy_hex_digit n) = n"
    using n by (auto simp: toy_hex_value_def split: if_splits)
  then show ?thesis by metis
qed

lemma toy_decode_encode: "toy_decode (toy_encode bs) = Some bs"
proof (induction bs)
  case (Cons b bs)
  have "unat b < 256" using unsigned_less [of b] by simp
  then have "unat b div 16 < 16" "unat b mod 16 < 16" by auto
  then show ?case using Cons by (simp add: toy_encode_def toy_hex)
qed (simp add: toy_encode_def)

lemma toy_encode_no_quote: "CHR 0x22 \<notin> set (toy_encode bs)"
proof -
  have "CHR 0x22 \<notin> {toy_hex_digit (unat b div 16), toy_hex_digit (unat b mod 16)}" for b :: byte
  proof -
    have "unat b < 256" using unsigned_less [of b] by simp
    then have "unat b div 16 < 16" "unat b mod 16 < 16" by auto
    then show ?thesis using toy_hex by (metis insertE empty_iff)
  qed
  then show ?thesis by (simp add: toy_encode_def)
qed

lemma toy_crypto_correct [simp]:
  "gcm_correct toy_crypto" "encodings_correct toy_crypto" "digests_sized toy_crypto"
  by (auto simp: gcm_correct_def encodings_correct_def digests_sized_def toy_crypto_def
      toy_decode_encode toy_encode_no_quote toy_digest_def)

end
