(* ===== verification/Password.thy ===== *)
theory Password
  imports Strix_Prelude
begin

text \<open>
  \<^verbatim>\<open>strix-iam/src/password.rs\<close>: the strength rules for console passwords and the two
  wrappers around Argon2id. Argon2 itself is the record \<open>argon2_lib\<close>: hashing with a
  salt (\<^verbatim>\<open>None\<close> when the crate reports an error) and verification (\<^verbatim>\<open>None\<close> when the
  stored string is not a PHC hash).
\<close>

definition MIN_PASSWORD_LENGTH :: nat where
  "MIN_PASSWORD_LENGTH = 12"

definition WEAK_PASSWORDS :: "string list" where
  "WEAK_PASSWORDS = [''password'', ''password123'', ''admin'', ''administrator'', ''root'',
     ''letmein'', ''welcome'', ''monkey'', ''dragon'', ''master'', ''qwerty'', ''login'',
     ''passw0rd'', ''abc123'', ''111111'', ''123456'', ''1234567'', ''12345678'', ''123456789'',
     ''1234567890'', ''changeme'', ''secret'', ''trustno1'', ''iloveyou'', ''sunshine'',
     ''princess'', ''football'', ''baseball'', ''soccer'', ''hockey'', ''batman'', ''superman'']"

definition weak_pattern :: "string \<Rightarrow> string \<Rightarrow> bool" where
  "weak_pattern lower weak =
     (lower = weak \<or> starts_with lower weak \<or> ends_with lower weak
      \<or> (length lower \<le> length weak + 4 \<and> str_contains lower weak))"

definition password_reasons :: "string \<Rightarrow> string list" where
  "password_reasons password =
     (if length password < MIN_PASSWORD_LENGTH then
        [''must be at least '' @ show_nat MIN_PASSWORD_LENGTH @ '' characters (got ''
           @ show_nat (length password) @ '')''] else [])
     @ (if \<not> list_ex is_ascii_uppercase password then
          [''must contain at least one uppercase letter''] else [])
     @ (if \<not> list_ex is_ascii_lowercase password then
          [''must contain at least one lowercase letter''] else [])
     @ (if \<not> list_ex is_ascii_digit password then [''must contain at least one digit''] else [])
     @ (if \<not> list_ex (\<lambda>c. \<not> is_alphanumeric c) password then
          [''must contain at least one special character''] else [])
     @ (let lower = to_lowercase password in
        if list_ex (\<lambda>weak. weak_pattern lower weak) WEAK_PASSWORDS then
          [''contains a common weak password pattern''] else [])"

definition validate_password :: "string \<Rightarrow> (unit, string list) result" where
  "validate_password password =
     (let reasons = password_reasons password in if reasons = [] then Inr () else Inl reasons)"

text \<open>\<^verbatim>\<open>PasswordValidationError\<close> as text: the reasons joined by a semicolon.\<close>

fun join_reasons :: "string list \<Rightarrow> string" where
  "join_reasons [] = []"
| "join_reasons [r] = r"
| "join_reasons (r # rs) = r @ ''; '' @ join_reasons rs"

definition password_error_to_string :: "string list \<Rightarrow> string" where
  "password_error_to_string reasons = ''Password validation failed: '' @ join_reasons reasons"

record argon2_lib =
  argon2_hash :: "string \<Rightarrow> string \<Rightarrow> string option" \<comment> \<open>salt, password\<close>
  argon2_verify :: "string \<Rightarrow> string \<Rightarrow> bool option" \<comment> \<open>password, stored hash\<close>

datatype password_error = Weak string | HashError

definition hash_password :: "argon2_lib \<Rightarrow> string \<Rightarrow> string \<Rightarrow> (string, password_error) result" where
  "hash_password al salt password =
     (case argon2_hash al salt password of None \<Rightarrow> Inl HashError | Some h \<Rightarrow> Inr h)"

definition validate_and_hash_password ::
  "argon2_lib \<Rightarrow> string \<Rightarrow> string \<Rightarrow> (string, password_error) result" where
  "validate_and_hash_password al salt password =
     (case validate_password password of
        Inl reasons \<Rightarrow> Inl (Weak (password_error_to_string reasons))
      | Inr _ \<Rightarrow> hash_password al salt password)"

definition verify_password :: "argon2_lib \<Rightarrow> string \<Rightarrow> string \<Rightarrow> (bool, password_error) result" where
  "verify_password al password hash =
     (case argon2_verify al password hash of None \<Rightarrow> Inl HashError | Some ok \<Rightarrow> Inr ok)"

text \<open>What Argon2 promises: a hash verifies the password it was made from and no other.\<close>

definition argon2_correct :: "argon2_lib \<Rightarrow> bool" where
  "argon2_correct al = (\<forall>salt p q h. argon2_hash al salt p = Some h \<longrightarrow> argon2_verify al q h = Some (q = p))"

section \<open>Which passwords are accepted\<close>

text \<open>A password is accepted exactly when it has twelve bytes, an upper-case letter, a
  lower-case letter, a digit and a special character, and its lower-cased text neither
  begins nor ends with a listed weak password nor, when it is at most four bytes longer
  than one, contains it. The reasons returned otherwise are never empty.\<close>

theorem validate_password_iff:
  "validate_password p \<noteq> Inl [] \<and> (validate_password p = Inr () \<longleftrightarrow>
     12 \<le> length p \<and> (\<exists>c \<in> set p. is_ascii_uppercase c) \<and> (\<exists>c \<in> set p. is_ascii_lowercase c)
     \<and> (\<exists>c \<in> set p. is_ascii_digit c) \<and> (\<exists>c \<in> set p. \<not> is_alphanumeric c)
     \<and> (\<forall>w \<in> set WEAK_PASSWORDS. \<not> prefix w (to_lowercase p) \<and> \<not> suffix w (to_lowercase p)
          \<and> (length p \<le> length w + 4 \<longrightarrow> \<not> str_contains (to_lowercase p) w)))"
proof -
  have len: "length (to_lowercase p) = length p" by (simp add: to_lowercase_def)
  have weak: "weak_pattern l w \<longleftrightarrow> prefix w l \<or> suffix w l \<or> (length l \<le> length w + 4 \<and> str_contains l w)"
    for l w
    by (auto simp: weak_pattern_def starts_with_iff ends_with_iff)
  have "password_reasons p = [] \<longleftrightarrow>
     12 \<le> length p \<and> list_ex is_ascii_uppercase p \<and> list_ex is_ascii_lowercase p
     \<and> list_ex is_ascii_digit p \<and> list_ex (\<lambda>c. \<not> is_alphanumeric c) p
     \<and> \<not> list_ex (\<lambda>weak. weak_pattern (to_lowercase p) weak) WEAK_PASSWORDS"
    by (simp add: password_reasons_def MIN_PASSWORD_LENGTH_def Let_def not_less)
  then show ?thesis
    unfolding validate_password_def Let_def list_ex_iff weak len by auto
qed

end
