(* ===== verification/Iam_Store.thy ===== *)
theory Iam_Store
  imports Sql_Table Core_Types Bucket_Policy Crypto Password
begin

text \<open>
  \<^verbatim>\<open>strix-iam/src/store.rs\<close>: users, access keys, policies, groups and their members, bucket
  policies and temporary credentials, over the tables of the IAM database.

  An operation takes the store and returns its result and the store after it; an operation
  that only reads returns its result. What the code draws at random (key ids, secrets,
  session tokens, nonces, salts) and the clock are arguments. The foreign keys of the
  schema are on: an insert whose parent row is missing fails with a database error, and
  deleting a user or a group deletes the rows that refer to it.

  Timestamps are kept as instants: RFC 3339 text with a fixed offset orders like the
  instants and is read back exactly.
\<close>

section \<open>Types\<close>

text \<open>\<^verbatim>\<open>IamError\<close>. A database error carries the kind of failure instead of SQLite's message.\<close>

datatype db_failure = UniqueViolation | ForeignKeyViolation | DecodeFailure string

datatype iam_error =
    UserExists string | UserNotFound string | AccessKeyNotFound string | PolicyNotFound string
  | GroupExists string | GroupNotFound string | CannotDeleteRoot | CannotModifyRootKeys
  | MaxAccessKeysExceeded | InvalidPolicy string | Database db_failure | PasswordHash
  | WeakPassword string | IamInvalidCredentials | Encryption string | Oidc string | Smtp string
  | IamInternal string

record user =
  u_username :: string
  u_arn :: string
  u_created_at :: instant
  u_status :: user_status
  u_is_root :: bool
  u_password_hash :: "string option"

record access_key =
  ak_access_key_id :: string
  ak_secret_access_key :: "string option"
  ak_username :: string
  ak_created_at :: instant
  ak_status :: access_key_status
  ak_last_used :: "instant option"

record group =
  g_name :: string
  g_arn :: string
  g_created_at :: instant
  g_members :: "string list"
  g_policies :: "string list"

record temporary_credential =
  tc_access_key_id :: string
  tc_secret_access_key :: "string option"
  tc_session_token :: string
  tc_expiration :: instant
  tc_assumed_identity :: string

record assume_role_request =
  arr_username :: string
  arr_session_name :: "string option"
  arr_duration_seconds :: "u32 option"

definition user_new :: "instant \<Rightarrow> string \<Rightarrow> user" where
  "user_new now username = \<lparr>u_username = username, u_arn = ''arn:strix:iam::user/'' @ username,
     u_created_at = now, u_status = UserActive, u_is_root = False, u_password_hash = None\<rparr>"

definition user_root_with_username :: "instant \<Rightarrow> string \<Rightarrow> user" where
  "user_root_with_username now username = \<lparr>u_username = username, u_arn = ''arn:strix:iam::root'',
     u_created_at = now, u_status = UserActive, u_is_root = True, u_password_hash = None\<rparr>"

definition user_root :: "instant \<Rightarrow> user" where
  "user_root now = \<lparr>u_username = ''root'', u_arn = ''arn:strix:iam::root'',
     u_created_at = now, u_status = UserActive, u_is_root = True, u_password_hash = None\<rparr>"

definition group_new :: "instant \<Rightarrow> string \<Rightarrow> group" where
  "group_new now name = \<lparr>g_name = name, g_arn = ''arn:strix:iam::group/'' @ name,
     g_created_at = now, g_members = [], g_policies = []\<rparr>"

section \<open>The tables\<close>

record user_row =
  ur_username :: string
  ur_arn :: string
  ur_created_at :: instant
  ur_status :: string
  ur_is_root :: bool
  ur_password_hash :: "string option"

record access_key_row =
  kr_access_key_id :: string
  kr_secret_encrypted :: string
  kr_username :: string
  kr_created_at :: instant
  kr_status :: string
  kr_last_used :: "instant option"

record user_policy_row =
  upr_username :: string
  upr_policy_name :: string
  upr_policy_document :: string

record bucket_policy_row =
  bpr_bucket :: string
  bpr_policy_document :: string
  bpr_created_at :: instant
  bpr_updated_at :: instant

record group_row =
  gr_name :: string
  gr_arn :: string
  gr_created_at :: instant

record group_member_row =
  gm_group_name :: string
  gm_username :: string

record group_policy_row =
  gpr_group_name :: string
  gpr_policy_name :: string
  gpr_policy_document :: string

record policy_row =
  pr_name :: string
  pr_description :: "string option"
  pr_policy_document :: string
  pr_created_at :: instant
  pr_updated_at :: instant

record temp_credential_row =
  tcr_access_key_id :: string
  tcr_secret_encrypted :: string
  tcr_session_token_hash :: string
  tcr_assumed_identity :: string
  tcr_expiration :: instant

record iam_store =
  root_access_key :: string
  root_secret_key :: string
  encryption_key :: bytes
  iam_users :: "user_row list"
  iam_access_keys :: "access_key_row list"
  iam_user_policies :: "user_policy_row list"
  bucket_policies :: "bucket_policy_row list"
  iam_groups :: "group_row list"
  iam_group_members :: "group_member_row list"
  iam_group_policies :: "group_policy_row list"
  iam_policies :: "policy_row list"
  iam_temporary_credentials :: "temp_credential_row list"

text \<open>The crates the store calls: \<^verbatim>\<open>strix-crypto\<close>'s libraries, Argon2, and \<^verbatim>\<open>serde_json\<close> on
  policy documents.\<close>

record 'f iam_ext =
  ix_crypto :: crypto_lib
  ix_argon2 :: argon2_lib
  ix_std :: "'f std_lib"
  policy_to_json :: "policy \<Rightarrow> string option"
  policy_from_json :: "string \<Rightarrow> policy option"
  bucket_policy_to_json :: "'f bucket_policy \<Rightarrow> string option"
  bucket_policy_from_json :: "string \<Rightarrow> 'f bucket_policy option"

type_synonym 'a iam_result = "('a, iam_error) result"

definition iam_store_new :: "crypto_lib \<Rightarrow> string \<Rightarrow> string \<Rightarrow> iam_store" where
  "iam_store_new cl root_key root_secret =
     \<lparr>root_access_key = root_key, root_secret_key = root_secret,
      encryption_key = derive_encryption_key cl root_secret,
      iam_users = [], iam_access_keys = [], iam_user_policies = [], bucket_policies = [],
      iam_groups = [], iam_group_members = [], iam_group_policies = [], iam_policies = [],
      iam_temporary_credentials = []\<rparr>"

text \<open>The guard \<^verbatim>\<open>username == "root" || username == self.root_access_key\<close>.\<close>

definition is_root_name :: "iam_store \<Rightarrow> string \<Rightarrow> bool" where
  "is_root_name s username = (username = ''root'' \<or> username = root_access_key s)"

definition store_encrypt_secret ::
  "'f iam_ext \<Rightarrow> iam_store \<Rightarrow> bytes \<Rightarrow> string \<Rightarrow> string iam_result" where
  "store_encrypt_secret ix s nonce secret =
     (case encrypt_secret (ix_crypto ix) nonce secret (encryption_key s) of
        Inl e \<Rightarrow> Inl (Encryption e) | Inr enc \<Rightarrow> Inr enc)"

definition store_decrypt_secret :: "'f iam_ext \<Rightarrow> iam_store \<Rightarrow> string \<Rightarrow> string iam_result" where
  "store_decrypt_secret ix s enc =
     (case decrypt_secret (ix_crypto ix) enc (encryption_key s) of
        Inl e \<Rightarrow> Inl (Encryption e) | Inr secret \<Rightarrow> Inr secret)"

text \<open>A row read as a \<^verbatim>\<open>User\<close> and as an \<^verbatim>\<open>AccessKey\<close> without its secret.\<close>

definition user_of_row :: "user_row \<Rightarrow> user" where
  "user_of_row r = \<lparr>u_username = ur_username r, u_arn = ur_arn r, u_created_at = ur_created_at r,
     u_status = (case user_status_from_str (ur_status r) of Inr st \<Rightarrow> st | Inl _ \<Rightarrow> UserInactive),
     u_is_root = ur_is_root r, u_password_hash = ur_password_hash r\<rparr>"

definition access_key_of_row :: "access_key_row \<Rightarrow> access_key" where
  "access_key_of_row r = \<lparr>ak_access_key_id = kr_access_key_id r, ak_secret_access_key = None,
     ak_username = kr_username r, ak_created_at = kr_created_at r,
     ak_status = (case access_key_status_from_str (kr_status r) of Inr st \<Rightarrow> st | Inl _ \<Rightarrow> KeyInactive),
     ak_last_used = kr_last_used r\<rparr>"

section \<open>Users\<close>

definition create_user :: "instant \<Rightarrow> string \<Rightarrow> iam_store \<Rightarrow> user iam_result \<times> iam_store" where
  "create_user now username s =
     (if is_root_name s username then (Inl (UserExists username), s)
      else
        let user = user_new now username;
            row = \<lparr>ur_username = u_username user, ur_arn = u_arn user,
                   ur_created_at = u_created_at user,
                   ur_status = user_status_as_str (u_status user),
                   ur_is_root = u_is_root user, ur_password_hash = None\<rparr>
        in case sql_insert ur_username row (iam_users s) of
             None \<Rightarrow> (Inl (UserExists username), s)
           | Some t \<Rightarrow> (Inr user, s\<lparr>iam_users := t\<rparr>))"

text \<open>\<^verbatim>\<open>DELETE FROM iam_users\<close> with the cascades of the schema.\<close>

definition delete_user_rows :: "string \<Rightarrow> iam_store \<Rightarrow> iam_store" where
  "delete_user_rows username s = s\<lparr>
     iam_users := sql_delete (\<lambda>r. ur_username r = username) (iam_users s),
     iam_access_keys := sql_delete (\<lambda>r. kr_username r = username) (iam_access_keys s),
     iam_user_policies := sql_delete (\<lambda>r. upr_username r = username) (iam_user_policies s),
     iam_group_members := sql_delete (\<lambda>r. gm_username r = username) (iam_group_members s),
     iam_temporary_credentials :=
       sql_delete (\<lambda>r. tcr_assumed_identity r = username) (iam_temporary_credentials s)\<rparr>"

definition delete_user :: "string \<Rightarrow> iam_store \<Rightarrow> unit iam_result \<times> iam_store" where
  "delete_user username s =
     (if is_root_name s username then (Inl CannotDeleteRoot, s)
      else if sql_count (\<lambda>r. ur_username r = username) (iam_users s) = 0
      then (Inl (UserNotFound username), s)
      else (Inr (), delete_user_rows username s))"

definition get_user :: "instant \<Rightarrow> string \<Rightarrow> iam_store \<Rightarrow> user iam_result" where
  "get_user now username s =
     (if is_root_name s username then Inr (user_root_with_username now (root_access_key s))
      else case sql_query_row (\<lambda>r. ur_username r = username) (iam_users s) of
             Some r \<Rightarrow> Inr (user_of_row r)
           | None \<Rightarrow> Inl (UserNotFound ''unknown''))"

definition set_user_password ::
  "'f iam_ext \<Rightarrow> string \<Rightarrow> string \<Rightarrow> string \<Rightarrow> iam_store \<Rightarrow> unit iam_result \<times> iam_store" where
  "set_user_password ix salt username password s =
     (case validate_and_hash_password (ix_argon2 ix) salt password of
        Inl (Weak m) \<Rightarrow> (Inl (WeakPassword m), s)
      | Inl HashError \<Rightarrow> (Inl PasswordHash, s)
      | Inr hash \<Rightarrow>
          let matches = (\<lambda>r. ur_username r = username) in
          if sql_count matches (iam_users s) = 0 then (Inl (UserNotFound username), s)
          else (Inr (), s\<lparr>iam_users :=
                  sql_update matches (\<lambda>r. r\<lparr>ur_password_hash := Some hash\<rparr>) (iam_users s)\<rparr>))"

definition verify_user_password ::
  "'f iam_ext \<Rightarrow> instant \<Rightarrow> string \<Rightarrow> string \<Rightarrow> iam_store \<Rightarrow> bool iam_result" where
  "verify_user_password ix now username password s =
     (if username = root_access_key s then Inr (password = root_secret_key s)
      else case get_user now username s of
        Inl e \<Rightarrow> Inl e
      | Inr user \<Rightarrow>
          (case u_password_hash user of
             Some hash \<Rightarrow>
               (case verify_password (ix_argon2 ix) password hash of
                  Inl _ \<Rightarrow> Inl PasswordHash | Inr ok \<Rightarrow> Inr ok)
           | None \<Rightarrow> Inr False))"

definition list_users :: "iam_store \<Rightarrow> user list iam_result" where
  "list_users s = Inr (map user_of_row (sort_key ur_username (iam_users s)))"

definition update_user_status ::
  "string \<Rightarrow> user_status \<Rightarrow> iam_store \<Rightarrow> unit iam_result \<times> iam_store" where
  "update_user_status username status s =
     (if is_root_name s username then (Inl CannotDeleteRoot, s)
      else
        let matches = (\<lambda>r. ur_username r = username) in
        if sql_count matches (iam_users s) = 0 then (Inl (UserNotFound username), s)
        else (Inr (), s\<lparr>iam_users :=
                sql_update matches (\<lambda>r. r\<lparr>ur_status := user_status_as_str status\<rparr>) (iam_users s)\<rparr>))"

section \<open>Access keys\<close>

definition list_access_keys :: "instant \<Rightarrow> string \<Rightarrow> iam_store \<Rightarrow> access_key list iam_result" where
  "list_access_keys now username s =
     (if is_root_name s username then
        Inr [\<lparr>ak_access_key_id = root_access_key s, ak_secret_access_key = None,
              ak_username = root_access_key s, ak_created_at = now, ak_status = KeyActive,
              ak_last_used = None\<rparr>]
      else Inr (map access_key_of_row
             (sort_key kr_created_at (sql_select (\<lambda>r. kr_username r = username) (iam_access_keys s)))))"

text \<open>\<open>user_exists\<close> is the parent check of the foreign keys on \<^verbatim>\<open>iam_users\<close>.\<close>

definition user_exists :: "iam_store \<Rightarrow> string \<Rightarrow> bool" where
  "user_exists s username = sql_exists (\<lambda>r. ur_username r = username) (iam_users s)"

definition create_access_key ::
  "'f iam_ext \<Rightarrow> instant \<Rightarrow> bytes \<Rightarrow> string \<Rightarrow> string \<Rightarrow> string \<Rightarrow> iam_store \<Rightarrow>
     access_key iam_result \<times> iam_store" where
  "create_access_key ix now nonce secret key_id username s =
     (if is_root_name s username then (Inl CannotModifyRootKeys, s)
      else case get_user now username s of
        Inl e \<Rightarrow> (Inl e, s)
      | Inr _ \<Rightarrow>
          (case list_access_keys now username s of
             Inl e \<Rightarrow> (Inl e, s)
           | Inr existing \<Rightarrow>
               if length existing \<ge> 2 then (Inl MaxAccessKeysExceeded, s)
               else (case store_encrypt_secret ix s nonce secret of
                 Inl e \<Rightarrow> (Inl e, s)
               | Inr encrypted_secret \<Rightarrow>
                   let access_key = \<lparr>ak_access_key_id = key_id, ak_secret_access_key = Some secret,
                         ak_username = username, ak_created_at = now, ak_status = KeyActive,
                         ak_last_used = None\<rparr>;
                       row = \<lparr>kr_access_key_id = key_id, kr_secret_encrypted = encrypted_secret,
                         kr_username = username, kr_created_at = now,
                         kr_status = access_key_status_as_str KeyActive, kr_last_used = None\<rparr>
                   in if \<not> user_exists s username then (Inl (Database ForeignKeyViolation), s)
                      else (case sql_insert kr_access_key_id row (iam_access_keys s) of
                        None \<Rightarrow> (Inl (Database UniqueViolation), s)
                      | Some t \<Rightarrow> (Inr access_key, s\<lparr>iam_access_keys := t\<rparr>)))))"

definition delete_access_key :: "string \<Rightarrow> iam_store \<Rightarrow> unit iam_result \<times> iam_store" where
  "delete_access_key key_id s =
     (if key_id = root_access_key s then (Inl CannotModifyRootKeys, s)
      else
        let matches = (\<lambda>r. kr_access_key_id r = key_id) in
        if sql_count matches (iam_access_keys s) = 0 then (Inl (AccessKeyNotFound key_id), s)
        else (Inr (), s\<lparr>iam_access_keys := sql_delete matches (iam_access_keys s)\<rparr>))"

definition get_access_key :: "instant \<Rightarrow> string \<Rightarrow> iam_store \<Rightarrow> access_key iam_result" where
  "get_access_key now key_id s =
     (if key_id = root_access_key s then
        Inr \<lparr>ak_access_key_id = root_access_key s, ak_secret_access_key = None,
             ak_username = ''root'', ak_created_at = now, ak_status = KeyActive, ak_last_used = None\<rparr>
      else case sql_query_row (\<lambda>r. kr_access_key_id r = key_id) (iam_access_keys s) of
             Some r \<Rightarrow> Inr (access_key_of_row r)
           | None \<Rightarrow> Inl (AccessKeyNotFound ''unknown''))"

definition update_access_key_status ::
  "string \<Rightarrow> access_key_status \<Rightarrow> iam_store \<Rightarrow> unit iam_result \<times> iam_store" where
  "update_access_key_status key_id status s =
     (if key_id = root_access_key s then (Inl CannotModifyRootKeys, s)
      else
        let matches = (\<lambda>r. kr_access_key_id r = key_id) in
        if sql_count matches (iam_access_keys s) = 0 then (Inl (AccessKeyNotFound key_id), s)
        else (Inr (), s\<lparr>iam_access_keys :=
                sql_update matches (\<lambda>r. r\<lparr>kr_status := access_key_status_as_str status\<rparr>)
                  (iam_access_keys s)\<rparr>))"

text \<open>The join of \<^verbatim>\<open>get_credentials\<close>: active keys with their active users.\<close>

definition active_credential_rows :: "string \<Rightarrow> iam_store \<Rightarrow> (access_key_row \<times> user_row) list" where
  "active_credential_rows key_id s =
     concat (map (\<lambda>k. map (Pair k) (sql_select (\<lambda>u. kr_username k = ur_username u
           \<and> ur_status u = ''active'') (iam_users s)))
       (sql_select (\<lambda>k. kr_access_key_id k = key_id \<and> kr_status k = ''active'') (iam_access_keys s)))"

definition get_credentials ::
  "'f iam_ext \<Rightarrow> instant \<Rightarrow> string \<Rightarrow> iam_store \<Rightarrow> (access_key \<times> user) option iam_result" where
  "get_credentials ix now key_id s =
     (if key_id = root_access_key s then
        Inr (Some (\<lparr>ak_access_key_id = root_access_key s,
             ak_secret_access_key = Some (root_secret_key s), ak_username = ''root'',
             ak_created_at = now, ak_status = KeyActive, ak_last_used = None\<rparr>, user_root now))
      else case active_credential_rows key_id s of
        [] \<Rightarrow> Inr None
      | (k, u) # _ \<Rightarrow>
          (case store_decrypt_secret ix s (kr_secret_encrypted k) of
             Inl e \<Rightarrow> Inl e
           | Inr secret \<Rightarrow>
               Inr (Some
                 (\<lparr>ak_access_key_id = kr_access_key_id k, ak_secret_access_key = Some secret,
                   ak_username = kr_username k, ak_created_at = kr_created_at k,
                   ak_status = (case access_key_status_from_str (kr_status k) of
                       Inr st \<Rightarrow> st | Inl _ \<Rightarrow> KeyActive),
                   ak_last_used = kr_last_used k\<rparr>,
                  \<lparr>u_username = kr_username k, u_arn = ur_arn u, u_created_at = ur_created_at u,
                   u_status = (case user_status_from_str (ur_status u) of
                       Inr st \<Rightarrow> st | Inl _ \<Rightarrow> UserActive),
                   u_is_root = ur_is_root u, u_password_hash = ur_password_hash u\<rparr>))))"

definition update_access_key_last_used ::
  "instant \<Rightarrow> string \<Rightarrow> iam_store \<Rightarrow> unit iam_result \<times> iam_store" where
  "update_access_key_last_used now key_id s =
     (if key_id = root_access_key s then (Inr (), s)
      else (Inr (), s\<lparr>iam_access_keys :=
             sql_update (\<lambda>r. kr_access_key_id r = key_id) (\<lambda>r. r\<lparr>kr_last_used := Some now\<rparr>)
               (iam_access_keys s)\<rparr>))"

section \<open>Policies of users\<close>

definition attach_user_policy ::
  "'f iam_ext \<Rightarrow> instant \<Rightarrow> string \<Rightarrow> policy \<Rightarrow> iam_store \<Rightarrow> unit iam_result \<times> iam_store" where
  "attach_user_policy ix now username policy s =
     (if is_root_name s username then (Inr (), s)
      else case get_user now username s of
        Inl e \<Rightarrow> (Inl e, s)
      | Inr _ \<Rightarrow>
          (case policy_to_json ix policy of
             None \<Rightarrow> (Inl (InvalidPolicy ''serde_json''), s)
           | Some policy_doc \<Rightarrow>
               if \<not> user_exists s username then (Inl (Database ForeignKeyViolation), s)
               else (Inr (), s\<lparr>iam_user_policies :=
                 sql_insert_or_replace (\<lambda>r. (upr_username r, upr_policy_name r))
                   \<lparr>upr_username = username, upr_policy_name = pol_name policy,
                    upr_policy_document = policy_doc\<rparr> (iam_user_policies s)\<rparr>)))"

definition detach_user_policy ::
  "string \<Rightarrow> string \<Rightarrow> iam_store \<Rightarrow> unit iam_result \<times> iam_store" where
  "detach_user_policy username policy_name s =
     (let matches = (\<lambda>r. upr_username r = username \<and> upr_policy_name r = policy_name) in
      if sql_count matches (iam_user_policies s) = 0 then (Inl (PolicyNotFound policy_name), s)
      else (Inr (), s\<lparr>iam_user_policies := sql_delete matches (iam_user_policies s)\<rparr>))"

text \<open>The documents that parse, as policies.\<close>

definition parse_documents :: "'f iam_ext \<Rightarrow> string list \<Rightarrow> policy list" where
  "parse_documents ix docs = List.map_filter (policy_from_json ix) docs"

definition list_user_policies ::
  "'f iam_ext \<Rightarrow> string \<Rightarrow> iam_store \<Rightarrow> policy list iam_result" where
  "list_user_policies ix username s =
     (if is_root_name s username then Inr [admin_policy]
      else Inr (parse_documents ix
             (map upr_policy_document (sql_select (\<lambda>r. upr_username r = username) (iam_user_policies s)))))"

section \<open>Groups\<close>

definition group_members :: "iam_store \<Rightarrow> string \<Rightarrow> string list" where
  "group_members s name =
     map gm_username (sql_select (\<lambda>m. gm_group_name m = name) (iam_group_members s))"

definition group_of_row :: "iam_store \<Rightarrow> group_row \<Rightarrow> group" where
  "group_of_row s r = \<lparr>g_name = gr_name r, g_arn = gr_arn r, g_created_at = gr_created_at r,
     g_members = group_members s (gr_name r),
     g_policies = map gpr_policy_name
       (sql_select (\<lambda>p. gpr_group_name p = gr_name r) (iam_group_policies s))\<rparr>"

definition create_group :: "instant \<Rightarrow> string \<Rightarrow> iam_store \<Rightarrow> group iam_result \<times> iam_store" where
  "create_group now name s =
     (let group = group_new now name in
      case sql_insert gr_name \<lparr>gr_name = g_name group, gr_arn = g_arn group,
             gr_created_at = g_created_at group\<rparr> (iam_groups s) of
        None \<Rightarrow> (Inl (GroupExists name), s)
      | Some t \<Rightarrow> (Inr group, s\<lparr>iam_groups := t\<rparr>))"

definition delete_group_rows :: "string \<Rightarrow> iam_store \<Rightarrow> iam_store" where
  "delete_group_rows name s = s\<lparr>
     iam_groups := sql_delete (\<lambda>r. gr_name r = name) (iam_groups s),
     iam_group_members := sql_delete (\<lambda>r. gm_group_name r = name) (iam_group_members s),
     iam_group_policies := sql_delete (\<lambda>r. gpr_group_name r = name) (iam_group_policies s)\<rparr>"

definition delete_group :: "string \<Rightarrow> iam_store \<Rightarrow> unit iam_result \<times> iam_store" where
  "delete_group name s =
     (if sql_count (\<lambda>r. gr_name r = name) (iam_groups s) = 0 then (Inl (GroupNotFound name), s)
      else (Inr (), delete_group_rows name s))"

definition get_group :: "string \<Rightarrow> iam_store \<Rightarrow> group iam_result" where
  "get_group name s =
     (case sql_query_row (\<lambda>r. gr_name r = name) (iam_groups s) of
        Some r \<Rightarrow> Inr (group_of_row s r)
      | None \<Rightarrow> Inl (GroupNotFound ''unknown''))"

definition list_groups :: "iam_store \<Rightarrow> group list iam_result" where
  "list_groups s = Inr (map (group_of_row s) (sort_key gr_name (iam_groups s)))"

definition add_user_to_group ::
  "instant \<Rightarrow> string \<Rightarrow> string \<Rightarrow> iam_store \<Rightarrow> unit iam_result \<times> iam_store" where
  "add_user_to_group now group_name username s =
     (case get_group group_name s of
        Inl e \<Rightarrow> (Inl e, s)
      | Inr _ \<Rightarrow>
          (case get_user now username s of
             Inl e \<Rightarrow> (Inl e, s)
           | Inr _ \<Rightarrow>
               let row = \<lparr>gm_group_name = group_name, gm_username = username\<rparr> in
               if \<not> user_exists s username then (Inl (Database ForeignKeyViolation), s)
               else (Inr (), s\<lparr>iam_group_members :=
                 sql_insert_or_ignore (\<lambda>r. (gm_group_name r, gm_username r)) row (iam_group_members s)\<rparr>)))"

definition remove_user_from_group ::
  "string \<Rightarrow> string \<Rightarrow> iam_store \<Rightarrow> unit iam_result \<times> iam_store" where
  "remove_user_from_group group_name username s =
     (Inr (), s\<lparr>iam_group_members :=
        sql_delete (\<lambda>r. gm_group_name r = group_name \<and> gm_username r = username)
          (iam_group_members s)\<rparr>)"

definition attach_group_policy ::
  "'f iam_ext \<Rightarrow> string \<Rightarrow> policy \<Rightarrow> iam_store \<Rightarrow> unit iam_result \<times> iam_store" where
  "attach_group_policy ix group_name policy s =
     (case get_group group_name s of
        Inl e \<Rightarrow> (Inl e, s)
      | Inr _ \<Rightarrow>
          (case policy_to_json ix policy of
             None \<Rightarrow> (Inl (InvalidPolicy ''serde_json''), s)
           | Some policy_doc \<Rightarrow>
               (Inr (), s\<lparr>iam_group_policies :=
                 sql_insert_or_replace (\<lambda>r. (gpr_group_name r, gpr_policy_name r))
                   \<lparr>gpr_group_name = group_name, gpr_policy_name = pol_name policy,
                    gpr_policy_document = policy_doc\<rparr> (iam_group_policies s)\<rparr>)))"

definition detach_group_policy ::
  "string \<Rightarrow> string \<Rightarrow> iam_store \<Rightarrow> unit iam_result \<times> iam_store" where
  "detach_group_policy group_name policy_name s =
     (let matches = (\<lambda>r. gpr_group_name r = group_name \<and> gpr_policy_name r = policy_name) in
      if sql_count matches (iam_group_policies s) = 0 then (Inl (PolicyNotFound policy_name), s)
      else (Inr (), s\<lparr>iam_group_policies := sql_delete matches (iam_group_policies s)\<rparr>))"

definition list_group_policies ::
  "'f iam_ext \<Rightarrow> string \<Rightarrow> iam_store \<Rightarrow> policy list iam_result" where
  "list_group_policies ix group_name s =
     Inr (parse_documents ix
       (map gpr_policy_document (sql_select (\<lambda>r. gpr_group_name r = group_name) (iam_group_policies s))))"

definition list_user_groups :: "string \<Rightarrow> iam_store \<Rightarrow> group list iam_result" where
  "list_user_groups username s =
     Inr (map (group_of_row s) (sort_key gr_name
       (concat (map (\<lambda>g. map (\<lambda>_. g) (sql_select (\<lambda>m. gm_group_name m = gr_name g
            \<and> gm_username m = username) (iam_group_members s))) (iam_groups s)))))"

section \<open>Bucket policies and managed policies\<close>

definition set_bucket_policy ::
  "'f iam_ext \<Rightarrow> instant \<Rightarrow> string \<Rightarrow> 'f bucket_policy \<Rightarrow> iam_store \<Rightarrow> unit iam_result \<times> iam_store" where
  "set_bucket_policy ix now bucket policy s =
     (case bucket_policy_to_json ix policy of
        None \<Rightarrow> (Inl (InvalidPolicy ''serde_json''), s)
      | Some policy_doc \<Rightarrow>
          let created = (case sql_query_row (\<lambda>r. bpr_bucket r = bucket) (bucket_policies s) of
                Some r \<Rightarrow> bpr_created_at r | None \<Rightarrow> now)
          in (Inr (), s\<lparr>bucket_policies := sql_insert_or_replace bpr_bucket
               \<lparr>bpr_bucket = bucket, bpr_policy_document = policy_doc, bpr_created_at = created,
                bpr_updated_at = now\<rparr> (bucket_policies s)\<rparr>))"

definition get_bucket_policy ::
  "'f iam_ext \<Rightarrow> string \<Rightarrow> iam_store \<Rightarrow> 'f bucket_policy option iam_result" where
  "get_bucket_policy ix bucket s =
     (case sql_query_row (\<lambda>r. bpr_bucket r = bucket) (bucket_policies s) of
        Some r \<Rightarrow>
          (case bucket_policy_from_json ix (bpr_policy_document r) of
             Some p \<Rightarrow> Inr (Some p)
           | None \<Rightarrow> Inl (Database (DecodeFailure ''serde_json'')))
      | None \<Rightarrow> Inr None)"

definition delete_bucket_policy :: "string \<Rightarrow> iam_store \<Rightarrow> unit iam_result \<times> iam_store" where
  "delete_bucket_policy bucket s =
     (let matches = (\<lambda>r. bpr_bucket r = bucket) in
      if sql_count matches (bucket_policies s) = 0
      then (Inl (PolicyNotFound (''Bucket policy for '' @ [CHR 0x27] @ bucket @ [CHR 0x27])), s)
      else (Inr (), s\<lparr>bucket_policies := sql_delete matches (bucket_policies s)\<rparr>))"

definition is_authorized_by_bucket_policy ::
  "'f iam_ext \<Rightarrow> string \<Rightarrow> principal \<Rightarrow> action \<Rightarrow> resource \<Rightarrow> iam_store \<Rightarrow>
     effect option iam_result" where
  "is_authorized_by_bucket_policy ix bucket who act res s =
     (case get_bucket_policy ix bucket s of
        Inl e \<Rightarrow> Inl e
      | Inr (Some p) \<Rightarrow> Inr (bucket_policy_evaluate (ix_std ix) p who act res)
      | Inr None \<Rightarrow> Inr None)"

definition create_policy ::
  "'f iam_ext \<Rightarrow> instant \<Rightarrow> policy \<Rightarrow> string option \<Rightarrow> iam_store \<Rightarrow> unit iam_result \<times> iam_store" where
  "create_policy ix now policy description s =
     (case policy_to_json ix policy of
        None \<Rightarrow> (Inl (InvalidPolicy ''serde_json''), s)
      | Some policy_doc \<Rightarrow>
          (Inr (), s\<lparr>iam_policies := sql_upsert pr_name
             \<lparr>pr_name = pol_name policy, pr_description = description,
              pr_policy_document = policy_doc, pr_created_at = now, pr_updated_at = now\<rparr>
             (\<lambda>r. r\<lparr>pr_description := description, pr_policy_document := policy_doc,
                    pr_updated_at := now\<rparr>) (iam_policies s)\<rparr>))"

definition delete_policy :: "string \<Rightarrow> iam_store \<Rightarrow> unit iam_result \<times> iam_store" where
  "delete_policy policy_name s =
     (let matches = (\<lambda>r. pr_name r = policy_name) in
      if sql_count matches (iam_policies s) = 0 then (Inl (PolicyNotFound policy_name), s)
      else (Inr (), s\<lparr>iam_policies := sql_delete matches (iam_policies s)\<rparr>))"

definition get_policy :: "'f iam_ext \<Rightarrow> string \<Rightarrow> iam_store \<Rightarrow> policy iam_result" where
  "get_policy ix policy_name s =
     (case sql_query_row (\<lambda>r. pr_name r = policy_name) (iam_policies s) of
        Some r \<Rightarrow>
          (case policy_from_json ix (pr_policy_document r) of
             Some p \<Rightarrow> Inr p
           | None \<Rightarrow> Inl (Database (DecodeFailure ''serde_json'')))
      | None \<Rightarrow> Inl (PolicyNotFound ''unknown''))"

definition list_policies :: "'f iam_ext \<Rightarrow> iam_store \<Rightarrow> (policy \<times> string option) list iam_result" where
  "list_policies ix s =
     Inr (List.map_filter
       (\<lambda>r. map_option (\<lambda>p. (p, pr_description r)) (policy_from_json ix (pr_policy_document r)))
       (sort_key pr_name (iam_policies s)))"

section \<open>Temporary credentials\<close>

definition session_token_hash :: "'f iam_ext \<Rightarrow> string \<Rightarrow> string" where
  "session_token_hash ix token =
     hex_encode (ix_crypto ix) (sha256_raw (ix_crypto ix) (as_bytes token))"

text \<open>\<^verbatim>\<open>duration_seconds.unwrap_or(3600).clamp(900, 43200)\<close> on \<^verbatim>\<open>u32\<close>.\<close>

definition session_duration :: "u32 option \<Rightarrow> u32" where
  "session_duration d =
     (let n = (case d of Some n \<Rightarrow> n | None \<Rightarrow> 3600) in
      if n < 900 then 900 else if n > 43200 then 43200 else n)"

definition assume_role ::
  "'f iam_ext \<Rightarrow> instant \<Rightarrow> bytes \<Rightarrow> string \<Rightarrow> string \<Rightarrow> string \<Rightarrow> assume_role_request \<Rightarrow>
     iam_store \<Rightarrow> temporary_credential iam_result \<times> iam_store" where
  "assume_role ix now nonce key_id secret token request s =
     (case get_user now (arr_username request) s of
        Inl e \<Rightarrow> (Inl e, s)
      | Inr user \<Rightarrow>
          if u_status user \<noteq> UserActive then (Inl IamInvalidCredentials, s)
          else
            let duration = session_duration (arr_duration_seconds request);
                expiration = now + int (unat duration) * nanos_per_sec
            in (case store_encrypt_secret ix s nonce secret of
                  Inl e \<Rightarrow> (Inl e, s)
                | Inr encrypted_secret \<Rightarrow>
                    let cred = \<lparr>tc_access_key_id = key_id, tc_secret_access_key = Some secret,
                          tc_session_token = token, tc_expiration = expiration,
                          tc_assumed_identity = arr_username request\<rparr>;
                        row = \<lparr>tcr_access_key_id = key_id, tcr_secret_encrypted = encrypted_secret,
                          tcr_session_token_hash = session_token_hash ix token,
                          tcr_assumed_identity = arr_username request, tcr_expiration = expiration\<rparr>
                    in if \<not> user_exists s (arr_username request)
                       then (Inl (Database ForeignKeyViolation), s)
                       else if sql_exists (\<lambda>r. tcr_session_token_hash r = tcr_session_token_hash row)
                              (iam_temporary_credentials s)
                       then (Inl (Database UniqueViolation), s)
                       else (case sql_insert tcr_access_key_id row (iam_temporary_credentials s) of
                         None \<Rightarrow> (Inl (Database UniqueViolation), s)
                       | Some t \<Rightarrow> (Inr cred, s\<lparr>iam_temporary_credentials := t\<rparr>))))"

definition live_temp_rows ::
  "instant \<Rightarrow> string \<Rightarrow> iam_store \<Rightarrow> (temp_credential_row \<times> user_row) list" where
  "live_temp_rows now key_id s =
     concat (map (\<lambda>t. map (Pair t)
         (sql_select (\<lambda>u. tcr_assumed_identity t = ur_username u) (iam_users s)))
       (sql_select (\<lambda>t. tcr_access_key_id t = key_id \<and> tcr_expiration t > now)
         (iam_temporary_credentials s)))"

definition get_temp_credentials ::
  "'f iam_ext \<Rightarrow> instant \<Rightarrow> string \<Rightarrow> iam_store \<Rightarrow> (temporary_credential \<times> user) option iam_result" where
  "get_temp_credentials ix now key_id s =
     (case live_temp_rows now key_id s of
        [] \<Rightarrow> Inr None
      | (t, u) # _ \<Rightarrow>
          (case decrypt_secret (ix_crypto ix) (tcr_secret_encrypted t) (encryption_key s) of
             Inl e \<Rightarrow> Inl (Database (DecodeFailure e))
           | Inr secret \<Rightarrow>
               Inr (Some
                 (\<lparr>tc_access_key_id = tcr_access_key_id t, tc_secret_access_key = Some secret,
                   tc_session_token = [], tc_expiration = tcr_expiration t,
                   tc_assumed_identity = tcr_assumed_identity t\<rparr>,
                  user_of_row u))))"

definition validate_session_token ::
  "'f iam_ext \<Rightarrow> instant \<Rightarrow> string \<Rightarrow> string \<Rightarrow> iam_store \<Rightarrow> bool iam_result" where
  "validate_session_token ix now key_id token s =
     Inr (sql_exists (\<lambda>t. tcr_access_key_id t = key_id
            \<and> tcr_session_token_hash t = session_token_hash ix token \<and> tcr_expiration t > now)
          (iam_temporary_credentials s))"

section \<open>Authorization\<close>

text \<open>The loop of \<^verbatim>\<open>is_authorized\<close> over all policies.\<close>

fun authorize_loop :: "action \<Rightarrow> resource \<Rightarrow> bool \<Rightarrow> policy list \<Rightarrow> bool" where
  "authorize_loop act res allowed [] = allowed"
| "authorize_loop act res allowed (p # ps) =
     (case policy_evaluate p act res of
        Some Deny \<Rightarrow> False
      | Some Allow \<Rightarrow> authorize_loop act res True ps
      | None \<Rightarrow> authorize_loop act res allowed ps)"

text \<open>The policies of the groups, group by group; the first failing query ends the loop.\<close>

fun collect_group_policies ::
  "'f iam_ext \<Rightarrow> iam_store \<Rightarrow> group list \<Rightarrow> (string \<times> policy) list iam_result" where
  "collect_group_policies ix s [] = Inr []"
| "collect_group_policies ix s (g # gs) =
     (case list_group_policies ix (g_name g) s of
        Inl e \<Rightarrow> Inl e
      | Inr ps \<Rightarrow>
          (case collect_group_policies ix s gs of
             Inl e \<Rightarrow> Inl e
           | Inr rest \<Rightarrow> Inr (map (Pair (g_name g)) ps @ rest)))"

definition is_authorized ::
  "'f iam_ext \<Rightarrow> string \<Rightarrow> action \<Rightarrow> resource \<Rightarrow> iam_store \<Rightarrow> bool iam_result" where
  "is_authorized ix username act res s =
     (if is_root_name s username then Inr True
      else case list_user_policies ix username s of
        Inl e \<Rightarrow> Inl e
      | Inr user_policies \<Rightarrow>
          (case list_user_groups username s of
             Inl e \<Rightarrow> Inl e
           | Inr groups \<Rightarrow>
               (case collect_group_policies ix s groups of
                  Inl e \<Rightarrow> Inl e
                | Inr group_policies \<Rightarrow>
                    Inr (authorize_loop act res False (user_policies @ map snd group_policies)))))"

datatype authorization_effect = ExplicitAllow | ExplicitDeny | ImplicitDeny | RootAccess

datatype policy_source = UserSource string | GroupSource string | BucketSource string

record authorization_result =
  ar_allowed :: bool
  ar_effect :: authorization_effect
  ar_matched_policy :: "string option"
  ar_matched_statement :: "string option"
  ar_policy_source :: "policy_source option"

definition decided ::
  "authorization_effect \<Rightarrow> policy_source \<times> policy \<Rightarrow> authorization_result" where
  "decided eff sp = \<lparr>ar_allowed = (eff = ExplicitAllow), ar_effect = eff,
     ar_matched_policy = Some (pol_name (snd sp)), ar_matched_statement = None,
     ar_policy_source = Some (fst sp)\<rparr>"

definition find_effect ::
  "action \<Rightarrow> resource \<Rightarrow> effect \<Rightarrow> (policy_source \<times> policy) list \<Rightarrow> (policy_source \<times> policy) option" where
  "find_effect act res eff = List.find (\<lambda>sp. policy_evaluate (snd sp) act res = Some eff)"

text \<open>The two passes of \<^verbatim>\<open>is_authorized_detailed\<close> over the user's policies and then the groups'.\<close>

definition is_authorized_detailed ::
  "'f iam_ext \<Rightarrow> string \<Rightarrow> action \<Rightarrow> resource \<Rightarrow> iam_store \<Rightarrow> authorization_result iam_result" where
  "is_authorized_detailed ix username act res s =
     (if is_root_name s username then
        Inr \<lparr>ar_allowed = True, ar_effect = RootAccess, ar_matched_policy = None,
             ar_matched_statement = None, ar_policy_source = None\<rparr>
      else case list_user_policies ix username s of
        Inl e \<Rightarrow> Inl e
      | Inr user_policies \<Rightarrow>
          let mine = map (Pair (UserSource username)) user_policies in
             (case find_effect act res Deny mine of
                Some sp \<Rightarrow> Inr (decided ExplicitDeny sp)
              | None \<Rightarrow>
                  (case list_user_groups username s of
                     Inl e \<Rightarrow> Inl e
                   | Inr groups \<Rightarrow>
                       (case collect_group_policies ix s groups of
                          Inl e \<Rightarrow> Inl e
                        | Inr gps \<Rightarrow>
                            let theirs = map (\<lambda>(g, p). (GroupSource g, p)) gps in
                            (case find_effect act res Deny theirs of
                               Some sp \<Rightarrow> Inr (decided ExplicitDeny sp)
                             | None \<Rightarrow>
                                 (case find_effect act res Allow (mine @ theirs) of
                                    Some sp \<Rightarrow> Inr (decided ExplicitAllow sp)
                                  | None \<Rightarrow>
                                      Inr \<lparr>ar_allowed = False, ar_effect = ImplicitDeny,
                                           ar_matched_policy = None, ar_matched_statement = None,
                                           ar_policy_source = None\<rparr>))))))"

end
