(* ===== verification/Iam_Invariant.thy ===== *)
theory Iam_Invariant
  imports Iam_Store
begin

text \<open>
  The invariant of the IAM database and its proof for every operation that writes:
  primary keys are unique, references have their parents, no row bears a root name,
  and nobody has more than two access keys. The operations are the rules of a step
  relation; the invariant holds in every store reachable from a new one.
\<close>

section \<open>The invariant\<close>

definition users_of :: "iam_store \<Rightarrow> string set" where
  "users_of s = ur_username ` set (iam_users s)"

definition groups_of :: "iam_store \<Rightarrow> string set" where
  "groups_of s = gr_name ` set (iam_groups s)"

definition iam_keys_ok :: "iam_store \<Rightarrow> bool" where
  "iam_keys_ok s \<longleftrightarrow>
     unique_key ur_username (iam_users s)
     \<and> unique_key kr_access_key_id (iam_access_keys s)
     \<and> unique_key (\<lambda>r. (upr_username r, upr_policy_name r)) (iam_user_policies s)
     \<and> unique_key bpr_bucket (bucket_policies s)
     \<and> unique_key gr_name (iam_groups s)
     \<and> unique_key (\<lambda>r. (gm_group_name r, gm_username r)) (iam_group_members s)
     \<and> unique_key (\<lambda>r. (gpr_group_name r, gpr_policy_name r)) (iam_group_policies s)
     \<and> unique_key pr_name (iam_policies s)
     \<and> unique_key tcr_access_key_id (iam_temporary_credentials s)
     \<and> unique_key tcr_session_token_hash (iam_temporary_credentials s)"

definition iam_refs_ok :: "iam_store \<Rightarrow> bool" where
  "iam_refs_ok s \<longleftrightarrow>
     kr_username ` set (iam_access_keys s) \<subseteq> users_of s
     \<and> upr_username ` set (iam_user_policies s) \<subseteq> users_of s
     \<and> gm_username ` set (iam_group_members s) \<subseteq> users_of s
     \<and> gm_group_name ` set (iam_group_members s) \<subseteq> groups_of s
     \<and> gpr_group_name ` set (iam_group_policies s) \<subseteq> groups_of s
     \<and> tcr_assumed_identity ` set (iam_temporary_credentials s) \<subseteq> users_of s"

definition iam_users_ok :: "iam_store \<Rightarrow> bool" where
  "iam_users_ok s \<longleftrightarrow> (\<forall>r \<in> set (iam_users s). \<not> is_root_name s (ur_username r) \<and> \<not> ur_is_root r
     \<and> ur_status r \<in> range user_status_as_str)"

definition key_limit_ok :: "access_key_row list \<Rightarrow> bool" where
  "key_limit_ok t \<longleftrightarrow> (\<forall>u. sql_count (\<lambda>r. kr_username r = u) t \<le> 2)"

definition iam_inv :: "iam_store \<Rightarrow> bool" where
  "iam_inv s \<longleftrightarrow> iam_keys_ok s \<and> iam_refs_ok s \<and> iam_users_ok s \<and> key_limit_ok (iam_access_keys s)"

lemmas iam_inv_defs = iam_inv_def iam_keys_ok_def iam_refs_ok_def iam_users_ok_def is_root_name_def
  users_of_def groups_of_def

section \<open>Lemmas on the tables\<close>

lemma image_key_update:
  "(\<And>r. key (f r) = key r) \<Longrightarrow> key ` set (sql_update P f t) = key ` set t"
  by (metis map_key_sql_update set_map)

lemma ball_sql_update:
  "(\<forall>r \<in> set (sql_update P f t). Q r) \<longleftrightarrow> (\<forall>r \<in> set t. Q (if P r then f r else r))"
  by (auto simp: set_sql_update)

lemma user_exists_iff: "user_exists s u \<longleftrightarrow> u \<in> users_of s"
  by (simp add: user_exists_def users_of_def table_simps image_iff) metis

lemma key_limit_delete: "key_limit_ok t \<Longrightarrow> key_limit_ok (sql_delete P t)"
proof -
  assume lim: "key_limit_ok t"
  have "length (filter Q (filter R t)) \<le> length (filter Q t)" for Q R :: "access_key_row \<Rightarrow> bool"
    by (induction t) auto
  then show ?thesis
    using lim unfolding key_limit_ok_def sql_count_def sql_delete_def by (meson le_trans)
qed

lemma sql_count_update:
  "(\<And>r. Q (f r) = Q r) \<Longrightarrow> sql_count Q (sql_update P f t) = sql_count Q t"
  by (induction t) (auto simp: sql_count_def sql_update_def)

lemma key_limit_update:
  "(\<And>r. kr_username (f r) = kr_username r) \<Longrightarrow> key_limit_ok t \<Longrightarrow> key_limit_ok (sql_update P f t)"
  by (simp add: key_limit_ok_def sql_count_update)

lemma key_limit_insert:
  "sql_insert key r t = Some t' \<Longrightarrow> key_limit_ok t \<Longrightarrow> sql_count (\<lambda>x. kr_username x = kr_username r) t < 2 \<Longrightarrow>
     key_limit_ok t'"
  by (auto simp: sql_insert_Some_iff key_limit_ok_def sql_count_def)

lemma unique_key_upsert:
  "(\<And>x. key (f x) = key x) \<Longrightarrow> unique_key key t \<Longrightarrow> unique_key key (sql_upsert key r f t)"
proof -
  assume f: "\<And>x. key (f x) = key x" and t: "unique_key key t"
  have "map key (map (\<lambda>x. if key x = key r then f x else x) t) = map key t"
    by (simp add: f)
  then show ?thesis using t unfolding unique_key_def sql_upsert_def by (simp del: map_map)
qed

lemma unique_key_snoc: "unique_key key (t @ [r]) \<longleftrightarrow> unique_key key t \<and> key r \<notin> key ` set t"
  by (auto simp: unique_key_def)

section \<open>Every operation keeps it\<close>

lemma active_in_range: "''active'' \<in> range user_status_as_str"
  by (rule range_eqI [of _ _ UserActive]) simp

lemma create_user_inv: "iam_inv s \<Longrightarrow> iam_inv (snd (create_user now u s))"
  by (auto simp: create_user_def Let_def iam_inv_defs sql_insert_Some_iff unique_key_snoc user_new_def
      active_in_range split: option.splits)

lemma delete_user_inv: "iam_inv s \<Longrightarrow> iam_inv (snd (delete_user u s))"
  unfolding delete_user_def delete_user_rows_def iam_inv_defs
  by (auto simp: table_simps intro: key_limit_delete)

lemma iam_inv_update_users:
  assumes "iam_inv s" and "\<And>r. ur_username (f r) = ur_username r" and "\<And>r. ur_is_root (f r) = ur_is_root r"
    and "\<And>r. ur_status r \<in> range user_status_as_str \<Longrightarrow> ur_status (f r) \<in> range user_status_as_str"
  shows "iam_inv (s\<lparr>iam_users := sql_update P f (iam_users s)\<rparr>)"
proof -
  let ?t = "sql_update P f (iam_users s)"
  have "ur_username ` set ?t = ur_username ` set (iam_users s)"
    using assms(2) by (rule image_key_update)
  moreover have "unique_key ur_username ?t"
    using assms(1,2) by (simp add: iam_inv_defs unique_key_update)
  moreover have "\<forall>r \<in> set ?t. \<not> is_root_name s (ur_username r) \<and> \<not> ur_is_root r
      \<and> ur_status r \<in> range user_status_as_str"
    using assms unfolding ball_sql_update by (simp add: iam_inv_defs)
  ultimately show ?thesis using assms(1) by (simp add: iam_inv_defs)
qed

lemma set_user_password_inv: "iam_inv s \<Longrightarrow> iam_inv (snd (set_user_password ix salt u p s))"
  unfolding set_user_password_def Let_def
  by (auto intro: iam_inv_update_users split: sum.splits password_error.splits)

lemma update_user_status_inv: "iam_inv s \<Longrightarrow> iam_inv (snd (update_user_status u st s))"
  unfolding update_user_status_def Let_def
  by (auto intro: iam_inv_update_users)

lemma list_access_keys_length:
  "\<not> is_root_name s u \<Longrightarrow> list_access_keys now u s = Inr ks \<Longrightarrow>
     length ks = sql_count (\<lambda>r. kr_username r = u) (iam_access_keys s)"
  by (auto simp: list_access_keys_def sql_select_def sql_count_def)

lemma iam_inv_access_keys:
  assumes "iam_inv s" and "unique_key kr_access_key_id t" and "kr_username ` set t \<subseteq> users_of s"
    and "key_limit_ok t"
  shows "iam_inv (s\<lparr>iam_access_keys := t\<rparr>)"
  using assms by (simp add: iam_inv_defs)

lemma create_access_key_cases:
  assumes "create_access_key ix now nonce secret kid u s = (res, s')"
  obtains (error) e where "res = Inl e" "s' = s"
    | (created) enc t k where "res = Inr k" "s' = s\<lparr>iam_access_keys := t\<rparr>"
      "\<not> is_root_name s u" "user_exists s u"
      "sql_count (\<lambda>r. kr_username r = u) (iam_access_keys s) < 2"
      "store_encrypt_secret ix s nonce secret = Inr enc"
      "sql_insert kr_access_key_id \<lparr>kr_access_key_id = kid, kr_secret_encrypted = enc, kr_username = u,
         kr_created_at = now, kr_status = access_key_status_as_str KeyActive, kr_last_used = None\<rparr>
         (iam_access_keys s) = Some t"
      "k = \<lparr>ak_access_key_id = kid, ak_secret_access_key = Some secret, ak_username = u,
         ak_created_at = now, ak_status = KeyActive, ak_last_used = None\<rparr>"
  using assms list_access_keys_length [of s u now]
  unfolding create_access_key_def Let_def
  by (auto split: if_splits sum.splits option.splits simp: not_le)

lemma create_access_key_inv:
  "iam_inv s \<Longrightarrow> iam_inv (snd (create_access_key ix now nonce secret kid u s))"
proof -
  assume inv: "iam_inv s"
  obtain res s' where r: "create_access_key ix now nonce secret kid u s = (res, s')" by force
  then show ?thesis
  proof (cases rule: create_access_key_cases)
    case (created enc t k)
    have "kr_username ` set t \<subseteq> users_of s"
      using inv set_sql_insert [OF created(7)] created(4)
      by (simp add: iam_inv_defs user_exists_iff)
    moreover have "unique_key kr_access_key_id t"
      using unique_key_insert [OF created(7)] inv by (simp add: iam_inv_defs)
    moreover have "key_limit_ok t"
      using key_limit_insert [OF created(7)] inv created(5) by (simp add: iam_inv_def)
    ultimately show ?thesis using inv r created(2) by (simp add: iam_inv_access_keys)
  qed (use inv r in simp)
qed

lemma delete_access_key_inv: "iam_inv s \<Longrightarrow> iam_inv (snd (delete_access_key kid s))"
  unfolding delete_access_key_def Let_def
  by (auto intro!: iam_inv_access_keys key_limit_delete simp: iam_inv_defs table_simps)

lemma iam_inv_update_keys:
  assumes "iam_inv s" and "\<And>r. kr_username (f r) = kr_username r"
    and "\<And>r. kr_access_key_id (f r) = kr_access_key_id r"
  shows "iam_inv (s\<lparr>iam_access_keys := sql_update P f (iam_access_keys s)\<rparr>)"
  using assms image_key_update [of kr_username f P "iam_access_keys s"]
  by (intro iam_inv_access_keys) (simp_all add: unique_key_update key_limit_update iam_inv_defs)

lemma update_access_key_status_inv: "iam_inv s \<Longrightarrow> iam_inv (snd (update_access_key_status kid st s))"
  unfolding update_access_key_status_def Let_def by (auto intro: iam_inv_update_keys)

lemma update_access_key_last_used_inv: "iam_inv s \<Longrightarrow> iam_inv (snd (update_access_key_last_used now kid s))"
  unfolding update_access_key_last_used_def by (auto intro: iam_inv_update_keys)

lemma attach_user_policy_inv: "iam_inv s \<Longrightarrow> iam_inv (snd (attach_user_policy ix now u p s))"
  unfolding attach_user_policy_def iam_inv_defs
  by (auto simp: table_simps user_exists_iff users_of_def split: sum.splits option.splits)

lemma detach_user_policy_inv: "iam_inv s \<Longrightarrow> iam_inv (snd (detach_user_policy u p s))"
  unfolding detach_user_policy_def Let_def iam_inv_defs by (auto simp: table_simps)

lemma create_group_inv: "iam_inv s \<Longrightarrow> iam_inv (snd (create_group now g s))"
  by (auto simp: create_group_def Let_def iam_inv_defs sql_insert_Some_iff unique_key_snoc group_new_def
      split: option.splits)

lemma delete_group_inv: "iam_inv s \<Longrightarrow> iam_inv (snd (delete_group g s))"
  unfolding delete_group_def delete_group_rows_def iam_inv_defs by (auto simp: table_simps)

lemma get_group_Inr: "get_group g s = Inr x \<Longrightarrow> g \<in> groups_of s"
  by (auto simp: get_group_def groups_of_def split: option.splits dest: sql_query_row_SomeD)

lemma set_sql_insert_or_ignore: "set (sql_insert_or_ignore key r t) \<subseteq> insert r (set t)"
  by (auto simp: sql_insert_or_ignore_def)

lemma add_user_to_group_inv: "iam_inv s \<Longrightarrow> iam_inv (snd (add_user_to_group now g u s))"
proof -
  assume inv: "iam_inv s"
  let ?k = "\<lambda>r. (gm_group_name r, gm_username r)" and ?r = "\<lparr>gm_group_name = g, gm_username = u\<rparr>"
  let ?t = "sql_insert_or_ignore ?k ?r (iam_group_members s)"
  have "iam_inv (s\<lparr>iam_group_members := ?t\<rparr>)" if "g \<in> groups_of s" "user_exists s u"
  proof -
    have sub: "f ` set ?t \<subseteq> insert (f ?r) (f ` set (iam_group_members s))" for f :: "group_member_row \<Rightarrow> string"
      using image_mono [OF set_sql_insert_or_ignore [of ?k ?r "iam_group_members s"], of f] by simp
    have "insert u (gm_username ` set (iam_group_members s)) \<subseteq> users_of s"
      and "insert g (gm_group_name ` set (iam_group_members s)) \<subseteq> groups_of s"
      using that inv by (simp_all add: user_exists_iff iam_inv_def iam_refs_ok_def)
    with sub [of gm_username] sub [of gm_group_name]
    have "gm_username ` set ?t \<subseteq> users_of s" "gm_group_name ` set ?t \<subseteq> groups_of s"
      unfolding group_member_row.select_convs by (meson order_trans)+
    moreover have "unique_key ?k ?t" using inv by (auto simp: iam_inv_defs)
    ultimately show ?thesis using inv by (simp add: iam_inv_defs)
  qed
  then show ?thesis
    using inv get_group_Inr by (auto simp: add_user_to_group_def Let_def split: sum.splits)
qed

lemma remove_user_from_group_inv: "iam_inv s \<Longrightarrow> iam_inv (snd (remove_user_from_group g u s))"
  unfolding remove_user_from_group_def iam_inv_defs by (auto simp: table_simps)

lemma attach_group_policy_inv: "iam_inv s \<Longrightarrow> iam_inv (snd (attach_group_policy ix g p s))"
  using get_group_Inr [of g s] unfolding attach_group_policy_def iam_inv_defs
  by (auto simp: table_simps split: sum.splits option.splits)

lemma detach_group_policy_inv: "iam_inv s \<Longrightarrow> iam_inv (snd (detach_group_policy g p s))"
  unfolding detach_group_policy_def Let_def iam_inv_defs by (auto simp: table_simps)

lemma set_bucket_policy_inv: "iam_inv s \<Longrightarrow> iam_inv (snd (set_bucket_policy ix now b p s))"
  unfolding set_bucket_policy_def Let_def iam_inv_defs by (auto split: option.splits)

lemma delete_bucket_policy_inv: "iam_inv s \<Longrightarrow> iam_inv (snd (delete_bucket_policy b s))"
  unfolding delete_bucket_policy_def Let_def iam_inv_defs by auto

lemma create_policy_inv: "iam_inv s \<Longrightarrow> iam_inv (snd (create_policy ix now p d s))"
  unfolding create_policy_def iam_inv_defs by (auto intro: unique_key_upsert split: option.splits)

lemma delete_policy_inv: "iam_inv s \<Longrightarrow> iam_inv (snd (delete_policy p s))"
  unfolding delete_policy_def Let_def iam_inv_defs by auto

lemma assume_role_cases:
  assumes "assume_role ix now nonce kid secret token rq s = (res, s')"
  obtains (error) e where "res = Inl e" "s' = s"
    | (issued) enc row cred where "res = Inr cred"
      "s' = s\<lparr>iam_temporary_credentials := iam_temporary_credentials s @ [row]\<rparr>"
      "\<exists>u. get_user now (arr_username rq) s = Inr u \<and> u_status u = UserActive"
      "user_exists s (arr_username rq)"
      "store_encrypt_secret ix s nonce secret = Inr enc"
      "row = \<lparr>tcr_access_key_id = kid, tcr_secret_encrypted = enc,
         tcr_session_token_hash = session_token_hash ix token, tcr_assumed_identity = arr_username rq,
         tcr_expiration = now + int (unat (session_duration (arr_duration_seconds rq))) * nanos_per_sec\<rparr>"
      "\<forall>r \<in> set (iam_temporary_credentials s). tcr_session_token_hash r \<noteq> session_token_hash ix token"
      "\<forall>r \<in> set (iam_temporary_credentials s). tcr_access_key_id r \<noteq> kid"
      "cred = \<lparr>tc_access_key_id = kid, tc_secret_access_key = Some secret, tc_session_token = token,
         tc_expiration = tcr_expiration row, tc_assumed_identity = arr_username rq\<rparr>"
  using assms unfolding assume_role_def Let_def
  by (auto split: if_splits sum.splits option.splits simp: sql_insert_Some_iff table_simps)

lemma assume_role_inv: "iam_inv s \<Longrightarrow> iam_inv (snd (assume_role ix now nonce kid secret token rq s))"
proof -
  assume inv: "iam_inv s"
  obtain res s' where r: "assume_role ix now nonce kid secret token rq s = (res, s')" by force
  then show ?thesis
  proof (cases rule: assume_role_cases)
    case (issued enc row cred)
    have row: "tcr_assumed_identity row \<in> users_of s" "tcr_access_key_id row = kid"
      "tcr_session_token_hash row = session_token_hash ix token"
      using issued(4,6) by (simp_all add: user_exists_iff)
    have "kid \<notin> tcr_access_key_id ` set (iam_temporary_credentials s)"
      "session_token_hash ix token \<notin> tcr_session_token_hash ` set (iam_temporary_credentials s)"
      using issued(7,8) by auto
    then show ?thesis using inv r issued(2) row by (simp add: iam_inv_defs unique_key_snoc)
  qed (use inv r in simp)
qed

section \<open>Reachable stores\<close>

inductive iam_step :: "'f iam_ext \<Rightarrow> iam_store \<Rightarrow> iam_store \<Rightarrow> bool" for ix where
  step_create_user: "iam_step ix s (snd (create_user now u s))"
| step_delete_user: "iam_step ix s (snd (delete_user u s))"
| step_set_user_password: "iam_step ix s (snd (set_user_password ix salt u p s))"
| step_update_user_status: "iam_step ix s (snd (update_user_status u st s))"
| step_create_access_key: "iam_step ix s (snd (create_access_key ix now nonce secret kid u s))"
| step_delete_access_key: "iam_step ix s (snd (delete_access_key kid s))"
| step_update_access_key_status: "iam_step ix s (snd (update_access_key_status kid kst s))"
| step_update_access_key_last_used: "iam_step ix s (snd (update_access_key_last_used now kid s))"
| step_attach_user_policy: "iam_step ix s (snd (attach_user_policy ix now u pol s))"
| step_detach_user_policy: "iam_step ix s (snd (detach_user_policy u name s))"
| step_create_group: "iam_step ix s (snd (create_group now g s))"
| step_delete_group: "iam_step ix s (snd (delete_group g s))"
| step_add_user_to_group: "iam_step ix s (snd (add_user_to_group now g u s))"
| step_remove_user_from_group: "iam_step ix s (snd (remove_user_from_group g u s))"
| step_attach_group_policy: "iam_step ix s (snd (attach_group_policy ix g pol s))"
| step_detach_group_policy: "iam_step ix s (snd (detach_group_policy g name s))"
| step_set_bucket_policy: "iam_step ix s (snd (set_bucket_policy ix now b bp s))"
| step_delete_bucket_policy: "iam_step ix s (snd (delete_bucket_policy b s))"
| step_create_policy: "iam_step ix s (snd (create_policy ix now pol descr s))"
| step_delete_policy: "iam_step ix s (snd (delete_policy name s))"
| step_assume_role: "iam_step ix s (snd (assume_role ix now nonce kid secret token rq s))"

inductive iam_reachable :: "'f iam_ext \<Rightarrow> iam_store \<Rightarrow> bool" for ix where
  reach_new: "iam_reachable ix (iam_store_new (ix_crypto ix) root_key root_secret)"
| reach_step: "iam_reachable ix s \<Longrightarrow> iam_step ix s s' \<Longrightarrow> iam_reachable ix s'"

lemmas iam_op_inv = create_user_inv delete_user_inv set_user_password_inv update_user_status_inv
  create_access_key_inv delete_access_key_inv update_access_key_status_inv
  update_access_key_last_used_inv attach_user_policy_inv detach_user_policy_inv create_group_inv
  delete_group_inv add_user_to_group_inv remove_user_from_group_inv attach_group_policy_inv
  detach_group_policy_inv set_bucket_policy_inv delete_bucket_policy_inv create_policy_inv
  delete_policy_inv assume_role_inv

lemma iam_step_inv: "iam_step ix s s' \<Longrightarrow> iam_inv s \<Longrightarrow> iam_inv s'"
  by (induction rule: iam_step.induct) (rule iam_op_inv, assumption)+

lemma iam_store_new_inv: "iam_inv (iam_store_new cl k sec)"
  by (simp add: iam_store_new_def iam_inv_defs unique_key_def key_limit_ok_def sql_count_def)

lemma iam_reachable_inv: "iam_reachable ix s \<Longrightarrow> iam_inv s"
  by (induction rule: iam_reachable.induct) (auto intro: iam_store_new_inv iam_step_inv)

text \<open>C3: the integrity of the IAM database. In every store that the operations can reach
  from a new one, all primary keys and unique columns are unique, every reference has its
  parent row, no stored user bears a root name or the root flag, and no user has more than
  two access keys.\<close>

theorem iam_integrity:
  assumes "iam_reachable ix s"
  shows "iam_keys_ok s \<and> iam_refs_ok s
    \<and> (\<forall>r \<in> set (iam_users s). \<not> is_root_name s (ur_username r) \<and> \<not> ur_is_root r)
    \<and> (\<forall>u. sql_count (\<lambda>r. kr_username r = u) (iam_access_keys s) \<le> 2)"
  using iam_reachable_inv [OF assms] by (simp add: iam_inv_def iam_users_ok_def key_limit_ok_def)

text \<open>Libraries to evaluate the store on: Argon2 that prefixes the salt, and a JSON codec
  for allow-all policies, whose document is the policy's name.\<close>

definition toy_argon2 :: argon2_lib where
  "toy_argon2 = \<lparr>argon2_hash = (\<lambda>salt p. Some p), argon2_verify = (\<lambda>p h. Some (p = h))\<rparr>"

definition toy_policy :: "string \<Rightarrow> policy" where
  "toy_policy name = policy_new name [\<lparr>ps_effect = (if name = ''deny'' then Deny else Allow),
     ps_actions = [''*''], ps_resources = [''*'']\<rparr>]"

definition toy_iam :: "nat iam_ext" where
  "toy_iam = \<lparr>ix_crypto = toy_crypto, ix_argon2 = toy_argon2, ix_std = nat_std,
     policy_to_json = (\<lambda>p. Some (pol_name p)), policy_from_json = (\<lambda>d. Some (toy_policy d)),
     bucket_policy_to_json = bp_id, bucket_policy_from_json = (\<lambda>d. Some (public_read_policy d))\<rparr>"

definition toy_store :: iam_store where
  "toy_store = snd (create_access_key toy_iam 10 (replicate 12 0) ''s3cret'' ''AKIA1'' ''alice''
     (snd (create_user 5 ''alice'' (iam_store_new toy_crypto ''admin'' ''pw''))))"

lemma toy_store_reachable: "iam_reachable toy_iam toy_store"
  unfolding toy_store_def
  using reach_step [OF reach_step [OF reach_new [of toy_iam "''admin''" "''pw''"] step_create_user]
      step_create_access_key]
  by (simp add: toy_iam_def)

lemma toy_encrypt:
  "length (encryption_key s) = 32 \<Longrightarrow> \<exists>enc. store_encrypt_secret toy_iam s nonce secret = Inr enc"
  by (simp add: store_encrypt_secret_def encrypt_secret_def encrypt_aes256_gcm_def toy_iam_def
      toy_crypto_def KEY_SIZE_def)

lemma toy_user_store:
  "snd (create_user 5 ''alice'' (iam_store_new toy_crypto ''admin'' ''pw'')) =
     (iam_store_new toy_crypto ''admin'' ''pw'')\<lparr>iam_users := [\<lparr>ur_username = ''alice'',
        ur_arn = ''arn:strix:iam::user/alice'', ur_created_at = 5, ur_status = ''active'',
        ur_is_root = False, ur_password_hash = None\<rparr>]\<rparr>"
  by (simp add: create_user_def is_root_name_def iam_store_new_def user_new_def sql_insert_def Let_def)

lemma toy_store_tables:
  "iam_users toy_store = [\<lparr>ur_username = ''alice'', ur_arn = ''arn:strix:iam::user/alice'',
     ur_created_at = 5, ur_status = ''active'', ur_is_root = False, ur_password_hash = None\<rparr>]"
  "iam_access_keys toy_store = [\<lparr>kr_access_key_id = ''AKIA1'',
     kr_secret_encrypted = projr (store_encrypt_secret toy_iam toy_store (replicate 12 0) ''s3cret''),
     kr_username = ''alice'', kr_created_at = 10, kr_status = ''active'', kr_last_used = None\<rparr>]"
  "root_access_key toy_store = ''admin''"
  "length (encryption_key toy_store) = 32"
proof -
  let ?s = "snd (create_user 5 ''alice'' (iam_store_new toy_crypto ''admin'' ''pw''))"
  have len: "length (encryption_key ?s) = 32"
    unfolding toy_user_store
    using toy_crypto_correct(3)
    by (simp add: iam_store_new_def derive_encryption_key_def digests_sized_def)
  obtain enc where enc: "store_encrypt_secret toy_iam ?s (replicate 12 0) ''s3cret'' = Inr enc"
    using toy_encrypt [OF len] by blast
  have eq: "toy_store = ?s\<lparr>iam_access_keys := [\<lparr>kr_access_key_id = ''AKIA1'', kr_secret_encrypted = enc,
      kr_username = ''alice'', kr_created_at = 10, kr_status = ''active'', kr_last_used = None\<rparr>]\<rparr>"
    unfolding toy_store_def create_access_key_def enc [unfolded toy_user_store] toy_user_store
    by (simp add: enc [unfolded toy_user_store] is_root_name_def iam_store_new_def get_user_def
        list_access_keys_def user_exists_def sql_exists_def sql_insert_def sql_query_row_def
        sql_select_def Let_def)
  have key: "encryption_key toy_store = encryption_key ?s" by (simp add: eq)
  show "iam_users toy_store = [\<lparr>ur_username = ''alice'', ur_arn = ''arn:strix:iam::user/alice'',
     ur_created_at = 5, ur_status = ''active'', ur_is_root = False, ur_password_hash = None\<rparr>]"
    and "root_access_key toy_store = ''admin''"
    unfolding eq toy_user_store by (simp_all add: iam_store_new_def)
  show "length (encryption_key toy_store) = 32" using len by (simp add: key)
  have "store_encrypt_secret toy_iam toy_store (replicate 12 0) ''s3cret'' = Inr enc"
    using enc by (simp add: store_encrypt_secret_def key)
  then show "iam_access_keys toy_store = [\<lparr>kr_access_key_id = ''AKIA1'',
     kr_secret_encrypted = projr (store_encrypt_secret toy_iam toy_store (replicate 12 0) ''s3cret''),
     kr_username = ''alice'', kr_created_at = 10, kr_status = ''active'', kr_last_used = None\<rparr>]"
    by (simp only: sum.sel) (simp add: eq)
qed

lemma toy_store_no_sessions: "iam_temporary_credentials toy_store = []"
  "iam_groups toy_store = []" "iam_group_members toy_store = []" "iam_user_policies toy_store = []"
  by (simp_all add: toy_store_def create_access_key_def create_user_def iam_store_new_def Let_def
      split: sum.splits option.splits)

theorem iam_integrity_witness:
  "iam_keys_ok toy_store \<and> iam_refs_ok toy_store
    \<and> sql_count (\<lambda>r. kr_username r = ''alice'') (iam_access_keys toy_store) \<le> 2"
  using iam_integrity [OF toy_store_reachable] by blast

end
