(* ===== verification/Iam_Authz.thy ===== *)
theory Iam_Authz
  imports Iam_Store
begin

text \<open>
  What the authorization operations of the IAM store decide: \<^verbatim>\<open>is_authorized\<close> against the
  set of policies in force for a user, its agreement with \<^verbatim>\<open>is_authorized_detailed\<close>, and
  the effect of attaching, detaching and grouping on decisions.
\<close>

section \<open>The policies in force\<close>

definition user_granted :: "'f iam_ext \<Rightarrow> iam_store \<Rightarrow> string \<Rightarrow> policy set" where
  "user_granted ix s u =
     {p. \<exists>r \<in> set (iam_user_policies s).
        upr_username r = u \<and> policy_from_json ix (upr_policy_document r) = Some p}"

definition group_granted :: "'f iam_ext \<Rightarrow> iam_store \<Rightarrow> string \<Rightarrow> (string \<times> policy) set" where
  "group_granted ix s u =
     {(g, p). g \<in> gr_name ` set (iam_groups s)
        \<and> \<lparr>gm_group_name = g, gm_username = u\<rparr> \<in> set (iam_group_members s)
        \<and> (\<exists>r \<in> set (iam_group_policies s).
             gpr_group_name r = g \<and> policy_from_json ix (gpr_policy_document r) = Some p)}"

definition policies_in_force :: "'f iam_ext \<Rightarrow> iam_store \<Rightarrow> string \<Rightarrow> policy set" where
  "policies_in_force ix s u = user_granted ix s u \<union> snd ` group_granted ix s u"

lemma set_parse_documents:
  "set (parse_documents ix docs) = {p. \<exists>d \<in> set docs. policy_from_json ix d = Some p}"
  by (force simp: parse_documents_def map_filter_def)

lemma list_user_policies_set:
  "\<not> is_root_name s u \<Longrightarrow>
     \<exists>ps. list_user_policies ix u s = Inr ps \<and> set ps = user_granted ix s u"
  by (auto simp: list_user_policies_def set_parse_documents user_granted_def table_simps)

lemma member_eta: "\<lparr>gm_group_name = gm_group_name m, gm_username = gm_username m\<rparr> = m"
  by simp

lemma list_user_groups_names:
  "\<exists>gs. list_user_groups u s = Inr gs
     \<and> g_name ` set gs = {g \<in> gr_name ` set (iam_groups s).
          \<lparr>gm_group_name = g, gm_username = u\<rparr> \<in> set (iam_group_members s)}"
proof -
  have "(\<exists>m \<in> set (iam_group_members s). gm_group_name m = g \<and> gm_username m = u) \<longleftrightarrow>
      \<lparr>gm_group_name = g, gm_username = u\<rparr> \<in> set (iam_group_members s)" for g
    by (metis member_eta group_member_row.select_convs)
  then show ?thesis
    by (force simp: list_user_groups_def table_simps group_of_row_def image_iff)
qed

lemma collect_group_policies_set:
  "\<exists>gps. collect_group_policies ix s gs = Inr gps
     \<and> set gps = {(g, p). g \<in> g_name ` set gs \<and> (\<exists>r \<in> set (iam_group_policies s).
          gpr_group_name r = g \<and> policy_from_json ix (gpr_policy_document r) = Some p)}"
proof (induction gs)
  case Nil
  then show ?case by simp
next
  case (Cons g gs)
  then obtain gps where c: "collect_group_policies ix s gs = Inr gps"
    and gps: "set gps = {(g, p). g \<in> g_name ` set gs \<and> (\<exists>r \<in> set (iam_group_policies s).
          gpr_group_name r = g \<and> policy_from_json ix (gpr_policy_document r) = Some p)}"
    by blast
  let ?ps = "parse_documents ix (map gpr_policy_document
      (sql_select (\<lambda>r. gpr_group_name r = g_name g) (iam_group_policies s)))"
  have "set (map (Pair (g_name g)) ?ps) = {(h, p). h = g_name g \<and> (\<exists>r \<in> set (iam_group_policies s).
          gpr_group_name r = h \<and> policy_from_json ix (gpr_policy_document r) = Some p)}"
    by (auto simp: set_parse_documents table_simps)
  then show ?case using c gps by (auto simp: list_group_policies_def)
qed

lemma group_policies_collected:
  "\<exists>gs gps. list_user_groups u s = Inr gs \<and> collect_group_policies ix s gs = Inr gps
     \<and> set gps = group_granted ix s u"
proof -
  obtain gs where gs: "list_user_groups u s = Inr gs"
    and names: "g_name ` set gs = {g \<in> gr_name ` set (iam_groups s).
          \<lparr>gm_group_name = g, gm_username = u\<rparr> \<in> set (iam_group_members s)}"
    using list_user_groups_names by blast
  obtain gps where "collect_group_policies ix s gs = Inr gps"
    and "set gps = {(g, p). g \<in> g_name ` set gs \<and> (\<exists>r \<in> set (iam_group_policies s).
          gpr_group_name r = g \<and> policy_from_json ix (gpr_policy_document r) = Some p)}"
    using collect_group_policies_set by blast
  then show ?thesis using gs names by (auto simp: group_granted_def)
qed

lemma authorize_loop_iff:
  "authorize_loop act res allowed ps \<longleftrightarrow>
     (\<forall>p \<in> set ps. policy_evaluate p act res \<noteq> Some Deny)
     \<and> (allowed \<or> (\<exists>p \<in> set ps. policy_evaluate p act res = Some Allow))"
  by (induction ps arbitrary: allowed) (auto split: option.splits effect.splits)

lemma is_authorized_eq:
  "is_authorized ix u act res s =
     Inr (is_root_name s u
       \<or> ((\<exists>p \<in> policies_in_force ix s u. policy_evaluate p act res = Some Allow)
          \<and> \<not> (\<exists>p \<in> policies_in_force ix s u. policy_evaluate p act res = Some Deny)))"
proof (cases "is_root_name s u")
  case True
  then show ?thesis by (simp add: is_authorized_def)
next
  case False
  obtain ps where ps: "list_user_policies ix u s = Inr ps" "set ps = user_granted ix s u"
    using list_user_policies_set [OF False] by blast
  obtain gs gps where gs: "list_user_groups u s = Inr gs" "collect_group_policies ix s gs = Inr gps"
    "set gps = group_granted ix s u"
    using group_policies_collected by blast
  have "set (ps @ map snd gps) = policies_in_force ix s u"
    using ps(2) gs(3) by (simp add: policies_in_force_def)
  then show ?thesis
    unfolding is_authorized_def using False ps(1) gs(1,2) authorize_loop_iff [of act res False "ps @ map snd gps"]
    by auto
qed

text \<open>C2: authorization of a user. The decision is always reached; a user other than the
  root user is allowed exactly when some policy in force for it (attached to the user, or
  to an existing group it is a member of) allows the request and none of them denies it.
  The root user is always allowed.\<close>

theorem is_authorized_iff:
  "is_authorized ix u act res s =
     Inr (is_root_name s u
       \<or> ((\<exists>p \<in> policies_in_force ix s u. policy_evaluate p act res = Some Allow)
          \<and> \<not> (\<exists>p \<in> policies_in_force ix s u. policy_evaluate p act res = Some Deny)))"
  by (rule is_authorized_eq)

section \<open>The detailed decision\<close>

lemma find_effect_SomeD:
  "find_effect act res eff xs = Some sp \<Longrightarrow> sp \<in> set xs \<and> policy_evaluate (snd sp) act res = Some eff"
  by (auto simp: find_effect_def find_Some_iff)

lemma find_effect_None:
  "find_effect act res eff xs = None \<longleftrightarrow> (\<forall>sp \<in> set xs. policy_evaluate (snd sp) act res \<noteq> Some eff)"
  by (auto simp: find_effect_def find_None_iff)

text \<open>The two passes over the policies with their sources.\<close>

definition detailed_decision ::
  "action \<Rightarrow> resource \<Rightarrow> (policy_source \<times> policy) list \<Rightarrow> (policy_source \<times> policy) list \<Rightarrow>
     authorization_result" where
  "detailed_decision act res mine theirs =
     (case find_effect act res Deny mine of
        Some sp \<Rightarrow> decided ExplicitDeny sp
      | None \<Rightarrow> (case find_effect act res Deny theirs of
          Some sp \<Rightarrow> decided ExplicitDeny sp
        | None \<Rightarrow> (case find_effect act res Allow (mine @ theirs) of
            Some sp \<Rightarrow> decided ExplicitAllow sp
          | None \<Rightarrow> \<lparr>ar_allowed = False, ar_effect = ImplicitDeny, ar_matched_policy = None,
              ar_matched_statement = None, ar_policy_source = None\<rparr>)))"

lemma detailed_decision_eq:
  assumes "\<not> is_root_name s u"
  shows "\<exists>mine theirs. is_authorized_detailed ix u act res s = Inr (detailed_decision act res mine theirs)
    \<and> snd ` set (mine @ theirs) = policies_in_force ix s u"
proof -
  obtain ps where ps: "list_user_policies ix u s = Inr ps" "set ps = user_granted ix s u"
    using list_user_policies_set [OF assms] by blast
  obtain gs gps where gs: "list_user_groups u s = Inr gs" "collect_group_policies ix s gs = Inr gps"
    "set gps = group_granted ix s u"
    using group_policies_collected by blast
  let ?mine = "map (Pair (UserSource u)) ps" and ?theirs = "map (\<lambda>(g, p). (GroupSource g, p)) gps"
  have "is_authorized_detailed ix u act res s = Inr (detailed_decision act res ?mine ?theirs)"
    using assms ps(1) gs(1,2)
    by (simp add: is_authorized_detailed_def detailed_decision_def Let_def split: option.splits)
  moreover have "snd ` set ?mine = user_granted ix s u" using ps(2) by (force simp: image_image)
  moreover have "snd ` set ?theirs = snd ` group_granted ix s u"
    using gs(3) by (auto simp: image_image split_beta)
  ultimately show ?thesis by (metis image_Un policies_in_force_def set_append)
qed

lemma detailed_decision_cases:
  obtains (deny) sp where "detailed_decision act res mine theirs = decided ExplicitDeny sp"
      "sp \<in> set (mine @ theirs)" "policy_evaluate (snd sp) act res = Some Deny"
    | (allow) sp where "detailed_decision act res mine theirs = decided ExplicitAllow sp"
      "sp \<in> set (mine @ theirs)" "policy_evaluate (snd sp) act res = Some Allow"
      "\<forall>x \<in> set (mine @ theirs). policy_evaluate (snd x) act res \<noteq> Some Deny"
    | (implicit) "\<not> ar_allowed (detailed_decision act res mine theirs)"
      "ar_effect (detailed_decision act res mine theirs) = ImplicitDeny"
      "\<forall>x \<in> set (mine @ theirs). policy_evaluate (snd x) act res = None"
proof (cases "find_effect act res Deny mine")
  case (Some sp)
  then show ?thesis using deny [of sp] find_effect_SomeD by (auto simp: detailed_decision_def)
next
  case None
  note mine = this
  show ?thesis
  proof (cases "find_effect act res Deny theirs")
    case (Some sp)
    then show ?thesis using mine deny [of sp] find_effect_SomeD by (auto simp: detailed_decision_def)
  next
    case None
    have nodeny: "\<forall>x \<in> set (mine @ theirs). policy_evaluate (snd x) act res \<noteq> Some Deny"
      using mine None unfolding find_effect_None by auto
    show ?thesis
    proof (cases "find_effect act res Allow (mine @ theirs)")
      case (Some sp)
      then show ?thesis using mine None nodeny allow [of sp] find_effect_SomeD [OF Some]
        by (simp add: detailed_decision_def)
    next
      case no: None
      have "\<forall>x \<in> set (mine @ theirs). policy_evaluate (snd x) act res = None"
        using nodeny no unfolding find_effect_None by (metis effect.exhaust option.exhaust)
      then show ?thesis using mine None no implicit by (simp add: detailed_decision_def)
    qed
  qed
qed

text \<open>C10: the detailed decision explains the plain one. It is always reached, its
  \<^verbatim>\<open>allowed\<close> flag is the answer of \<^verbatim>\<open>is_authorized\<close>, an explicit decision names a policy in
  force that has that effect on the request, and an implicit denial means that no policy
  in force decides it.\<close>

theorem is_authorized_detailed_agrees:
  "\<exists>r. is_authorized_detailed ix u act res s = Inr r
     \<and> is_authorized ix u act res s = Inr (ar_allowed r)
     \<and> (case ar_effect r of
          RootAccess \<Rightarrow> is_root_name s u
        | ExplicitAllow \<Rightarrow> (\<exists>p \<in> policies_in_force ix s u.
            ar_matched_policy r = Some (pol_name p) \<and> policy_evaluate p act res = Some Allow)
        | ExplicitDeny \<Rightarrow> (\<exists>p \<in> policies_in_force ix s u.
            ar_matched_policy r = Some (pol_name p) \<and> policy_evaluate p act res = Some Deny)
        | ImplicitDeny \<Rightarrow> \<not> (\<exists>p \<in> policies_in_force ix s u. policy_evaluate p act res \<noteq> None))"
proof (cases "is_root_name s u")
  case True
  then show ?thesis by (simp add: is_authorized_detailed_def is_authorized_def)
next
  case False
  obtain mine theirs where d: "is_authorized_detailed ix u act res s = Inr (detailed_decision act res mine theirs)"
    and set: "policies_in_force ix s u = snd ` set (mine @ theirs)"
    using detailed_decision_eq [OF False] by metis
  show ?thesis
  proof (cases rule: detailed_decision_cases [of act res mine theirs])
    case (deny sp)
    then have "snd sp \<in> policies_in_force ix s u" by (simp add: set)
    then show ?thesis using d deny(1,3) False by (auto simp: decided_def is_authorized_eq)
  next
    case (allow sp)
    then have "snd sp \<in> policies_in_force ix s u"
      and "\<forall>p \<in> policies_in_force ix s u. policy_evaluate p act res \<noteq> Some Deny"
      by (auto simp: set)
    then show ?thesis using d allow(1,3) by (auto simp: decided_def is_authorized_eq)
  next
    case implicit
    then have "\<forall>p \<in> policies_in_force ix s u. policy_evaluate p act res = None"
      by (auto simp: set)
    then show ?thesis using d implicit(1,2) False by (auto simp: is_authorized_eq)
  qed
qed

end
