(* ===== verification/S3_Auth.thy ===== *)
theory S3_Auth
  imports Iam_Invariant Iam_Authz
begin

text \<open>
  Authentication and authorization of S3 requests: \<^verbatim>\<open>strix-s3/src/iam_auth.rs\<close> (the secret
  key that a signature is checked against) and the authorization part of
  \<^verbatim>\<open>strix-s3/src/service.rs\<close> (session tokens, the caller's name, and the decision from
  identity policies and bucket policies).
\<close>

section \<open>Secret keys\<close>

definition s3_err :: "string \<Rightarrow> string \<Rightarrow> s3_error" where
  "s3_err code msg = \<lparr>s3e_code = code, s3e_message = Some msg\<rparr>"

definition get_temp_secret_key ::
  "'f iam_ext \<Rightarrow> instant \<Rightarrow> string \<Rightarrow> iam_store \<Rightarrow> (string, s3_error) result" where
  "get_temp_secret_key ix now access_key s =
     (case get_temp_credentials ix now access_key s of
        Inr (Some (cred, user)) \<Rightarrow>
          if tc_expiration cred < now then Inl (s3_err ''ExpiredToken'' ''The provided token has expired'')
          else if u_status user \<noteq> UserActive
          then Inl (s3_err ''InvalidAccessKeyId'' ''User account is not active'')
          else (case tc_secret_access_key cred of
            Some secret \<Rightarrow> Inr secret
          | None \<Rightarrow> Inl (s3_err ''InternalError'' ''Authentication failed''))
      | Inr None \<Rightarrow> Inl (s3_err ''InvalidAccessKeyId'' ''The access key ID does not exist'')
      | Inl _ \<Rightarrow> Inl (s3_err ''InternalError'' ''Authentication failed''))"

text \<open>The lookup also records the time the key was last used, in a task of its own.\<close>

definition get_secret_key ::
  "'f iam_ext \<Rightarrow> instant \<Rightarrow> string \<Rightarrow> iam_store \<Rightarrow> (string, s3_error) result \<times> iam_store" where
  "get_secret_key ix now access_key s =
     (if access_key = root_access_key s then (Inr (root_secret_key s), s)
      else if starts_with access_key ''ASIA'' then (get_temp_secret_key ix now access_key s, s)
      else case get_credentials ix now access_key s of
        Inr (Some (key, user)) \<Rightarrow>
          if ak_status key \<noteq> KeyActive
          then (Inl (s3_err ''InvalidAccessKeyId'' ''Access key is not active''), s)
          else if u_status user \<noteq> UserActive
          then (Inl (s3_err ''InvalidAccessKeyId'' ''User account is not active''), s)
          else
            let s' = snd (update_access_key_last_used now access_key s) in
            (case ak_secret_access_key key of
               Some secret \<Rightarrow> (Inr secret, s')
             | None \<Rightarrow> (Inl (s3_err ''InternalError'' ''Authentication failed''), s'))
      | Inr None \<Rightarrow> (Inl (s3_err ''InvalidAccessKeyId'' ''The access key ID does not exist''), s)
      | Inl _ \<Rightarrow> (Inl (s3_err ''InternalError'' ''Authentication failed''), s))"

section \<open>Authorization\<close>

record s3_service =
  svc_iam :: "iam_store option"
  svc_root_access_key :: string

record audit_event =
  ae_operation :: string
  ae_bucket :: "string option"
  ae_key :: "string option"
  ae_principal :: "string option"
  ae_success :: bool
  ae_error_message :: "string option"

definition get_username ::
  "'f iam_ext \<Rightarrow> instant \<Rightarrow> s3_service \<Rightarrow> string option \<Rightarrow> (string, s3_error) result" where
  "get_username ix now svc credentials =
     (case credentials of
        None \<Rightarrow> Inr ''anonymous''
      | Some access_key \<Rightarrow>
          if access_key = svc_root_access_key svc then Inr ''root''
          else (case svc_iam svc of
            None \<Rightarrow> Inl (s3_err ''AccessDenied'' ''Access denied'')
          | Some iam \<Rightarrow>
              if starts_with access_key ''ASIA'' then
                (case get_temp_credentials ix now access_key iam of
                   Inr (Some (cred, _)) \<Rightarrow> Inr (tc_assumed_identity cred)
                 | Inr None \<Rightarrow> Inl (s3_err ''AccessDenied'' ''Invalid or expired credentials'')
                 | Inl _ \<Rightarrow> Inl (s3_err ''InternalError'' ''Authentication failed''))
              else
                (case get_credentials ix now access_key iam of
                   Inr (Some (_, user)) \<Rightarrow> Inr (u_username user)
                 | Inr None \<Rightarrow> Inl (s3_err ''AccessDenied'' ''Invalid credentials'')
                 | Inl _ \<Rightarrow> Inl (s3_err ''InternalError'' ''Authentication failed''))))"

text \<open>\<open>headers\<close> are the request headers that are valid text.\<close>

definition svc_validate_session_token ::
  "'f iam_ext \<Rightarrow> instant \<Rightarrow> s3_service \<Rightarrow> string option \<Rightarrow> (string \<rightharpoonup> string) \<Rightarrow> (unit, s3_error) result" where
  "svc_validate_session_token ix now svc credentials headers =
     (case credentials of
        None \<Rightarrow> Inr ()
      | Some access_key \<Rightarrow>
          if \<not> starts_with access_key ''ASIA'' then Inr ()
          else (case svc_iam svc of
            None \<Rightarrow> Inl (s3_err ''AccessDenied'' ''IAM not configured'')
          | Some iam \<Rightarrow>
              (case headers ''x-amz-security-token'' of
                 None \<Rightarrow> Inl (s3_err ''AccessDenied'' ''Missing X-Amz-Security-Token for temporary credentials'')
               | Some token \<Rightarrow>
                   (case validate_session_token ix now access_key token iam of
                      Inl _ \<Rightarrow> Inl (s3_err ''InternalError'' ''Authentication failed'')
                    | Inr ok \<Rightarrow>
                        if ok then Inr ()
                        else Inl (s3_err ''AccessDenied'' ''Invalid session token for temporary credentials'')))))"

definition request_resource :: "string option \<Rightarrow> string option \<Rightarrow> resource option" where
  "request_resource bucket key =
     (case (bucket, key) of
        (Some b, Some k) \<Rightarrow> Some (resource_object b k)
      | (Some b, None) \<Rightarrow> Some (resource_bucket b)
      | (None, None) \<Rightarrow> Some resource_all
      | (None, Some _) \<Rightarrow> None)"

definition request_principal :: "string \<Rightarrow> principal" where
  "request_principal username = (if username = ''anonymous'' then Anonymous else User username)"

text \<open>The decision, with the audit event that a default denial logs.\<close>

definition check_authorization ::
  "'f iam_ext \<Rightarrow> instant \<Rightarrow> s3_service \<Rightarrow> string option \<Rightarrow> (string \<rightharpoonup> string) \<Rightarrow> string \<Rightarrow>
     string option \<Rightarrow> string option \<Rightarrow> (unit, s3_error) result \<times> audit_event option" where
  "check_authorization ix now svc credentials headers act bucket key =
     (case svc_validate_session_token ix now svc credentials headers of
        Inl e \<Rightarrow> (Inl e, None)
      | Inr _ \<Rightarrow>
          (case get_username ix now svc credentials of
             Inl e \<Rightarrow> (Inl e, None)
           | Inr username \<Rightarrow>
               if username = ''root'' then (Inr (), None)
               else (case svc_iam svc of
                 None \<Rightarrow> (Inl (s3_err ''AccessDenied'' ''Access denied''), None)
               | Some iam \<Rightarrow>
                   (case request_resource bucket key of
                      None \<Rightarrow> (Inl (s3_err ''InvalidArgument'' ''Invalid resource''), None)
                    | Some resource \<Rightarrow>
                        let iam_action = (case from_operation act of Some a \<Rightarrow> a | None \<Rightarrow> AllActions) in
                        (case is_authorized ix username iam_action resource iam of
                           Inl _ \<Rightarrow> (Inl (s3_err ''InternalError'' ''Authorization check failed''), None)
                         | Inr True \<Rightarrow> (Inr (), None)
                         | Inr False \<Rightarrow>
                             let deny = (Inl (s3_err ''AccessDenied'' ''Access denied''),
                                   Some \<lparr>ae_operation = act, ae_bucket = bucket, ae_key = key,
                                     ae_principal = Some username, ae_success = False,
                                     ae_error_message = Some ''Access denied''\<rparr>)
                             in (case bucket of
                                   None \<Rightarrow> deny
                                 | Some bucket_name \<Rightarrow>
                                     (case is_authorized_by_bucket_policy ix bucket_name
                                         (request_principal username) iam_action resource iam of
                                        Inl _ \<Rightarrow> (Inl (s3_err ''InternalError'' ''Authorization check failed''), None)
                                      | Inr (Some Allow) \<Rightarrow> (Inr (), None)
                                      | Inr (Some Deny) \<Rightarrow>
                                          (Inl (s3_err ''AccessDenied'' ''Access denied by bucket policy''), None)
                                      | Inr None \<Rightarrow> deny)))))))"

section \<open>Who owns a credential\<close>

text \<open>The user an access key id authenticates as: the permanent keys, or the temporary
  ones for ids that begin with \<^verbatim>\<open>ASIA\<close>.\<close>

definition credential_owner :: "iam_store \<Rightarrow> string \<Rightarrow> string option" where
  "credential_owner s kid =
     (if starts_with kid ''ASIA''
      then map_option tcr_assumed_identity
             (sql_query_row (\<lambda>t. tcr_access_key_id t = kid) (iam_temporary_credentials s))
      else map_option kr_username
             (sql_query_row (\<lambda>k. kr_access_key_id k = kid) (iam_access_keys s)))"

definition user_active :: "iam_store \<Rightarrow> string \<Rightarrow> bool" where
  "user_active s u = sql_exists (\<lambda>r. ur_username r = u \<and> ur_status r = ''active'') (iam_users s)"

lemma active_credential_rows_iff:
  "(k, u) \<in> set (active_credential_rows kid s) \<longleftrightarrow>
     k \<in> set (iam_access_keys s) \<and> kr_access_key_id k = kid \<and> kr_status k = ''active''
     \<and> u \<in> set (iam_users s) \<and> kr_username k = ur_username u \<and> ur_status u = ''active''"
  by (auto simp: active_credential_rows_def table_simps)

lemma live_temp_rows_iff:
  "(t, u) \<in> set (live_temp_rows now kid s) \<longleftrightarrow>
     t \<in> set (iam_temporary_credentials s) \<and> tcr_access_key_id t = kid \<and> tcr_expiration t > now
     \<and> u \<in> set (iam_users s) \<and> tcr_assumed_identity t = ur_username u"
  by (auto simp: live_temp_rows_def table_simps)

lemma status_codec: "user_status_from_str (user_status_as_str st) = Inr st"
  by (cases st; hypsubst; code_simp)

lemma user_of_row_active:
  assumes "iam_inv s" "r \<in> set (iam_users s)"
  shows "u_status (user_of_row r) = UserActive \<longleftrightarrow> ur_status r = ''active''"
proof -
  obtain st where st: "ur_status r = user_status_as_str st" using assms by (auto simp: iam_inv_defs)
  then have "u_status (user_of_row r) = st" by (simp add: user_of_row_def status_codec)
  then show ?thesis using st by (cases st) simp_all
qed

text \<open>A lookup that yields a secret is for the root key or for a key whose owner is active.\<close>

lemma get_secret_key_owner:
  assumes "iam_inv s" "fst (get_secret_key ix now kid s) = Inr secret" "kid \<noteq> root_access_key s"
  shows "\<exists>u. credential_owner s kid = Some u \<and> user_active s u"
proof (cases "starts_with kid ''ASIA''")
  case True
  then have "get_temp_secret_key ix now kid s = Inr secret" using assms by (simp add: get_secret_key_def)
  then obtain t u rest where rows: "live_temp_rows now kid s = (t, u) # rest"
    and act: "u_status (user_of_row u) = UserActive"
    by (auto simp: get_temp_secret_key_def get_temp_credentials_def
        split: sum.splits option.splits if_splits list.splits)
  then have t: "t \<in> set (iam_temporary_credentials s)" "tcr_access_key_id t = kid"
    and u: "u \<in> set (iam_users s)" "tcr_assumed_identity t = ur_username u"
    using live_temp_rows_iff [of t u now kid s] by auto
  have "sql_query_row (\<lambda>t. tcr_access_key_id t = kid) (iam_temporary_credentials s) = Some t"
    using assms(1) t by (subst sql_query_row_key) (auto simp: iam_inv_defs)
  then show ?thesis
    using True u act user_of_row_active [OF assms(1) u(1)]
    by (auto simp: credential_owner_def user_active_def table_simps)
next
  case False
  then obtain k u rest where "active_credential_rows kid s = (k, u) # rest"
    using assms(2,3)
    by (auto simp: get_secret_key_def get_credentials_def split: sum.splits option.splits if_splits list.splits)
  then have k: "k \<in> set (iam_access_keys s)" "kr_access_key_id k = kid"
    and u: "u \<in> set (iam_users s)" "kr_username k = ur_username u" "ur_status u = ''active''"
    using active_credential_rows_iff [of k u kid s] by auto
  have "sql_query_row (\<lambda>k. kr_access_key_id k = kid) (iam_access_keys s) = Some k"
    using assms(1) k by (subst sql_query_row_key) (auto simp: iam_inv_defs)
  then show ?thesis
    using False u by (auto simp: credential_owner_def user_active_def table_simps)
qed

text \<open>C7: deactivating a user revokes every credential of the user at once: afterwards no
  access key, permanent or temporary, that belongs to the user yields a secret, so no
  signature of the user is accepted until the user is activated again.\<close>

theorem deactivated_user_cannot_authenticate:
  assumes "iam_reachable ix s" "update_user_status u UserInactive s = (Inr (), s')"
    and "credential_owner s kid = Some u" "kid \<noteq> root_access_key s"
  shows "\<exists>e. fst (get_secret_key ix now kid s') = Inl e"
proof (rule ccontr)
  assume "\<nexists>e. fst (get_secret_key ix now kid s') = Inl e"
  then obtain x where x: "fst (get_secret_key ix now kid s') = Inr x" by (metis sum.exhaust)
  have s': "s' = s\<lparr>iam_users := sql_update (\<lambda>r. ur_username r = u)
      (\<lambda>r. r\<lparr>ur_status := ''inactive''\<rparr>) (iam_users s)\<rparr>"
    using assms(2) by (auto simp: update_user_status_def Let_def split: if_splits)
  have inv: "iam_inv s'"
    using iam_reachable_inv [OF assms(1)] update_user_status_inv [of s u UserInactive] assms(2) by simp
  have "credential_owner s' kid = credential_owner s kid" by (simp add: credential_owner_def s')
  then have "credential_owner s' kid = Some u" using assms(3) by simp
  moreover have "\<not> user_active s' u"
  proof -
    have "\<forall>r \<in> set (iam_users s'). \<not> (ur_username r = u \<and> ur_status r = ''active'')"
      by (simp add: s' ball_sql_update)
    then show ?thesis by (simp add: user_active_def sql_exists_iff)
  qed
  moreover have "kid \<noteq> root_access_key s'" using assms(4) by (simp add: s')
  ultimately show False using get_secret_key_owner [OF inv x] by auto
qed

lemma toy_store_owner:
  "credential_owner toy_store ''AKIA1'' = Some ''alice''" "''AKIA1'' \<noteq> root_access_key toy_store"
  by (simp_all add: credential_owner_def toy_store_tables sql_query_row_def starts_with_def)

definition toy_deactivated :: iam_store where
  "toy_deactivated = snd (update_user_status ''alice'' UserInactive toy_store)"

theorem deactivated_user_cannot_authenticate_witness:
  "\<exists>e. fst (get_secret_key toy_iam 20 ''AKIA1'' toy_deactivated) = Inl e"
proof -
  have "update_user_status ''alice'' UserInactive toy_store = (Inr (), toy_deactivated)"
    by (simp add: toy_deactivated_def update_user_status_def Let_def is_root_name_def
        toy_store_tables sql_count_def)
  then show ?thesis
    using deactivated_user_cannot_authenticate [OF toy_store_reachable] toy_store_owner by blast
qed

section \<open>Deleting a user\<close>

lemma delete_user_result:
  assumes "delete_user u s = (Inr (), s')"
  shows "s' = delete_user_rows u s" "\<not> is_root_name s u"
  using assms by (auto simp: delete_user_def split: if_splits)

lemma deleted_rows:
  "iam_access_keys (delete_user_rows u s) = sql_delete (\<lambda>r. kr_username r = u) (iam_access_keys s)"
  "iam_users (delete_user_rows u s) = sql_delete (\<lambda>r. ur_username r = u) (iam_users s)"
  "iam_user_policies (delete_user_rows u s) = sql_delete (\<lambda>r. upr_username r = u) (iam_user_policies s)"
  "iam_group_members (delete_user_rows u s) = sql_delete (\<lambda>r. gm_username r = u) (iam_group_members s)"
  "iam_temporary_credentials (delete_user_rows u s) =
     sql_delete (\<lambda>r. tcr_assumed_identity r = u) (iam_temporary_credentials s)"
  "root_access_key (delete_user_rows u s) = root_access_key s"
  "encryption_key (delete_user_rows u s) = encryption_key s"
  by (simp_all add: delete_user_rows_def)

lemma deleted_user_no_owner:
  "iam_inv s \<Longrightarrow> credential_owner s kid = Some u \<Longrightarrow> credential_owner (delete_user_rows u s) kid = None"
proof -
  assume inv: "iam_inv s" and own: "credential_owner s kid = Some u"
  have uk: "unique_key tcr_access_key_id (iam_temporary_credentials s)"
    "unique_key kr_access_key_id (iam_access_keys s)"
    using inv by (simp_all add: iam_inv_defs)
  show ?thesis
  proof (cases "starts_with kid ''ASIA''")
    case True
    then obtain t where "t \<in> set (iam_temporary_credentials s)" "tcr_access_key_id t = kid"
      "tcr_assumed_identity t = u"
      using own by (auto simp: credential_owner_def dest!: sql_query_row_SomeD)
    then have "\<forall>x \<in> set (iam_temporary_credentials s). tcr_access_key_id x = kid \<longrightarrow> tcr_assumed_identity x = u"
      using unique_keyD [OF uk(1)] by metis
    then show ?thesis using True by (auto simp: credential_owner_def deleted_rows table_simps)
  next
    case False
    then obtain t where "t \<in> set (iam_access_keys s)" "kr_access_key_id t = kid" "kr_username t = u"
      using own by (auto simp: credential_owner_def dest!: sql_query_row_SomeD)
    then have "\<forall>x \<in> set (iam_access_keys s). kr_access_key_id x = kid \<longrightarrow> kr_username x = u"
      using unique_keyD [OF uk(2)] by metis
    then show ?thesis using False by (auto simp: credential_owner_def deleted_rows table_simps)
  qed
qed

lemma policies_in_force_deleted: "policies_in_force ix (delete_user_rows u s) u = {}"
  by (auto simp: policies_in_force_def user_granted_def group_granted_def deleted_rows table_simps)

text \<open>C6: deleting a user removes the user and everything that acts in its name: the user is
  no longer found, none of its permanent or temporary credentials yields a secret, and
  whatever name it had is authorized for nothing. The root user cannot be deleted.\<close>

theorem delete_user_revokes:
  assumes "iam_reachable ix s" "delete_user u s = (Inr (), s')"
  shows "get_user now u s' = Inl (UserNotFound ''unknown'')
    \<and> is_authorized ix u act res s' = Inr False
    \<and> (credential_owner s kid = Some u \<and> kid \<noteq> root_access_key s \<longrightarrow>
         (\<exists>e. fst (get_secret_key ix now kid s') = Inl e))"
proof (intro conjI impI)
  note s' = delete_user_result [OF assms(2)]
  have root: "is_root_name s' = is_root_name s" by (simp add: fun_eq_iff is_root_name_def s' deleted_rows)
  have "sql_query_row (\<lambda>r. ur_username r = u) (iam_users s') = None"
    by (auto simp: s' deleted_rows table_simps)
  then show "get_user now u s' = Inl (UserNotFound ''unknown'')"
    using s'(2) by (simp add: get_user_def root)
  show "is_authorized ix u act res s' = Inr False"
    using s'(2) by (simp add: is_authorized_eq root) (simp add: s'(1) policies_in_force_deleted)
  assume own: "credential_owner s kid = Some u \<and> kid \<noteq> root_access_key s"
  show "\<exists>e. fst (get_secret_key ix now kid s') = Inl e"
  proof (rule ccontr)
    assume "\<nexists>e. fst (get_secret_key ix now kid s') = Inl e"
    then obtain x where x: "fst (get_secret_key ix now kid s') = Inr x" by (metis sum.exhaust)
    have inv: "iam_inv s" using iam_reachable_inv [OF assms(1)] .
    then have "iam_inv s'" using delete_user_inv [of s u] assms(2) by simp
    from get_secret_key_owner [OF this x] show False
      using own deleted_user_no_owner [OF inv] by (simp add: s'(1) deleted_rows)
  qed
qed

theorem delete_user_revokes_witness:
  "get_user 30 ''alice'' (snd (delete_user ''alice'' toy_store)) = Inl (UserNotFound ''unknown'')
   \<and> (\<exists>e. fst (get_secret_key toy_iam 30 ''AKIA1'' (snd (delete_user ''alice'' toy_store))) = Inl e)"
proof -
  have d: "delete_user ''alice'' toy_store = (Inr (), snd (delete_user ''alice'' toy_store))"
    by (simp add: delete_user_def is_root_name_def toy_store_tables sql_count_def)
  show ?thesis
    using delete_user_revokes [OF toy_store_reachable d] toy_store_owner by blast
qed

section \<open>Issued credentials work\<close>

lemma store_decrypt_encrypt:
  assumes "gcm_correct (ix_crypto ix)" "encodings_correct (ix_crypto ix)" "length nonce = NONCE_SIZE"
    and "utf8_valid (as_bytes secret)" and "store_encrypt_secret ix s nonce secret = Inr enc"
  shows "decrypt_secret (ix_crypto ix) enc (encryption_key s) = Inr secret"
  using assms secret_round_trip [of "ix_crypto ix" nonce secret "encryption_key s" enc]
  by (auto simp: store_encrypt_secret_def split: sum.splits)

lemma user_active_row:
  assumes "iam_inv s" "user_active s u"
  obtains r where "r \<in> set (iam_users s)" "ur_username r = u" "ur_status r = ''active''"
    "\<And>x. x \<in> set (iam_users s) \<Longrightarrow> ur_username x = u \<Longrightarrow> x = r"
proof -
  obtain r where r: "r \<in> set (iam_users s)" "ur_username r = u" "ur_status r = ''active''"
    using assms(2) by (auto simp: user_active_def sql_exists_iff)
  have "unique_key ur_username (iam_users s)" using assms(1) by (simp add: iam_inv_defs)
  from unique_keyD [OF this] that [OF r] r show ?thesis by metis
qed

lemma get_secret_key_permanent:
  assumes inv: "iam_inv s" and "kid \<noteq> root_access_key s" "\<not> starts_with kid ''ASIA''"
    and k: "k \<in> set (iam_access_keys s)" "kr_access_key_id k = kid" "kr_status k = ''active''"
    and u: "user_active s (kr_username k)"
    and dec: "decrypt_secret (ix_crypto ix) (kr_secret_encrypted k) (encryption_key s) = Inr secret"
  shows "fst (get_secret_key ix now kid s) = Inr secret"
proof -
  obtain r where r: "r \<in> set (iam_users s)" "kr_username k = ur_username r" "ur_status r = ''active''"
    using user_active_row [OF inv u] by metis
  have "(k, r) \<in> set (active_credential_rows kid s)"
    using k r by (simp add: active_credential_rows_iff)
  then obtain k' u' rest where rows: "active_credential_rows kid s = (k', u') # rest"
    by (cases "active_credential_rows kid s") auto
  then have "k' \<in> set (iam_access_keys s)" "kr_access_key_id k' = kid" "ur_status u' = ''active''"
    using active_credential_rows_iff [of k' u' kid s] by auto
  moreover have "unique_key kr_access_key_id (iam_access_keys s)" using inv by (simp add: iam_inv_defs)
  ultimately have k': "k' = k" and u': "ur_status u' = ''active''"
    using k unique_keyD by metis+
  have "user_status_from_str ''active'' = Inr UserActive"
    "access_key_status_from_str ''active'' = Inr KeyActive" by code_simp+
  then show ?thesis
    using assms(2,3) rows k(3) u' dec
    by (simp add: get_secret_key_def get_credentials_def k' store_decrypt_secret_def Let_def)
qed

lemma created_key_authenticates:
  assumes "iam_reachable ix s" "gcm_correct (ix_crypto ix)" "encodings_correct (ix_crypto ix)"
    and "length nonce = NONCE_SIZE" "utf8_valid (as_bytes secret)"
    and "create_access_key ix now nonce secret kid u s = (Inr key, s')"
    and "kid \<noteq> root_access_key s" "\<not> starts_with kid ''ASIA''" "user_active s u"
  shows "ak_secret_access_key key = Some secret \<and> fst (get_secret_key ix later kid s') = Inr secret"
  using assms(6)
proof (cases rule: create_access_key_cases)
  case (created enc t k)
  have "iam_inv s'"
    using create_access_key_inv [OF iam_reachable_inv [OF assms(1)], of ix now nonce secret kid u] assms(6)
    by simp
  moreover have "decrypt_secret (ix_crypto ix) enc (encryption_key s') = Inr secret"
    using store_decrypt_encrypt [OF assms(2,3,4,5) created(6)] by (simp add: created(2))
  moreover have "user_active s' u" using assms(9) by (simp add: user_active_def created(2))
  ultimately have "fst (get_secret_key ix later kid s') = Inr secret"
    using assms(7,8) set_sql_insert [OF created(7)]
    by (intro get_secret_key_permanent [where k = "\<lparr>kr_access_key_id = kid, kr_secret_encrypted = enc,
          kr_username = u, kr_created_at = now, kr_status = access_key_status_as_str KeyActive,
          kr_last_used = None\<rparr>"]) (simp_all add: created(2))
  then show ?thesis using created(1,8) by simp
qed simp

text \<open>C9: a new access key works. When the store creates a key for an active user, the
  returned secret is the one signatures under that key id are checked against. This
  needs the id not to begin with \<^verbatim>\<open>ASIA\<close>, since such ids are looked up among the
  temporary credentials.\<close>

theorem created_access_key_authenticates:
  assumes "iam_reachable ix s" "gcm_correct (ix_crypto ix)" "encodings_correct (ix_crypto ix)"
    and "length nonce = NONCE_SIZE" "utf8_valid (as_bytes secret)"
    and "create_access_key ix now nonce secret kid u s = (Inr key, s')"
    and "kid \<noteq> root_access_key s" "\<not> starts_with kid ''ASIA''" "user_active s u"
  shows "ak_secret_access_key key = Some secret \<and> fst (get_secret_key ix later kid s') = Inr secret"
  by (rule created_key_authenticates [OF assms])

theorem created_access_key_authenticates_witness:
  "fst (get_secret_key toy_iam 20 ''AKIA1'' toy_store) = Inr ''s3cret''"
proof -
  let ?s = "snd (create_user 5 ''alice'' (iam_store_new toy_crypto ''admin'' ''pw''))"
  have reach: "iam_reachable toy_iam ?s"
    using reach_step [OF reach_new [of toy_iam "''admin''" "''pw''"] step_create_user]
    by (simp add: toy_iam_def)
  have empty: "iam_access_keys ?s = []" unfolding toy_user_store by (simp add: iam_store_new_def)
  obtain res where c: "create_access_key toy_iam 10 (replicate 12 0) ''s3cret'' ''AKIA1'' ''alice'' ?s = (res, toy_store)"
    unfolding toy_store_def by (metis prod.collapse)
  then obtain key where "res = Inr key"
    using empty toy_store_tables(2) by (cases rule: create_access_key_cases) auto
  with c have c': "create_access_key toy_iam 10 (replicate 12 0) ''s3cret'' ''AKIA1'' ''alice'' ?s = (Inr key, toy_store)"
    by simp
  have act: "user_active ?s ''alice''" and kid: "''AKIA1'' \<noteq> root_access_key ?s"
    unfolding toy_user_store by (simp_all add: user_active_def sql_exists_def iam_store_new_def)
  have asia: "\<not> starts_with ''AKIA1'' ''ASIA''" and utf: "utf8_valid (as_bytes ''s3cret'')" by code_simp+
  have lib: "gcm_correct (ix_crypto toy_iam)" "encodings_correct (ix_crypto toy_iam)"
    by (simp_all add: toy_iam_def)
  show ?thesis
    using created_access_key_authenticates [OF reach lib _ utf c' kid asia act] by (simp add: NONCE_SIZE_def)
qed

section \<open>Temporary credentials\<close>

lemma session_duration_bounds:
  "900 \<le> uint (session_duration d)" "uint (session_duration d) \<le> 43200"
  by (auto simp: session_duration_def Let_def word_less_def word_le_def not_less split: option.split)

lemma live_temp_row_unique:
  assumes "iam_inv s" "t \<in> set (iam_temporary_credentials s)" "tcr_access_key_id t = kid"
    and "user_active s (tcr_assumed_identity t)" "now < tcr_expiration t"
  obtains r rest where "live_temp_rows now kid s = (t, r) # rest" "r \<in> set (iam_users s)"
    "ur_status r = ''active''"
proof -
  obtain r where r: "r \<in> set (iam_users s)" "ur_username r = tcr_assumed_identity t"
    "ur_status r = ''active''" and
    uniq: "\<And>x. x \<in> set (iam_users s) \<Longrightarrow> ur_username x = tcr_assumed_identity t \<Longrightarrow> x = r"
    using user_active_row [OF assms(1,4)] by metis
  have "(t, r) \<in> set (live_temp_rows now kid s)" using assms r by (simp add: live_temp_rows_iff)
  then obtain t' r' rest where rows: "live_temp_rows now kid s = (t', r') # rest"
    by (cases "live_temp_rows now kid s") auto
  then have t': "t' \<in> set (iam_temporary_credentials s)" "tcr_access_key_id t' = kid"
    and r': "r' \<in> set (iam_users s)" "tcr_assumed_identity t' = ur_username r'"
    using live_temp_rows_iff [of t' r' now kid s] by auto
  have "unique_key tcr_access_key_id (iam_temporary_credentials s)"
    using assms(1) by (simp add: iam_inv_defs)
  then have "t' = t" using t' assms(2,3) unique_keyD by metis
  moreover from this have "r' = r" using r' uniq by metis
  ultimately show ?thesis using that [of r rest] rows r by simp
qed

lemma expired_temp_rows:
  assumes "iam_inv s" "t \<in> set (iam_temporary_credentials s)" "tcr_access_key_id t = kid"
    and "tcr_expiration t \<le> now"
  shows "live_temp_rows now kid s = []"
proof (rule ccontr)
  assume "live_temp_rows now kid s \<noteq> []"
  then obtain t' r' where "(t', r') \<in> set (live_temp_rows now kid s)"
    by (cases "live_temp_rows now kid s") auto
  then have t': "t' \<in> set (iam_temporary_credentials s)" "tcr_access_key_id t' = kid" "now < tcr_expiration t'"
    by (auto simp: live_temp_rows_iff)
  have "unique_key tcr_access_key_id (iam_temporary_credentials s)"
    using assms(1) by (simp add: iam_inv_defs)
  then have "t' = t" using t' assms(2,3) unique_keyD by metis
  then show False using t' assms(4) by simp
qed

lemma get_secret_key_temporary:
  assumes inv: "iam_inv s" and kid: "kid \<noteq> root_access_key s" "starts_with kid ''ASIA''"
    and t: "t \<in> set (iam_temporary_credentials s)" "tcr_access_key_id t = kid"
    and u: "user_active s (tcr_assumed_identity t)" and live: "now < tcr_expiration t"
    and dec: "decrypt_secret (ix_crypto ix) (tcr_secret_encrypted t) (encryption_key s) = Inr secret"
  shows "fst (get_secret_key ix now kid s) = Inr secret"
proof -
  obtain r rest where rows: "live_temp_rows now kid s = (t, r) # rest"
    and r: "r \<in> set (iam_users s)" "ur_status r = ''active''"
    using live_temp_row_unique [OF inv t u live] by metis
  have "get_temp_secret_key ix now kid s = Inr secret"
    using live user_of_row_active [OF inv r(1)] r(2)
    by (simp add: get_temp_secret_key_def get_temp_credentials_def rows dec)
  then show ?thesis using kid by (simp add: get_secret_key_def)
qed

lemma get_secret_key_expired:
  assumes "iam_inv s" "kid \<noteq> root_access_key s" "starts_with kid ''ASIA''"
    and "t \<in> set (iam_temporary_credentials s)" "tcr_access_key_id t = kid" "tcr_expiration t \<le> now"
  shows "\<exists>e. fst (get_secret_key ix now kid s) = Inl e"
  using assms expired_temp_rows [OF assms(1,4,5,6)]
  by (simp add: get_secret_key_def get_temp_secret_key_def get_temp_credentials_def)

lemma get_user_active:
  assumes "iam_inv s" "user_exists s u" "get_user now u s = Inr usr" "u_status usr = UserActive"
  shows "user_active s u"
proof -
  have "\<not> is_root_name s u"
    using assms(1,2) by (auto simp: user_exists_iff users_of_def iam_inv_def iam_users_ok_def)
  then obtain r where "r \<in> set (iam_users s)" "ur_username r = u" "usr = user_of_row r"
    using assms(3) by (auto simp: get_user_def split: option.splits dest!: sql_query_row_SomeD)
  then show ?thesis
    using user_of_row_active [OF assms(1)] assms(4) by (auto simp: user_active_def sql_exists_iff)
qed

text \<open>C8: the life of a temporary credential. The session lasts between 15 minutes and 12
  hours whatever duration was asked for. Until it ends, the issued secret authenticates
  the key id and the issued token is accepted with it (and the owner is the assumed
  user); from that instant on neither is.\<close>

theorem temporary_credential_lifetime:
  assumes "iam_reachable ix s" "gcm_correct (ix_crypto ix)" "encodings_correct (ix_crypto ix)"
    and "length nonce = NONCE_SIZE" "utf8_valid (as_bytes secret)"
    and "assume_role ix now nonce kid secret token rq s = (Inr cred, s')"
    and "starts_with kid ''ASIA''" "kid \<noteq> root_access_key s"
  shows "now + 900 * nanos_per_sec \<le> tc_expiration cred
    \<and> tc_expiration cred \<le> now + 43200 * nanos_per_sec
    \<and> credential_owner s' kid = Some (arr_username rq)
    \<and> (if later < tc_expiration cred
       then fst (get_secret_key ix later kid s') = Inr secret
         \<and> validate_session_token ix later kid token s' = Inr True
       else (\<exists>e. fst (get_secret_key ix later kid s') = Inl e)
         \<and> validate_session_token ix later kid token s' = Inr False)"
  using assms(6)
proof (cases rule: assume_role_cases)
  case (error e)
  then show ?thesis by simp
next
  case (issued enc row cred')
  have inv: "iam_inv s" using iam_reachable_inv [OF assms(1)] .
  have inv': "iam_inv s'"
    using assume_role_inv [OF inv, of ix now nonce kid secret token rq] assms(6) by simp
  have exp: "tc_expiration cred = tcr_expiration row"
    "tcr_expiration row = now + int (unat (session_duration (arr_duration_seconds rq))) * nanos_per_sec"
    using issued(1,6,9) by simp_all
  have row: "row \<in> set (iam_temporary_credentials s')" "tcr_access_key_id row = kid"
    "tcr_assumed_identity row = arr_username rq" "tcr_session_token_hash row = session_token_hash ix token"
    using issued(2,6) by simp_all
  have uniq: "x = row" if "x \<in> set (iam_temporary_credentials s')" "tcr_access_key_id x = kid" for x
    using that issued(2,8) by auto
  have bounds: "now + 900 * nanos_per_sec \<le> tcr_expiration row"
    "tcr_expiration row \<le> now + 43200 * nanos_per_sec"
    using session_duration_bounds [of "arr_duration_seconds rq"]
    by (simp_all add: exp(2) nanos_per_sec_def)
  have "unique_key tcr_access_key_id (iam_temporary_credentials s')"
    using inv' by (simp add: iam_inv_def iam_keys_ok_def)
  from sql_query_row_key [OF this, of kid row] have owner: "credential_owner s' kid = Some (arr_username rq)"
    using row assms(7) by (simp add: credential_owner_def)
  have token: "validate_session_token ix later kid token s' = Inr (later < tcr_expiration row)"
  proof -
    have "(\<exists>t \<in> set (iam_temporary_credentials s'). tcr_access_key_id t = kid
        \<and> tcr_session_token_hash t = session_token_hash ix token \<and> later < tcr_expiration t) \<longleftrightarrow>
        later < tcr_expiration row"
      using uniq row by metis
    then show ?thesis by (simp add: validate_session_token_def sql_exists_iff)
  qed
  have kid: "kid \<noteq> root_access_key s'" using assms(8) by (simp add: issued(2))
  show ?thesis
  proof (cases "later < tcr_expiration row")
    case True
    have "user_active s' (tcr_assumed_identity row)"
      using issued(3,4) get_user_active [OF inv] by (auto simp: user_active_def issued(2) row)
    moreover have "decrypt_secret (ix_crypto ix) (tcr_secret_encrypted row) (encryption_key s') = Inr secret"
      using store_decrypt_encrypt [OF assms(2,3,4,5) issued(5)] by (simp add: issued(2,6))
    ultimately have "fst (get_secret_key ix later kid s') = Inr secret"
      using get_secret_key_temporary [OF inv' kid assms(7) row(1,2) _ True] by blast
    then show ?thesis using True bounds owner token exp(1) by simp
  next
    case False
    then have "\<exists>e. fst (get_secret_key ix later kid s') = Inl e"
      using get_secret_key_expired [OF inv' kid assms(7) row(1,2), where now = later and ix = ix] by simp
    then show ?thesis using False bounds owner token exp(1) by simp
  qed
qed

definition toy_session :: iam_store where
  "toy_session = snd (assume_role toy_iam 100 (replicate 12 0) ''ASIA1'' ''temp'' ''token''
     \<lparr>arr_username = ''alice'', arr_session_name = None, arr_duration_seconds = None\<rparr> toy_store)"

theorem temporary_credential_lifetime_witness:
  "fst (get_secret_key toy_iam (101 + 3599 * nanos_per_sec) ''ASIA1'' toy_session) = Inr ''temp''
   \<and> (\<exists>e. fst (get_secret_key toy_iam (100 + 3600 * nanos_per_sec) ''ASIA1'' toy_session) = Inl e)"
proof -
  let ?rq = "\<lparr>arr_username = ''alice'', arr_session_name = None, arr_duration_seconds = None\<rparr>"
  obtain res where c: "assume_role toy_iam 100 (replicate 12 0) ''ASIA1'' ''temp'' ''token'' ?rq toy_store = (res, toy_session)"
    unfolding toy_session_def by (metis prod.collapse)
  obtain enc where enc: "store_encrypt_secret toy_iam toy_store (replicate 12 0) ''temp'' = Inr enc"
    using toy_encrypt [OF toy_store_tables(4)] by blast
  have "user_status_from_str ''active'' = Inr UserActive" by code_simp
  then have "\<exists>cred. res = Inr cred \<and> tc_expiration cred = 100 + 3600 * nanos_per_sec"
    using c unfolding assume_role_def
    by (auto simp: toy_store_tables toy_store_no_sessions get_user_def is_root_name_def sql_query_row_def
        user_of_row_def enc user_exists_def sql_exists_def sql_insert_def session_duration_def Let_def)
  then obtain cred where "res = Inr cred" and exp: "tc_expiration cred = 100 + 3600 * nanos_per_sec" by blast
  with c have c': "assume_role toy_iam 100 (replicate 12 0) ''ASIA1'' ''temp'' ''token'' ?rq toy_store = (Inr cred, toy_session)"
    by simp
  have asia: "starts_with ''ASIA1'' ''ASIA''" and utf: "utf8_valid (as_bytes ''temp'')" by code_simp+
  have lib: "gcm_correct (ix_crypto toy_iam)" "encodings_correct (ix_crypto toy_iam)"
    by (simp_all add: toy_iam_def)
  have n: "length (replicate 12 (0::byte)) = NONCE_SIZE" by (simp add: NONCE_SIZE_def)
  have root: "''ASIA1'' \<noteq> root_access_key toy_store" by (simp add: toy_store_tables)
  note life = temporary_credential_lifetime [OF toy_store_reachable lib n utf c' asia root]
  show ?thesis
    using life [of "101 + 3599 * nanos_per_sec"] life [of "100 + 3600 * nanos_per_sec"]
    by (simp add: exp nanos_per_sec_def)
qed

text \<open>C14: the root user never obtains temporary credentials. Its checks pass, since the root
  user is found and active, but it has no row that the credential could refer to: every
  attempt ends in the foreign-key error and leaves the store unchanged (a secret that
  cannot be encrypted fails earlier).\<close>

theorem assume_role_root_fails:
  assumes "iam_reachable ix s" "is_root_name s (arr_username rq)"
  shows "\<exists>e. assume_role ix now nonce kid secret token rq s = (Inl e, s)
    \<and> (e = Database ForeignKeyViolation \<or> store_encrypt_secret ix s nonce secret = Inl e)"
proof -
  have "\<not> user_exists s (arr_username rq)"
    using iam_reachable_inv [OF assms(1)] assms(2)
    by (auto simp: user_exists_iff users_of_def iam_inv_def iam_users_ok_def)
  then show ?thesis
    using assms(2)
    by (cases "store_encrypt_secret ix s nonce secret")
      (simp_all add: assume_role_def get_user_def user_root_with_username_def Let_def)
qed

theorem assume_role_root_fails_witness:
  "\<exists>e. assume_role toy_iam 100 (replicate 12 0) ''ASIA1'' ''temp'' ''token''
     \<lparr>arr_username = ''root'', arr_session_name = None, arr_duration_seconds = None\<rparr> toy_store = (Inl e, toy_store)"
  using assume_role_root_fails [OF toy_store_reachable, of
      "\<lparr>arr_username = ''root'', arr_session_name = None, arr_duration_seconds = None\<rparr>"
      100 "replicate 12 0" "''ASIA1''" "''temp''" "''token''"]
  by (auto simp: is_root_name_def)

section \<open>The decision on a request\<close>

text \<open>C1: a request whose caller is known, on a bucket or an object, is granted exactly in
  three cases: the caller is root, the identity policies authorize it, or the bucket
  policy allows it (in the default context). In particular a bucket policy is consulted
  only when the identity policies do not authorize the request, and an explicit deny of
  an identity policy is then indistinguishable from the absence of an allow.\<close>

theorem check_authorization_iff:
  assumes "svc_iam svc = Some iam" "svc_validate_session_token ix now svc creds headers = Inr ()"
    and "get_username ix now svc creds = Inr user"
    and "request_resource (Some b) key = Some res"
  shows "fst (check_authorization ix now svc creds headers act (Some b) key) = Inr () \<longleftrightarrow>
    (let a = (case from_operation act of Some a \<Rightarrow> a | None \<Rightarrow> AllActions) in
     user = ''root''
     \<or> is_authorized ix user a res iam = Inr True
     \<or> is_authorized_by_bucket_policy ix b (request_principal user) a res iam = Inr (Some Allow))"
proof -
  obtain ok where "is_authorized ix user (case from_operation act of Some a \<Rightarrow> a | None \<Rightarrow> AllActions) res iam = Inr ok"
    using is_authorized_eq by blast
  then show ?thesis
    unfolding check_authorization_def using assms
    by (auto simp: Let_def split: bool.splits option.splits sum.splits effect.splits)
qed

text \<open>A store in which the identity policy of a user denies everything while the policy of
  the bucket \<^verbatim>\<open>pics\<close> allows reads. The request is granted: the deny is not final.\<close>

definition toy_conflict :: iam_store where
  "toy_conflict = toy_store\<lparr>
     iam_user_policies := [\<lparr>upr_username = ''alice'', upr_policy_name = ''deny'', upr_policy_document = ''deny''\<rparr>],
     bucket_policies := [\<lparr>bpr_bucket = ''pics'', bpr_policy_document = ''pics'', bpr_created_at = 0, bpr_updated_at = 0\<rparr>]\<rparr>"

lemma toy_conflict_user:
  "get_username toy_iam 50 \<lparr>svc_iam = Some toy_conflict, svc_root_access_key = ''admin''\<rparr> (Some ''AKIA1'') =
     Inr ''alice''"
proof -
  obtain enc where enc: "store_encrypt_secret toy_iam toy_store (replicate 12 0) ''s3cret'' = Inr enc"
    using toy_encrypt [OF toy_store_tables(4)] by blast
  have "utf8_valid (as_bytes ''s3cret'')" by code_simp
  then have "decrypt_secret (ix_crypto toy_iam) enc (encryption_key toy_store) = Inr ''s3cret''"
    using store_decrypt_encrypt [OF _ _ _ _ enc] by (simp add: NONCE_SIZE_def toy_iam_def)
  then have "store_decrypt_secret toy_iam toy_conflict (projr (Inr enc)) = Inr ''s3cret''"
    by (simp add: store_decrypt_secret_def toy_conflict_def)
  moreover have "\<not> starts_with ''AKIA1'' ''ASIA''" by code_simp
  ultimately show ?thesis
    by (simp add: get_username_def get_credentials_def active_credential_rows_def toy_conflict_def
        toy_store_tables enc sql_select_def)
qed

theorem check_authorization_iff_witness:
  "is_authorized toy_iam ''alice'' GetObject (resource_object ''pics'' ''k'') toy_conflict = Inr False
   \<and> policy_evaluate (toy_policy ''deny'') GetObject (resource_object ''pics'' ''k'') = Some Deny
   \<and> fst (check_authorization toy_iam 50 \<lparr>svc_iam = Some toy_conflict, svc_root_access_key = ''admin''\<rparr>
        (Some ''AKIA1'') Map.empty ''GetObject'' (Some ''pics'') (Some ''k'')) = Inr ()"
proof -
  let ?svc = "\<lparr>svc_iam = Some toy_conflict, svc_root_access_key = ''admin''\<rparr>"
  have asia: "\<not> starts_with ''AKIA1'' ''ASIA''" by code_simp
  have deny: "policy_evaluate (toy_policy ''deny'') GetObject (resource_object ''pics'' ''k'') = Some Deny"
    by code_simp
  have bucket: "bucket_policy_evaluate nat_std (public_read_policy ''pics'') (User ''alice'') GetObject
      (resource_object ''pics'' ''k'') = Some Allow"
    using public_read_eval [of "''pics''" "resource_object ''pics'' ''k''" nat_std "User ''alice''"
        GetObject context_default]
    by (simp add: bucket_policy_evaluate_def resource_object_def)
  have "is_authorized_by_bucket_policy toy_iam ''pics'' (request_principal ''alice'') GetObject
      (resource_object ''pics'' ''k'') toy_conflict = Inr (Some Allow)"
    using bucket by (simp add: is_authorized_by_bucket_policy_def get_bucket_policy_def toy_conflict_def
        sql_query_row_def request_principal_def toy_iam_def)
  moreover have "is_authorized toy_iam ''alice'' GetObject (resource_object ''pics'' ''k'') toy_conflict = Inr False"
  proof -
    have "toy_policy ''deny'' \<in> policies_in_force toy_iam toy_conflict ''alice''"
      by (simp add: policies_in_force_def user_granted_def toy_conflict_def toy_iam_def)
    moreover have "\<not> is_root_name toy_conflict ''alice''"
      by (simp add: is_root_name_def toy_conflict_def toy_store_tables)
    ultimately show ?thesis using deny unfolding is_authorized_eq by blast
  qed
  ultimately show ?thesis
    using deny check_authorization_iff [of ?svc toy_conflict toy_iam 50 "Some ''AKIA1''" Map.empty "''alice''"
        "''pics''" "Some ''k''" "resource_object ''pics'' ''k''" "''GetObject''"] toy_conflict_user
    by (simp add: svc_validate_session_token_def asia request_resource_def from_operation_def)
qed

end
