(* ===== verification/Store_Types.thy ===== *)
theory Store_Types
  imports Sql_Table Core_Types Crypto
begin

text \<open>
  The data of the object store: the request and response types of
  \<^verbatim>\<open>strix-core/src/types.rs\<close>, the table rows of \<^verbatim>\<open>strix-storage/src/db.rs\<close>, and the state of
  \<^verbatim>\<open>LocalFsStore\<close>: its SQLite tables, the files below its root directory and the master key.

  Columns filled by \<^verbatim>\<open>datetime('now')\<close> hold whole seconds; the retention date is an instant.
  Sizes and counts that never wrap are natural numbers. \<^verbatim>\<open>serde_json\<close> comes in through the
  codecs of the record \<open>store_ext\<close>.
\<close>

section \<open>Requests and responses\<close>

type_synonym metadata = "string \<rightharpoonup> string"

record bucket_info =
  bi_name :: string
  bi_tenant_slug :: "string option"
  bi_created_at :: instant
  bi_versioning_enabled :: "bool option"
  bi_object_locking_enabled :: bool

record object_info =
  oi_key :: string
  oi_size :: nat
  oi_etag :: string
  oi_content_type :: "string option"
  oi_last_modified :: instant
  oi_metadata :: metadata
  oi_storage_class :: storage_class
  oi_version_id :: "string option"
  oi_is_latest :: bool
  oi_is_delete_marker :: bool
  oi_encryption :: "encryption_info option"

record create_bucket_opts =
  cb_region :: "string option"
  cb_tenant_slug :: "string option"

record tenant_info =
  ti_id :: string
  ti_name :: string
  ti_slug :: string
  ti_owner :: string
  ti_notes :: "string option"
  ti_created_at :: instant

record list_objects_opts =
  lo_prefix :: "string option"
  lo_delimiter :: "string option"
  lo_max_keys :: "u32 option"
  lo_continuation_token :: "string option"
  lo_start_after :: "string option"

record list_objects_response =
  lor_objects :: "object_info list"
  lor_common_prefixes :: "string list"
  lor_is_truncated :: bool
  lor_next_continuation_token :: "string option"

record get_object_opts =
  go_range :: "(u64 \<times> u64 option) option"
  go_if_match :: "string option"
  go_if_none_match :: "string option"
  go_if_modified_since :: "instant option"
  go_if_unmodified_since :: "instant option"
  go_version_id :: "string option"
  go_sse_customer_key :: "string option"
  go_sse_customer_key_md5 :: "string option"

record put_object_opts =
  po_content_type :: "string option"
  po_content_encoding :: "string option"
  po_content_disposition :: "string option"
  po_cache_control :: "string option"
  po_metadata :: metadata
  po_storage_class :: "storage_class option"
  po_server_side_encryption :: "server_side_encryption option"
  po_sse_customer_key :: "string option"
  po_sse_customer_key_md5 :: "string option"

record put_object_response =
  por_etag :: string
  por_version_id :: "string option"

datatype metadata_directive = CopyMetadata | ReplaceMetadata

record copy_object_opts =
  co_metadata_directive :: metadata_directive
  co_metadata :: metadata

record copy_object_response =
  cor_etag :: string
  cor_last_modified :: instant
  cor_version_id :: "string option"

record multipart_upload =
  mu_upload_id :: string
  mu_bucket :: string
  mu_key :: string
  mu_initiated :: instant

record part_info =
  pi_part_number :: u16
  pi_etag :: string
  pi_size :: nat
  pi_last_modified :: instant

record complete_part =
  cp_part_number :: u16
  cp_etag :: string

record list_parts_opts =
  lp_max_parts :: "u32 option"
  lp_part_number_marker :: "u16 option"

record list_parts_response =
  lpr_parts :: "part_info list"
  lpr_is_truncated :: bool
  lpr_next_part_number_marker :: "u16 option"

record list_uploads_opts =
  lu_prefix :: "string option"
  lu_delimiter :: "string option"
  lu_max_uploads :: "u32 option"
  lu_key_marker :: "string option"
  lu_upload_id_marker :: "string option"

record list_uploads_response =
  lur_uploads :: "multipart_upload list"
  lur_common_prefixes :: "string list"
  lur_is_truncated :: bool
  lur_next_key_marker :: "string option"
  lur_next_upload_id_marker :: "string option"

record delete_object_response =
  dor_delete_marker :: bool
  dor_version_id :: "string option"

record list_versions_opts =
  lv_prefix :: "string option"
  lv_delimiter :: "string option"
  lv_max_keys :: "u32 option"
  lv_key_marker :: "string option"
  lv_version_id_marker :: "string option"

record object_version =
  ov_key :: string
  ov_version_id :: string
  ov_is_latest :: bool
  ov_is_delete_marker :: bool
  ov_last_modified :: instant
  ov_etag :: "string option"
  ov_size :: "nat option"
  ov_storage_class :: "storage_class option"

record list_versions_response =
  lvr_versions :: "object_version list"
  lvr_delete_markers :: "object_version list"
  lvr_common_prefixes :: "string list"
  lvr_is_truncated :: bool
  lvr_next_key_marker :: "string option"
  lvr_next_version_id_marker :: "string option"

section \<open>Bucket configurations\<close>

record cors_rule =
  cr_id :: "string option"
  cr_allowed_origins :: "string list"
  cr_allowed_methods :: "cors_method list"
  cr_allowed_headers :: "string list"
  cr_expose_headers :: "string list"
  cr_max_age_seconds :: "u32 option"

record cors_configuration =
  cors_rules :: "cors_rule list"

record default_retention =
  dr_mode :: retention_mode
  dr_days :: "u32 option"
  dr_years :: "u32 option"

record object_lock_rule =
  olr_default_retention :: "default_retention option"

record object_lock_configuration =
  olc_enabled :: bool
  olc_rule :: "object_lock_rule option"

record object_retention =
  ret_mode :: retention_mode
  ret_retain_until_date :: instant

record lifecycle_expiration =
  le_days :: "u32 option"
  le_date :: "instant option"
  le_expired_object_delete_marker :: bool

record lifecycle_transition =
  lt_days :: "u32 option"
  lt_date :: "instant option"
  lt_storage_class :: storage_class

record noncurrent_version_expiration =
  nve_noncurrent_days :: u32
  nve_newer_noncurrent_versions :: "u32 option"

record abort_incomplete_multipart_upload =
  aim_days_after_initiation :: u32

record lifecycle_rule =
  lr_id :: string
  lr_enabled :: bool
  lr_prefix :: "string option"
  lr_tags :: "(string \<times> string) list"
  lr_expiration :: "lifecycle_expiration option"
  lr_transitions :: "lifecycle_transition list"
  lr_noncurrent_version_expiration :: "noncurrent_version_expiration option"
  lr_abort_incomplete_multipart_upload :: "abort_incomplete_multipart_upload option"

record lifecycle_configuration =
  lifecycle_rules :: "lifecycle_rule list"

datatype s3_event_type =
    ObjectCreatedAll | ObjectCreatedPut | ObjectCreatedPost | ObjectCreatedCopy
  | ObjectCreatedCompleteMultipartUpload | ObjectRemovedAll | ObjectRemovedDelete
  | ObjectRemovedDeleteMarkerCreated

fun s3_event_type_to_string :: "s3_event_type \<Rightarrow> string" where
  "s3_event_type_to_string ObjectCreatedAll = ''s3:ObjectCreated:*''"
| "s3_event_type_to_string ObjectCreatedPut = ''s3:ObjectCreated:Put''"
| "s3_event_type_to_string ObjectCreatedPost = ''s3:ObjectCreated:Post''"
| "s3_event_type_to_string ObjectCreatedCopy = ''s3:ObjectCreated:Copy''"
| "s3_event_type_to_string ObjectCreatedCompleteMultipartUpload = ''s3:ObjectCreated:CompleteMultipartUpload''"
| "s3_event_type_to_string ObjectRemovedAll = ''s3:ObjectRemoved:*''"
| "s3_event_type_to_string ObjectRemovedDelete = ''s3:ObjectRemoved:Delete''"
| "s3_event_type_to_string ObjectRemovedDeleteMarkerCreated = ''s3:ObjectRemoved:DeleteMarkerCreated''"

datatype notification_destination =
    Webhook string
  | Amqp string string string
  | Kafka "string list" string
  | Redis string string

record notification_filter =
  nf_prefix :: "string option"
  nf_suffix :: "string option"

record notification_rule =
  nr_id :: string
  nr_events :: "s3_event_type list"
  nr_filter :: notification_filter
  nr_destination :: notification_destination

record notification_configuration =
  notification_rules :: "notification_rule list"

record tag =
  tag_key :: string
  tag_value :: string

record tagging_configuration =
  tc_tags :: "tag list"

section \<open>Logs\<close>

record audit_log_entry =
  al_id :: string
  al_timestamp :: instant
  al_operation :: string
  al_bucket :: "string option"
  al_key :: "string option"
  al_principal :: "string option"
  al_source_ip :: "string option"
  al_status_code :: u16
  al_error_code :: "string option"
  al_duration_ms :: "nat option"
  al_bytes_sent :: "nat option"
  al_request_id :: string

record audit_query_opts =
  aq_bucket :: "string option"
  aq_key_prefix :: "string option"
  aq_operation :: "string option"
  aq_principal :: "string option"
  aq_start_time :: "instant option"
  aq_end_time :: "instant option"
  aq_limit :: "u32 option"
  aq_offset :: "u32 option"

record notification_delivery_attempt =
  nd_id :: string
  nd_timestamp :: instant
  nd_bucket :: string
  nd_rule_id :: string
  nd_destination_type :: string
  nd_target :: string
  nd_event_type :: string
  nd_object_key :: string
  nd_attempts :: u32
  nd_status :: delivery_status
  nd_response_code :: "u16 option"
  nd_last_error :: "string option"

record delivery_query_opts =
  dq_bucket :: "string option"
  dq_rule_id :: "string option"
  dq_status :: "delivery_status option"
  dq_limit :: "u32 option"
  dq_offset :: "u32 option"

section \<open>Rows and the store\<close>

record bucket_row =
  br_name :: string
  br_tenant_slug :: "string option"
  br_region :: "string option"
  br_versioning_status :: string
  br_object_lock_enabled :: bool
  br_created_at :: seconds

record tenant_row =
  tr_id :: string
  tr_name :: string
  tr_slug :: string
  tr_owner :: string
  tr_notes :: "string option"
  tr_created_at :: seconds

record object_row =
  o_id :: string
  o_bucket :: string
  o_key :: string
  o_version_id :: string
  o_size :: nat
  o_etag :: string
  o_content_type :: "string option"
  o_content_encoding :: "string option"
  o_content_disposition :: "string option"
  o_cache_control :: "string option"
  o_storage_class :: string
  o_user_metadata :: "string option"
  o_is_multipart :: bool
  o_part_count :: "nat option"
  o_is_latest :: bool
  o_is_delete_marker :: bool
  o_encryption_algorithm :: "string option"
  o_encryption_key_md5 :: "string option"
  o_encryption_nonce :: "string option"
  o_retention_mode :: "string option"
  o_retain_until_date :: "instant option"
  o_legal_hold :: bool
  o_created_at :: seconds
  o_last_modified :: seconds

record upload_row =
  up_upload_id :: string
  up_bucket :: string
  up_key :: string
  up_content_type :: "string option"
  up_content_encoding :: "string option"
  up_content_disposition :: "string option"
  up_cache_control :: "string option"
  up_storage_class :: string
  up_user_metadata :: "string option"
  up_encryption_algorithm :: "string option"
  up_encryption_key_md5 :: "string option"
  up_initiated_at :: seconds

record part_row =
  pt_upload_id :: string
  pt_part_number :: nat
  pt_blob_id :: string
  pt_size :: nat
  pt_etag :: string
  pt_created_at :: seconds

text \<open>One row of \<^verbatim>\<open>bucket_cors\<close>, \<^verbatim>\<open>bucket_object_lock\<close>, \<^verbatim>\<open>bucket_lifecycle\<close>,
  \<^verbatim>\<open>bucket_notification\<close> or \<^verbatim>\<open>bucket_tags\<close>: the bucket and the document.\<close>

record config_row =
  cfg_bucket :: string
  cfg_json :: string

record local_store =
  buckets :: "bucket_row list"
  tenants :: "tenant_row list"
  objects :: "object_row list"
  multipart_uploads :: "upload_row list"
  parts :: "part_row list"
  bucket_cors :: "config_row list"
  bucket_object_lock :: "config_row list"
  bucket_lifecycle :: "config_row list"
  bucket_notification :: "config_row list"
  bucket_tags :: "config_row list"
  audit_log :: "audit_log_entry list"
  notification_delivery :: "notification_delivery_attempt list"
  files :: "string \<rightharpoonup> bytes"
  master_key :: bytes

type_synonym 'c json_codec = "('c \<Rightarrow> string option) \<times> (string \<Rightarrow> 'c option)"

record store_ext =
  sx_crypto :: crypto_lib
  sx_metadata :: "metadata json_codec"
  sx_cors :: "cors_configuration json_codec"
  sx_object_lock :: "object_lock_configuration json_codec"
  sx_lifecycle :: "lifecycle_configuration json_codec"
  sx_notification :: "notification_configuration json_codec"
  sx_tagging :: "tagging_configuration json_codec"

type_synonym 'a store_result = "('a, strix_error) result"

text \<open>A failed statement, without SQLite's message.\<close>

definition db_err :: strix_error where
  "db_err = Internal ''Database error: ''"

definition store_empty :: "bytes \<Rightarrow> local_store" where
  "store_empty mk = \<lparr>buckets = [], tenants = [], objects = [], multipart_uploads = [], parts = [],
     bucket_cors = [], bucket_object_lock = [], bucket_lifecycle = [], bucket_notification = [],
     bucket_tags = [], audit_log = [], notification_delivery = [], files = Map.empty, master_key = mk\<rparr>"

end
