(* ===== verification/Local_Fs.thy ===== *)
theory Local_Fs
  imports Store_Types
begin

text \<open>
  \<^verbatim>\<open>strix-storage/src/localfs.rs\<close>, first part: the files below the root directory, the
  master key, the encryption of objects, and the operations on buckets and tenants.

  A file is addressed by its path relative to the root. A statement or a file operation
  fails only for the reasons the schema and the directory tree give: a violated constraint
  or a missing file.
\<close>

section \<open>Files\<close>

definition blob_path :: "string \<Rightarrow> string" where
  "blob_path object_id =
     (let prefix1 = take 2 object_id; prefix2 = take 2 (drop 2 object_id)
      in ''objects/'' @ prefix1 @ ''/'' @ prefix2 @ ''/'' @ object_id @ ''.blob'')"

definition tmp_path :: "string \<Rightarrow> string" where
  "tmp_path tid = ''tmp/'' @ tid @ ''.tmp''"

text \<open>\<^verbatim>\<open>{:05}\<close>: at least five digits.\<close>

definition show_05 :: "nat \<Rightarrow> string" where
  "show_05 n = replicate (5 - length (show_nat n)) CHR ''0'' @ show_nat n"

definition part_path :: "string \<Rightarrow> u16 \<Rightarrow> string" where
  "part_path upload_id part_number =
     ''multipart/'' @ upload_id @ ''/'' @ show_05 (unat part_number) @ ''.part''"

definition fs_write :: "string \<Rightarrow> bytes \<Rightarrow> local_store \<Rightarrow> local_store" where
  "fs_write path data s = s\<lparr>files := (files s)(path \<mapsto> data)\<rparr>"

definition fs_remove :: "string \<Rightarrow> local_store \<Rightarrow> local_store" where
  "fs_remove path s = s\<lparr>files := (files s)(path := None)\<rparr>"

definition fs_rename :: "string \<Rightarrow> string \<Rightarrow> local_store \<Rightarrow> local_store" where
  "fs_rename src dst s = s\<lparr>files := (files s)(src := None, dst := files s src)\<rparr>"

text \<open>\<^verbatim>\<open>fs::remove_dir_all\<close>.\<close>

definition fs_remove_dir :: "string \<Rightarrow> local_store \<Rightarrow> local_store" where
  "fs_remove_dir dir s =
     s\<lparr>files := (\<lambda>path. if starts_with path (dir @ ''/'') then None else files s path)\<rparr>"

section \<open>The master key\<close>

text \<open>The key file is read when it exists and must hold 32 bytes, else a fresh key is
  written. Its permission bits are not part of the model.\<close>

definition key_path :: string where "key_path = ''meta/encryption.key''"

definition load_or_create_master_key ::
  "bytes \<Rightarrow> (string \<rightharpoonup> bytes) \<Rightarrow> bytes store_result \<times> (string \<rightharpoonup> bytes)" where
  "load_or_create_master_key fresh fs =
     (case fs key_path of
        Some key_data \<Rightarrow>
          if length key_data \<noteq> KEY_SIZE then (Inl (Internal ''Invalid encryption key file size''), fs)
          else (Inr key_data, fs)
      | None \<Rightarrow> (Inr fresh, fs(key_path \<mapsto> fresh)))"

section \<open>Encryption of objects\<close>

definition derive_object_key ::
  "store_ext \<Rightarrow> local_store \<Rightarrow> string \<Rightarrow> string \<Rightarrow> string \<Rightarrow> bytes" where
  "derive_object_key ix s bucket key version_id =
     (let context = ''object:'' @ bucket @ '':'' @ key @ '':'' @ version_id
      in derive_key (sx_crypto ix) (master_key s) (as_bytes context))"

definition encryption_failed :: "(bytes, encryption_error) result \<Rightarrow> bytes store_result" where
  "encryption_failed r =
     (case r of Inl e \<Rightarrow> Inl (Internal (''Encryption failed: '' @ encryption_error_to_string e))
      | Inr c \<Rightarrow> Inr c)"

definition decryption_failed :: "(bytes, encryption_error) result \<Rightarrow> bytes store_result" where
  "decryption_failed r =
     (case r of Inl e \<Rightarrow> Inl (Internal (''Decryption failed: '' @ encryption_error_to_string e))
      | Inr c \<Rightarrow> Inr c)"

definition encrypt_sse_s3 ::
  "store_ext \<Rightarrow> bytes \<Rightarrow> local_store \<Rightarrow> string \<Rightarrow> string \<Rightarrow> string \<Rightarrow> bytes \<Rightarrow> bytes store_result" where
  "encrypt_sse_s3 ix nonce s bucket key version_id data =
     encryption_failed
       (encrypt_aes256_gcm (sx_crypto ix) nonce (derive_object_key ix s bucket key version_id) data)"

definition decrypt_sse_s3 ::
  "store_ext \<Rightarrow> local_store \<Rightarrow> string \<Rightarrow> string \<Rightarrow> string \<Rightarrow> bytes \<Rightarrow> bytes store_result" where
  "decrypt_sse_s3 ix s bucket key version_id ciphertext =
     decryption_failed
       (decrypt_aes256_gcm (sx_crypto ix) (derive_object_key ix s bucket key version_id) ciphertext)"

definition encrypt_sse_c :: "store_ext \<Rightarrow> bytes \<Rightarrow> bytes \<Rightarrow> bytes \<Rightarrow> bytes store_result" where
  "encrypt_sse_c ix nonce key data =
     encryption_failed (encrypt_aes256_gcm (sx_crypto ix) nonce key data)"

definition decrypt_sse_c :: "store_ext \<Rightarrow> bytes \<Rightarrow> bytes \<Rightarrow> bytes store_result" where
  "decrypt_sse_c ix key ciphertext =
     decryption_failed (decrypt_aes256_gcm (sx_crypto ix) key ciphertext)"

definition checked_sse_c_key ::
  "store_ext \<Rightarrow> string \<Rightarrow> string option \<Rightarrow> bytes store_result" where
  "checked_sse_c_key ix key_b64 md5 =
     (case validate_sse_c_key (sx_crypto ix) key_b64 md5 of
        Inl e \<Rightarrow> Inl (InvalidArgument (''Invalid SSE-C key: '' @ encryption_error_to_string e))
      | Inr k \<Rightarrow> Inr k)"

section \<open>Buckets\<close>

definition validate_bucket_name :: "string \<Rightarrow> unit store_result" where
  "validate_bucket_name name =
     (if length name < 3 \<or> length name > 63
      then Inl (InvalidBucketName ''Bucket name must be 3-63 characters'')
      else if starts_with name ''-'' \<or> ends_with name ''-''
      then Inl (InvalidBucketName ''Bucket name cannot start or end with hyphen'')
      else if \<not> list_all (\<lambda>c. is_ascii_lowercase c \<or> is_ascii_digit c \<or> c = CHR ''-'' \<or> c = CHR ''.'') name
      then Inl (InvalidBucketName
        ''Bucket name can only contain lowercase letters, numbers, hyphens, and periods'')
      else Inr ())"

definition find_bucket :: "string \<Rightarrow> local_store \<Rightarrow> bucket_row option" where
  "find_bucket bucket s = sql_query_row (\<lambda>r. br_name r = bucket) (buckets s)"

definition bucket_exists :: "string \<Rightarrow> local_store \<Rightarrow> bool" where
  "bucket_exists bucket s = (find_bucket bucket s \<noteq> None)"

definition create_bucket ::
  "instant \<Rightarrow> string \<Rightarrow> create_bucket_opts \<Rightarrow> local_store \<Rightarrow> unit store_result \<times> local_store" where
  "create_bucket now bucket opts s =
     (case validate_bucket_name bucket of
        Inl e \<Rightarrow> (Inl e, s)
      | Inr _ \<Rightarrow>
          let row = \<lparr>br_name = bucket, br_tenant_slug = cb_tenant_slug opts, br_region = cb_region opts,
                br_versioning_status = ''Unversioned'', br_object_lock_enabled = False,
                br_created_at = sql_datetime now\<rparr>
          in (case sql_insert br_name row (buckets s) of
                None \<Rightarrow> (Inl (BucketAlreadyExists bucket), s)
              | Some t \<Rightarrow> (Inr (), s\<lparr>buckets := t\<rparr>)))"

text \<open>\<^verbatim>\<open>DELETE FROM buckets\<close> with the \<^verbatim>\<open>ON DELETE CASCADE\<close> of every table that refers to it.\<close>

definition delete_bucket_rows :: "string \<Rightarrow> local_store \<Rightarrow> local_store" where
  "delete_bucket_rows bucket s =
     (let uploads = map up_upload_id (sql_select (\<lambda>u. up_bucket u = bucket) (multipart_uploads s));
          configs = sql_delete (\<lambda>c. cfg_bucket c = bucket)
      in s\<lparr>buckets := sql_delete (\<lambda>r. br_name r = bucket) (buckets s),
           objects := sql_delete (\<lambda>r. o_bucket r = bucket) (objects s),
           multipart_uploads := sql_delete (\<lambda>u. up_bucket u = bucket) (multipart_uploads s),
           parts := sql_delete (\<lambda>p. pt_upload_id p \<in> set uploads) (parts s),
           bucket_cors := configs (bucket_cors s),
           bucket_object_lock := configs (bucket_object_lock s),
           bucket_lifecycle := configs (bucket_lifecycle s),
           bucket_notification := configs (bucket_notification s),
           bucket_tags := configs (bucket_tags s)\<rparr>)"

definition delete_bucket :: "string \<Rightarrow> local_store \<Rightarrow> unit store_result \<times> local_store" where
  "delete_bucket bucket s =
     (if \<not> bucket_exists bucket s then (Inl (BucketNotFound bucket), s)
      else if sql_exists (\<lambda>r. o_bucket r = bucket) (objects s) then (Inl (BucketNotEmpty bucket), s)
      else (Inr (), delete_bucket_rows bucket s))"

definition versioning_enabled :: "string \<Rightarrow> bool option" where
  "versioning_enabled status =
     (case versioning_from_db_str status of
        Unversioned \<Rightarrow> None | VersioningEnabled \<Rightarrow> Some True | VersioningSuspended \<Rightarrow> Some False)"

definition bucket_info_of_row :: "bucket_row \<Rightarrow> bucket_info" where
  "bucket_info_of_row r =
     \<lparr>bi_name = br_name r, bi_tenant_slug = br_tenant_slug r,
      bi_created_at = of_sql_datetime (br_created_at r),
      bi_versioning_enabled = versioning_enabled (br_versioning_status r),
      bi_object_locking_enabled = br_object_lock_enabled r\<rparr>"

definition list_buckets :: "local_store \<Rightarrow> bucket_info list" where
  "list_buckets s = map bucket_info_of_row (sort_key br_name (buckets s))"

definition head_bucket :: "string \<Rightarrow> local_store \<Rightarrow> bucket_info store_result" where
  "head_bucket bucket s =
     (case find_bucket bucket s of
        Some r \<Rightarrow> Inr (bucket_info_of_row r) | None \<Rightarrow> Inl (BucketNotFound bucket))"

text \<open>Number and total size of the object rows of a bucket; every version counts.\<close>

definition get_bucket_usage :: "string \<Rightarrow> local_store \<Rightarrow> nat \<times> nat" where
  "get_bucket_usage bucket s =
     (let rows = sql_select (\<lambda>r. o_bucket r = bucket) (objects s)
      in (length rows, sum_list (map o_size rows)))"

definition set_bucket_versioning ::
  "string \<Rightarrow> bool \<Rightarrow> local_store \<Rightarrow> unit store_result \<times> local_store" where
  "set_bucket_versioning bucket enabled s =
     (let status = (if enabled then VersioningEnabled else VersioningSuspended);
          matches = (\<lambda>r. br_name r = bucket)
      in if sql_count matches (buckets s) = 0 then (Inl (BucketNotFound bucket), s)
         else (Inr (), s\<lparr>buckets := sql_update matches
             (br_versioning_status_update (\<lambda>_. versioning_as_str status)) (buckets s)\<rparr>))"

definition get_bucket_versioning :: "string \<Rightarrow> local_store \<Rightarrow> bool option store_result" where
  "get_bucket_versioning bucket s =
     (case find_bucket bucket s of
        None \<Rightarrow> Inl (BucketNotFound bucket)
      | Some r \<Rightarrow> Inr (versioning_enabled (br_versioning_status r)))"

section \<open>Tenants\<close>

definition tenant_info_of_row :: "tenant_row \<Rightarrow> tenant_info" where
  "tenant_info_of_row r =
     \<lparr>ti_id = tr_id r, ti_name = tr_name r, ti_slug = tr_slug r, ti_owner = tr_owner r,
      ti_notes = tr_notes r, ti_created_at = of_sql_datetime (tr_created_at r)\<rparr>"

definition list_tenants :: "local_store \<Rightarrow> tenant_info list" where
  "list_tenants s = map tenant_info_of_row (sort_key tr_slug (tenants s))"

definition get_tenant :: "string \<Rightarrow> local_store \<Rightarrow> tenant_info store_result" where
  "get_tenant slug s =
     (case sql_query_row (\<lambda>r. tr_slug r = slug) (tenants s) of
        Some r \<Rightarrow> Inr (tenant_info_of_row r) | None \<Rightarrow> Inl (TenantNotFound slug))"

text \<open>Both the id and the slug are unique.\<close>

definition create_tenant ::
  "instant \<Rightarrow> string \<Rightarrow> string \<Rightarrow> string \<Rightarrow> string \<Rightarrow> string option \<Rightarrow> local_store \<Rightarrow>
     tenant_info store_result \<times> local_store" where
  "create_tenant now tid name slug owner notes s =
     (let row = \<lparr>tr_id = tid, tr_name = name, tr_slug = slug, tr_owner = owner, tr_notes = notes,
            tr_created_at = sql_datetime now\<rparr>
      in if sql_exists (\<lambda>r. tr_slug r = slug) (tenants s) then (Inl (TenantAlreadyExists slug), s)
         else case sql_insert tr_id row (tenants s) of
           None \<Rightarrow> (Inl (TenantAlreadyExists slug), s)
         | Some t \<Rightarrow> let s' = s\<lparr>tenants := t\<rparr> in (get_tenant slug s', s'))"

definition delete_tenant :: "string \<Rightarrow> local_store \<Rightarrow> unit store_result \<times> local_store" where
  "delete_tenant slug s =
     (if sql_count (\<lambda>r. br_tenant_slug r = Some slug) (buckets s) > 0
      then (Inl (InvalidArgument ''cannot delete tenant with existing buckets''), s)
      else
        let matches = (\<lambda>r. tr_slug r = slug)
        in if sql_count matches (tenants s) = 0 then (Inl (TenantNotFound slug), s)
           else (Inr (), s\<lparr>tenants := sql_delete matches (tenants s)\<rparr>))"

end
