(* ===== verification/Objects.thy ===== *)
theory Objects
  imports Local_Fs
begin

text \<open>
  \<^verbatim>\<open>strix-storage/src/localfs.rs\<close>: reading, writing, copying and deleting objects and their
  versions.

  The ULID of a new row, the random nonce of an encryption and the current time are
  arguments. A request body is the list of its chunks, a failing chunk being the I/O error
  that ends the stream. Where a query may return several rows without an order, the model
  takes the oldest insertion.
\<close>

section \<open>Rows\<close>

text \<open>The row that a lookup by version id, or by the flag \<^verbatim>\<open>is_latest\<close>, returns.\<close>

definition find_object :: "string \<Rightarrow> string \<Rightarrow> string option \<Rightarrow> local_store \<Rightarrow> object_row option" where
  "find_object bucket key version_id s =
     sql_query_row (\<lambda>r. o_bucket r = bucket \<and> o_key r = key
       \<and> (case version_id of Some vid \<Rightarrow> o_version_id r = vid | None \<Rightarrow> o_is_latest r)) (objects s)"

text \<open>The column defaults of the schema.\<close>

definition object_row_default :: "seconds \<Rightarrow> object_row" where
  "object_row_default t =
     \<lparr>o_id = [], o_bucket = [], o_key = [], o_version_id = [], o_size = 0, o_etag = [],
      o_content_type = None, o_content_encoding = None, o_content_disposition = None,
      o_cache_control = None, o_storage_class = ''STANDARD'', o_user_metadata = None,
      o_is_multipart = False, o_part_count = None, o_is_latest = True, o_is_delete_marker = False,
      o_encryption_algorithm = None, o_encryption_key_md5 = None, o_encryption_nonce = None,
      o_retention_mode = None, o_retain_until_date = None, o_legal_hold = False,
      o_created_at = t, o_last_modified = t\<rparr>"

text \<open>\<^verbatim>\<open>INSERT INTO objects\<close>: refused for a known id or an unknown bucket.\<close>

definition insert_object :: "object_row \<Rightarrow> local_store \<Rightarrow> local_store option" where
  "insert_object row s =
     (if \<not> bucket_exists (o_bucket row) s then None
      else map_option (\<lambda>t. s\<lparr>objects := t\<rparr>) (sql_insert o_id row (objects s)))"

definition same_key :: "string \<Rightarrow> string \<Rightarrow> object_row \<Rightarrow> bool" where
  "same_key bucket key r = (o_bucket r = bucket \<and> o_key r = key)"

text \<open>The two statements that make a row the current version: the older versions lose the
  flag in a versioned bucket and are deleted in any other, then the row is inserted. They
  are no transaction: a refused insert leaves the first statement's effect.\<close>

definition replace_current :: "bool \<Rightarrow> object_row \<Rightarrow> local_store \<Rightarrow> bool \<times> local_store" where
  "replace_current is_versioned row s =
     (let same = same_key (o_bucket row) (o_key row);
          objs = (if is_versioned then sql_update same (o_is_latest_update (\<lambda>_. False)) (objects s)
                  else sql_delete same (objects s));
          s1 = s\<lparr>objects := objs\<rparr>
      in case insert_object row s1 of None \<Rightarrow> (False, s1) | Some s2 \<Rightarrow> (True, s2))"

definition visible_version_id :: "object_row \<Rightarrow> string option" where
  "visible_version_id r = (if o_version_id r = ''null'' then None else Some (o_version_id r))"

definition row_metadata :: "store_ext \<Rightarrow> object_row \<Rightarrow> metadata" where
  "row_metadata ix r =
     (case Option.bind (o_user_metadata r) (snd (sx_metadata ix)) of Some m \<Rightarrow> m | None \<Rightarrow> Map.empty)"

definition object_info_of_row :: "store_ext \<Rightarrow> object_row \<Rightarrow> object_info" where
  "object_info_of_row ix r =
     \<lparr>oi_key = o_key r, oi_size = o_size r, oi_etag = o_etag r, oi_content_type = o_content_type r,
      oi_last_modified = of_sql_datetime (o_last_modified r), oi_metadata = row_metadata ix r,
      oi_storage_class = parse_storage_class (o_storage_class r),
      oi_version_id = visible_version_id r, oi_is_latest = o_is_latest r,
      oi_is_delete_marker = o_is_delete_marker r,
      oi_encryption = parse_encryption_info (o_encryption_algorithm r) (o_encryption_key_md5 r)\<rparr>"

section \<open>Reading\<close>

text \<open>The conditional headers, in the order of the code.\<close>

definition check_preconditions :: "get_object_opts \<Rightarrow> object_row \<Rightarrow> unit store_result" where
  "check_preconditions opts r =
     (let unquote = trim_matches (CHR 0x22); etag = unquote (o_etag r);
          last_modified = of_sql_datetime (o_last_modified r) in
      if (case go_if_match opts of None \<Rightarrow> False
          | Some m \<Rightarrow> etag \<noteq> unquote m \<and> m \<noteq> ''*'') then Inl PreconditionFailed
      else if (case go_if_none_match opts of None \<Rightarrow> False
          | Some m \<Rightarrow> etag = unquote m \<or> m = ''*'') then Inl NotModified
      else if (case go_if_modified_since opts of None \<Rightarrow> False
          | Some t \<Rightarrow> last_modified \<le> t) then Inl NotModified
      else if (case go_if_unmodified_since opts of None \<Rightarrow> False
          | Some t \<Rightarrow> last_modified > t) then Inl PreconditionFailed
      else Inr ())"

definition decrypt_object ::
  "store_ext \<Rightarrow> local_store \<Rightarrow> string \<Rightarrow> string \<Rightarrow> get_object_opts \<Rightarrow> object_row \<Rightarrow> bytes \<Rightarrow>
     bytes store_result" where
  "decrypt_object ix s bucket key opts r ciphertext =
     (case parse_encryption_info (o_encryption_algorithm r) (o_encryption_key_md5 r) of
        None \<Rightarrow> Inr ciphertext
      | Some enc \<Rightarrow>
          (case ei_algorithm enc of
             Aes256 \<Rightarrow>
               let vid = (case visible_version_id r of Some v \<Rightarrow> v | None \<Rightarrow> ''null'')
               in decrypt_sse_s3 ix s bucket key vid ciphertext
           | SseC \<Rightarrow>
               (case go_sse_customer_key opts of
                  None \<Rightarrow> Inl (InvalidArgument ''Object is encrypted with SSE-C, customer key required'')
                | Some key_b64 \<Rightarrow>
                    (case checked_sse_c_key ix key_b64 (go_sse_customer_key_md5 opts) of
                       Inl e \<Rightarrow> Inl e
                     | Inr sse_key \<Rightarrow> decrypt_sse_c ix sse_key ciphertext))))"

text \<open>Start and length of the part of the plaintext that a range selects.\<close>

definition resolve_range ::
  "(u64 \<times> u64 option) option \<Rightarrow> nat \<Rightarrow> (nat \<times> nat) store_result" where
  "resolve_range req total_size =
     (case req of
        None \<Rightarrow> Inr (0, total_size)
      | Some (req_start, req_end) \<Rightarrow>
          if total_size = 0 then Inl (InvalidRange ''Range requested on empty object'')
          else
            let start = unat req_start in
            if start \<ge> total_size then
              Inl (InvalidRange (''Range start '' @ show_nat start @ '' beyond object size '' @ show_nat total_size))
            else
              let range_end = (case req_end of Some e \<Rightarrow> unat e | None \<Rightarrow> total_size - 1) in
              if range_end < start then
                Inl (InvalidRange (''Range end '' @ show_nat range_end @ '' before start '' @ show_nat start))
              else
                let clamped_end = min range_end (total_size - 1)
                in Inr (start, clamped_end - start + 1))"

definition get_object ::
  "store_ext \<Rightarrow> string \<Rightarrow> string \<Rightarrow> get_object_opts \<Rightarrow> local_store \<Rightarrow> (object_info \<times> bytes) store_result" where
  "get_object ix bucket key opts s =
     (case find_object bucket key (go_version_id opts) s of
        None \<Rightarrow> Inl (ObjectNotFound bucket key)
      | Some r \<Rightarrow>
          if o_is_delete_marker r then Inl (ObjectNotFound bucket key)
          else case check_preconditions opts r of
            Inl e \<Rightarrow> Inl e
          | Inr _ \<Rightarrow>
              (case files s (blob_path (o_id r)) of
                 None \<Rightarrow> Inl (ObjectNotFound bucket key)
               | Some ciphertext \<Rightarrow>
                   (case decrypt_object ix s bucket key opts r ciphertext of
                      Inl e \<Rightarrow> Inl e
                    | Inr plaintext \<Rightarrow>
                        (case resolve_range (go_range opts) (length plaintext) of
                           Inl e \<Rightarrow> Inl e
                         | Inr (start, len) \<Rightarrow>
                             Inr (object_info_of_row ix r,
                               take (min len (length plaintext - start)) (drop start plaintext))))))"

definition head_object ::
  "store_ext \<Rightarrow> string \<Rightarrow> string \<Rightarrow> local_store \<Rightarrow> object_info store_result" where
  "head_object ix bucket key s =
     (case find_object bucket key None s of
        None \<Rightarrow> Inl (ObjectNotFound bucket key)
      | Some r \<Rightarrow>
          if o_is_delete_marker r then Inl (ObjectNotFound bucket key)
          else Inr (object_info_of_row ix r))"

section \<open>Writing\<close>

text \<open>The bytes received before the stream ends or fails.\<close>

fun stream_body :: "bytes \<Rightarrow> (bytes, string) result list \<Rightarrow> bytes \<times> string option" where
  "stream_body received [] = (received, None)"
| "stream_body received (Inl e # _) = (received, Some e)"
| "stream_body received (Inr chunk # rest) = stream_body (received @ chunk) rest"

definition optional_sse_c_key ::
  "store_ext \<Rightarrow> string option \<Rightarrow> string option \<Rightarrow> bytes option store_result" where
  "optional_sse_c_key ix key_b64 md5 =
     (case key_b64 of None \<Rightarrow> Inr None
      | Some k \<Rightarrow> (case checked_sse_c_key ix k md5 of Inl e \<Rightarrow> Inl e | Inr b \<Rightarrow> Inr (Some b)))"

text \<open>An encrypted blob goes through a second temporary file.\<close>

definition install_encrypted :: "string \<Rightarrow> string \<Rightarrow> bytes \<Rightarrow> local_store \<Rightarrow> local_store" where
  "install_encrypted tmp object_id encrypted s =
     fs_rename (tmp_path object_id) (blob_path object_id)
       (fs_remove tmp (fs_write (tmp_path object_id) encrypted s))"

definition store_blob ::
  "store_ext \<Rightarrow> bytes \<Rightarrow> string \<Rightarrow> string \<Rightarrow> string \<Rightarrow> string \<Rightarrow> bytes option \<Rightarrow> put_object_opts \<Rightarrow>
     string \<Rightarrow> bytes \<Rightarrow> local_store \<Rightarrow> (string option \<times> string option) store_result \<times> local_store" where
  "store_blob ix nonce object_id bucket key version_id sse_c_key opts tmp plaintext s =
     (case po_server_side_encryption opts of
        Some Aes256 \<Rightarrow>
          (case encrypt_sse_s3 ix nonce s bucket key version_id plaintext of
             Inl e \<Rightarrow> (Inl e, s)
           | Inr encrypted \<Rightarrow>
               (Inr (Some ''AES256'', None), install_encrypted tmp object_id encrypted s))
      | Some SseC \<Rightarrow>
          (case sse_c_key of
             None \<Rightarrow> (Inl (InvalidArgument ''SSE-C requires customer key''), s)
           | Some sse_key \<Rightarrow>
               (case encrypt_sse_c ix nonce sse_key plaintext of
                  Inl e \<Rightarrow> (Inl e, s)
                | Inr encrypted \<Rightarrow>
                    (Inr (Some ''SSE-C'', po_sse_customer_key_md5 opts),
                     install_encrypted tmp object_id encrypted s)))
      | None \<Rightarrow> (Inr (None, None), fs_rename tmp (blob_path object_id) s))"

definition put_row ::
  "store_ext \<Rightarrow> instant \<Rightarrow> string \<Rightarrow> string \<Rightarrow> string \<Rightarrow> string \<Rightarrow> bytes \<Rightarrow> put_object_opts \<Rightarrow>
     string option \<times> string option \<Rightarrow> object_row" where
  "put_row ix now object_id bucket key version_id data opts enc =
     (object_row_default (sql_datetime now))
       \<lparr>o_id := object_id, o_bucket := bucket, o_key := key, o_version_id := version_id,
        o_size := length data, o_etag := format_etag (md5_hex (sx_crypto ix) data),
        o_content_type := po_content_type opts, o_content_encoding := po_content_encoding opts,
        o_content_disposition := po_content_disposition opts,
        o_cache_control := po_cache_control opts,
        o_storage_class := storage_class_to_string
          (case po_storage_class opts of Some c \<Rightarrow> c | None \<Rightarrow> Standard),
        o_user_metadata := fst (sx_metadata ix) (po_metadata opts),
        o_encryption_algorithm := fst enc, o_encryption_key_md5 := snd enc\<rparr>"

definition put_object ::
  "store_ext \<Rightarrow> instant \<Rightarrow> string \<Rightarrow> bytes \<Rightarrow> string \<Rightarrow> string \<Rightarrow> (bytes, string) result list \<Rightarrow>
     put_object_opts \<Rightarrow> local_store \<Rightarrow> put_object_response store_result \<times> local_store" where
  "put_object ix now object_id nonce bucket key body opts s =
     (case find_bucket bucket s of
        None \<Rightarrow> (Inl (BucketNotFound bucket), s)
      | Some b \<Rightarrow>
          let is_versioned = (br_versioning_status b = ''Enabled'');
              version_id = (if is_versioned then object_id else ''null'')
          in (case optional_sse_c_key ix (po_sse_customer_key opts) (po_sse_customer_key_md5 opts) of
                Inl e \<Rightarrow> (Inl e, s)
              | Inr sse_c_key \<Rightarrow>
                  let tmp = tmp_path (object_id @ ''-upload'');
                      (data, failure) = stream_body [] body;
                      s1 = fs_write tmp data s
                  in (case failure of
                        Some e \<Rightarrow> (Inl (Io e), s1)
                      | None \<Rightarrow>
                          (case store_blob ix nonce object_id bucket key version_id sse_c_key opts tmp data s1 of
                             (Inl e, s2) \<Rightarrow> (Inl e, s2)
                           | (Inr enc, s2) \<Rightarrow>
                               let row = put_row ix now object_id bucket key version_id data opts enc;
                                   (inserted, s3) = replace_current is_versioned row s2
                               in if \<not> inserted then (Inl db_err, s3)
                                  else (Inr \<lparr>por_etag = o_etag row,
                                     por_version_id = (if is_versioned then Some version_id else None)\<rparr>, s3)))))"

section \<open>Copying\<close>

definition io_not_found :: strix_error where
  "io_not_found = Io ''No such file or directory (os error 2)''"

text \<open>The blob of the copy. An SSE-S3 blob is encrypted anew, because its key depends on
  bucket, key and version.\<close>

definition copy_blob ::
  "store_ext \<Rightarrow> bytes \<Rightarrow> string \<Rightarrow> string \<Rightarrow> object_row \<Rightarrow> string \<Rightarrow> string \<Rightarrow> string \<Rightarrow> string \<Rightarrow>
     local_store \<Rightarrow> unit store_result \<times> local_store" where
  "copy_blob ix nonce src_bucket src_key src dst_bucket dst_key version_id new_object_id s =
     (case files s (blob_path (o_id src)) of
        None \<Rightarrow> (Inl io_not_found, s)
      | Some ciphertext \<Rightarrow>
          if o_encryption_algorithm src = Some ''AES256'' then
            let src_version = (case visible_version_id src of Some v \<Rightarrow> v | None \<Rightarrow> ''null'') in
            (case decrypt_sse_s3 ix s src_bucket src_key src_version ciphertext of
               Inl e \<Rightarrow> (Inl e, s)
             | Inr plaintext \<Rightarrow>
                 (case encrypt_sse_s3 ix nonce s dst_bucket dst_key version_id plaintext of
                    Inl e \<Rightarrow> (Inl e, s)
                  | Inr new_ciphertext \<Rightarrow> (Inr (), fs_write (blob_path new_object_id) new_ciphertext s)))
          else (Inr (), fs_write (blob_path new_object_id) ciphertext s))"

definition copy_row ::
  "store_ext \<Rightarrow> instant \<Rightarrow> string \<Rightarrow> string \<Rightarrow> string \<Rightarrow> string \<Rightarrow> object_info \<Rightarrow> object_row \<Rightarrow>
     copy_object_opts \<Rightarrow> object_row" where
  "copy_row ix now new_object_id dst_bucket dst_key version_id src_info src opts =
     (let metadata = (case co_metadata_directive opts of
            CopyMetadata \<Rightarrow> oi_metadata src_info | ReplaceMetadata \<Rightarrow> co_metadata opts)
      in (object_row_default (sql_datetime now))
       \<lparr>o_id := new_object_id, o_bucket := dst_bucket, o_key := dst_key, o_version_id := version_id,
        o_size := oi_size src_info, o_etag := oi_etag src_info,
        o_content_type := oi_content_type src_info,
        o_storage_class := storage_class_to_string (oi_storage_class src_info),
        o_user_metadata := fst (sx_metadata ix) metadata,
        o_encryption_algorithm := o_encryption_algorithm src,
        o_encryption_key_md5 := o_encryption_key_md5 src,
        o_last_modified := sql_datetime now\<rparr>)"

definition copy_object ::
  "store_ext \<Rightarrow> instant \<Rightarrow> string \<Rightarrow> bytes \<Rightarrow> string \<Rightarrow> string \<Rightarrow> string \<Rightarrow> string \<Rightarrow> copy_object_opts \<Rightarrow>
     local_store \<Rightarrow> copy_object_response store_result \<times> local_store" where
  "copy_object ix now new_object_id nonce src_bucket src_key dst_bucket dst_key opts s =
     (case head_object ix src_bucket src_key s of
        Inl e \<Rightarrow> (Inl e, s)
      | Inr src_info \<Rightarrow>
          (case find_object src_bucket src_key None s of
             None \<Rightarrow> (Inl db_err, s)
           | Some src \<Rightarrow>
               (case find_bucket dst_bucket s of
                  None \<Rightarrow> (Inl (BucketNotFound dst_bucket), s)
                | Some b \<Rightarrow>
                    let is_versioned = (br_versioning_status b = ''Enabled'');
                        version_id = (if is_versioned then new_object_id else ''null'')
                    in (case copy_blob ix nonce src_bucket src_key src dst_bucket dst_key version_id
                          new_object_id s of
                          (Inl e, s1) \<Rightarrow> (Inl e, s1)
                        | (Inr _, s1) \<Rightarrow>
                            let row = copy_row ix now new_object_id dst_bucket dst_key version_id
                                  src_info src opts;
                                (inserted, s2) = replace_current is_versioned row s1
                            in if \<not> inserted then (Inl db_err, s2)
                               else (Inr \<lparr>cor_etag = oi_etag src_info, cor_last_modified = now,
                                  cor_version_id = (if is_versioned then Some version_id else None)\<rparr>, s2)))))"

section \<open>Deleting\<close>

definition row_locked :: "instant \<Rightarrow> object_row \<Rightarrow> bool" where
  "row_locked now r =
     (o_legal_hold r
      \<or> o_retention_mode r \<noteq> None
        \<and> (case o_retain_until_date r of Some until \<Rightarrow> now < until | None \<Rightarrow> False))"

definition object_delete_locked ::
  "instant \<Rightarrow> string \<Rightarrow> string \<Rightarrow> string option \<Rightarrow> local_store \<Rightarrow> bool" where
  "object_delete_locked now bucket key version_id s =
     (case find_object bucket key version_id s of None \<Rightarrow> False | Some r \<Rightarrow> row_locked now r)"

definition versions_of :: "string \<Rightarrow> string \<Rightarrow> local_store \<Rightarrow> object_row list" where
  "versions_of bucket key s = sql_select (same_key bucket key) (objects s)"

text \<open>\<^verbatim>\<open>ORDER BY created_at DESC LIMIT 1\<close>; among rows of the same second the oldest insertion
  comes first.\<close>

definition most_recent :: "object_row list \<Rightarrow> object_row option" where
  "most_recent rows =
     (case sort_key (\<lambda>r. - o_created_at r) rows of [] \<Rightarrow> None | r # _ \<Rightarrow> Some r)"

definition promote_latest :: "string \<Rightarrow> string \<Rightarrow> local_store \<Rightarrow> local_store" where
  "promote_latest bucket key s =
     (case most_recent (versions_of bucket key s) of
        None \<Rightarrow> s
      | Some r \<Rightarrow> s\<lparr>objects := sql_update (\<lambda>x. o_id x = o_id r) (o_is_latest_update (\<lambda>_. True)) (objects s)\<rparr>)"

definition delete_specific_version ::
  "string \<Rightarrow> string \<Rightarrow> string \<Rightarrow> local_store \<Rightarrow> local_store" where
  "delete_specific_version bucket key vid s =
     (let object_row = find_object bucket key (Some vid) s;
          s1 = s\<lparr>objects := sql_delete (\<lambda>r. same_key bucket key r \<and> o_version_id r = vid) (objects s)\<rparr>;
          s2 = (case object_row of Some r \<Rightarrow> fs_remove (blob_path (o_id r)) s1 | None \<Rightarrow> s1)
      in promote_latest bucket key s2)"

definition delete_marker_row :: "instant \<Rightarrow> string \<Rightarrow> string \<Rightarrow> string \<Rightarrow> object_row" where
  "delete_marker_row now marker_id bucket key =
     (object_row_default (sql_datetime now))
       \<lparr>o_id := marker_id, o_bucket := bucket, o_key := key, o_version_id := marker_id,
        o_is_latest := True, o_is_delete_marker := True\<rparr>"

definition create_delete_marker ::
  "instant \<Rightarrow> string \<Rightarrow> string \<Rightarrow> string \<Rightarrow> local_store \<Rightarrow> bool \<times> local_store" where
  "create_delete_marker now marker_id bucket key s =
     (let s1 = s\<lparr>objects := sql_update (\<lambda>r. same_key bucket key r \<and> o_is_latest r)
            (o_is_latest_update (\<lambda>_. False)) (objects s)\<rparr>
      in case insert_object (delete_marker_row now marker_id bucket key) s1 of
           None \<Rightarrow> (False, s1) | Some s2 \<Rightarrow> (True, s2))"

definition delete_all_versions :: "string \<Rightarrow> string \<Rightarrow> local_store \<Rightarrow> local_store" where
  "delete_all_versions bucket key s =
     (let object_ids = map o_id (versions_of bucket key s);
          s1 = s\<lparr>objects := sql_delete (same_key bucket key) (objects s)\<rparr>
      in fold (\<lambda>oid. fs_remove (blob_path oid)) object_ids s1)"

definition delete_object_version ::
  "instant \<Rightarrow> string \<Rightarrow> string \<Rightarrow> string \<Rightarrow> string option \<Rightarrow> local_store \<Rightarrow>
     delete_object_response store_result \<times> local_store" where
  "delete_object_version now marker_id bucket key version_id s =
     (case find_bucket bucket s of
        None \<Rightarrow> (Inl (BucketNotFound bucket), s)
      | Some b \<Rightarrow>
          let status = br_versioning_status b;
              is_versioned = (status = ''Enabled'' \<or> status = ''Suspended'')
          in if object_delete_locked now bucket key version_id s then (Inl ObjectLocked, s)
             else (case version_id of
               Some vid \<Rightarrow>
                 (Inr \<lparr>dor_delete_marker = False, dor_version_id = Some vid\<rparr>,
                  delete_specific_version bucket key vid s)
             | None \<Rightarrow>
                 if is_versioned then
                   let (inserted, s1) = create_delete_marker now marker_id bucket key s
                   in if inserted then (Inr \<lparr>dor_delete_marker = True, dor_version_id = Some marker_id\<rparr>, s1)
                      else (Inl db_err, s1)
                 else
                   (Inr \<lparr>dor_delete_marker = False, dor_version_id = None\<rparr>,
                    delete_all_versions bucket key s)))"

definition delete_object ::
  "instant \<Rightarrow> string \<Rightarrow> string \<Rightarrow> string \<Rightarrow> local_store \<Rightarrow> unit store_result \<times> local_store" where
  "delete_object now marker_id bucket key s =
     (case delete_object_version now marker_id bucket key None s of
        (Inl e, s') \<Rightarrow> (Inl e, s') | (Inr _, s') \<Rightarrow> (Inr (), s'))"

end
