(* ===== verification/Multipart.thy ===== *)
theory Multipart
  imports Objects
begin

text \<open>
  \<^verbatim>\<open>strix-storage/src/localfs.rs\<close> and \<^verbatim>\<open>cleanup.rs\<close>: multipart uploads. A part is a file
  below \<^verbatim>\<open>multipart/<upload_id>\<close> and a row with its ETag; completing an upload checks the
  rows, concatenates the files and makes the result the current version of the key.
\<close>

section \<open>Starting an upload and uploading parts\<close>

definition find_upload :: "string \<Rightarrow> local_store \<Rightarrow> upload_row option" where
  "find_upload upload_id s = sql_query_row (\<lambda>u. up_upload_id u = upload_id) (multipart_uploads s)"

definition upload_encryption :: "put_object_opts \<Rightarrow> string option \<times> string option" where
  "upload_encryption opts =
     (case po_server_side_encryption opts of
        Some Aes256 \<Rightarrow> (Some ''AES256'', None)
      | Some SseC \<Rightarrow> (Some ''SSE-C'', po_sse_customer_key_md5 opts)
      | None \<Rightarrow> (None, None))"

definition create_multipart_upload ::
  "store_ext \<Rightarrow> instant \<Rightarrow> string \<Rightarrow> string \<Rightarrow> string \<Rightarrow> put_object_opts \<Rightarrow> local_store \<Rightarrow>
     multipart_upload store_result \<times> local_store" where
  "create_multipart_upload ix now upload_id bucket key opts s =
     (if \<not> bucket_exists bucket s then (Inl (BucketNotFound bucket), s)
      else
        let (encryption_algorithm, encryption_key_md5) = upload_encryption opts;
            row = \<lparr>up_upload_id = upload_id, up_bucket = bucket, up_key = key,
              up_content_type = po_content_type opts, up_content_encoding = po_content_encoding opts,
              up_content_disposition = po_content_disposition opts,
              up_cache_control = po_cache_control opts,
              up_storage_class = storage_class_to_string
                (case po_storage_class opts of Some c \<Rightarrow> c | None \<Rightarrow> Standard),
              up_user_metadata = fst (sx_metadata ix) (po_metadata opts),
              up_encryption_algorithm = encryption_algorithm,
              up_encryption_key_md5 = encryption_key_md5, up_initiated_at = sql_datetime now\<rparr>
        in (case sql_insert up_upload_id row (multipart_uploads s) of
              None \<Rightarrow> (Inl db_err, s)
            | Some t \<Rightarrow> (Inr \<lparr>mu_upload_id = upload_id, mu_bucket = bucket, mu_key = key, mu_initiated = now\<rparr>,
                 s\<lparr>multipart_uploads := t\<rparr>)))"

definition part_key :: "part_row \<Rightarrow> string \<times> nat" where
  "part_key p = (pt_upload_id p, pt_part_number p)"

text \<open>The part file is truncated and written while the body arrives; the row follows only
  when the body has ended well.\<close>

definition upload_part ::
  "store_ext \<Rightarrow> instant \<Rightarrow> string \<Rightarrow> multipart_upload \<Rightarrow> u16 \<Rightarrow> (bytes, string) result list \<Rightarrow> local_store \<Rightarrow>
     part_info store_result \<times> local_store" where
  "upload_part ix now blob_id upload part_number body s =
     (if \<not> (1 \<le> part_number \<and> part_number \<le> 10000) then (Inl (InvalidPartNumber part_number), s)
      else if find_upload (mu_upload_id upload) s = None
      then (Inl (UploadNotFound (mu_upload_id upload)), s)
      else
        let upload_id = mu_upload_id upload;
            (data, failure) = stream_body [] body;
            s1 = fs_write (part_path upload_id part_number) data s
        in (case failure of
              Some e \<Rightarrow> (Inl (Io e), s1)
            | None \<Rightarrow>
                let etag = format_etag (md5_hex (sx_crypto ix) data);
                    row = \<lparr>pt_upload_id = upload_id, pt_part_number = unat part_number,
                      pt_blob_id = blob_id, pt_size = length data, pt_etag = etag,
                      pt_created_at = sql_datetime now\<rparr>;
                    remaining = sql_delete (\<lambda>p. part_key p = part_key row) (parts s1)
                in (case sql_insert part_key row remaining of
                      None \<Rightarrow> (Inl db_err, s1\<lparr>parts := remaining\<rparr>)
                    | Some t \<Rightarrow> (Inr \<lparr>pi_part_number = part_number, pi_etag = etag, pi_size = length data,
                         pi_last_modified = now\<rparr>, s1\<lparr>parts := t\<rparr>))))"

section \<open>Completing an upload\<close>

fun parts_in_order :: "u16 \<Rightarrow> complete_part list \<Rightarrow> bool" where
  "parts_in_order last_part [] = True"
| "parts_in_order last_part (p # ps) =
     (if cp_part_number p \<le> last_part then False else parts_in_order (cp_part_number p) ps)"

definition MIN_PART_SIZE :: nat where "MIN_PART_SIZE = 5 * 1024 * 1024"

definition find_part :: "string \<Rightarrow> nat \<Rightarrow> local_store \<Rightarrow> part_row option" where
  "find_part upload_id n s = sql_query_row (\<lambda>p. part_key p = (upload_id, n)) (parts s)"

text \<open>0: all parts are valid, 1: ETag mismatch, 2: a part but the last is too small,
  3: part not found.\<close>

fun validate_parts :: "string \<Rightarrow> local_store \<Rightarrow> complete_part list \<Rightarrow> nat" where
  "validate_parts upload_id s [] = 0"
| "validate_parts upload_id s (p # ps) =
     (case find_part upload_id (unat (cp_part_number p)) s of
        None \<Rightarrow> 3
      | Some row \<Rightarrow>
          if trim_matches (CHR 0x22) (pt_etag row) \<noteq> trim_matches (CHR 0x22) (cp_etag p) then 1
          else if ps \<noteq> [] \<and> pt_size row < MIN_PART_SIZE then 2
          else validate_parts upload_id s ps)"

definition validation_error :: "nat \<Rightarrow> strix_error option" where
  "validation_error code =
     (if code = 0 then None
      else if code = 1 then Some (InvalidArgument ''Part ETag mismatch'')
      else if code = 2 then Some EntityTooSmall
      else Some (NoSuchPart 0))"

fun concat_parts ::
  "string \<Rightarrow> local_store \<Rightarrow> bytes \<Rightarrow> complete_part list \<Rightarrow> bytes store_result" where
  "concat_parts upload_id s plaintext [] = Inr plaintext"
| "concat_parts upload_id s plaintext (p # ps) =
     (case files s (part_path upload_id (cp_part_number p)) of
        None \<Rightarrow> Inl (NoSuchPart (cp_part_number p))
      | Some part_data \<Rightarrow> concat_parts upload_id s (plaintext @ part_data) ps)"

definition complete_encryption ::
  "store_ext \<Rightarrow> bytes \<Rightarrow> local_store \<Rightarrow> upload_row \<Rightarrow> string \<Rightarrow> bytes \<Rightarrow>
     (bytes \<times> string option) store_result" where
  "complete_encryption ix nonce s meta version_id plaintext =
     (if up_encryption_algorithm meta = Some ''AES256'' then
        (case encrypt_sse_s3 ix nonce s (up_bucket meta) (up_key meta) version_id plaintext of
           Inl e \<Rightarrow> Inl e | Inr encrypted \<Rightarrow> Inr (encrypted, Some ''AES256''))
      else if up_encryption_algorithm meta = Some ''SSE-C'' then Inl MissingSecurityHeader
      else Inr (plaintext, None))"

definition completed_row ::
  "store_ext \<Rightarrow> instant \<Rightarrow> string \<Rightarrow> string \<Rightarrow> upload_row \<Rightarrow> complete_part list \<Rightarrow> nat \<Rightarrow> string option \<Rightarrow>
     object_row" where
  "completed_row ix now object_id version_id meta ps total_size alg =
     (object_row_default (sql_datetime now))
       \<lparr>o_id := object_id, o_bucket := up_bucket meta, o_key := up_key meta,
        o_version_id := version_id, o_size := total_size,
        o_etag := format_multipart_etag (sx_crypto ix) (map cp_etag ps),
        o_content_type := up_content_type meta, o_content_encoding := up_content_encoding meta,
        o_content_disposition := up_content_disposition meta,
        o_cache_control := up_cache_control meta, o_storage_class := up_storage_class meta,
        o_user_metadata := up_user_metadata meta, o_is_multipart := True,
        o_part_count := Some (length ps), o_encryption_algorithm := alg\<rparr>"

text \<open>The rows of an upload and its parts.\<close>

definition delete_upload_rows :: "string \<Rightarrow> local_store \<Rightarrow> local_store" where
  "delete_upload_rows upload_id s =
     s\<lparr>parts := sql_delete (\<lambda>p. pt_upload_id p = upload_id) (parts s),
       multipart_uploads := sql_delete (\<lambda>u. up_upload_id u = upload_id) (multipart_uploads s)\<rparr>"

definition upload_dir :: "string \<Rightarrow> string" where
  "upload_dir upload_id = ''multipart/'' @ upload_id"

definition assemble_object ::
  "store_ext \<Rightarrow> instant \<Rightarrow> string \<Rightarrow> bytes \<Rightarrow> upload_row \<Rightarrow> bool \<Rightarrow> complete_part list \<Rightarrow> local_store \<Rightarrow>
     put_object_response store_result \<times> local_store" where
  "assemble_object ix now object_id nonce meta is_versioned ps s =
     (let upload_id = up_upload_id meta;
          version_id = (if is_versioned then object_id else ''null'')
      in (case concat_parts upload_id s [] ps of
            Inl e \<Rightarrow> (Inl e, s)
          | Inr plaintext \<Rightarrow>
              (case complete_encryption ix nonce s meta version_id plaintext of
                 Inl e \<Rightarrow> (Inl e, s)
               | Inr (data_to_write, alg) \<Rightarrow>
                   let s1 = fs_write (blob_path object_id) data_to_write s;
                       row = completed_row ix now object_id version_id meta ps (length plaintext) alg;
                       (inserted, s2) = replace_current is_versioned row s1
                   in if \<not> inserted then (Inl db_err, s2)
                      else (Inr \<lparr>por_etag = o_etag row,
                              por_version_id = (if is_versioned then Some version_id else None)\<rparr>,
                            fs_remove_dir (upload_dir upload_id) (delete_upload_rows upload_id s2)))))"

definition complete_multipart_upload ::
  "store_ext \<Rightarrow> instant \<Rightarrow> string \<Rightarrow> bytes \<Rightarrow> multipart_upload \<Rightarrow> complete_part list \<Rightarrow> local_store \<Rightarrow>
     put_object_response store_result \<times> local_store" where
  "complete_multipart_upload ix now object_id nonce upload ps s =
     (if \<not> parts_in_order 0 ps then (Inl InvalidPartOrder, s)
      else (case find_upload (mu_upload_id upload) s of
        None \<Rightarrow> (Inl (UploadNotFound (mu_upload_id upload)), s)
      | Some meta \<Rightarrow>
          (case find_bucket (up_bucket meta) s of
             None \<Rightarrow> (Inl (BucketNotFound (up_bucket meta)), s)
           | Some b \<Rightarrow>
               (case validation_error (validate_parts (mu_upload_id upload) s ps) of
                  Some e \<Rightarrow> (Inl e, s)
                | None \<Rightarrow>
                    assemble_object ix now object_id nonce meta
                      (br_versioning_status b = ''Enabled'') ps s))))"

section \<open>Aborting an upload\<close>

definition abort_multipart_upload ::
  "multipart_upload \<Rightarrow> local_store \<Rightarrow> unit store_result \<times> local_store" where
  "abort_multipart_upload upload s =
     (let upload_id = mu_upload_id upload
      in if find_upload upload_id s = None then (Inl (UploadNotFound upload_id), s)
         else (Inr (), fs_remove_dir (upload_dir upload_id) (delete_upload_rows upload_id s)))"

definition abort_stale_multipart :: "string \<Rightarrow> local_store \<Rightarrow> local_store" where
  "abort_stale_multipart upload_id s =
     delete_upload_rows upload_id (fs_remove_dir (upload_dir upload_id) s)"

section \<open>Listing\<close>

definition list_parts :: "multipart_upload \<Rightarrow> list_parts_opts \<Rightarrow> local_store \<Rightarrow> list_parts_response" where
  "list_parts upload opts s =
     (let max_parts = (case lp_max_parts opts of Some n \<Rightarrow> unat n | None \<Rightarrow> 1000);
          marker = (case lp_part_number_marker opts of Some n \<Rightarrow> unat n | None \<Rightarrow> 0);
          rows = sort_key pt_part_number (sql_select (\<lambda>p. pt_upload_id p = mu_upload_id upload
            \<and> pt_part_number p > marker) (parts s));
          result_parts = map (\<lambda>p. \<lparr>pi_part_number = word_of_nat (pt_part_number p), pi_etag = pt_etag p,
            pi_size = pt_size p, pi_last_modified = of_sql_datetime (pt_created_at p)\<rparr>) rows;
          is_truncated = length result_parts > max_parts;
          kept = (if is_truncated then take max_parts result_parts else result_parts);
          next_marker = (if is_truncated \<and> kept \<noteq> [] then Some (pi_part_number (last kept)) else None)
      in \<lparr>lpr_parts = kept, lpr_is_truncated = is_truncated, lpr_next_part_number_marker = next_marker\<rparr>)"

text \<open>\<^verbatim>\<open>prefix.replace('%', "\\%")\<close> followed by \<^verbatim>\<open>%\<close>. The statements have no \<^verbatim>\<open>ESCAPE\<close>.\<close>

definition like_prefix :: "string \<Rightarrow> string" where
  "like_prefix p = concat (map (\<lambda>c. if c = CHR ''%'' then [CHR 0x5C, CHR ''%''] else [c]) p) @ ''%''"

definition upload_of_row :: "upload_row \<Rightarrow> multipart_upload" where
  "upload_of_row u = \<lparr>mu_upload_id = up_upload_id u, mu_bucket = up_bucket u, mu_key = up_key u,
     mu_initiated = of_sql_datetime (up_initiated_at u)\<rparr>"

definition list_multipart_uploads ::
  "string \<Rightarrow> list_uploads_opts \<Rightarrow> local_store \<Rightarrow> list_uploads_response store_result" where
  "list_multipart_uploads bucket opts s =
     (if \<not> bucket_exists bucket s then Inl (BucketNotFound bucket)
      else
        let prefix = (case lu_prefix opts of Some p \<Rightarrow> p | None \<Rightarrow> []);
            max_uploads = (case lu_max_uploads opts of Some n \<Rightarrow> unat n | None \<Rightarrow> 1000);
            rows = sort_key up_key (sort_key up_initiated_at (sql_select (\<lambda>u. up_bucket u = bucket
              \<and> sql_like (like_prefix prefix) (up_key u)) (multipart_uploads s)));
            result_uploads = map upload_of_row rows;
            is_truncated = length result_uploads > max_uploads
        in Inr \<lparr>lur_uploads = (if is_truncated then take max_uploads result_uploads else result_uploads),
             lur_common_prefixes = [], lur_is_truncated = is_truncated, lur_next_key_marker = None,
             lur_next_upload_id_marker = None\<rparr>)"

section \<open>Cleanup of stale uploads\<close>

definition list_stale_uploads :: "instant \<Rightarrow> u32 \<Rightarrow> local_store \<Rightarrow> multipart_upload list" where
  "list_stale_uploads now hours s =
     (let cutoff = sql_datetime (now - uint hours * 3600 * nanos_per_sec)
      in map upload_of_row (sort_key up_initiated_at
           (sql_select (\<lambda>u. up_initiated_at u < cutoff) (multipart_uploads s))))"

definition find_stale_multipart_uploads :: "instant \<Rightarrow> local_store \<Rightarrow> upload_row list" where
  "find_stale_multipart_uploads cutoff s =
     sql_select (\<lambda>u. up_initiated_at u < sql_datetime cutoff) (multipart_uploads s)"

text \<open>\<^verbatim>\<open>chrono::Duration::from_std\<close>: an age beyond chrono's range counts as seven days.
  Durations are nanoseconds.\<close>

definition chrono_age :: "nat \<Rightarrow> int" where
  "chrono_age max_age =
     (if int max_age \<le> (2 ^ 63 - 1) * 1000000 then int max_age else 7 * 24 * 3600 * nanos_per_sec)"

definition cleanup_stale_multipart_uploads :: "instant \<Rightarrow> nat \<Rightarrow> local_store \<Rightarrow> local_store" where
  "cleanup_stale_multipart_uploads now max_age s =
     (let cutoff = now - chrono_age max_age;
          stale_uploads = find_stale_multipart_uploads cutoff s
      in fold (\<lambda>u. abort_stale_multipart (up_upload_id u)) stale_uploads s)"

record cleanup_config =
  cc_interval :: nat
  cc_multipart_max_age :: nat
  cc_enabled :: bool

definition cleanup_config_default :: cleanup_config where
  "cleanup_config_default =
     \<lparr>cc_interval = 3600 * 1000000000, cc_multipart_max_age = 7 * 24 * 3600 * 1000000000, cc_enabled = True\<rparr>"

text \<open>The task, on the instants at which its ticker fires.\<close>

definition run_cleanup_task :: "cleanup_config \<Rightarrow> instant list \<Rightarrow> local_store \<Rightarrow> local_store" where
  "run_cleanup_task config ticks s =
     (if \<not> cc_enabled config then s
      else fold (\<lambda>now. cleanup_stale_multipart_uploads now (cc_multipart_max_age config)) ticks s)"

end
