(* ===== verification/Object_Lock.thy ===== *)
theory Object_Lock
  imports Objects
begin

text \<open>
  \<^verbatim>\<open>strix-storage/src/localfs.rs\<close>: retention and legal hold of object versions. The
  retention date is stored as an RFC 3339 text, read back as the instant it was.
\<close>

section \<open>Retention\<close>

text \<open>The rows an update by version id, or by the flag \<^verbatim>\<open>is_latest\<close>, touches.\<close>

definition selects_version :: "string \<Rightarrow> string \<Rightarrow> string option \<Rightarrow> object_row \<Rightarrow> bool" where
  "selects_version bucket key version_id r =
     (same_key bucket key r
      \<and> (case version_id of Some vid \<Rightarrow> o_version_id r = vid | None \<Rightarrow> o_is_latest r))"

definition get_object_retention ::
  "string \<Rightarrow> string \<Rightarrow> string option \<Rightarrow> local_store \<Rightarrow> object_retention option store_result" where
  "get_object_retention bucket key version_id s =
     (if \<not> bucket_exists bucket s then Inl (BucketNotFound bucket)
      else
        let (mode, until) = (case find_object bucket key version_id s of
              Some r \<Rightarrow> (o_retention_mode r, o_retain_until_date r) | None \<Rightarrow> (None, None))
        in (case (mode, until) of
              (Some m, Some u) \<Rightarrow>
                (case retention_mode_from_str m of
                   Inl e \<Rightarrow> Inl (InvalidArgument e)
                 | Inr rm \<Rightarrow> Inr (Some \<lparr>ret_mode = rm, ret_retain_until_date = u\<rparr>))
            | _ \<Rightarrow> Inr None))"

text \<open>Whether the stored retention may be replaced.\<close>

definition can_modify_retention :: "bool \<Rightarrow> string option \<Rightarrow> instant option \<Rightarrow> bool" where
  "can_modify_retention bypass_governance current_mode current_until =
     (case (current_mode, current_until) of
        (Some cm, Some _) \<Rightarrow>
          if cm = ''COMPLIANCE'' then False
          else if cm = ''GOVERNANCE'' \<and> \<not> bypass_governance then False
          else True
      | _ \<Rightarrow> True)"

definition put_object_retention ::
  "string \<Rightarrow> string \<Rightarrow> string option \<Rightarrow> object_retention \<Rightarrow> bool \<Rightarrow> local_store \<Rightarrow>
     unit store_result \<times> local_store" where
  "put_object_retention bucket key version_id retention bypass_governance s =
     (if \<not> bucket_exists bucket s then (Inl (BucketNotFound bucket), s)
      else
        let (current_mode, current_until) = (case find_object bucket key version_id s of
              Some r \<Rightarrow> (o_retention_mode r, o_retain_until_date r) | None \<Rightarrow> (None, None))
        in if \<not> can_modify_retention bypass_governance current_mode current_until
           then (Inl AccessDenied, s)
           else (Inr (), s\<lparr>objects := sql_update (selects_version bucket key version_id)
               (\<lambda>r. r\<lparr>o_retention_mode := Some (retention_mode_to_string (ret_mode retention)),
                      o_retain_until_date := Some (ret_retain_until_date retention)\<rparr>) (objects s)\<rparr>))"

section \<open>Legal hold\<close>

definition get_object_legal_hold ::
  "string \<Rightarrow> string \<Rightarrow> string option \<Rightarrow> local_store \<Rightarrow> legal_hold_status store_result" where
  "get_object_legal_hold bucket key version_id s =
     (if \<not> bucket_exists bucket s then Inl (BucketNotFound bucket)
      else (case find_object bucket key version_id s of
        None \<Rightarrow> Inl db_err
      | Some r \<Rightarrow> Inr (if o_legal_hold r then HoldOn else HoldOff)))"

definition put_object_legal_hold ::
  "string \<Rightarrow> string \<Rightarrow> string option \<Rightarrow> legal_hold_status \<Rightarrow> local_store \<Rightarrow>
     unit store_result \<times> local_store" where
  "put_object_legal_hold bucket key version_id status s =
     (if \<not> bucket_exists bucket s then (Inl (BucketNotFound bucket), s)
      else (Inr (), s\<lparr>objects := sql_update (selects_version bucket key version_id)
          (o_legal_hold_update (\<lambda>_. status = HoldOn)) (objects s)\<rparr>))"

lemma find_object_selects:
  "find_object bucket key version_id s = sql_query_row (selects_version bucket key version_id) (objects s)"
proof -
  have "selects_version bucket key version_id = (\<lambda>r. o_bucket r = bucket \<and> o_key r = key
      \<and> (case version_id of Some vid \<Rightarrow> o_version_id r = vid | None \<Rightarrow> o_is_latest r))"
    by (auto simp: fun_eq_iff selects_version_def same_key_def)
  then show ?thesis by (simp add: find_object_def)
qed

end
