(* ===== verification/Bucket_Config.thy ===== *)
theory Bucket_Config
  imports Local_Fs
begin

text \<open>
  \<^verbatim>\<open>strix-storage/src/localfs.rs\<close>: the per-bucket documents (CORS, object lock, lifecycle,
  notification and tagging configurations). Each is one row of its table, holding the JSON
  text of the configuration; the five groups of operations share one contract.
\<close>

section \<open>The documents\<close>

definition get_config ::
  "'c json_codec \<Rightarrow> config_row list \<Rightarrow> string \<Rightarrow> local_store \<Rightarrow> 'c option store_result" where
  "get_config codec table bucket s =
     (if \<not> bucket_exists bucket s then Inl (BucketNotFound bucket)
      else (case sql_query_row (\<lambda>r. cfg_bucket r = bucket) table of
        None \<Rightarrow> Inr None
      | Some r \<Rightarrow> (case snd codec (cfg_json r) of
          None \<Rightarrow> Inl (Serialization []) | Some config \<Rightarrow> Inr (Some config))))"

definition put_config ::
  "'c json_codec \<Rightarrow> strix_error option \<Rightarrow> string \<Rightarrow> 'c \<Rightarrow> config_row list \<Rightarrow> local_store \<Rightarrow>
     unit store_result \<times> config_row list" where
  "put_config codec invalid bucket config table s =
     (if \<not> bucket_exists bucket s then (Inl (BucketNotFound bucket), table)
      else (case invalid of
        Some e \<Rightarrow> (Inl e, table)
      | None \<Rightarrow> (case fst codec config of
          None \<Rightarrow> (Inl (Serialization []), table)
        | Some json \<Rightarrow> (Inr (), sql_upsert cfg_bucket \<lparr>cfg_bucket = bucket, cfg_json = json\<rparr>
            (cfg_json_update (\<lambda>_. json)) table))))"

definition delete_config ::
  "string \<Rightarrow> config_row list \<Rightarrow> local_store \<Rightarrow> unit store_result \<times> config_row list" where
  "delete_config bucket table s =
     (if \<not> bucket_exists bucket s then (Inl (BucketNotFound bucket), table)
      else (Inr (), sql_delete (\<lambda>r. cfg_bucket r = bucket) table))"

section \<open>CORS\<close>

fun cors_error :: "cors_rule list \<Rightarrow> strix_error option" where
  "cors_error [] = None"
| "cors_error (r # rs) =
     (if cr_allowed_origins r = [] then
        Some (InvalidArgument ''CORS rule must have at least one allowed origin'')
      else if cr_allowed_methods r = [] then
        Some (InvalidArgument ''CORS rule must have at least one allowed method'')
      else cors_error rs)"

definition get_bucket_cors ::
  "store_ext \<Rightarrow> string \<Rightarrow> local_store \<Rightarrow> cors_configuration option store_result" where
  "get_bucket_cors ix bucket s = get_config (sx_cors ix) (bucket_cors s) bucket s"

definition put_bucket_cors ::
  "store_ext \<Rightarrow> string \<Rightarrow> cors_configuration \<Rightarrow> local_store \<Rightarrow> unit store_result \<times> local_store" where
  "put_bucket_cors ix bucket config s =
     (let (r, t) = put_config (sx_cors ix) (cors_error (cors_rules config)) bucket config (bucket_cors s) s
      in (r, s\<lparr>bucket_cors := t\<rparr>))"

definition delete_bucket_cors :: "string \<Rightarrow> local_store \<Rightarrow> unit store_result \<times> local_store" where
  "delete_bucket_cors bucket s =
     (let (r, t) = delete_config bucket (bucket_cors s) s in (r, s\<lparr>bucket_cors := t\<rparr>))"

section \<open>Object lock\<close>

definition lock_error :: "string \<Rightarrow> object_lock_configuration \<Rightarrow> local_store \<Rightarrow> strix_error option" where
  "lock_error bucket config s =
     (case find_bucket bucket s of
        None \<Rightarrow> Some db_err
      | Some b \<Rightarrow>
          if \<not> br_object_lock_enabled b \<and> olc_enabled config
          then Some (InvalidArgument ''Object lock can only be enabled when creating a bucket'')
          else None)"

definition get_object_lock_configuration ::
  "store_ext \<Rightarrow> string \<Rightarrow> local_store \<Rightarrow> object_lock_configuration option store_result" where
  "get_object_lock_configuration ix bucket s =
     get_config (sx_object_lock ix) (bucket_object_lock s) bucket s"

definition put_object_lock_configuration ::
  "store_ext \<Rightarrow> string \<Rightarrow> object_lock_configuration \<Rightarrow> local_store \<Rightarrow> unit store_result \<times> local_store" where
  "put_object_lock_configuration ix bucket config s =
     (let (r, t) = put_config (sx_object_lock ix) (lock_error bucket config s) bucket config
            (bucket_object_lock s) s
      in (r, s\<lparr>bucket_object_lock := t\<rparr>))"

section \<open>Lifecycle\<close>

text \<open>The loop over the rules with the set of the ids seen so far.\<close>

fun duplicate_rule :: "string set \<Rightarrow> string list \<Rightarrow> string option" where
  "duplicate_rule seen [] = None"
| "duplicate_rule seen (i # is) = (if i \<in> seen then Some i else duplicate_rule (insert i seen) is)"

definition lifecycle_error :: "lifecycle_configuration \<Rightarrow> strix_error option" where
  "lifecycle_error config =
     map_option (\<lambda>i. InvalidArgument (''Duplicate lifecycle rule ID: '' @ i))
       (duplicate_rule {} (map lr_id (lifecycle_rules config)))"

definition get_bucket_lifecycle ::
  "store_ext \<Rightarrow> string \<Rightarrow> local_store \<Rightarrow> lifecycle_configuration option store_result" where
  "get_bucket_lifecycle ix bucket s = get_config (sx_lifecycle ix) (bucket_lifecycle s) bucket s"

definition put_bucket_lifecycle ::
  "store_ext \<Rightarrow> string \<Rightarrow> lifecycle_configuration \<Rightarrow> local_store \<Rightarrow> unit store_result \<times> local_store" where
  "put_bucket_lifecycle ix bucket config s =
     (let (r, t) = put_config (sx_lifecycle ix) (lifecycle_error config) bucket config (bucket_lifecycle s) s
      in (r, s\<lparr>bucket_lifecycle := t\<rparr>))"

definition delete_bucket_lifecycle :: "string \<Rightarrow> local_store \<Rightarrow> unit store_result \<times> local_store" where
  "delete_bucket_lifecycle bucket s =
     (let (r, t) = delete_config bucket (bucket_lifecycle s) s in (r, s\<lparr>bucket_lifecycle := t\<rparr>))"

section \<open>Notification\<close>

definition notification_error :: "notification_configuration \<Rightarrow> strix_error option" where
  "notification_error config =
     map_option (\<lambda>i. InvalidArgument (''Duplicate notification rule ID: '' @ i))
       (duplicate_rule {} (map nr_id (notification_rules config)))"

definition get_bucket_notification ::
  "store_ext \<Rightarrow> string \<Rightarrow> local_store \<Rightarrow> notification_configuration option store_result" where
  "get_bucket_notification ix bucket s =
     get_config (sx_notification ix) (bucket_notification s) bucket s"

definition put_bucket_notification ::
  "store_ext \<Rightarrow> string \<Rightarrow> notification_configuration \<Rightarrow> local_store \<Rightarrow> unit store_result \<times> local_store" where
  "put_bucket_notification ix bucket config s =
     (let (r, t) = put_config (sx_notification ix) (notification_error config) bucket config
            (bucket_notification s) s
      in (r, s\<lparr>bucket_notification := t\<rparr>))"

section \<open>Tags\<close>

fun tags_error :: "tag list \<Rightarrow> strix_error option" where
  "tags_error [] = None"
| "tags_error (t # ts) =
     (if tag_key t = [] \<or> length (tag_key t) > 128 then
        Some (InvalidArgument ''Tag key must be 1-128 characters'')
      else if length (tag_value t) > 256 then
        Some (InvalidArgument ''Tag value must be at most 256 characters'')
      else tags_error ts)"

definition tagging_error :: "tagging_configuration \<Rightarrow> strix_error option" where
  "tagging_error config =
     (if length (tc_tags config) > 50 then Some (InvalidArgument ''Maximum 50 tags allowed'')
      else tags_error (tc_tags config))"

definition get_bucket_tagging ::
  "store_ext \<Rightarrow> string \<Rightarrow> local_store \<Rightarrow> tagging_configuration option store_result" where
  "get_bucket_tagging ix bucket s = get_config (sx_tagging ix) (bucket_tags s) bucket s"

definition put_bucket_tagging ::
  "store_ext \<Rightarrow> string \<Rightarrow> tagging_configuration \<Rightarrow> local_store \<Rightarrow> unit store_result \<times> local_store" where
  "put_bucket_tagging ix bucket config s =
     (let (r, t) = put_config (sx_tagging ix) (tagging_error config) bucket config (bucket_tags s) s
      in (r, s\<lparr>bucket_tags := t\<rparr>))"

definition delete_bucket_tagging :: "string \<Rightarrow> local_store \<Rightarrow> unit store_result \<times> local_store" where
  "delete_bucket_tagging bucket s =
     (let (r, t) = delete_config bucket (bucket_tags s) s in (r, s\<lparr>bucket_tags := t\<rparr>))"

section \<open>The contract of a configuration\<close>

text \<open>\<^verbatim>\<open>serde_json\<close> writes a document and reads it back.\<close>

definition codec_reads :: "'c json_codec \<Rightarrow> 'c \<Rightarrow> bool" where
  "codec_reads codec c = (case fst codec c of Some j \<Rightarrow> snd codec j = Some c | None \<Rightarrow> False)"

locale config_store =
  fixes reads :: "store_ext \<Rightarrow> 'c \<Rightarrow> bool"
    and rejected :: "'c \<Rightarrow> string \<Rightarrow> local_store \<Rightarrow> strix_error option"
    and get_doc :: "store_ext \<Rightarrow> string \<Rightarrow> local_store \<Rightarrow> 'c option store_result"
    and put_doc :: "store_ext \<Rightarrow> string \<Rightarrow> 'c \<Rightarrow> local_store \<Rightarrow> unit store_result \<times> local_store"
  assumes get_unknown: "\<not> bucket_exists b s \<Longrightarrow> get_doc ix b s = Inl (BucketNotFound b)"
    and put_unknown: "\<not> bucket_exists b s \<Longrightarrow> put_doc ix b c s = (Inl (BucketNotFound b), s)"
    and put_rejected: "bucket_exists b s \<Longrightarrow> rejected c b s = Some e \<Longrightarrow> put_doc ix b c s = (Inl e, s)"
    and put_accepted: "bucket_exists b s \<Longrightarrow> rejected c b s = None \<Longrightarrow> reads ix c \<Longrightarrow>
      fst (put_doc ix b c s) = Inr ()"
    and get_put: "reads ix c \<Longrightarrow> put_doc ix b c s = (Inr (), s') \<Longrightarrow> get_doc ix b s' = Inr (Some c)"
    and get_put_other: "put_doc ix b c s = (Inr (), s') \<Longrightarrow> b' \<noteq> b \<Longrightarrow> get_doc ix b' s' = get_doc ix b' s"
    and put_buckets: "buckets (snd (put_doc ix b c s)) = buckets s"
    and rejected_buckets: "buckets s = buckets s' \<Longrightarrow> rejected c b s = rejected c b s'"
begin

lemma put_ok_iff:
  "reads ix c \<Longrightarrow>
   fst (put_doc ix b c s) = Inr () \<longleftrightarrow> bucket_exists b s \<and> rejected c b s = None"
  using put_unknown [of b s ix c] put_rejected [of b s c _ ix] put_accepted [of b s c ix]
  by (cases "bucket_exists b s"; cases "rejected c b s") auto

lemma put_error_unchanged:
  assumes "reads ix c" and "fst (put_doc ix b c s) = Inl e"
  shows "snd (put_doc ix b c s) = s"
  using assms put_unknown [of b s ix c] put_rejected [of b s c _ ix] put_accepted [of b s c ix]
  by (cases "bucket_exists b s"; cases "rejected c b s") auto

lemma last_put_wins:
  assumes "reads ix c1" "reads ix c2" "fst (put_doc ix b c1 s) = Inr ()" "rejected c2 b s = None"
  shows "\<exists>s'. put_doc ix b c2 (snd (put_doc ix b c1 s)) = (Inr (), s') \<and> get_doc ix b s' = Inr (Some c2)"
proof -
  let ?s = "snd (put_doc ix b c1 s)"
  have "bucket_exists b ?s" "rejected c2 b ?s = None"
    using assms put_ok_iff [OF assms(1), of b s] put_buckets [of ix b c1 s]
      rejected_buckets [of ?s s c2 b]
    by (auto simp: bucket_exists_def find_bucket_def)
  then have "fst (put_doc ix b c2 ?s) = Inr ()" using put_ok_iff [OF assms(2)] by simp
  then obtain s' where "put_doc ix b c2 ?s = (Inr (), s')" by (metis prod.collapse)
  then show ?thesis using get_put [OF assms(2)] by blast
qed

end

locale deletable_config = config_store reads rejected get_doc put_doc
  for reads :: "store_ext \<Rightarrow> 'c \<Rightarrow> bool"
    and rejected :: "'c \<Rightarrow> string \<Rightarrow> local_store \<Rightarrow> strix_error option"
    and get_doc :: "store_ext \<Rightarrow> string \<Rightarrow> local_store \<Rightarrow> 'c option store_result"
    and put_doc :: "store_ext \<Rightarrow> string \<Rightarrow> 'c \<Rightarrow> local_store \<Rightarrow> unit store_result \<times> local_store" +
  fixes delete_doc :: "string \<Rightarrow> local_store \<Rightarrow> unit store_result \<times> local_store"
  assumes delete_unknown: "\<not> bucket_exists b s \<Longrightarrow> delete_doc b s = (Inl (BucketNotFound b), s)"
    and delete_known: "bucket_exists b s \<Longrightarrow> fst (delete_doc b s) = Inr ()"
    and get_delete: "delete_doc b s = (Inr (), s') \<Longrightarrow> get_doc ix b s' = Inr None"
    and get_delete_other: "delete_doc b s = (Inr (), s') \<Longrightarrow> b' \<noteq> b \<Longrightarrow> get_doc ix b' s' = get_doc ix b' s"
begin

lemma put_then_delete:
  assumes "reads ix c" and "put_doc ix b c s = (Inr (), s')"
  shows "\<exists>s''. delete_doc b s' = (Inr (), s'') \<and> get_doc ix b s'' = Inr None"
proof -
  have "bucket_exists b s" using assms put_ok_iff [OF assms(1), of b s] by simp
  then have "bucket_exists b s'"
    using put_buckets [of ix b c s] assms(2) by (simp add: bucket_exists_def find_bucket_def)
  then have "fst (delete_doc b s') = Inr ()" by (rule delete_known)
  then obtain s'' where "delete_doc b s' = (Inr (), s'')" by (metis prod.collapse)
  then show ?thesis using get_delete by blast
qed

end

section \<open>The five configurations keep the contract\<close>

lemma sql_query_row_upsert:
  "sql_query_row (\<lambda>x. cfg_bucket x = b')
     (sql_upsert cfg_bucket \<lparr>cfg_bucket = b, cfg_json = j\<rparr> (cfg_json_update (\<lambda>_. j)) t) =
   (if b' = b then Some \<lparr>cfg_bucket = b, cfg_json = j\<rparr> else sql_query_row (\<lambda>x. cfg_bucket x = b') t)"
proof -
  have upd: "sql_query_row (\<lambda>x. cfg_bucket x = b')
      (map (\<lambda>x. if cfg_bucket x = b then cfg_json_update (\<lambda>_. j) x else x) t) =
    map_option (\<lambda>x. if cfg_bucket x = b then cfg_json_update (\<lambda>_. j) x else x)
      (sql_query_row (\<lambda>x. cfg_bucket x = b') t)"
    using sql_query_row_update [of "\<lambda>x. cfg_bucket x = b'" "cfg_json_update (\<lambda>_. j)" "\<lambda>x. cfg_bucket x = b" t]
    by (simp add: sql_update_def)
  show ?thesis
  proof (cases "b \<in> cfg_bucket ` set t")
    case True
    show ?thesis
    proof (cases "sql_query_row (\<lambda>x. cfg_bucket x = b') t")
      case None
      then have "b' \<noteq> b" using True by (auto simp: sql_query_row_None)
      then show ?thesis using True upd None by (simp add: sql_upsert_def)
    next
      case (Some x)
      then have "cfg_bucket x = b'" by (auto dest: sql_query_row_SomeD)
      then show ?thesis using True upd Some by (cases x) (simp add: sql_upsert_def)
    qed
  next
    case False
    then have "sql_query_row (\<lambda>x. cfg_bucket x = b) t = None" by (auto simp: sql_query_row_None)
    then show ?thesis
      using False by (auto simp: sql_upsert_def sql_query_row_append split: option.splits)
  qed
qed

lemma get_config_after_put:
  assumes "codec_reads codec c" "fst (put_config codec bad b c t s) = Inr ()" "buckets s' = buckets s"
  shows "get_config codec (snd (put_config codec bad b c t s)) b s' = Inr (Some c)"
proof -
  obtain j where j: "fst codec c = Some j" "snd codec j = Some c"
    using assms(1) by (auto simp: codec_reads_def split: option.splits)
  have e: "bucket_exists b s" "bad = None"
    using assms(2) by (auto simp: put_config_def split: if_splits option.splits)
  then have "bucket_exists b s'" using assms(3) by (simp add: bucket_exists_def find_bucket_def)
  then show ?thesis using j e by (simp add: get_config_def put_config_def sql_query_row_upsert)
qed

lemma get_config_after_put_other:
  assumes "b' \<noteq> b" "buckets s' = buckets s"
  shows "get_config codec (snd (put_config codec bad b c t s)) b' s' = get_config codec t b' s"
  using assms
  by (auto simp: get_config_def put_config_def bucket_exists_def find_bucket_def
      sql_query_row_upsert split: option.splits)

lemma get_config_after_delete:
  assumes "fst (delete_config b t s) = Inr ()" "buckets s' = buckets s"
  shows "get_config codec (snd (delete_config b t s)) b s' = Inr None"
proof -
  have "sql_query_row (\<lambda>r. cfg_bucket r = b) (sql_delete (\<lambda>r. cfg_bucket r = b) t) = None"
    by (auto simp: table_simps)
  then show ?thesis
    using assms by (auto simp: get_config_def delete_config_def bucket_exists_def find_bucket_def
        split: if_splits)
qed

lemma get_config_after_delete_other:
  assumes "b' \<noteq> b" "buckets s' = buckets s"
  shows "get_config codec (snd (delete_config b t s)) b' s' = get_config codec t b' s"
  using assms sql_query_row_delete [of t "\<lambda>r. cfg_bucket r = b'" "\<lambda>r. cfg_bucket r = b"]
  by (auto simp: get_config_def delete_config_def bucket_exists_def find_bucket_def)

lemma put_config_accepted:
  "codec_reads codec c \<Longrightarrow> bucket_exists b s \<Longrightarrow> fst (put_config codec None b c t s) = Inr ()"
  unfolding codec_reads_def put_config_def by (auto split: option.splits)

lemma config_outcomes:
  "\<not> bucket_exists b s \<Longrightarrow> get_config codec t b s = Inl (BucketNotFound b)"
  "\<not> bucket_exists b s \<Longrightarrow> put_config codec bad b c t s = (Inl (BucketNotFound b), t)"
  "bucket_exists b s \<Longrightarrow> put_config codec (Some e) b c t s = (Inl e, t)"
  "\<not> bucket_exists b s \<Longrightarrow> delete_config b t s = (Inl (BucketNotFound b), t)"
  "bucket_exists b s \<Longrightarrow> fst (delete_config b t s) = Inr ()"
  by (simp_all add: get_config_def put_config_def delete_config_def)

lemmas config_laws = config_outcomes get_config_after_put get_config_after_put_other
  get_config_after_delete get_config_after_delete_other put_config_accepted

interpretation cors:
  deletable_config "\<lambda>ix. codec_reads (sx_cors ix)" "\<lambda>c b s. cors_error (cors_rules c)" get_bucket_cors put_bucket_cors delete_bucket_cors
  by unfold_locales
    (auto simp: get_bucket_cors_def put_bucket_cors_def delete_bucket_cors_def 
      split_def Let_def config_laws)

lemma lock_error_cong: "buckets s = buckets s' \<Longrightarrow> lock_error b c s = lock_error b c s'"
  by (simp add: lock_error_def find_bucket_def)

interpretation object_lock:
  config_store "\<lambda>ix. codec_reads (sx_object_lock ix)" "\<lambda>c b s. lock_error b c s" get_object_lock_configuration put_object_lock_configuration
  by unfold_locales
    (auto simp: get_object_lock_configuration_def put_object_lock_configuration_def
      split_def Let_def config_laws intro: lock_error_cong)

interpretation lifecycle:
  deletable_config "\<lambda>ix. codec_reads (sx_lifecycle ix)" "\<lambda>c b s. lifecycle_error c" get_bucket_lifecycle put_bucket_lifecycle
    delete_bucket_lifecycle
  by unfold_locales
    (auto simp: get_bucket_lifecycle_def put_bucket_lifecycle_def delete_bucket_lifecycle_def
      split_def Let_def config_laws)

interpretation notification:
  config_store "\<lambda>ix. codec_reads (sx_notification ix)" "\<lambda>c b s. notification_error c" get_bucket_notification put_bucket_notification
  by unfold_locales
    (auto simp: get_bucket_notification_def put_bucket_notification_def split_def Let_def
      config_laws)

interpretation tagging:
  deletable_config "\<lambda>ix. codec_reads (sx_tagging ix)" "\<lambda>c b s. tagging_error c" get_bucket_tagging put_bucket_tagging delete_bucket_tagging
  by unfold_locales
    (auto simp: get_bucket_tagging_def put_bucket_tagging_def delete_bucket_tagging_def
      split_def Let_def config_laws)

section \<open>What is accepted\<close>

lemma cors_error_None: "cors_error rs = None \<longleftrightarrow>
    list_all (\<lambda>r. cr_allowed_origins r \<noteq> [] \<and> cr_allowed_methods r \<noteq> []) rs"
  by (induction rs) auto

lemma tags_error_None: "tags_error ts = None \<longleftrightarrow>
    list_all (\<lambda>t. tag_key t \<noteq> [] \<and> length (tag_key t) \<le> 128 \<and> length (tag_value t) \<le> 256) ts"
  by (induction ts) auto

lemma duplicate_rule_None: "duplicate_rule seen is = None \<longleftrightarrow> distinct is \<and> set is \<inter> seen = {}"
  by (induction seen "is" rule: duplicate_rule.induct) auto

lemma duplicate_rule_Some: "duplicate_rule seen is = Some i \<Longrightarrow> i \<in> set is"
  by (induction seen "is" rule: duplicate_rule.induct) (auto split: if_splits)

text \<open>C16: a configuration is stored exactly when the bucket exists and the document meets its
  rule: every CORS rule lists an origin and a method; lifecycle and notification rule ids
  are distinct; at most 50 tags, with keys of 1 to 128 and values of at most 256 bytes.\<close>

theorem bucket_config_accepted_iff:
  assumes "codec_reads (sx_cors ix) cc" "codec_reads (sx_lifecycle ix) lc"
    "codec_reads (sx_notification ix) nc" "codec_reads (sx_tagging ix) tc"
  shows "(fst (put_bucket_cors ix b cc s) = Inr () \<longleftrightarrow> bucket_exists b s
      \<and> list_all (\<lambda>r. cr_allowed_origins r \<noteq> [] \<and> cr_allowed_methods r \<noteq> []) (cors_rules cc))
    \<and> (fst (put_bucket_lifecycle ix b lc s) = Inr () \<longleftrightarrow> bucket_exists b s
      \<and> distinct (map lr_id (lifecycle_rules lc)))
    \<and> (fst (put_bucket_notification ix b nc s) = Inr () \<longleftrightarrow> bucket_exists b s
      \<and> distinct (map nr_id (notification_rules nc)))
    \<and> (fst (put_bucket_tagging ix b tc s) = Inr () \<longleftrightarrow> bucket_exists b s \<and> length (tc_tags tc) \<le> 50
      \<and> list_all (\<lambda>t. tag_key t \<noteq> [] \<and> length (tag_key t) \<le> 128 \<and> length (tag_value t) \<le> 256) (tc_tags tc))"
  using cors.put_ok_iff [OF assms(1), of b s] lifecycle.put_ok_iff [OF assms(2), of b s]
    notification.put_ok_iff [OF assms(3), of b s] tagging.put_ok_iff [OF assms(4), of b s]
  by (intro conjI) (auto simp: cors_error_None lifecycle_error_def notification_error_def
      duplicate_rule_None tagging_error_def tags_error_None split: if_splits)

text \<open>Codecs that write nothing but the one document they can read are enough to evaluate
  the operations.\<close>

definition toy_codec :: "'c \<Rightarrow> 'c json_codec" where
  "toy_codec c = ((\<lambda>_. Some ''{}''), (\<lambda>_. Some c))"

text \<open>The requests that change a configuration, what each is about, and what it leaves there.\<close>

datatype config_kind = CorsKind | LockKind | LifecycleKind | NotificationKind | TaggingKind

datatype config_document =
    CorsDoc cors_configuration
  | LockDoc object_lock_configuration
  | LifecycleDoc lifecycle_configuration
  | NotificationDoc notification_configuration
  | TaggingDoc tagging_configuration

datatype config_request = PutConfig string config_document | DeleteCors string | DeleteLifecycle string | DeleteTagging string

fun document_kind :: "config_document \<Rightarrow> config_kind" where
  "document_kind (CorsDoc c) = CorsKind"
| "document_kind (LockDoc c) = LockKind"
| "document_kind (LifecycleDoc c) = LifecycleKind"
| "document_kind (NotificationDoc c) = NotificationKind"
| "document_kind (TaggingDoc c) = TaggingKind"

fun document_reads :: "store_ext \<Rightarrow> config_document \<Rightarrow> bool" where
  "document_reads ix (CorsDoc c) = codec_reads (sx_cors ix) c"
| "document_reads ix (LockDoc c) = codec_reads (sx_object_lock ix) c"
| "document_reads ix (LifecycleDoc c) = codec_reads (sx_lifecycle ix) c"
| "document_reads ix (NotificationDoc c) = codec_reads (sx_notification ix) c"
| "document_reads ix (TaggingDoc c) = codec_reads (sx_tagging ix) c"

fun put_document :: "store_ext \<Rightarrow> string \<Rightarrow> config_document \<Rightarrow> local_store \<Rightarrow> unit store_result \<times> local_store" where
  "put_document ix b (CorsDoc c) s = put_bucket_cors ix b c s"
| "put_document ix b (LockDoc c) s = put_object_lock_configuration ix b c s"
| "put_document ix b (LifecycleDoc c) s = put_bucket_lifecycle ix b c s"
| "put_document ix b (NotificationDoc c) s = put_bucket_notification ix b c s"
| "put_document ix b (TaggingDoc c) s = put_bucket_tagging ix b c s"

fun run_config :: "store_ext \<Rightarrow> config_request \<Rightarrow> local_store \<Rightarrow> unit store_result \<times> local_store" where
  "run_config ix (PutConfig b d) s = put_document ix b d s"
| "run_config ix (DeleteCors b) s = delete_bucket_cors b s"
| "run_config ix (DeleteLifecycle b) s = delete_bucket_lifecycle b s"
| "run_config ix (DeleteTagging b) s = delete_bucket_tagging b s"

fun read_config :: "store_ext \<Rightarrow> config_kind \<Rightarrow> string \<Rightarrow> local_store \<Rightarrow> config_document option store_result" where
  "read_config ix CorsKind b s = map_sum id (map_option CorsDoc) (get_bucket_cors ix b s)"
| "read_config ix LockKind b s = map_sum id (map_option LockDoc) (get_object_lock_configuration ix b s)"
| "read_config ix LifecycleKind b s = map_sum id (map_option LifecycleDoc) (get_bucket_lifecycle ix b s)"
| "read_config ix NotificationKind b s = map_sum id (map_option NotificationDoc) (get_bucket_notification ix b s)"
| "read_config ix TaggingKind b s = map_sum id (map_option TaggingDoc) (get_bucket_tagging ix b s)"

fun config_target :: "config_request \<Rightarrow> string \<times> config_kind" where
  "config_target (PutConfig b d) = (b, document_kind d)"
| "config_target (DeleteCors b) = (b, CorsKind)"
| "config_target (DeleteLifecycle b) = (b, LifecycleKind)"
| "config_target (DeleteTagging b) = (b, TaggingKind)"

fun config_left :: "config_request \<Rightarrow> config_document option" where
  "config_left (PutConfig b d) = Some d"
| "config_left (DeleteCors b) = None"
| "config_left (DeleteLifecycle b) = None"
| "config_left (DeleteTagging b) = None"

fun request_reads :: "store_ext \<Rightarrow> config_request \<Rightarrow> bool" where
  "request_reads ix (PutConfig b d) = document_reads ix d"
| "request_reads ix (DeleteCors b) = True"
| "request_reads ix (DeleteLifecycle b) = True"
| "request_reads ix (DeleteTagging b) = True"

fun config_table :: "config_kind \<Rightarrow> local_store \<Rightarrow> config_row list" where
  "config_table CorsKind s = bucket_cors s"
| "config_table LockKind s = bucket_object_lock s"
| "config_table LifecycleKind s = bucket_lifecycle s"
| "config_table NotificationKind s = bucket_notification s"
| "config_table TaggingKind s = bucket_tags s"

lemmas put_documents = put_bucket_cors_def put_object_lock_configuration_def put_bucket_lifecycle_def
  put_bucket_notification_def put_bucket_tagging_def

lemmas delete_documents = delete_bucket_cors_def delete_bucket_lifecycle_def delete_bucket_tagging_def

lemmas get_documents = get_bucket_cors_def get_object_lock_configuration_def get_bucket_lifecycle_def
  get_bucket_notification_def get_bucket_tagging_def

lemma read_config_cong:
  assumes "buckets s' = buckets s" "config_table k s' = config_table k s"
  shows "read_config ix k b s' = read_config ix k b s"
  using assms by (cases k) (simp_all add: get_documents get_config_def bucket_exists_def find_bucket_def)

lemma run_config_frame:
  "buckets (snd (run_config ix q s)) = buckets s"
  "k \<noteq> snd (config_target q) \<Longrightarrow> config_table k (snd (run_config ix q s)) = config_table k s"
proof -
  have put: "buckets (snd (put_document ix b d s)) = buckets s"
    "k \<noteq> document_kind d \<Longrightarrow> config_table k (snd (put_document ix b d s)) = config_table k s" for b d
    by (cases d; simp add: put_documents split_def Let_def) (cases d; cases k; simp add: put_documents split_def Let_def)
  show "buckets (snd (run_config ix q s)) = buckets s"
    using put(1) by (cases q) (simp_all add: delete_documents split_def Let_def)
  show "k \<noteq> snd (config_target q) \<Longrightarrow> config_table k (snd (run_config ix q s)) = config_table k s"
    using put(2) by (cases q; cases k) (simp_all add: delete_documents split_def Let_def)
qed

text \<open>Refusals write nothing, whether the codec can write the document or not.\<close>

lemma put_config_refused: "put_config codec bad b c t s = (Inl e, t') \<Longrightarrow> t' = t"
  by (auto simp: put_config_def split: if_splits option.splits)

lemma delete_config_refused: "delete_config b t s = (Inl e, t') \<Longrightarrow> t' = t"
  by (auto simp: delete_config_def split: if_splits)

lemma run_config_refused:
  assumes "run_config ix q s = (Inl e, s')"
  shows "s' = s"
proof (cases q)
  case (PutConfig b d)
  then show ?thesis
    using assms by (cases d) (auto simp: put_documents Let_def split: prod.splits dest!: put_config_refused)
qed (use assms in \<open>auto simp: delete_documents Let_def split: prod.splits dest!: delete_config_refused\<close>)

text \<open>The table a request is about, by the contract of its configuration.\<close>

lemma put_document_target:
  assumes "document_reads ix d" "put_document ix b d s = (Inr u, s')"
  shows "read_config ix (document_kind d) b' s' =
    (if b' = b then Inr (Some d) else read_config ix (document_kind d) b' s)"
  using assms
  by (cases d) (auto simp: cors.get_put cors.get_put_other object_lock.get_put object_lock.get_put_other
      lifecycle.get_put lifecycle.get_put_other notification.get_put notification.get_put_other
      tagging.get_put tagging.get_put_other)

lemma run_config_target:
  assumes "request_reads ix q" "run_config ix q s = (Inr u, s')"
  shows "read_config ix (snd (config_target q)) b s' =
    (if b = fst (config_target q) then Inr (config_left q) else read_config ix (snd (config_target q)) b s)"
proof (cases q)
  case (PutConfig b' d)
  then show ?thesis using assms put_document_target by simp
qed (use assms in \<open>auto simp: cors.get_delete cors.get_delete_other lifecycle.get_delete
    lifecycle.get_delete_other tagging.get_delete tagging.get_delete_other\<close>)

text \<open>C17: whatever configuration request comes next - a put of any of the five documents or a
  delete of the three that can be deleted - a refused request changes nothing at all, and an
  accepted one is read back: the document put last, or none after a deletion, for that bucket
  and that kind, while every other bucket and every other kind reads as before. A deletion is
  accepted exactly when the bucket exists.\<close>

theorem bucket_config_round_trip:
  assumes "request_reads ix q" "run_config ix q s = (res, s')"
  shows "(\<forall>e. res = Inl e \<longrightarrow> s' = s)
    \<and> (res = Inr () \<longrightarrow> (\<forall>b k. read_config ix k b s' =
        (if (b, k) = config_target q then Inr (config_left q) else read_config ix k b s)))
    \<and> (config_left q = None \<longrightarrow> (res = Inr () \<longleftrightarrow> bucket_exists (fst (config_target q)) s))"
proof (intro conjI allI impI)
  show "s' = s" if "res = Inl e" for e using run_config_refused assms(2) that by blast
  show "read_config ix k b s' = (if (b, k) = config_target q then Inr (config_left q) else read_config ix k b s)"
    if ok: "res = Inr ()" for b k
  proof (cases "k = snd (config_target q)")
    case True
    then show ?thesis using run_config_target [OF assms(1) assms(2) [unfolded ok], of b] by (auto simp: prod_eq_iff)
  next
    case False
    have "read_config ix k b s' = read_config ix k b s"
      using run_config_frame(1) [of ix q s] run_config_frame(2) [OF False, of ix s] assms(2)
      by (intro read_config_cong) simp_all
    then show ?thesis using False by (auto simp: prod_eq_iff)
  qed
  show "res = Inr () \<longleftrightarrow> bucket_exists (fst (config_target q)) s" if "config_left q = None"
    using that assms(2) by (cases q) (auto simp: delete_documents delete_config_def Let_def split: if_splits)
qed

definition toy_configs :: store_ext where
  "toy_configs = \<lparr>sx_crypto = toy_crypto, sx_metadata = toy_codec Map.empty,
     sx_cors = toy_codec \<lparr>cors_rules = []\<rparr>,
     sx_object_lock = toy_codec \<lparr>olc_enabled = False, olc_rule = None\<rparr>,
     sx_lifecycle = toy_codec \<lparr>lifecycle_rules = []\<rparr>,
     sx_notification = toy_codec \<lparr>notification_rules = []\<rparr>,
     sx_tagging = toy_codec \<lparr>tc_tags = [\<lparr>tag_key = ''team'', tag_value = ''ops''\<rparr>]\<rparr>\<rparr>"

definition toy_bucket_store :: local_store where
  "toy_bucket_store = snd (create_bucket 0 ''logs'' \<lparr>cb_region = None, cb_tenant_slug = None\<rparr>
     (store_empty (replicate 32 1)))"

lemma toy_configs_read:
  "codec_reads (sx_cors toy_configs) \<lparr>cors_rules = []\<rparr>"
  "codec_reads (sx_lifecycle toy_configs) \<lparr>lifecycle_rules = []\<rparr>"
  "codec_reads (sx_notification toy_configs) \<lparr>notification_rules = []\<rparr>"
  "codec_reads (sx_tagging toy_configs) \<lparr>tc_tags = [\<lparr>tag_key = ''team'', tag_value = ''ops''\<rparr>]\<rparr>"
  by (simp_all add: codec_reads_def toy_configs_def toy_codec_def)

theorem bucket_config_accepted_iff_witness:
  "fst (put_bucket_tagging toy_configs ''logs''
     \<lparr>tc_tags = [\<lparr>tag_key = ''team'', tag_value = ''ops''\<rparr>]\<rparr> toy_bucket_store) = Inr ()"
proof -
  have "bucket_exists ''logs'' toy_bucket_store" by code_simp
  then show ?thesis
    using bucket_config_accepted_iff [OF toy_configs_read, of "''logs''" toy_bucket_store] by simp
qed

theorem bucket_config_round_trip_witness:
  "\<exists>s1 s2. run_config toy_configs (PutConfig ''logs'' (TaggingDoc \<lparr>tc_tags = [\<lparr>tag_key = ''team'', tag_value = ''ops''\<rparr>]\<rparr>))
        toy_bucket_store = (Inr (), s1)
    \<and> read_config toy_configs TaggingKind ''logs'' s1 =
        Inr (Some (TaggingDoc \<lparr>tc_tags = [\<lparr>tag_key = ''team'', tag_value = ''ops''\<rparr>]\<rparr>))
    \<and> run_config toy_configs (DeleteTagging ''logs'') s1 = (Inr (), s2)
    \<and> read_config toy_configs TaggingKind ''logs'' s2 = Inr None"
proof -
  let ?put = "PutConfig ''logs'' (TaggingDoc \<lparr>tc_tags = [\<lparr>tag_key = ''team'', tag_value = ''ops''\<rparr>]\<rparr>)"
  define s1 where "s1 = snd (run_config toy_configs ?put toy_bucket_store)"
  define s2 where "s2 = snd (run_config toy_configs (DeleteTagging ''logs'') s1)"
  have put: "run_config toy_configs ?put toy_bucket_store = (Inr (), s1)"
    unfolding s1_def by (rule prod_eqI, code_simp, simp)
  have del: "run_config toy_configs (DeleteTagging ''logs'') s1 = (Inr (), s2)"
    unfolding s2_def s1_def by (rule prod_eqI, code_simp, simp)
  have "request_reads toy_configs ?put" "request_reads toy_configs (DeleteTagging ''logs'')"
    using toy_configs_read by simp_all
  note use = bucket_config_round_trip [OF this(1) put] bucket_config_round_trip [OF this(2) del]
  have "read_config toy_configs TaggingKind ''logs'' s1 =
      Inr (Some (TaggingDoc \<lparr>tc_tags = [\<lparr>tag_key = ''team'', tag_value = ''ops''\<rparr>]\<rparr>))"
    using use(1) by (simp del: read_config.simps)
  moreover have "read_config toy_configs TaggingKind ''logs'' s2 = Inr None"
    using use(2) by (simp del: read_config.simps)
  ultimately show ?thesis using put del by blast
qed

end
