(* ===== verification/Audit_Log.thy ===== *)
theory Audit_Log
  imports Store_Types "HOL-Library.Multiset"
begin

text \<open>
  \<^verbatim>\<open>strix-storage/src/localfs.rs\<close>: the audit log and the log of notification deliveries.
  Timestamps are stored as RFC 3339 texts in UTC, whose order is the order of the instants.
\<close>

definition log_audit_event :: "audit_log_entry \<Rightarrow> local_store \<Rightarrow> unit store_result \<times> local_store" where
  "log_audit_event entry s =
     (case sql_insert al_id entry (audit_log s) of
        None \<Rightarrow> (Inl db_err, s) | Some t \<Rightarrow> (Inr (), s\<lparr>audit_log := t\<rparr>))"

text \<open>A condition that is present compares a column; a \<^verbatim>\<open>NULL\<close> column satisfies none.\<close>

definition column_is :: "string option \<Rightarrow> string option \<Rightarrow> bool" where
  "column_is wanted column = (case wanted of None \<Rightarrow> True | Some w \<Rightarrow> column = Some w)"

definition audit_matches :: "audit_query_opts \<Rightarrow> audit_log_entry \<Rightarrow> bool" where
  "audit_matches opts e =
     (column_is (aq_bucket opts) (al_bucket e)
      \<and> (case aq_key_prefix opts of None \<Rightarrow> True
         | Some p \<Rightarrow> (case al_key e of None \<Rightarrow> False | Some k \<Rightarrow> sql_like (p @ ''%'') k))
      \<and> column_is (aq_operation opts) (Some (al_operation e))
      \<and> column_is (aq_principal opts) (al_principal e)
      \<and> (case aq_start_time opts of None \<Rightarrow> True | Some t \<Rightarrow> t \<le> al_timestamp e)
      \<and> (case aq_end_time opts of None \<Rightarrow> True | Some t \<Rightarrow> al_timestamp e \<le> t))"

text \<open>\<^verbatim>\<open>LIMIT ? OFFSET ?\<close> with the defaults 100 and 0.\<close>

definition sql_page :: "u32 option \<Rightarrow> u32 option \<Rightarrow> 'r list \<Rightarrow> 'r list" where
  "sql_page limit offset rows =
     (let n = (case limit of Some l \<Rightarrow> unat l | None \<Rightarrow> 100);
          k = (case offset of Some o' \<Rightarrow> unat o' | None \<Rightarrow> 0)
      in take n (drop k rows))"

definition query_audit_log :: "audit_query_opts \<Rightarrow> local_store \<Rightarrow> audit_log_entry list" where
  "query_audit_log opts s =
     sql_page (aq_limit opts) (aq_offset opts)
       (sort_key (\<lambda>e. - al_timestamp e) (sql_select (audit_matches opts) (audit_log s)))"

definition log_notification_delivery ::
  "notification_delivery_attempt \<Rightarrow> local_store \<Rightarrow> unit store_result \<times> local_store" where
  "log_notification_delivery attempt s =
     (case sql_insert nd_id attempt (notification_delivery s) of
        None \<Rightarrow> (Inl db_err, s) | Some t \<Rightarrow> (Inr (), s\<lparr>notification_delivery := t\<rparr>))"

definition delivery_matches :: "delivery_query_opts \<Rightarrow> notification_delivery_attempt \<Rightarrow> bool" where
  "delivery_matches opts a =
     (column_is (dq_bucket opts) (Some (nd_bucket a))
      \<and> column_is (dq_rule_id opts) (Some (nd_rule_id a))
      \<and> column_is (map_option delivery_status_to_string (dq_status opts))
          (Some (delivery_status_to_string (nd_status a))))"

definition query_notification_deliveries ::
  "delivery_query_opts \<Rightarrow> local_store \<Rightarrow> notification_delivery_attempt list" where
  "query_notification_deliveries opts s =
     sql_page (dq_limit opts) (dq_offset opts)
       (sort_key (\<lambda>a. - nd_timestamp a) (sql_select (delivery_matches opts) (notification_delivery s)))"

section \<open>A log only grows, and is read newest first\<close>

lemma set_sql_page: "set (sql_page limit offset rows) \<subseteq> set rows"
  by (auto simp: sql_page_def Let_def dest: in_set_takeD in_set_dropD)

lemma sorted_sql_page: "sorted (map f rows) \<Longrightarrow> sorted (map f (sql_page limit offset rows))"
  by (simp add: sql_page_def Let_def take_map [symmetric] drop_map [symmetric] sorted_wrt_take
      sorted_wrt_drop)

text \<open>Consecutive pages of a query are the consecutive parts of its whole result.\<close>

lemma sql_page_append:
  "unat n + unat k < 2 ^ 32 \<Longrightarrow>
   sql_page (Some n) (Some k) rows @ sql_page None (Some (n + k)) rows =
   take (unat n + 100) (drop (unat k) rows)"
proof -
  assume "unat n + unat k < 2 ^ 32"
  then have "unat (n + k) = unat n + unat k" by (simp add: unat_add_lem [symmetric])
  then show ?thesis by (simp add: sql_page_def take_add add.commute)
qed

lemma sql_page_split:
  "\<exists>newer older. rows = newer @ sql_page limit offset rows @ older
    \<and> length newer = min (case offset of Some k \<Rightarrow> unat k | None \<Rightarrow> 0) (length rows)
    \<and> (older = [] \<or> length (sql_page limit offset rows) = (case limit of Some n \<Rightarrow> unat n | None \<Rightarrow> 100))"
proof -
  define n where "n = (case limit of Some n \<Rightarrow> unat n | None \<Rightarrow> 100)"
  define k where "k = (case offset of Some k \<Rightarrow> unat k | None \<Rightarrow> 0)"
  have page: "sql_page limit offset rows = take n (drop k rows)" by (simp add: sql_page_def n_def k_def)
  have "rows = take k rows @ take n (drop k rows) @ drop n (drop k rows)" by (simp only: append_take_drop_id)
  moreover have "length (take k rows) = min k (length rows)" by simp
  moreover have "drop n (drop k rows) = [] \<or> length (take n (drop k rows)) = n" by auto
  ultimately show ?thesis unfolding n_def [symmetric] k_def [symmetric] page by blast
qed

text \<open>C18: an event with a new id is appended to the log, one with an id that is there is refused
  without effect. A query returns the logged events that meet its conditions, each as often
  as it is logged and newest first, less the newest ones its offset skips; events older than
  those returned are left out only when the limit is reached. So an event that was just
  logged is returned by every query whose conditions it meets, when nothing is skipped and
  the limit is not reached.\<close>

theorem audit_log_query:
  "log_audit_event e s = (if al_id e \<in> al_id ` set (audit_log s) then (Inl db_err, s)
      else (Inr (), s\<lparr>audit_log := audit_log s @ [e]\<rparr>))
   \<and> (\<exists>newer older.
        mset (newer @ query_audit_log opts s @ older) = mset (filter (audit_matches opts) (audit_log s))
      \<and> sorted (map (\<lambda>x. - al_timestamp x) (newer @ query_audit_log opts s @ older))
      \<and> length newer = min (case aq_offset opts of Some k \<Rightarrow> unat k | None \<Rightarrow> 0)
          (length (filter (audit_matches opts) (audit_log s)))
      \<and> length (query_audit_log opts s) \<le> (case aq_limit opts of Some n \<Rightarrow> unat n | None \<Rightarrow> 100)
      \<and> (older = [] \<or>
          length (query_audit_log opts s) = (case aq_limit opts of Some n \<Rightarrow> unat n | None \<Rightarrow> 100)))"
proof (intro conjI)
  show "log_audit_event e s = (if al_id e \<in> al_id ` set (audit_log s) then (Inl db_err, s)
      else (Inr (), s\<lparr>audit_log := audit_log s @ [e]\<rparr>))"
    by (simp add: log_audit_event_def sql_insert_def)
  define rows where "rows = sort_key (\<lambda>x. - al_timestamp x) (filter (audit_matches opts) (audit_log s))"
  have q: "query_audit_log opts s = sql_page (aq_limit opts) (aq_offset opts) rows"
    by (simp add: query_audit_log_def rows_def sql_select_def)
  obtain newer older where split: "rows = newer @ query_audit_log opts s @ older"
    and rest: "length newer = min (case aq_offset opts of Some k \<Rightarrow> unat k | None \<Rightarrow> 0) (length rows)"
      "older = [] \<or> length (query_audit_log opts s) = (case aq_limit opts of Some n \<Rightarrow> unat n | None \<Rightarrow> 100)"
    using sql_page_split [of rows "aq_limit opts" "aq_offset opts"] unfolding q by blast
  have rows: "mset rows = mset (filter (audit_matches opts) (audit_log s))"
    "sorted (map (\<lambda>x. - al_timestamp x) rows)"
    "length rows = length (filter (audit_matches opts) (audit_log s))"
    by (simp_all only: rows_def mset_sort sorted_sort_key length_sort)
  have "length (query_audit_log opts s) \<le> (case aq_limit opts of Some n \<Rightarrow> unat n | None \<Rightarrow> 100)"
    by (simp add: query_audit_log_def sql_page_def split: option.splits)
  then show "\<exists>newer older.
        mset (newer @ query_audit_log opts s @ older) = mset (filter (audit_matches opts) (audit_log s))
      \<and> sorted (map (\<lambda>x. - al_timestamp x) (newer @ query_audit_log opts s @ older))
      \<and> length newer = min (case aq_offset opts of Some k \<Rightarrow> unat k | None \<Rightarrow> 0)
          (length (filter (audit_matches opts) (audit_log s)))
      \<and> length (query_audit_log opts s) \<le> (case aq_limit opts of Some n \<Rightarrow> unat n | None \<Rightarrow> 100)
      \<and> (older = [] \<or>
          length (query_audit_log opts s) = (case aq_limit opts of Some n \<Rightarrow> unat n | None \<Rightarrow> 100))"
    using rest rows unfolding rows(3) [symmetric] by (intro exI [of _ newer] exI [of _ older]) (simp add: split [symmetric])
qed

end
