(* ===== verification/Store_Invariant.thy ===== *)
theory Store_Invariant
  imports Multipart Object_Lock Bucket_Config Audit_Log
begin

text \<open>
  The states the object store can reach, and what holds in all of them: unique keys,
  references that lead to rows, a current version of every key, version ids that name one
  version, and a blob of the recorded size behind every version that is no delete marker.

  A step is one operation with any arguments at any time. A fresh ULID has 26 characters and
  names no row. The column \<open>created_at\<close> has a resolution of one second, and the current
  version is found again by it, so that a key has a single current version only as long as
  its versions are created in different seconds: the spaced runs are those where every new
  version is.
\<close>

section \<open>The invariant\<close>

definition same_object :: "object_row \<Rightarrow> object_row \<Rightarrow> bool" where
  "same_object x r = same_key (o_bucket r) (o_key r) x"

text \<open>In every key the versions were created at different seconds, and the current one is the
  youngest.\<close>

definition latest_ok :: "object_row set \<Rightarrow> bool" where
  "latest_ok R = ((\<forall>r \<in> R. \<forall>x \<in> R. same_object x r \<longrightarrow> o_created_at x = o_created_at r \<longrightarrow> x = r)
     \<and> (\<forall>r \<in> R. o_is_latest r \<longleftrightarrow> (\<forall>x \<in> R. same_object x r \<longrightarrow> o_created_at x \<le> o_created_at r)))"

definition version_ids_ok :: "object_row set \<Rightarrow> bool" where
  "version_ids_ok R = ((\<forall>r \<in> R. length (o_id r) = 26 \<and> (o_version_id r = o_id r \<or> o_version_id r = ''null''))
     \<and> (\<forall>r \<in> R. \<forall>x \<in> R. same_object x r \<longrightarrow> o_version_id x = ''null'' \<longrightarrow> o_version_id r = ''null'' \<longrightarrow> x = r))"

definition blob_ok :: "(string \<rightharpoonup> bytes) \<Rightarrow> object_row \<Rightarrow> bool" where
  "blob_ok fs r = (o_is_delete_marker r \<or>
     (\<exists>d. fs (blob_path (o_id r)) = Some d \<and> (o_encryption_algorithm r = None \<longrightarrow> length d = o_size r)))"

definition tables_ok :: "local_store \<Rightarrow> bool" where
  "tables_ok s = (unique_key br_name (buckets s) \<and> unique_key o_id (objects s)
     \<and> unique_key up_upload_id (multipart_uploads s) \<and> unique_key part_key (parts s)
     \<and> (\<forall>r \<in> set (objects s). bucket_exists (o_bucket r) s)
     \<and> (\<forall>u \<in> set (multipart_uploads s). bucket_exists (up_bucket u) s \<and> length (up_upload_id u) = 26)
     \<and> (\<forall>p \<in> set (parts s). \<exists>u \<in> set (multipart_uploads s). up_upload_id u = pt_upload_id p))"

definition some_latest :: "object_row set \<Rightarrow> bool" where
  "some_latest R = (\<forall>r \<in> R. \<exists>x \<in> R. same_object x r \<and> o_is_latest x)"

text \<open>The first argument says whether the versions of a key were created in different seconds.\<close>

definition store_inv :: "bool \<Rightarrow> local_store \<Rightarrow> bool" where
  "store_inv p s = (tables_ok s \<and> some_latest (set (objects s)) \<and> (p \<longrightarrow> latest_ok (set (objects s)))
     \<and> version_ids_ok (set (objects s)) \<and> (\<forall>r \<in> set (objects s). blob_ok (files s) r))"

section \<open>Steps\<close>

definition fresh_id :: "string \<Rightarrow> local_store \<Rightarrow> bool" where
  "fresh_id i s = (length i = 26 \<and> i \<notin> o_id ` set (objects s) \<and> i \<notin> up_upload_id ` set (multipart_uploads s))"

inductive store_step :: "store_ext \<Rightarrow> instant \<Rightarrow> local_store \<Rightarrow> local_store \<Rightarrow> bool"
  for ix :: store_ext and now :: instant and s :: local_store where
  create_bucket: "store_step ix now s (snd (create_bucket now b opts s))"
| delete_bucket: "store_step ix now s (snd (delete_bucket b s))"
| set_versioning: "store_step ix now s (snd (set_bucket_versioning b enabled s))"
| put: "fresh_id i s \<Longrightarrow> store_step ix now s (snd (put_object ix now i nonce b k body po s))"
| copy: "fresh_id i s \<Longrightarrow> store_step ix now s (snd (copy_object ix now i nonce b k b' k' co s))"
| delete_version: "fresh_id i s \<Longrightarrow> store_step ix now s (snd (delete_object_version now i b k vid s))"
| create_upload: "fresh_id i s \<Longrightarrow> store_step ix now s (snd (create_multipart_upload ix now i b k po s))"
| upload_part: "store_step ix now s (snd (upload_part ix now blob upload n body s))"
| complete_upload: "fresh_id i s \<Longrightarrow>
    store_step ix now s (snd (complete_multipart_upload ix now i nonce upload ps s))"
| abort_upload: "store_step ix now s (snd (abort_multipart_upload upload s))"
| cleanup: "store_step ix now s (cleanup_stale_multipart_uploads now age s)"
| put_retention: "store_step ix now s (snd (put_object_retention b k vid ret bypass s))"
| put_legal_hold: "store_step ix now s (snd (put_object_legal_hold b k vid hold s))"
| put_cors: "store_step ix now s (snd (put_bucket_cors ix b cc s))"
| delete_cors: "store_step ix now s (snd (delete_bucket_cors b s))"
| put_lock_config: "store_step ix now s (snd (put_object_lock_configuration ix b lc s))"
| put_lifecycle: "store_step ix now s (snd (put_bucket_lifecycle ix b lf s))"
| delete_lifecycle: "store_step ix now s (snd (delete_bucket_lifecycle b s))"
| put_notification: "store_step ix now s (snd (put_bucket_notification ix b nc s))"
| put_tagging: "store_step ix now s (snd (put_bucket_tagging ix b tc s))"
| delete_tagging: "store_step ix now s (snd (delete_bucket_tagging b s))"
| create_tenant: "store_step ix now s (snd (create_tenant now tid name slug owner notes s))"
| delete_tenant: "store_step ix now s (snd (delete_tenant slug s))"
| log_audit: "store_step ix now s (snd (log_audit_event e s))"
| log_delivery: "store_step ix now s (snd (log_notification_delivery a s))"

text \<open>A version that is new is younger than the versions of its key that stay beside it.\<close>

definition spaced :: "object_row list \<Rightarrow> object_row list \<Rightarrow> bool" where
  "spaced old new = (\<forall>x \<in> set new. o_id x \<notin> o_id ` set old \<longrightarrow>
     (\<forall>r \<in> set new. same_object r x \<longrightarrow> r \<noteq> x \<longrightarrow> o_created_at r < o_created_at x))"

text \<open>The states that sequences of steps reach from an empty store, at any times or, with the
  first argument, by spaced steps.\<close>

inductive store_run :: "bool \<Rightarrow> store_ext \<Rightarrow> local_store \<Rightarrow> bool"
  for p :: bool and ix :: store_ext where
  start: "store_run p ix (store_empty mk)"
| step: "store_run p ix s \<Longrightarrow> store_step ix now s s' \<Longrightarrow> p \<longrightarrow> spaced (objects s) (objects s') \<Longrightarrow>
    store_run p ix s'"

definition store_reachable :: "store_ext \<Rightarrow> local_store \<Rightarrow> bool" where
  "store_reachable ix s = store_run False ix s"

definition spaced_reachable :: "store_ext \<Rightarrow> local_store \<Rightarrow> bool" where
  "spaced_reachable ix s = store_run True ix s"

lemma store_reachable_step: "store_reachable ix s \<Longrightarrow> store_step ix now s s' \<Longrightarrow> store_reachable ix s'"
  unfolding store_reachable_def by (rule store_run.step) auto

lemma spaced_reachable_step:
  "spaced_reachable ix s \<Longrightarrow> store_step ix now s s' \<Longrightarrow> spaced (objects s) (objects s') \<Longrightarrow> spaced_reachable ix s'"
  unfolding spaced_reachable_def by (rule store_run.step) auto

lemma spaced_reachable_reachable: "spaced_reachable ix s \<Longrightarrow> store_reachable ix s"
  unfolding spaced_reachable_def store_reachable_def
  by (induction rule: store_run.induct) (auto intro: store_run.intros)

section \<open>Frames\<close>

text \<open>The part of the state the invariant speaks of.\<close>

definition core :: "local_store \<Rightarrow> _" where
  "core s = (buckets s, objects s, multipart_uploads s, parts s, files s)"

lemma store_inv_cong: "core s' = core s \<Longrightarrow> store_inv p s' = store_inv p s"
  by (simp add: core_def store_inv_def tables_ok_def bucket_exists_def find_bucket_def)

lemma core_put_doc:
  "core (snd (put_bucket_cors ix b cc s)) = core s"
  "core (snd (delete_bucket_cors b s)) = core s"
  "core (snd (put_object_lock_configuration ix b lc s)) = core s"
  "core (snd (put_bucket_lifecycle ix b lf s)) = core s"
  "core (snd (delete_bucket_lifecycle b s)) = core s"
  "core (snd (put_bucket_notification ix b nc s)) = core s"
  "core (snd (put_bucket_tagging ix b tc s)) = core s"
  "core (snd (delete_bucket_tagging b s)) = core s"
  "core (snd (create_tenant now tid name slug owner notes s)) = core s"
  "core (snd (delete_tenant slug s)) = core s"
  "core (snd (log_audit_event e s)) = core s"
  "core (snd (log_notification_delivery a s)) = core s"
  by (simp_all add: core_def put_bucket_cors_def delete_bucket_cors_def
      put_object_lock_configuration_def put_bucket_lifecycle_def delete_bucket_lifecycle_def
      put_bucket_notification_def put_bucket_tagging_def delete_bucket_tagging_def create_tenant_def
      delete_tenant_def log_audit_event_def log_notification_delivery_def split_def Let_def
      split: option.splits)

lemma bucket_exists_iff: "bucket_exists b s \<longleftrightarrow> b \<in> br_name ` set (buckets s)"
  by (auto simp: bucket_exists_def find_bucket_def sql_query_row_None image_iff)

lemma find_bucket_Some: "find_bucket b s = Some r \<Longrightarrow> bucket_exists b s"
  by (simp add: bucket_exists_def)

section \<open>Paths\<close>

lemma blob_path_inj:
  assumes "length i = 26" "length j = 26" "blob_path i = blob_path j"
  shows "i = j"
proof -
  have path: "drop 14 (blob_path k) = k @ ''.blob''" if "length k = 26" for k
    using that by (simp add: blob_path_def Let_def)
  have "i @ ''.blob'' = j @ ''.blob''" using path assms by metis
  then show ?thesis by simp
qed

lemma blob_path_other [simp]:
  "blob_path i \<noteq> tmp_path j" "blob_path i \<noteq> part_path u n"
  "\<not> starts_with (blob_path i) (upload_dir u @ ''/'')"
  by (simp_all add: blob_path_def tmp_path_def part_path_def upload_dir_def starts_with_def Let_def)

lemma part_path_dir:
  "length u = 26 \<Longrightarrow> length v = 26 \<Longrightarrow> starts_with (part_path u n) (upload_dir v @ ''/'') \<longleftrightarrow> u = v"
  by (auto simp: part_path_def upload_dir_def starts_with_def)

section \<open>Inserting a current version\<close>

text \<open>The rows of the other keys and, in a versioned bucket, the older versions of this key.\<close>

definition with_current :: "bool \<Rightarrow> object_row \<Rightarrow> object_row set \<Rightarrow> object_row set" where
  "with_current is_versioned row R =
     insert row ({r \<in> R. \<not> same_object r row}
       \<union> (if is_versioned then o_is_latest_update (\<lambda>_. False) ` {r \<in> R. same_object r row} else {}))"

lemma replace_current_fresh:
  assumes "bucket_exists (o_bucket row) s" and "o_id row \<notin> o_id ` set (objects s)"
  shows "\<exists>t. replace_current v row s = (True, s\<lparr>objects := t\<rparr>) \<and> set t = with_current v row (set (objects s))
    \<and> (unique_key o_id (objects s) \<longrightarrow> unique_key o_id t)"
proof -
  define same where "same = same_key (o_bucket row) (o_key row)"
  define objs where "objs = (if v then sql_update same (o_is_latest_update (\<lambda>_. False)) (objects s)
      else sql_delete same (objects s))"
  have ids: "o_id ` set objs \<subseteq> o_id ` set (objects s)"
    by (auto simp: objs_def table_simps)
  then have ins: "sql_insert o_id row objs = Some (objs @ [row])"
    using assms(2) by (auto simp: sql_insert_def)
  have eq: "replace_current v row s = (True, s\<lparr>objects := objs @ [row]\<rparr>)"
    using assms(1) ins
    by (simp add: replace_current_def same_def [symmetric] objs_def [symmetric] insert_object_def
        Let_def bucket_exists_def find_bucket_def)
  have "set objs = {r \<in> set (objects s). \<not> same r}
      \<union> (if v then o_is_latest_update (\<lambda>_. False) ` {r \<in> set (objects s). same r} else {})"
    by (auto simp: objs_def table_simps)
  then have rows: "set (objs @ [row]) = with_current v row (set (objects s))"
    by (auto simp: with_current_def same_object_def same_def)
  have "unique_key o_id (objects s) \<longrightarrow> unique_key o_id objs"
    by (auto simp: objs_def intro: unique_key_update unique_key_delete)
  then have "unique_key o_id (objects s) \<longrightarrow> unique_key o_id (objs @ [row])"
    using unique_key_insert [OF ins] by blast
  then show ?thesis using eq rows by blast
qed

lemma with_current_cases:
  assumes "x \<in> with_current v row R"
  obtains "x = row"
  | "x \<in> R" "\<not> same_object x row"
  | r where "r \<in> R" "v" "same_object r row" "x = r\<lparr>o_is_latest := False\<rparr>"
proof -
  consider "x = row" | "x \<in> R \<and> \<not> same_object x row"
    | "v \<and> x \<in> o_is_latest_update (\<lambda>_. False) ` {r \<in> R. same_object r row}"
    using assms by (auto simp: with_current_def split: if_splits)
  then show thesis using that by cases auto
qed

lemma same_object_simps [simp]:
  "same_object (r\<lparr>o_is_latest := l\<rparr>) x = same_object r x"
  "same_object x (r\<lparr>o_is_latest := l\<rparr>) = same_object x r"
  by (simp_all add: same_object_def same_key_def)

lemma same_object_refl [simp]: "same_object x x"
  and same_object_sym: "same_object x y = same_object y x"
  and same_object_trans: "same_object x y \<Longrightarrow> same_object y z \<Longrightarrow> same_object x z"
  by (auto simp: same_object_def same_key_def)

lemma latest_ok_current:
  assumes R: "latest_ok R" and row: "o_is_latest row"
    and t: "\<forall>r \<in> with_current v row R. same_object r row \<longrightarrow> r \<noteq> row \<longrightarrow> o_created_at r < o_created_at row"
  shows "latest_ok (with_current v row R)"
proof -
  let ?W = "with_current v row R"
  have row_in: "row \<in> ?W" by (simp add: with_current_def)
  have young: "o_created_at x < o_created_at row" if "x \<in> ?W" "x \<noteq> row" "same_object x row" for x
    using that t by blast
  have old: "\<not> o_is_latest x" if "x \<in> ?W" "x \<noteq> row" "same_object x row" for x
    using that(1) by (cases rule: with_current_cases) (use that in auto)
  have other: "x \<in> R" if "x \<in> ?W" "\<not> same_object x row" for x
    using that(1) by (cases rule: with_current_cases) (use that in auto)
  have keep: "x \<in> ?W" if "x \<in> R" "\<not> same_object x row" for x
    using that by (auto simp: with_current_def)
  have base: "\<exists>r' \<in> R. o_created_at r' = o_created_at x \<and> x = r'\<lparr>o_is_latest := False\<rparr> \<and> same_object r' row"
    if "x \<in> ?W" "x \<noteq> row" "same_object x row" for x
    using that(1) by (cases rule: with_current_cases) (use that in auto)
  have uniq: "x = r" if pre: "r \<in> ?W" "x \<in> ?W" "same_object x r" "o_created_at x = o_created_at r" for r x
  proof (cases "same_object x row")
    case True
    then have r: "same_object r row" using pre(3) by (metis same_object_sym same_object_trans)
    show ?thesis
    proof (cases "x = row \<or> r = row")
      case True
      then show ?thesis using young [of x] young [of r] pre \<open>same_object x row\<close> r by (cases "x = row"; cases "r = row") auto
    next
      case False
      obtain x' where x': "x' \<in> R" "o_created_at x' = o_created_at x" and x: "x = x'\<lparr>o_is_latest := False\<rparr>"
        using base [of x] pre(2) True False by blast
      obtain r1 where r1: "r1 \<in> R" "o_created_at r1 = o_created_at r" and r': "r = r1\<lparr>o_is_latest := False\<rparr>"
        using base [of r] pre(1) r False by blast
      have "same_object x' r1" using pre(3) x r' by simp
      moreover have "o_created_at x' = o_created_at r1" using x'(2) r1(2) pre(4) by simp
      ultimately have "x' = r1" using R x'(1) r1(1) unfolding latest_ok_def by blast
      then show ?thesis using x r' by simp
    qed
  next
    case False
    then have "\<not> same_object r row" using pre(3) by (metis same_object_trans)
    then have "x \<in> R" "r \<in> R" using other pre False by blast+
    then show ?thesis using R pre unfolding latest_ok_def by blast
  qed
  have flag: "o_is_latest r \<longleftrightarrow> (\<forall>x \<in> ?W. same_object x r \<longrightarrow> o_created_at x \<le> o_created_at r)"
    if "r \<in> ?W" for r
  proof (cases "same_object r row")
    case True
    show ?thesis
    proof (cases "r = row")
      case True
      then show ?thesis using row young by (metis less_imp_le order_refl)
    next
      case False
      then have "\<not> o_is_latest r" "o_created_at r < o_created_at row" "same_object row r"
        using old young that \<open>same_object r row\<close> by (auto simp: same_object_sym)
      then show ?thesis using row_in by (meson not_le)
    qed
  next
    case False
    have "r \<in> R" using other that False by blast
    moreover have "{x \<in> ?W. same_object x r} = {x \<in> R. same_object x r}"
      using other keep False same_object_trans same_object_sym by blast
    ultimately show ?thesis using R unfolding latest_ok_def by blast
  qed
  show ?thesis unfolding latest_ok_def using uniq flag by blast
qed

lemma some_latest_current:
  assumes R: "some_latest R" and row: "o_is_latest row"
  shows "some_latest (with_current v row R)"
  unfolding some_latest_def
proof
  fix r assume r: "r \<in> with_current v row R"
  show "\<exists>x \<in> with_current v row R. same_object x r \<and> o_is_latest x"
  proof (cases "same_object r row")
    case True
    then show ?thesis
      using row by (intro bexI [of _ row]) (simp_all add: with_current_def same_object_sym)
  next
    case False
    have "r \<in> R" using r by (cases rule: with_current_cases) (use False in auto)
    then obtain x where "x \<in> R" "same_object x r" "o_is_latest x" using R unfolding some_latest_def by blast
    moreover from this have "\<not> same_object x row" using False by (metis same_object_sym same_object_trans)
    ultimately show ?thesis by (intro bexI [of _ x]) (simp_all add: with_current_def)
  qed
qed

lemma version_ids_ok_current:
  assumes R: "version_ids_ok R" and row: "length (o_id row) = 26"
    and vid: "o_version_id row = (if v then o_id row else ''null'')"
  shows "version_ids_ok (with_current v row R)"
proof -
  let ?W = "with_current v row R"
  have ids: "length (o_id x) = 26 \<and> (o_version_id x = o_id x \<or> o_version_id x = ''null'')"
    if "x \<in> ?W" for x
    using that by (cases rule: with_current_cases) (use R row vid in \<open>auto simp: version_ids_ok_def\<close>)
  have not_null: "v \<Longrightarrow> o_version_id row \<noteq> ''null''" using row vid by auto
  have base: "\<exists>r' \<in> R. o_version_id r' = o_version_id x \<and> same_object r' x
      \<and> (if same_object x row then v \<and> x = r'\<lparr>o_is_latest := False\<rparr> else x = r')"
    if "x \<in> ?W" "x \<noteq> row" for x
    using that(1) by (cases rule: with_current_cases) (use that in auto)
  have null: "x = r" if pre: "r \<in> ?W" "x \<in> ?W" "same_object x r" "o_version_id x = ''null''" "o_version_id r = ''null''" for r x
  proof (cases "x = row \<or> r = row")
    case True
    then have "same_object x row" "same_object r row" using pre(3) by (auto simp: same_object_sym)
    moreover have "v" if "y \<in> ?W" "y \<noteq> row" "same_object y row" for y
      using base [OF that(1,2)] that(3) by auto
    ultimately show ?thesis
      using True pre not_null by (cases "x = row"; cases "r = row") auto
  next
    case False
    obtain x' where x': "x' \<in> R" "o_version_id x' = o_version_id x" "same_object x' x"
      and x: "if same_object x row then v \<and> x = x'\<lparr>o_is_latest := False\<rparr> else x = x'"
      using base [of x] pre(2) False by blast
    obtain r' where r': "r' \<in> R" "o_version_id r' = o_version_id r" "same_object r' r"
      and r: "if same_object r row then v \<and> r = r'\<lparr>o_is_latest := False\<rparr> else r = r'"
      using base [of r] pre(1) False by blast
    have "same_object x' r" by (rule same_object_trans [OF x'(3) pre(3)])
    moreover have "same_object r r'" using r'(3) by (simp add: same_object_sym)
    ultimately have "same_object x' r'" by (rule same_object_trans)
    moreover have "o_version_id x' = ''null''" "o_version_id r' = ''null''"
      using x'(2) r'(2) pre(4,5) by simp_all
    ultimately have eq: "x' = r'" using R x'(1) r'(1) unfolding version_ids_ok_def by blast
    have "same_object x row = same_object r row"
      using pre(3) by (metis same_object_sym same_object_trans)
    then show ?thesis using x r eq by (auto split: if_splits)
  qed
  show ?thesis unfolding version_ids_ok_def using ids null by blast
qed

section \<open>Removing versions\<close>

lemma latest_ok_other_keys:
  "latest_ok R \<Longrightarrow> latest_ok {r \<in> R. \<not> same_key b k r}"
  unfolding latest_ok_def by (simp add: same_object_def same_key_def) metis

lemma same_key_object: "same_key b k x \<Longrightarrow> same_key b k r \<longleftrightarrow> same_object r x"
  by (auto simp: same_key_def same_object_def)

lemma some_latest_other_keys:
  "some_latest R \<Longrightarrow> some_latest {r \<in> R. \<not> same_key b k r}"
  unfolding some_latest_def by (simp add: same_object_def same_key_def) metis

text \<open>Dropping versions of one key leaves every key a current version when one of the rest of
  that key is made current.\<close>

lemma some_latest_promote:
  assumes R: "some_latest R" and S: "S \<subseteq> R" and gone: "\<And>x. x \<in> R \<Longrightarrow> x \<notin> S \<Longrightarrow> same_key b k x"
    and m: "m \<in> S" "same_key b k m"
  shows "some_latest ((\<lambda>x. if o_id x = o_id m then x\<lparr>o_is_latest := True\<rparr> else x) ` S)"
proof -
  let ?f = "\<lambda>x :: object_row. if o_id x = o_id m then x\<lparr>o_is_latest := True\<rparr> else x"
  have "\<exists>y \<in> S. same_object (?f y) (?f r) \<and> o_is_latest (?f y)" if r: "r \<in> S" for r
  proof (cases "same_key b k r")
    case True
    then show ?thesis using m same_key_object [OF True, of m] by (intro bexI [of _ m]) simp_all
  next
    case False
    obtain x where x: "x \<in> R" "same_object x r" "o_is_latest x"
      using R S r unfolding some_latest_def by blast
    have "\<not> same_key b k x" using False x(2) by (auto simp: same_object_def same_key_def)
    then have "x \<in> S" using gone x(1) by blast
    then show ?thesis using x by (intro bexI [of _ x]) simp_all
  qed
  then show ?thesis unfolding some_latest_def by blast
qed

lemma some_latest_image:
  assumes R: "some_latest R" and f: "\<And>x. o_bucket (f x) = o_bucket x" "\<And>x. o_key (f x) = o_key x"
    "\<And>x. o_is_latest (f x) = o_is_latest x"
  shows "some_latest (f ` R)"
proof -
  have "same_object (f x) (f r) = same_object x r" for x r
    by (simp add: same_object_def same_key_def f)
  then show ?thesis using R unfolding some_latest_def by (simp add: f)
qed

lemma latest_ok_image:
  assumes f: "\<And>x. o_bucket (f x) = o_bucket x" "\<And>x. o_key (f x) = o_key x"
      "\<And>x. o_created_at (f x) = o_created_at x"
    and uniq: "\<And>r x. r \<in> S \<Longrightarrow> x \<in> S \<Longrightarrow> same_object x r \<Longrightarrow> o_created_at x = o_created_at r \<Longrightarrow> x = r"
    and flag: "\<And>r. r \<in> S \<Longrightarrow>
      o_is_latest (f r) \<longleftrightarrow> (\<forall>x \<in> S. same_object x r \<longrightarrow> o_created_at x \<le> o_created_at r)"
  shows "latest_ok (f ` S)"
proof -
  have "same_object (f x) (f r) = same_object x r" for x r
    by (simp add: same_object_def same_key_def f)
  then show ?thesis unfolding latest_ok_def using uniq flag by (simp add: f) blast
qed

text \<open>When rows of one key are gone and the youngest that is left is made current, every key
  has its youngest version as the current one.\<close>

lemma latest_ok_promote:
  assumes R: "latest_ok R" and S: "S \<subseteq> R" and gone: "\<And>x. x \<in> R \<Longrightarrow> x \<notin> S \<Longrightarrow> same_key b k x"
    and m: "m \<in> S" "same_key b k m"
    and young: "\<And>x. x \<in> S \<Longrightarrow> same_key b k x \<Longrightarrow> o_created_at x \<le> o_created_at m"
    and ids: "\<And>x. x \<in> S \<Longrightarrow> o_id x = o_id m \<Longrightarrow> x = m"
  shows "latest_ok ((\<lambda>x. if o_id x = o_id m then x\<lparr>o_is_latest := True\<rparr> else x) ` S)"
proof (rule latest_ok_image)
  have uR: "x = r" if "x \<in> R" "r \<in> R" "same_object x r" "o_created_at x = o_created_at r" for x r
    using R that unfolding latest_ok_def by blast
  then show "x = r" if "r \<in> S" "x \<in> S" "same_object x r" "o_created_at x = o_created_at r" for r x
    using that S by blast
  have fR: "o_is_latest r \<longleftrightarrow> (\<forall>x \<in> R. same_object x r \<longrightarrow> o_created_at x \<le> o_created_at r)"
    if "r \<in> R" for r using R that unfolding latest_ok_def by blast
  fix r assume r: "r \<in> S"
  consider "r = m" | "r \<noteq> m" "same_key b k r" | "\<not> same_key b k r" by blast
  then show "o_is_latest (if o_id r = o_id m then r\<lparr>o_is_latest := True\<rparr> else r) \<longleftrightarrow>
      (\<forall>x \<in> S. same_object x r \<longrightarrow> o_created_at x \<le> o_created_at r)"
  proof cases
    case 1
    then show ?thesis using young m same_key_object by auto
  next
    case 2
    have mr: "same_object m r" using m(2) same_key_object [OF 2(2)] by blast
    have "\<not> o_created_at m \<le> o_created_at r"
    proof
      assume "o_created_at m \<le> o_created_at r"
      then have "o_created_at m = o_created_at r" using young [OF r 2(2)] by simp
      then show False using uR [of m r] mr m(1) r S 2(1) by blast
    qed
    moreover have "o_id r \<noteq> o_id m" using ids r 2(1) by blast
    ultimately show ?thesis using fR [of r] r S m(1) mr by auto
  next
    case 3
    then have "o_id r \<noteq> o_id m" using ids r m(2) by blast
    moreover have "same_object x r \<Longrightarrow> \<not> same_key b k x" for x
      using 3 by (auto simp: same_object_def same_key_def)
    ultimately show ?thesis using fR [of r] r S gone by (simp add: subset_iff) blast
  qed
qed auto

lemma version_ids_ok_image:
  assumes R: "version_ids_ok R" and S: "S \<subseteq> R"
    and f: "\<And>x. o_bucket (f x) = o_bucket x" "\<And>x. o_key (f x) = o_key x" "\<And>x. o_id (f x) = o_id x"
      "\<And>x. o_version_id (f x) = o_version_id x"
  shows "version_ids_ok (f ` S)"
proof -
  have "same_object (f x) (f r) = same_object x r" for x r
    by (simp add: same_object_def same_key_def f)
  then show ?thesis using R S unfolding version_ids_ok_def by (simp add: f subset_iff) blast
qed

lemma version_ids_ok_subset: "version_ids_ok R \<Longrightarrow> S \<subseteq> R \<Longrightarrow> version_ids_ok S"
  using version_ids_ok_image [of R S id] by simp

lemma most_recent_Some:
  assumes "most_recent rows = Some m"
  shows "m \<in> set rows" and "x \<in> set rows \<Longrightarrow> o_created_at x \<le> o_created_at m"
proof -
  let ?l = "sort_key (\<lambda>r. - o_created_at r) rows"
  obtain ys where l: "?l = m # ys" using assms by (auto simp: most_recent_def split: list.splits)
  then show "m \<in> set rows" by (metis list.set_intros(1) set_sort)
  have "sorted (map (\<lambda>r. - o_created_at r) ?l)" by simp
  then show "x \<in> set rows \<Longrightarrow> o_created_at x \<le> o_created_at m"
    using l set_sort [of "\<lambda>r. - o_created_at r" rows] by (auto simp: image_iff)
qed

lemma most_recent_None: "most_recent rows = None \<longleftrightarrow> rows = []"
proof -
  have "sort_key (\<lambda>r. - o_created_at r) rows = [] \<longleftrightarrow> rows = []"
    by (metis length_0_conv length_sort)
  then show ?thesis by (auto simp: most_recent_def split: list.splits)
qed

section \<open>Every step keeps the invariant\<close>

lemma store_inv_files:
  assumes "store_inv p s" "buckets s' = buckets s" "objects s' = objects s"
    "multipart_uploads s' = multipart_uploads s" "parts s' = parts s"
    and "\<And>r. r \<in> set (objects s) \<Longrightarrow> files s' (blob_path (o_id r)) = files s (blob_path (o_id r))"
  shows "store_inv p s'"
  using assms by (simp add: store_inv_def tables_ok_def blob_ok_def bucket_exists_def find_bucket_def)

lemma store_inv_id_length: "store_inv p s \<Longrightarrow> r \<in> set (objects s) \<Longrightarrow> length (o_id r) = 26"
  by (auto simp: store_inv_def version_ids_ok_def)

lemma fresh_id_blob:
  assumes "store_inv p s" "fresh_id i s" "r \<in> set (objects s)"
  shows "blob_path (o_id r) \<noteq> blob_path i"
  using assms blob_path_inj store_inv_id_length [OF assms(1,3)] by (auto simp: fresh_id_def)

text \<open>A row with a fresh id becomes the current version; the blobs of the other rows are as
  they were.\<close>

lemma store_inv_replace_current:
  assumes inv: "store_inv p s"
    and tables: "buckets s1 = buckets s" "objects s1 = objects s"
      "multipart_uploads s1 = multipart_uploads s" "parts s1 = parts s"
    and fs: "\<And>r. r \<in> set (objects s) \<Longrightarrow> files s1 (blob_path (o_id r)) = files s (blob_path (o_id r))"
    and row: "bucket_exists (o_bucket row) s" "fresh_id (o_id row) s" "o_is_latest row"
      "o_version_id row = (if v then o_id row else ''null'')" "blob_ok (files s1) row"
    and later: "p \<longrightarrow> spaced (objects s) (objects (snd (replace_current v row s1)))"
  shows "store_inv p (snd (replace_current v row s1))"
proof -
  have inv1: "store_inv p s1" using store_inv_files [OF inv tables fs] by simp
  have "bucket_exists (o_bucket row) s1" "o_id row \<notin> o_id ` set (objects s1)"
    using row tables by (simp_all add: bucket_exists_def find_bucket_def fresh_id_def)
  then obtain u where eq: "replace_current v row s1 = (True, s1\<lparr>objects := u\<rparr>)"
    and set: "set u = with_current v row (set (objects s1))"
    and key: "unique_key o_id (objects s1) \<longrightarrow> unique_key o_id u"
    using replace_current_fresh by blast
  have old: "x = row \<or> (\<exists>r \<in> set (objects s1). o_bucket x = o_bucket r
      \<and> blob_ok (files s1) x = blob_ok (files s1) r)" if "x \<in> set u" for x
    using that unfolding set by (cases rule: with_current_cases) (auto simp: blob_ok_def)
  have "tables_ok (s1\<lparr>objects := u\<rparr>)"
    using inv1 key old row(1) tables
    by (fastforce simp: store_inv_def tables_ok_def bucket_exists_def find_bucket_def)
  moreover have "some_latest (set u)"
    unfolding set using inv1 row(3) by (intro some_latest_current) (simp_all add: store_inv_def)
  moreover have "latest_ok (set u)" if p
  proof -
    have "row \<in> set u" by (simp add: set with_current_def)
    then have "\<forall>r \<in> set u. same_object r row \<longrightarrow> r \<noteq> row \<longrightarrow> o_created_at r < o_created_at row"
      using later that row(2) by (simp add: spaced_def eq fresh_id_def)
    then show ?thesis
      using inv1 that row(3) unfolding set by (intro latest_ok_current) (simp_all add: store_inv_def)
  qed
  moreover have "version_ids_ok (set u)"
    unfolding set using inv1 row by (intro version_ids_ok_current) (simp_all add: store_inv_def fresh_id_def)
  moreover have "\<forall>x \<in> set u. blob_ok (files s1) x" using old row(5) inv1 by (auto simp: store_inv_def)
  ultimately show "store_inv p (snd (replace_current v row s1))"
    by (simp add: eq store_inv_def)
qed

lemma fs_simps [simp]:
  "buckets (fs_write p d s) = buckets s" "objects (fs_write p d s) = objects s"
  "multipart_uploads (fs_write p d s) = multipart_uploads s" "parts (fs_write p d s) = parts s"
  "files (fs_write p d s) = (files s)(p \<mapsto> d)" "master_key (fs_write p d s) = master_key s"
  "buckets (fs_remove p s) = buckets s" "objects (fs_remove p s) = objects s"
  "multipart_uploads (fs_remove p s) = multipart_uploads s" "parts (fs_remove p s) = parts s"
  "files (fs_remove p s) = (files s)(p := None)" "master_key (fs_remove p s) = master_key s"
  "buckets (fs_rename p q s) = buckets s" "objects (fs_rename p q s) = objects s"
  "multipart_uploads (fs_rename p q s) = multipart_uploads s" "parts (fs_rename p q s) = parts s"
  "files (fs_rename p q s) = (files s)(p := None, q := files s p)" "master_key (fs_rename p q s) = master_key s"
  "buckets (fs_remove_dir p s) = buckets s" "objects (fs_remove_dir p s) = objects s"
  "multipart_uploads (fs_remove_dir p s) = multipart_uploads s" "parts (fs_remove_dir p s) = parts s"
  "files (fs_remove_dir p s) q = (if starts_with q (p @ ''/'') then None else files s q)"
  by (simp_all add: fs_write_def fs_remove_def fs_rename_def fs_remove_dir_def)

lemma install_encrypted_simps [simp]:
  "buckets (install_encrypted tmp i c s) = buckets s" "objects (install_encrypted tmp i c s) = objects s"
  "multipart_uploads (install_encrypted tmp i c s) = multipart_uploads s"
  "parts (install_encrypted tmp i c s) = parts s" "master_key (install_encrypted tmp i c s) = master_key s"
  by (simp_all add: install_encrypted_def)

lemma tmp_path_upload: "tmp_path (i @ ''-upload'') \<noteq> tmp_path i"
  by (simp add: tmp_path_def)

lemma install_encrypted_files:
  "files (install_encrypted (tmp_path (i @ ''-upload'')) i c s) (blob_path i) = Some c"
  "blob_path j \<noteq> blob_path i \<Longrightarrow>
     files (install_encrypted (tmp_path (i @ ''-upload'')) i c s) (blob_path j) = files s (blob_path j)"
  using tmp_path_upload [of i] by (auto simp: install_encrypted_def)

lemma store_blob_result:
  assumes "store_blob ix nonce i b k v key opts (tmp_path (i @ ''-upload'')) pt s = (r, s')"
    and "files s (tmp_path (i @ ''-upload'')) = Some pt"
  shows "buckets s' = buckets s" "objects s' = objects s" "multipart_uploads s' = multipart_uploads s"
    "parts s' = parts s" "master_key s' = master_key s"
    and "blob_path j \<noteq> blob_path i \<Longrightarrow> files s' (blob_path j) = files s (blob_path j)"
    and "r = Inr enc \<Longrightarrow> \<exists>d. files s' (blob_path i) = Some d \<and> (fst enc = None \<longrightarrow> d = pt)"
  using assms
  by (auto simp: store_blob_def install_encrypted_files
      split: option.splits server_side_encryption.splits sum.splits)

lemma put_row_simps [simp]:
  "o_id (put_row ix now i b k v data opts enc) = i" "o_bucket (put_row ix now i b k v data opts enc) = b"
  "o_key (put_row ix now i b k v data opts enc) = k" "o_version_id (put_row ix now i b k v data opts enc) = v"
  "o_created_at (put_row ix now i b k v data opts enc) = sql_datetime now"
  "o_is_latest (put_row ix now i b k v data opts enc)" "\<not> o_is_delete_marker (put_row ix now i b k v data opts enc)"
  "o_size (put_row ix now i b k v data opts enc) = length data"
  "o_encryption_algorithm (put_row ix now i b k v data opts enc) = fst enc"
  "o_encryption_key_md5 (put_row ix now i b k v data opts enc) = snd enc"
  "o_etag (put_row ix now i b k v data opts enc) = format_etag (md5_hex (sx_crypto ix) data)"
  by (simp_all add: put_row_def object_row_default_def)

lemma store_inv_put:
  assumes inv: "store_inv p s" and i: "fresh_id i s"
    and later: "p \<longrightarrow> spaced (objects s) (objects (snd (put_object ix now i nonce b k body po s)))"
  shows "store_inv p (snd (put_object ix now i nonce b k body po s))"
proof -
  show ?thesis
  proof (cases "find_bucket b s")
    case None
    then show ?thesis by (simp add: put_object_def inv)
  next
    case (Some br)
    define v where "v = (br_versioning_status br = ''Enabled'')"
    define vid where "vid = (if v then i else ''null'')"
    define tmp where "tmp = tmp_path (i @ ''-upload'')"
    obtain data failure where body: "stream_body [] body = (data, failure)" by fastforce
    have inv1: "store_inv p (fs_write tmp data s)"
      by (rule store_inv_files [OF inv]) (simp_all add: tmp_def blob_path_other(1))
    show ?thesis
    proof (cases "optional_sse_c_key ix (po_sse_customer_key po) (po_sse_customer_key_md5 po)")
      case (Inl e)
      then show ?thesis using Some by (simp add: put_object_def inv)
    next
      case (Inr key)
      obtain r s2 where blob: "store_blob ix nonce i b k vid key po tmp data (fs_write tmp data s) = (r, s2)"
        by fastforce
      note res = store_blob_result [OF blob [unfolded tmp_def]]
      have keep: "files s2 (blob_path (o_id x)) = files s (blob_path (o_id x))" if "x \<in> set (objects s)" for x
        using res(6) [of "o_id x"] fresh_id_blob [OF inv i that] by (simp add: tmp_def)
      have tables: "buckets s2 = buckets s" "objects s2 = objects s"
        "multipart_uploads s2 = multipart_uploads s" "parts s2 = parts s"
        using res(1-4) by simp_all
      have inv2: "store_inv p s2" by (rule store_inv_files [OF inv tables keep])
      show ?thesis
      proof (cases "failure")
        case (Some e)
        then show ?thesis
          using \<open>find_bucket b s = Some br\<close> Inr body inv1
          by (simp add: put_object_def tmp_def)
      next
        case None
        show ?thesis
        proof (cases r)
          case (Inl e)
          then show ?thesis
            using Some \<open>optional_sse_c_key _ _ _ = Inr key\<close> body None blob inv2
            by (simp add: put_object_def tmp_def v_def vid_def Let_def)
        next
          case (Inr enc)
          let ?row = "put_row ix now i b k vid data po enc"
          have blob_row: "blob_ok (files s2) ?row"
            using res(7) [OF _ Inr] by (auto simp: blob_ok_def)
          obtain ins s3 where rep: "replace_current v ?row s2 = (ins, s3)" by fastforce
          have eq: "snd (put_object ix now i nonce b k body po s) = snd (replace_current v ?row s2)"
            using Some \<open>optional_sse_c_key _ _ _ = Inr key\<close> body None blob Inr rep
            by (simp add: put_object_def Let_def tmp_def [symmetric] v_def [symmetric] vid_def [symmetric])
          show ?thesis
            unfolding eq using Some i
            by (intro store_inv_replace_current [OF inv tables keep] blob_row later [unfolded eq])
              (auto simp: find_bucket_Some vid_def)
        qed
      qed
    qed
  qed
qed

lemma copy_row_simps [simp]:
  "o_id (copy_row ix now i b k v info src opts) = i" "o_bucket (copy_row ix now i b k v info src opts) = b"
  "o_key (copy_row ix now i b k v info src opts) = k" "o_version_id (copy_row ix now i b k v info src opts) = v"
  "o_created_at (copy_row ix now i b k v info src opts) = sql_datetime now"
  "o_is_latest (copy_row ix now i b k v info src opts)"
  "o_size (copy_row ix now i b k v info src opts) = oi_size info"
  "o_encryption_algorithm (copy_row ix now i b k v info src opts) = o_encryption_algorithm src"
  by (simp_all add: copy_row_def object_row_default_def Let_def)

lemma copy_blob_result:
  assumes "copy_blob ix nonce b k src b' k' v i s = (r, s')"
  shows "buckets s' = buckets s" "objects s' = objects s" "multipart_uploads s' = multipart_uploads s"
    "parts s' = parts s"
    and "blob_path j \<noteq> blob_path i \<Longrightarrow> files s' (blob_path j) = files s (blob_path j)"
    and "r = Inr u \<Longrightarrow> \<exists>d. files s' (blob_path i) = Some d
      \<and> (o_encryption_algorithm src = None \<longrightarrow> files s (blob_path (o_id src)) = Some d)"
  using assms by (auto simp: copy_blob_def Let_def split: option.splits sum.splits if_splits)

lemma find_objectD:
  "find_object b k vid s = Some r \<Longrightarrow> r \<in> set (objects s) \<and> same_key b k r
     \<and> (case vid of Some v \<Rightarrow> o_version_id r = v | None \<Rightarrow> o_is_latest r)"
  unfolding find_object_def by (drule sql_query_row_SomeD) (auto simp: same_key_def)

lemma store_inv_copy:
  assumes inv: "store_inv p s" and i: "fresh_id i s"
    and later: "p \<longrightarrow> spaced (objects s) (objects (snd (copy_object ix now i nonce b k b' k' co s)))"
  shows "store_inv p (snd (copy_object ix now i nonce b k b' k' co s))"
proof -
  consider (unchanged) "snd (copy_object ix now i nonce b k b' k' co s) = s"
    | (copied) src br where "find_object b k None s = Some src" "\<not> o_is_delete_marker src"
        "find_bucket b' s = Some br"
  proof (cases "find_object b k None s")
    case None
    then show thesis using unchanged by (simp add: copy_object_def head_object_def)
  next
    case (Some src)
    then show thesis
      using unchanged copied
      by (cases "o_is_delete_marker src"; cases "find_bucket b' s")
        (simp_all add: copy_object_def head_object_def)
  qed
  then show ?thesis
  proof cases
    case unchanged
    then show ?thesis using inv by simp
  next
    case copied
    define v where "v = (br_versioning_status br = ''Enabled'')"
    define vid where "vid = (if v then i else ''null'')"
    obtain r s1 where blob: "copy_blob ix nonce b k src b' k' vid i s = (r, s1)" by fastforce
    note res = copy_blob_result [OF blob]
    have keep: "files s1 (blob_path (o_id x)) = files s (blob_path (o_id x))" if "x \<in> set (objects s)" for x
      using res(5) fresh_id_blob [OF inv i that] by simp
    have inv1: "store_inv p s1" by (rule store_inv_files [OF inv res(1-4) keep])
    note unfold = copy_object_def head_object_def copied Let_def v_def [symmetric] vid_def [symmetric] blob
    show ?thesis
    proof (cases r)
      case (Inl e)
      then show ?thesis using inv1 by (simp add: unfold)
    next
      case (Inr u)
      let ?row = "copy_row ix now i b' k' vid (object_info_of_row ix src) src co"
      obtain ins s2 where rep: "replace_current v ?row s1 = (ins, s2)" by fastforce
      have src: "src \<in> set (objects s)" using find_objectD [OF copied(1)] by blast
      then have "blob_ok (files s) src" using inv by (simp add: store_inv_def)
      then have "blob_ok (files s1) ?row"
        using res(6) [OF Inr] copied(2) by (auto simp: blob_ok_def object_info_of_row_def)
      moreover have eq: "snd (copy_object ix now i nonce b k b' k' co s) = snd (replace_current v ?row s1)"
        using Inr rep by (simp add: unfold)
      ultimately show ?thesis
        unfolding eq using copied i
        by (intro store_inv_replace_current [OF inv res(1-4) keep] later [unfolded eq])
          (auto simp: find_bucket_Some vid_def)
    qed
  qed
qed

section \<open>Deletions\<close>

lemma fold_remove_blobs [simp]:
  "buckets (fold (\<lambda>i. fs_remove (blob_path i)) is s) = buckets s"
  "objects (fold (\<lambda>i. fs_remove (blob_path i)) is s) = objects s"
  "multipart_uploads (fold (\<lambda>i. fs_remove (blob_path i)) is s) = multipart_uploads s"
  "parts (fold (\<lambda>i. fs_remove (blob_path i)) is s) = parts s"
  "files (fold (\<lambda>i. fs_remove (blob_path i)) is s) p =
     (if p \<in> blob_path ` set is then None else files s p)"
  by (induction "is" arbitrary: s) auto

lemma tables_ok_objects:
  assumes "tables_ok s" "unique_key o_id u" "\<And>x. x \<in> set u \<Longrightarrow> \<exists>r \<in> set (objects s). o_bucket x = o_bucket r"
    and "buckets s' = buckets s" "objects s' = u" "multipart_uploads s' = multipart_uploads s"
    "parts s' = parts s"
  shows "tables_ok s'"
  using assms by (fastforce simp: tables_ok_def bucket_exists_def find_bucket_def)

text \<open>Dropping rows of one key, together with their blobs, and promoting the youngest rest.\<close>

lemma store_inv_drop:
  assumes inv: "store_inv p s" and gone: "\<And>x. x \<in> set (objects s) \<Longrightarrow> P x \<Longrightarrow> same_key b k x"
    and s1: "buckets s1 = buckets s" "objects s1 = sql_delete P (objects s)"
      "multipart_uploads s1 = multipart_uploads s" "parts s1 = parts s"
    and fs: "\<And>x. x \<in> set (objects s) \<Longrightarrow> \<not> P x \<Longrightarrow> files s1 (blob_path (o_id x)) = files s (blob_path (o_id x))"
  shows "store_inv p (promote_latest b k s1)"
proof -
  let ?S = "{x \<in> set (objects s). \<not> P x}"
  have S: "set (objects s1) = ?S" by (simp add: s1 table_simps)
  have uk: "unique_key o_id (objects s)" and tab: "tables_ok s" and lat: "p \<Longrightarrow> latest_ok (set (objects s))"
    and cur: "some_latest (set (objects s))"
    and vid: "version_ids_ok (set (objects s))"
    and blob: "\<And>x. x \<in> set (objects s) \<Longrightarrow> blob_ok (files s) x"
    using inv by (auto simp: store_inv_def tables_ok_def)
  have rows: "x \<in> set (versions_of b k s1) \<longleftrightarrow> x \<in> ?S \<and> same_key b k x" for x
    by (auto simp: versions_of_def table_simps S)
  show ?thesis
  proof (cases "most_recent (versions_of b k s1)")
    case None
    then have none: "\<not> same_key b k x" if "x \<in> ?S" for x
      using rows [of x] that by (simp add: most_recent_None)
    then have "?S = {x \<in> set (objects s). \<not> same_key b k x}" using gone by blast
    then have "p \<longrightarrow> latest_ok ?S" "some_latest ?S"
      using latest_ok_other_keys [OF lat] some_latest_other_keys [OF cur] by simp_all
    moreover have "tables_ok s1"
      by (rule tables_ok_objects [OF tab _ _ s1(1) refl s1(3,4)])
        (auto simp: s1 table_simps intro: unique_key_delete uk)
    moreover have "version_ids_ok ?S" by (rule version_ids_ok_subset [OF vid]) blast
    moreover have "\<forall>x \<in> ?S. blob_ok (files s1) x" using blob fs by (auto simp: blob_ok_def)
    ultimately have "store_inv p s1" by (simp add: store_inv_def S)
    then show ?thesis using None by (simp add: promote_latest_def)
  next
    case (Some m)
    define f where "f x = (if o_id x = o_id m then x\<lparr>o_is_latest := True\<rparr> else x)" for x :: object_row
    have m: "m \<in> ?S" "same_key b k m" using most_recent_Some(1) [OF Some] rows by blast+
    define u where "u = sql_update (\<lambda>x. o_id x = o_id m) (o_is_latest_update (\<lambda>_. True)) (objects s1)"
    have set_u: "set u = f ` ?S" by (simp add: u_def table_simps S f_def)
    have f: "o_bucket (f x) = o_bucket x" "o_key (f x) = o_key x" "o_id (f x) = o_id x"
      "o_version_id (f x) = o_version_id x" "o_created_at (f x) = o_created_at x"
      "blob_ok fs (f x) = blob_ok fs x" for x fs
      by (auto simp: f_def blob_ok_def)
    have "latest_ok (set u)" if p unfolding set_u f_def
    proof (rule latest_ok_promote [OF lat [OF that]])
      show "o_created_at x \<le> o_created_at m" if "x \<in> ?S" "same_key b k x" for x
        using most_recent_Some(2) [OF Some] rows that by blast
      show "x = m" if "x \<in> ?S" "o_id x = o_id m" for x using unique_keyD [OF uk] m that by blast
    qed (use m gone in auto)
    moreover have "some_latest (set u)"
      unfolding set_u f_def by (rule some_latest_promote [OF cur]) (use m gone in auto)
    moreover have "tables_ok (s1\<lparr>objects := u\<rparr>)"
    proof (rule tables_ok_objects [OF tab, of u])
      show "unique_key o_id u"
        unfolding u_def s1 by (intro unique_key_update unique_key_delete uk) simp
      show "\<exists>r \<in> set (objects s). o_bucket x = o_bucket r" if "x \<in> set u" for x
        using that f(1) unfolding set_u by blast
    qed (simp_all add: s1)
    moreover have "version_ids_ok (set u)"
      unfolding set_u by (rule version_ids_ok_image [OF vid _ f(1-4)]) blast
    moreover have "\<forall>x \<in> set u. blob_ok (files s1) x"
      unfolding set_u using blob fs by (auto simp: f) (auto simp: blob_ok_def)
    ultimately show ?thesis using Some by (simp add: store_inv_def promote_latest_def u_def [symmetric])
  qed
qed

lemma create_delete_marker_eq:
  "create_delete_marker now i b k s = replace_current True (delete_marker_row now i b k) s"
proof -
  have "(if same_key b k r \<and> o_is_latest r then o_is_latest_update (\<lambda>_. False) r else r)
      = (if same_key b k r then o_is_latest_update (\<lambda>_. False) r else r)" for r :: object_row
    by (cases r) simp
  then have "sql_update (\<lambda>r. same_key b k r \<and> o_is_latest r) (o_is_latest_update (\<lambda>_. False)) (objects s)
      = sql_update (same_key b k) (o_is_latest_update (\<lambda>_. False)) (objects s)"
    by (simp only: sql_update_def)
  moreover have "o_bucket (delete_marker_row now i b k) = b" "o_key (delete_marker_row now i b k) = k"
    by (simp_all add: delete_marker_row_def)
  ultimately show ?thesis by (simp add: create_delete_marker_def replace_current_def Let_def)
qed

lemma delete_marker_row_simps [simp]:
  "o_id (delete_marker_row now i b k) = i" "o_bucket (delete_marker_row now i b k) = b"
  "o_key (delete_marker_row now i b k) = k" "o_version_id (delete_marker_row now i b k) = i"
  "o_created_at (delete_marker_row now i b k) = sql_datetime now"
  "o_is_latest (delete_marker_row now i b k)" "o_is_delete_marker (delete_marker_row now i b k)"
  by (simp_all add: delete_marker_row_def object_row_default_def)

lemma store_inv_delete_marker:
  assumes inv: "store_inv p s" and i: "fresh_id i s" and b: "bucket_exists b s"
    and later: "p \<longrightarrow> spaced (objects s) (objects (snd (create_delete_marker now i b k s)))"
  shows "store_inv p (snd (create_delete_marker now i b k s))"
  using store_inv_replace_current [OF inv, of s "delete_marker_row now i b k" True] assms
  by (simp add: create_delete_marker_eq blob_ok_def)

lemma store_inv_delete_specific:
  assumes "store_inv p s"
  shows "store_inv p (delete_specific_version b k vid s)"
proof -
  let ?P = "\<lambda>r. same_key b k r \<and> o_version_id r = vid"
  define s1 where "s1 = s\<lparr>objects := sql_delete ?P (objects s)\<rparr>"
  define s2 where "s2 = (case find_object b k (Some vid) s of
      Some r \<Rightarrow> fs_remove (blob_path (o_id r)) s1 | None \<Rightarrow> s1)"
  have "files s2 (blob_path (o_id x)) = files s (blob_path (o_id x))"
    if x: "x \<in> set (objects s)" "\<not> ?P x" for x
  proof (cases "find_object b k (Some vid) s")
    case None
    then show ?thesis by (simp add: s2_def s1_def)
  next
    case (Some r)
    then have r: "r \<in> set (objects s)" "?P r" using find_objectD [OF Some] by auto
    then have "o_id x \<noteq> o_id r"
      using assms x unique_keyD [of o_id "objects s" x r] by (auto simp: store_inv_def tables_ok_def)
    then have "blob_path (o_id x) \<noteq> blob_path (o_id r)"
      using blob_path_inj store_inv_id_length [OF assms] x(1) r(1) by blast
    then show ?thesis by (simp add: s2_def s1_def Some)
  qed
  moreover have "buckets s2 = buckets s" "objects s2 = sql_delete ?P (objects s)"
    "multipart_uploads s2 = multipart_uploads s" "parts s2 = parts s"
    by (simp_all add: s2_def s1_def split: option.splits)
  ultimately have "store_inv p (promote_latest b k s2)"
    by (intro store_inv_drop [OF assms, of ?P]) auto
  then show ?thesis
    by (simp add: delete_specific_version_def s1_def [symmetric] s2_def [symmetric] Let_def)
qed

lemma store_inv_delete_all:
  assumes "store_inv p s"
  shows "store_inv p (delete_all_versions b k s)"
proof -
  let ?s = "delete_all_versions b k s"
  have tables: "buckets ?s = buckets s" "objects ?s = sql_delete (same_key b k) (objects s)"
    "multipart_uploads ?s = multipart_uploads s" "parts ?s = parts s"
    by (simp_all add: delete_all_versions_def Let_def)
  have "files ?s (blob_path (o_id x)) = files s (blob_path (o_id x))"
    if x: "x \<in> set (objects s)" "\<not> same_key b k x" for x
  proof -
    have "blob_path (o_id x) \<noteq> blob_path (o_id r)" if r: "r \<in> set (objects s)" "same_key b k r" for r
      using blob_path_inj store_inv_id_length [OF assms] x r
        unique_keyD [of o_id "objects s" x r] assms by (auto simp: store_inv_def tables_ok_def)
    then show ?thesis
      by (auto simp: delete_all_versions_def Let_def versions_of_def table_simps)
  qed
  then have "store_inv p (promote_latest b k ?s)"
    by (intro store_inv_drop [OF assms _ tables]) auto
  moreover have "versions_of b k ?s = []"
    by (simp add: versions_of_def tables sql_select_def sql_delete_def filter_empty_conv)
  ultimately show ?thesis by (simp add: promote_latest_def most_recent_def)
qed

lemma store_inv_delete_version:
  assumes inv: "store_inv p s" and i: "fresh_id i s"
    and later: "p \<longrightarrow> spaced (objects s) (objects (snd (delete_object_version now i b k vid s)))"
  shows "store_inv p (snd (delete_object_version now i b k vid s))"
proof -
  let ?s = "snd (delete_object_version now i b k vid s)"
  have "?s = s \<or> (\<exists>v. ?s = delete_specific_version b k v s) \<or> ?s = delete_all_versions b k s
    \<or> (bucket_exists b s \<and> ?s = snd (create_delete_marker now i b k s))"
    by (cases "find_bucket b s"; cases "object_delete_locked now b k vid s"; cases vid)
      (auto simp: delete_object_version_def Let_def find_bucket_Some split: prod.split)
  then show ?thesis
  proof (elim disjE exE conjE)
    assume "bucket_exists b s" and eq: "?s = snd (create_delete_marker now i b k s)"
    then show ?thesis using store_inv_delete_marker [OF inv i _ later [unfolded eq]] by (simp only: eq)
  qed (simp_all add: inv store_inv_delete_specific store_inv_delete_all)
qed

section \<open>Buckets, uploads and locks\<close>

lemma store_inv_create_bucket:
  assumes "store_inv p s" shows "store_inv p (snd (create_bucket now b opts s))"
proof (cases "snd (create_bucket now b opts s) = s")
  case False
  then obtain u row where u: "sql_insert br_name row (buckets s) = Some u"
    and eq: "snd (create_bucket now b opts s) = s\<lparr>buckets := u\<rparr>"
    by (auto simp: create_bucket_def Let_def split: sum.splits option.splits)
  have "bucket_exists c (s\<lparr>buckets := u\<rparr>)" if "bucket_exists c s" for c
    using that set_sql_insert [OF u] by (auto simp: bucket_exists_iff)
  then show ?thesis
    using assms unique_key_insert [OF u] by (auto simp: eq store_inv_def tables_ok_def)
qed (use assms in simp)

lemma store_inv_set_versioning:
  assumes "store_inv p s" shows "store_inv p (snd (set_bucket_versioning b e s))"
proof (cases "snd (set_bucket_versioning b e s) = s")
  case False
  then obtain st where eq: "snd (set_bucket_versioning b e s) = s\<lparr>buckets := sql_update (\<lambda>r. br_name r = b)
      (br_versioning_status_update (\<lambda>_. st)) (buckets s)\<rparr>"
    by (auto simp: set_bucket_versioning_def Let_def split: if_splits)
  have names: "map br_name (sql_update (\<lambda>r. br_name r = b) (br_versioning_status_update (\<lambda>_. st)) (buckets s))
      = map br_name (buckets s)"
    by (rule map_key_sql_update) simp
  then have "bucket_exists c (s\<lparr>buckets := sql_update (\<lambda>r. br_name r = b)
      (br_versioning_status_update (\<lambda>_. st)) (buckets s)\<rparr>) = bucket_exists c s" for c
    by (simp add: bucket_exists_iff) (metis list.set_map)
  then show ?thesis
    using assms names by (simp add: eq store_inv_def tables_ok_def unique_key_def)
qed (use assms in simp)

lemma store_inv_delete_bucket:
  assumes "store_inv p s" shows "store_inv p (snd (delete_bucket b s))"
proof (cases "snd (delete_bucket b s) = s")
  case False
  then have eq: "snd (delete_bucket b s) = delete_bucket_rows b s"
    and none: "\<And>r. r \<in> set (objects s) \<Longrightarrow> o_bucket r \<noteq> b"
    by (auto simp: delete_bucket_def table_simps split: if_splits)
  let ?s = "delete_bucket_rows b s"
  have objs: "objects ?s = objects s"
    using none by (auto simp: delete_bucket_rows_def Let_def sql_delete_def filter_id_conv)
  have ex: "bucket_exists c ?s \<longleftrightarrow> bucket_exists c s \<and> c \<noteq> b" for c
    by (auto simp: bucket_exists_iff delete_bucket_rows_def Let_def table_simps)
  have ups: "set (multipart_uploads ?s) = {u \<in> set (multipart_uploads s). up_bucket u \<noteq> b}"
    by (simp add: delete_bucket_rows_def Let_def table_simps)
  have pts: "set (parts ?s) = {p \<in> set (parts s).
      \<forall>u \<in> set (multipart_uploads s). up_bucket u = b \<longrightarrow> up_upload_id u \<noteq> pt_upload_id p}"
    by (auto simp: delete_bucket_rows_def Let_def table_simps image_iff)
  have "unique_key br_name (buckets ?s)" "unique_key up_upload_id (multipart_uploads ?s)"
    "unique_key part_key (parts ?s)"
    using assms by (auto simp: store_inv_def tables_ok_def delete_bucket_rows_def Let_def)
  moreover have "\<exists>u \<in> set (multipart_uploads ?s). up_upload_id u = pt_upload_id p" if p: "p \<in> set (parts ?s)" for p
  proof -
    obtain u where "u \<in> set (multipart_uploads s)" "up_upload_id u = pt_upload_id p"
      using assms p unfolding store_inv_def tables_ok_def pts by blast
    then show ?thesis using p by (auto simp: ups pts)
  qed
  ultimately have "tables_ok ?s"
    using assms none by (simp add: tables_ok_def store_inv_def objs ex ups)
  moreover have "files ?s = files s" by (simp add: delete_bucket_rows_def Let_def)
  ultimately show ?thesis using assms by (simp add: eq store_inv_def objs)
qed (use assms in simp)

lemma store_inv_create_upload:
  assumes inv: "store_inv p s" and i: "fresh_id i s"
  shows "store_inv p (snd (create_multipart_upload ix now i b k po s))"
proof (cases "snd (create_multipart_upload ix now i b k po s) = s")
  case False
  then obtain u row where u: "sql_insert up_upload_id row (multipart_uploads s) = Some u"
    and row: "up_upload_id row = i" "up_bucket row = b" and b: "bucket_exists b s"
    and eq: "snd (create_multipart_upload ix now i b k po s) = s\<lparr>multipart_uploads := u\<rparr>"
    by (auto simp: create_multipart_upload_def Let_def split: prod.splits option.splits if_splits)
  have "bucket_exists c (s\<lparr>multipart_uploads := u\<rparr>) = bucket_exists c s" for c
    by (simp add: bucket_exists_iff)
  then show ?thesis
    using inv unique_key_insert [OF u] set_sql_insert [OF u] row i b
    by (auto simp: eq store_inv_def tables_ok_def fresh_id_def)
qed (use inv in simp)

lemma store_inv_upload_part:
  assumes inv: "store_inv p s"
  shows "store_inv p (snd (upload_part ix now blob up n body s))"
proof -
  obtain data failure where body: "stream_body [] body = (data, failure)" by fastforce
  let ?u = "mu_upload_id up"
  define s1 where "s1 = fs_write (part_path ?u n) data s"
  have inv1: "store_inv p s1" unfolding s1_def by (rule store_inv_files [OF inv]) simp_all
  show ?thesis
  proof (cases "\<not> (1 \<le> n \<and> n \<le> 10000) \<or> find_upload ?u s = None \<or> failure \<noteq> None")
    case True
    then show ?thesis using inv inv1 body by (auto simp: upload_part_def s1_def Let_def)
  next
    case False
    then obtain up_row where up: "up_row \<in> set (multipart_uploads s)" "up_upload_id up_row = ?u"
      by (auto simp: find_upload_def dest: sql_query_row_SomeD)
    define etag where "etag = format_etag (md5_hex (sx_crypto ix) data)"
    define row where "row = \<lparr>pt_upload_id = ?u, pt_part_number = unat n, pt_blob_id = blob,
        pt_size = length data, pt_etag = etag, pt_created_at = sql_datetime now\<rparr>"
    define rest where "rest = sql_delete (\<lambda>p. part_key p = part_key row) (parts s)"
    have "parts s1 = parts s" by (simp add: s1_def)
    have rest: "unique_key part_key rest" "set rest \<subseteq> set (parts s)" "part_key row \<notin> part_key ` set rest"
      using inv by (auto simp: rest_def store_inv_def tables_ok_def table_simps)
    then have ins: "sql_insert part_key row rest = Some (rest @ [row])" by (simp add: sql_insert_def)
    have eq: "snd (upload_part ix now blob up n body s) = s1\<lparr>parts := rest @ [row]\<rparr>"
      using False body ins \<open>parts s1 = parts s\<close>
      by (auto simp: upload_part_def Let_def s1_def [symmetric] etag_def [symmetric] row_def [symmetric]
          rest_def [symmetric] simp del: fs_simps)
    have "bucket_exists c (s1\<lparr>parts := rest @ [row]\<rparr>) = bucket_exists c s1" for c
      by (simp add: bucket_exists_iff)
    moreover have "\<exists>u \<in> set (multipart_uploads s). up_upload_id u = pt_upload_id row"
      using up by (auto simp: row_def)
    ultimately show ?thesis
      using inv1 rest unique_key_insert [OF ins rest(1)]
      by (auto simp: eq store_inv_def tables_ok_def s1_def)
  qed
qed

lemma store_inv_delete_upload_rows:
  assumes "store_inv p s" shows "store_inv p (delete_upload_rows u s)"
proof -
  have "bucket_exists c (delete_upload_rows u s) = bucket_exists c s" for c
    by (simp add: bucket_exists_iff delete_upload_rows_def)
  then show ?thesis
    using assms by (fastforce simp: store_inv_def tables_ok_def delete_upload_rows_def table_simps
        intro: unique_key_delete)
qed

lemma store_inv_remove_dir:
  "store_inv p s \<Longrightarrow> store_inv p (fs_remove_dir (upload_dir u) s)"
  by (rule store_inv_files) simp_all

lemma store_inv_abort:
  "store_inv p s \<Longrightarrow> store_inv p (snd (abort_multipart_upload up s))"
  by (simp add: abort_multipart_upload_def Let_def store_inv_remove_dir store_inv_delete_upload_rows)

lemma store_inv_cleanup:
  assumes "store_inv p s" shows "store_inv p (cleanup_stale_multipart_uploads now age s)"
proof -
  have "store_inv p (fold (\<lambda>u. abort_stale_multipart (up_upload_id u)) us s)" for us :: "upload_row list"
    using assms by (induction us arbitrary: s)
      (simp_all add: abort_stale_multipart_def store_inv_remove_dir store_inv_delete_upload_rows)
  then show ?thesis by (simp add: cleanup_stale_multipart_uploads_def Let_def)
qed

lemma completed_row_simps [simp]:
  "o_id (completed_row ix now i v meta ps n alg) = i"
  "o_bucket (completed_row ix now i v meta ps n alg) = up_bucket meta"
  "o_key (completed_row ix now i v meta ps n alg) = up_key meta"
  "o_version_id (completed_row ix now i v meta ps n alg) = v"
  "o_created_at (completed_row ix now i v meta ps n alg) = sql_datetime now"
  "o_is_latest (completed_row ix now i v meta ps n alg)"
  "\<not> o_is_delete_marker (completed_row ix now i v meta ps n alg)"
  "o_size (completed_row ix now i v meta ps n alg) = n"
  "o_encryption_algorithm (completed_row ix now i v meta ps n alg) = alg"
  by (simp_all add: completed_row_def object_row_default_def)

lemma complete_encryption_plain:
  "complete_encryption ix nonce s meta v pt = Inr (d, None) \<Longrightarrow> d = pt"
  by (auto simp: complete_encryption_def split: if_splits sum.splits)

lemma store_inv_assemble:
  assumes inv: "store_inv p s" and i: "fresh_id i s"
    and b: "bucket_exists (up_bucket meta) s"
    and later: "p \<longrightarrow> spaced (objects s) (objects (snd (assemble_object ix now i nonce meta v ps s)))"
  shows "store_inv p (snd (assemble_object ix now i nonce meta v ps s))"
proof -
  define vid where "vid = (if v then i else ''null'')"
  note unfold = assemble_object_def Let_def vid_def [symmetric]
  show ?thesis
  proof (cases "concat_parts (up_upload_id meta) s [] ps")
    case (Inl e)
    then show ?thesis using inv by (simp add: unfold)
  next
    case pt: (Inr pt)
    show ?thesis
    proof (cases "complete_encryption ix nonce s meta vid pt")
      case (Inl e)
      then show ?thesis using inv pt by (simp add: unfold)
    next
      case (Inr enc)
      obtain d alg where enc: "enc = (d, alg)" by fastforce
      let ?row = "completed_row ix now i vid meta ps (length pt) alg"
      define s1 where "s1 = fs_write (blob_path i) d s"
      obtain ins s2 where rep: "replace_current v ?row s1 = (ins, s2)" by fastforce
      have keep: "files s1 (blob_path (o_id x)) = files s (blob_path (o_id x))" if "x \<in> set (objects s)" for x
        using fresh_id_blob [OF inv i that] by (simp add: s1_def)
      have "alg = None \<Longrightarrow> d = pt" using complete_encryption_plain Inr enc by metis
      then have blob: "blob_ok (files s1) ?row" by (auto simp: blob_ok_def s1_def)
      have eq: "snd (assemble_object ix now i nonce meta v ps s) = (if ins
          then fs_remove_dir (upload_dir (up_upload_id meta)) (delete_upload_rows (up_upload_id meta) s2) else s2)"
        using pt Inr enc rep by (simp add: unfold s1_def [symmetric])
      then have "p \<longrightarrow> spaced (objects s) (objects (snd (replace_current v ?row s1)))"
        using later by (simp add: rep delete_upload_rows_def split: if_splits)
      then have "store_inv p (snd (replace_current v ?row s1))"
        by (intro store_inv_replace_current [OF inv _ _ _ _ keep] blob)
          (simp_all add: s1_def b i vid_def)
      then show ?thesis by (simp add: eq rep store_inv_remove_dir store_inv_delete_upload_rows)
    qed
  qed
qed

lemma store_inv_complete:
  assumes inv: "store_inv p s" and i: "fresh_id i s"
    and later: "p \<longrightarrow> spaced (objects s) (objects (snd (complete_multipart_upload ix now i nonce up ps s)))"
  shows "store_inv p (snd (complete_multipart_upload ix now i nonce up ps s))"
proof -
  have "snd (complete_multipart_upload ix now i nonce up ps s) = s
    \<or> (\<exists>meta br v. find_bucket (up_bucket meta) s = Some br \<and>
      snd (complete_multipart_upload ix now i nonce up ps s) = snd (assemble_object ix now i nonce meta v ps s))"
    by (simp add: complete_multipart_upload_def split: option.split) metis
  then show ?thesis
  proof (elim disjE exE conjE)
    fix meta br v assume "find_bucket (up_bucket meta) s = Some br"
      and eq: "snd (complete_multipart_upload ix now i nonce up ps s) = snd (assemble_object ix now i nonce meta v ps s)"
    then show ?thesis
      using store_inv_assemble [OF inv i find_bucket_Some later [unfolded eq]] by (simp add: eq)
  qed (simp add: inv)
qed

text \<open>Retention and legal hold change no column the invariant speaks of.\<close>

lemma store_inv_update_objects:
  assumes inv: "store_inv p s"
    and f: "\<And>x. o_bucket (f x) = o_bucket x" "\<And>x. o_key (f x) = o_key x" "\<And>x. o_id (f x) = o_id x"
      "\<And>x. o_version_id (f x) = o_version_id x" "\<And>x. o_created_at (f x) = o_created_at x"
      "\<And>x. o_is_latest (f x) = o_is_latest x" "\<And>x fs. blob_ok fs (f x) = blob_ok fs x"
  shows "store_inv p (s\<lparr>objects := sql_update P f (objects s)\<rparr>)"
proof -
  let ?g = "\<lambda>x. if P x then f x else x"
  let ?O = "set (objects s)"
  have set: "set (sql_update P f (objects s)) = ?g ` ?O" by (simp add: table_simps)
  have lat: "p \<Longrightarrow> latest_ok ?O" and vid: "version_ids_ok ?O" and tab: "tables_ok s"
    and blob: "\<forall>x \<in> ?O. blob_ok (files s) x" and cur: "some_latest ?O"
    using inv by (simp_all add: store_inv_def)
  have "latest_ok (?g ` ?O)" if p
  proof (rule latest_ok_image)
    note lat = lat [OF that]
    show "x = r" if "r \<in> ?O" "x \<in> ?O" "same_object x r" "o_created_at x = o_created_at r" for r x
      using lat that unfolding latest_ok_def by blast
    show "o_is_latest (?g r) \<longleftrightarrow> (\<forall>x \<in> ?O. same_object x r \<longrightarrow> o_created_at x \<le> o_created_at r)"
      if "r \<in> ?O" for r
      using lat that unfolding latest_ok_def by (simp add: f)
  qed (simp_all add: f)
  moreover have "version_ids_ok (?g ` ?O)"
    by (rule version_ids_ok_image [OF vid subset_refl]) (simp_all add: f)
  moreover have "unique_key o_id (sql_update P f (objects s))"
    using tab by (intro unique_key_update) (simp_all add: f tables_ok_def)
  then have "tables_ok (s\<lparr>objects := sql_update P f (objects s)\<rparr>)"
    by (rule tables_ok_objects [OF tab]) (auto simp: set f)
  moreover have "\<forall>x \<in> ?g ` ?O. blob_ok (files s) x" using blob by (auto simp: f)
  moreover have "some_latest (?g ` ?O)" by (rule some_latest_image [OF cur]) (simp_all add: f)
  ultimately show ?thesis by (simp add: store_inv_def set)
qed

lemma store_inv_locks:
  assumes "store_inv p s"
  shows "store_inv p (snd (put_object_retention b k vid ret bypass s))"
    and "store_inv p (snd (put_object_legal_hold b k vid hold s))"
  using assms
  by (auto simp: put_object_retention_def put_object_legal_hold_def blob_ok_def split: prod.splits
      intro!: store_inv_update_objects)

lemma store_inv_step:
  assumes "store_step ix now s s'" and inv: "store_inv p s" and later: "p \<longrightarrow> spaced (objects s) (objects s')"
  shows "store_inv p s'"
proof -
  have same: "store_inv p s''" if "core s'' = core s" for s''
    using store_inv_cong [OF that] inv by blast
  note simple = store_inv_create_bucket store_inv_delete_bucket store_inv_set_versioning
    store_inv_upload_part store_inv_abort store_inv_cleanup store_inv_locks
  from assms(1) show ?thesis
    by cases (use later in \<open>simp_all add: simple [OF inv] store_inv_put [OF inv] store_inv_copy [OF inv]
      store_inv_delete_version [OF inv] store_inv_create_upload [OF inv]
      store_inv_complete [OF inv] same core_put_doc\<close>)
qed

lemma store_run_inv: "store_run p ix s \<Longrightarrow> store_inv p s"
proof (induction rule: store_run.induct)
  case (start mk)
  then show ?case
    by (simp add: store_inv_def tables_ok_def store_empty_def unique_key_def latest_ok_def some_latest_def
        version_ids_ok_def)
next
  case (step s now s')
  then show ?case using store_inv_step by blast
qed

lemma store_reachable_inv: "store_reachable ix s \<Longrightarrow> store_inv False s"
  and spaced_reachable_inv: "spaced_reachable ix s \<Longrightarrow> store_inv True s"
  unfolding store_reachable_def spaced_reachable_def by (rule store_run_inv, assumption)+

section \<open>What the invariant gives\<close>

text \<open>The rows of one key have different version ids.\<close>

lemma version_id_unique:
  assumes "version_ids_ok R" "unique_key o_id l" "R = set l" "x \<in> R" "r \<in> R" "same_object x r"
    "o_version_id x = o_version_id r"
  shows "x = r"
proof (cases "o_version_id x = ''null''")
  case True
  then show ?thesis using assms unfolding version_ids_ok_def by metis
next
  case False
  then have "o_id x = o_id r" using assms unfolding version_ids_ok_def by metis
  then show ?thesis using unique_keyD assms by metis
qed

lemma find_in_list:
  assumes "r \<in> set l" "P r" "\<And>x. x \<in> set l \<Longrightarrow> P x \<Longrightarrow> x = r"
  shows "sql_query_row P l = Some r"
proof (cases "sql_query_row P l")
  case None
  then show ?thesis using assms(1,2) by (auto simp: sql_query_row_None)
next
  case (Some x)
  then have "x = r" using assms(3) sql_query_row_SomeD [OF Some] by blast
  then show ?thesis using Some by simp
qed

lemma find_version_row:
  assumes "store_inv p s" "r \<in> set (objects s)" "same_key b k r" "o_version_id r = vid"
  shows "find_object b k (Some vid) s = Some r"
  unfolding find_object_selects
proof (rule find_in_list [OF assms(2)])
  show "selects_version b k (Some vid) r" using assms by (simp add: selects_version_def)
  fix x assume "x \<in> set (objects s)" "selects_version b k (Some vid) x"
  moreover have "same_object x r" if "same_key b k x" using that assms(3) by (auto simp: same_object_def same_key_def)
  ultimately show "x = r"
    using version_id_unique [of "set (objects s)" "objects s" x r] assms
    by (simp add: selects_version_def store_inv_def tables_ok_def)
qed

text \<open>No key has two current versions.\<close>

definition single_current :: "local_store \<Rightarrow> bool" where
  "single_current s = (\<forall>r \<in> set (objects s). \<forall>x \<in> set (objects s).
     same_object x r \<longrightarrow> o_is_latest x \<longrightarrow> o_is_latest r \<longrightarrow> x = r)"

lemma latest_ok_single:
  assumes "latest_ok (set (objects s))"
  shows "single_current s"
  unfolding single_current_def
proof (intro ballI impI)
  fix r x assume r: "r \<in> set (objects s)" "o_is_latest r" and x: "x \<in> set (objects s)" "o_is_latest x"
    and so: "same_object x r"
  have "same_object r x" using so by (simp add: same_object_sym)
  then have "o_created_at r \<le> o_created_at x" using assms x r(1) unfolding latest_ok_def by blast
  moreover have "o_created_at x \<le> o_created_at r" using assms r x(1) so unfolding latest_ok_def by blast
  ultimately show "x = r" using assms x(1) r(1) so unfolding latest_ok_def by force
qed

lemma spaced_reachable_single: "spaced_reachable ix s \<Longrightarrow> single_current s"
  using spaced_reachable_inv latest_ok_single by (auto simp: store_inv_def)

lemma find_latest_row:
  assumes "single_current s" "r \<in> set (objects s)" "same_key b k r" "o_is_latest r"
  shows "find_object b k None s = Some r"
  unfolding find_object_selects
proof (rule find_in_list [OF assms(2)])
  show "selects_version b k None r" using assms by (simp add: selects_version_def)
  fix x assume x: "x \<in> set (objects s)" "selects_version b k None x"
  have "same_object x r" "o_is_latest x" using x assms(3) by (auto simp: selects_version_def same_object_def same_key_def)
  then show "x = r" using assms x(1) unfolding single_current_def by blast
qed

text \<open>C15: in every state the store can reach, whatever the times of the operations, a version
  belongs to an existing bucket and is found by its version id, every key with a version has
  a current version, a version that is no delete marker has its blob, of the recorded size
  when it is not encrypted, and a part belongs to an upload in progress of an existing bucket.
  The current version of a key is the only one when every version of a key was created in a
  later second than the versions of that key beside it.\<close>

theorem store_integrity:
  assumes "store_reachable ix s"
  shows "(\<forall>r \<in> set (objects s). bucket_exists (o_bucket r) s
        \<and> find_object (o_bucket r) (o_key r) (Some (o_version_id r)) s = Some r)
    \<and> (\<forall>b k. versions_of b k s \<noteq> [] \<longrightarrow> (\<exists>r \<in> set (versions_of b k s). o_is_latest r))
    \<and> (spaced_reachable ix s \<longrightarrow>
        (\<forall>b k. versions_of b k s \<noteq> [] \<longrightarrow> (\<exists>!r. r \<in> set (versions_of b k s) \<and> o_is_latest r)))
    \<and> (\<forall>r \<in> set (objects s). o_is_delete_marker r \<or> (\<exists>d. files s (blob_path (o_id r)) = Some d
        \<and> (o_encryption_algorithm r = None \<longrightarrow> length d = o_size r)))
    \<and> (\<forall>u \<in> set (parts s). \<exists>up. find_upload (pt_upload_id u) s = Some up \<and> bucket_exists (up_bucket up) s)"
proof (intro conjI allI impI)
  have inv: "store_inv False s" using store_reachable_inv assms by blast
  show "\<forall>r \<in> set (objects s). bucket_exists (o_bucket r) s
      \<and> find_object (o_bucket r) (o_key r) (Some (o_version_id r)) s = Some r"
    using inv find_version_row [OF inv] by (simp add: store_inv_def tables_ok_def same_key_def)
  show "\<forall>r \<in> set (objects s). o_is_delete_marker r \<or> (\<exists>d. files s (blob_path (o_id r)) = Some d
      \<and> (o_encryption_algorithm r = None \<longrightarrow> length d = o_size r))"
    using inv by (auto simp: store_inv_def blob_ok_def)
  have set: "set (versions_of b k s) = {x \<in> set (objects s). same_key b k x}" for b k
    by (auto simp: versions_of_def table_simps)
  show some: "\<exists>r \<in> set (versions_of b k s). o_is_latest r" if ne: "versions_of b k s \<noteq> []" for b k
  proof -
    obtain x where x: "x \<in> set (objects s)" "same_key b k x"
      using ne set by (metis (no_types, lifting) list.set_intros(1) mem_Collect_eq neq_Nil_conv)
    then obtain r where "r \<in> set (objects s)" "same_object r x" "o_is_latest r"
      using inv by (auto simp: store_inv_def some_latest_def)
    moreover from this have "same_key b k r" using x same_key_object by blast
    ultimately show ?thesis unfolding set by blast
  qed
  show "\<exists>!r. r \<in> set (versions_of b k s) \<and> o_is_latest r"
    if spaced: "spaced_reachable ix s" and ne: "versions_of b k s \<noteq> []" for b k
  proof -
    have "y = r" if "y \<in> set (objects s)" "same_key b k y" "o_is_latest y"
        "r \<in> set (objects s)" "same_key b k r" "o_is_latest r" for y r
      using find_latest_row [OF spaced_reachable_single [OF spaced] that(1-3)]
        find_latest_row [OF spaced_reachable_single [OF spaced] that(4-6)] by simp
    then show ?thesis using some [OF ne] unfolding set by blast
  qed
  show "\<forall>u \<in> set (parts s). \<exists>up. find_upload (pt_upload_id u) s = Some up \<and> bucket_exists (up_bucket up) s"
  proof
    fix u assume u: "u \<in> set (parts s)"
    obtain up where "up \<in> set (multipart_uploads s)" "up_upload_id up = pt_upload_id u"
      using inv u by (auto simp: store_inv_def tables_ok_def)
    then have "find_upload (pt_upload_id u) s = Some up"
      using inv by (simp add: find_upload_def sql_query_row_key store_inv_def tables_ok_def)
    then show "\<exists>up. find_upload (pt_upload_id u) s = Some up \<and> bucket_exists (up_bucket up) s"
      using inv \<open>up \<in> _\<close> by (auto simp: store_inv_def tables_ok_def)
  qed
qed

section \<open>A small store\<close>

definition toy_id :: "char \<Rightarrow> string" where "toy_id c = replicate 26 c"

definition toy_put_opts :: put_object_opts where
  "toy_put_opts = \<lparr>po_content_type = None, po_content_encoding = None, po_content_disposition = None,
     po_cache_control = None, po_metadata = Map.empty, po_storage_class = None,
     po_server_side_encryption = None, po_sse_customer_key = None, po_sse_customer_key_md5 = None\<rparr>"

definition toy_put :: "int \<Rightarrow> string \<Rightarrow> string \<Rightarrow> bytes \<Rightarrow> local_store \<Rightarrow> local_store" where
  "toy_put n i key data s = snd (put_object toy_configs (n * nanos_per_sec) i (replicate 12 7) ''logs'' key
     [Inr data] toy_put_opts s)"

definition toy_versioned_store :: local_store where
  "toy_versioned_store = snd (set_bucket_versioning ''logs'' True toy_bucket_store)"

definition toy_object_store :: local_store where
  "toy_object_store = toy_put 3 (toy_id CHR ''B'') ''a.txt'' [4, 5]
     (toy_put 2 (toy_id CHR ''A'') ''a.txt'' [1, 2, 3] toy_versioned_store)"

lemma toy_versioned_spaced: "spaced_reachable toy_configs toy_versioned_store"
proof -
  have "spaced_reachable toy_configs toy_bucket_store"
    unfolding toy_bucket_store_def
    by (rule spaced_reachable_step [OF store_run.start [of True, folded spaced_reachable_def] store_step.create_bucket])
      (simp add: spaced_def create_bucket_def store_empty_def Let_def split: option.splits sum.splits)
  then show ?thesis
    unfolding toy_versioned_store_def
    by (rule spaced_reachable_step [OF _ store_step.set_versioning])
      (auto simp: spaced_def set_bucket_versioning_def Let_def)
qed

lemma toy_put_spaced:
  assumes "spaced_reachable toy_configs s" "fresh_id i s" "spaced (objects s) (objects (toy_put n i key data s))"
  shows "spaced_reachable toy_configs (toy_put n i key data s)"
  using spaced_reachable_step [OF assms(1) store_step.put [OF assms(2)]] assms(3) unfolding toy_put_def by blast

lemma toy_object_spaced: "spaced_reachable toy_configs toy_object_store"
proof -
  let ?A = "toy_put 2 (toy_id CHR ''A'') ''a.txt'' [1, 2, 3] toy_versioned_store"
  have "spaced_reachable toy_configs ?A"
    by (rule toy_put_spaced [OF toy_versioned_spaced]) code_simp+
  then show ?thesis unfolding toy_object_store_def by (rule toy_put_spaced) code_simp+
qed

lemma toy_object_reachable: "store_reachable toy_configs toy_object_store"
  using toy_object_spaced by (rule spaced_reachable_reachable)

theorem store_integrity_witness:
  "\<exists>!r. r \<in> set (versions_of ''logs'' ''a.txt'' toy_object_store) \<and> o_is_latest r"
proof -
  have "versions_of ''logs'' ''a.txt'' toy_object_store \<noteq> []" by code_simp
  then show ?thesis using store_integrity [OF toy_object_reachable] toy_object_spaced by blast
qed

section \<open>Two versions in one second\<close>

lemma sort_key_first:
  fixes f :: "'a \<Rightarrow> int"
  assumes "\<forall>x \<in> set older. f r < f x" "\<forall>x \<in> set newer. f r \<le> f x"
  shows "\<exists>ys. sort_key f (older @ r # newer) = r # ys"
  using assms
proof (induction older)
  case Nil
  have "f r \<le> f y" if "sort_key f newer = y # ys" for y ys
    using Nil(2) that by (metis list.set_intros(1) set_sort)
  then show ?case by (cases "sort_key f newer") auto
next
  case (Cons x older)
  then show ?case by fastforce
qed

lemma find_filter: "List.find P (filter Q xs) = List.find (\<lambda>x. Q x \<and> P x) xs"
  by (induction xs) simp_all

lemma find_object_current:
  "find_object b k None s = List.find o_is_latest (versions_of b k s)"
proof -
  have "selects_version b k None = (\<lambda>x. same_key b k x \<and> o_is_latest x)"
    by (simp add: fun_eq_iff selects_version_def)
  then show ?thesis by (simp add: find_object_selects versions_of_def sql_select_def sql_query_row_def find_filter)
qed

lemma versions_of_promote:
  assumes "most_recent (versions_of b k s) = Some m"
  shows "versions_of b k (promote_latest b k s) =
    map (\<lambda>x. if o_id x = o_id m then x\<lparr>o_is_latest := True\<rparr> else x) (versions_of b k s)"
proof -
  have "same_key b k (if P then x\<lparr>o_is_latest := True\<rparr> else x) = same_key b k x" for P x
    by (simp add: same_key_def)
  then show ?thesis
    unfolding promote_latest_def assms option.case
    by (simp add: versions_of_def sql_select_def sql_update_def filter_map comp_def)
qed

text \<open>C30: the current version is found again by a column with a resolution of one second. When
  the youngest versions of a key were created in the same second, the last of them being the
  current one, deleting any other version by its id marks the first of them as current too:
  the key then has two current versions, and a request without a version id finds the older
  one, which had been overwritten.\<close>

theorem same_second_two_current:
  assumes "store_reachable ix s" "versions_of b k s = older @ r # newer"
    and c: "c \<in> set newer" "o_is_latest c" "o_created_at c = o_created_at r"
    and older: "\<forall>x \<in> set older. o_created_at x < o_created_at r \<and> \<not> o_is_latest x"
    and newer: "\<forall>x \<in> set newer. o_created_at x \<le> o_created_at r"
    and vid: "o_version_id r \<noteq> vid" "o_version_id c \<noteq> vid"
    and del: "delete_object_version now i b k (Some vid) s = (Inr resp, s')"
  shows "c \<in> set (versions_of b k s') \<and> o_is_latest c
    \<and> r\<lparr>o_is_latest := True\<rparr> \<in> set (versions_of b k s') \<and> o_id c \<noteq> o_id r
    \<and> find_object b k None s' = Some (r\<lparr>o_is_latest := True\<rparr>)"
proof -
  let ?gone = "\<lambda>x. same_key b k x \<and> o_version_id x = vid"
  let ?keep = "\<lambda>x. \<not> (same_key b k x \<and> o_version_id x = vid)"
  let ?f = "\<lambda>x. if o_id x = o_id r then x\<lparr>o_is_latest := True\<rparr> else x"
  define s2 where "s2 = (case find_object b k (Some vid) s of
      Some x \<Rightarrow> fs_remove (blob_path (o_id x)) (s\<lparr>objects := sql_delete ?gone (objects s)\<rparr>)
    | None \<Rightarrow> s\<lparr>objects := sql_delete ?gone (objects s)\<rparr>)"
  have "snd (delete_object_version now i b k (Some vid) s) = delete_specific_version b k vid s"
    using del by (auto simp: delete_object_version_def Let_def split: option.splits if_splits)
  then have s': "s' = promote_latest b k s2"
    unfolding del by (simp add: delete_specific_version_def Let_def s2_def)
  have "objects s2 = filter ?keep (objects s)" by (simp add: s2_def sql_delete_def split: option.splits)
  then have v2: "versions_of b k s2 = filter ?keep (versions_of b k s)"
    by (simp add: versions_of_def sql_select_def conj_commute)
  have "?keep r" "?keep c" using vid by simp_all
  then have v2': "versions_of b k s2 = filter ?keep older @ r # filter ?keep newer"
    by (simp add: v2 assms(2))
  have "\<exists>ys. sort_key (\<lambda>x. - o_created_at x) (versions_of b k s2) = r # ys"
    unfolding v2' using older newer by (intro sort_key_first) auto
  then have "most_recent (versions_of b k s2) = Some r" by (auto simp: most_recent_def)
  then have v': "versions_of b k s' = map ?f (filter ?keep older) @ ?f r # map ?f (filter ?keep newer)"
    by (simp add: s' versions_of_promote v2')
  have "distinct (map o_id (objects s))"
    using store_reachable_inv [OF assms(1)] by (simp add: store_inv_def tables_ok_def unique_key_def)
  then have "distinct (map o_id (versions_of b k s))"
    by (simp add: versions_of_def sql_select_def distinct_map_filter)
  then have ids: "o_id r \<notin> o_id ` set older" "o_id r \<notin> o_id ` set newer" by (auto simp: assms(2))
  have old: "map ?f (filter ?keep older) = filter ?keep older"
  proof (rule map_idI)
    fix x assume "x \<in> set (filter ?keep older)"
    then have "o_id x \<noteq> o_id r" using ids(1) by (metis filter_is_subset imageI subset_iff)
    then show "?f x = x" by simp
  qed
  have "o_id c \<noteq> o_id r" using ids c(1) by (metis imageI)
  then have "c \<in> set (map ?f (filter ?keep newer))" using c(1) \<open>?keep c\<close> by (auto simp: image_iff)
  moreover have "find_object b k None s' = Some (r\<lparr>o_is_latest := True\<rparr>)"
  proof -
    have first: "List.find o_is_latest (xs @ y # ys) = Some y" if "\<forall>x \<in> set xs. \<not> o_is_latest x" "o_is_latest y" for xs y ys
      using that by (induction xs) simp_all
    have "\<forall>x \<in> set (filter ?keep older). \<not> o_is_latest x" using older by simp
    from first [OF this, of "?f r"] show ?thesis unfolding find_object_current v' old by simp
  qed
  ultimately show ?thesis using c(2) \<open>o_id c \<noteq> o_id r\<close> unfolding v' by simp
qed

definition toy_second_store :: local_store where
  "toy_second_store = toy_put 3 (toy_id CHR ''C'') ''a.txt'' [6] toy_object_store"

lemma toy_second_reachable: "store_reachable toy_configs toy_second_store"
proof -
  have "fresh_id (toy_id CHR ''C'') toy_object_store" by code_simp
  from store_reachable_step [OF toy_object_reachable store_step.put [OF this]] show ?thesis
    unfolding toy_second_store_def toy_put_def .
qed

theorem same_second_two_current_witness:
  "map_option o_id (find_object ''logs'' ''a.txt'' None toy_second_store) = Some (toy_id CHR ''C'')
   \<and> map_option o_id (find_object ''logs'' ''a.txt'' None (snd (delete_object_version (5 * nanos_per_sec) (toy_id CHR ''D'')
        ''logs'' ''a.txt'' (Some (toy_id CHR ''A'')) toy_second_store))) = Some (toy_id CHR ''B'')"
proof
  show "map_option o_id (find_object ''logs'' ''a.txt'' None toy_second_store) = Some (toy_id CHR ''C'')" by code_simp
  let ?del = "delete_object_version (5 * nanos_per_sec) (toy_id CHR ''D'') ''logs'' ''a.txt'' (Some (toy_id CHR ''A'')) toy_second_store"
  let ?vs = "versions_of ''logs'' ''a.txt'' toy_second_store"
  have "length ?vs = 3" by code_simp
  then obtain a b c where vs: "?vs = [a] @ b # [c]" by (auto simp: numeral_3_eq_3 length_Suc_conv)
  have rows: "map (\<lambda>r. (o_id r, o_version_id r, o_created_at r, o_is_latest r)) ?vs =
      [(toy_id CHR ''A'', toy_id CHR ''A'', 2, False), (toy_id CHR ''B'', toy_id CHR ''B'', 3, False),
       (toy_id CHR ''C'', toy_id CHR ''C'', 3, True)]"
    by code_simp
  have "toy_id CHR ''B'' \<noteq> toy_id CHR ''A''" "toy_id CHR ''C'' \<noteq> toy_id CHR ''A''" by code_simp+
  with rows have r: "o_id b = toy_id CHR ''B''" "o_is_latest c" "o_created_at c = o_created_at b"
    "o_created_at a < o_created_at b" "\<not> o_is_latest a"
    "o_version_id b \<noteq> toy_id CHR ''A''" "o_version_id c \<noteq> toy_id CHR ''A''"
    unfolding vs by auto
  have "\<not> isl (fst ?del)" by code_simp
  then obtain resp where "?del = (Inr resp, snd ?del)"
    by (cases "fst ?del") (auto simp: prod_eq_iff)
  from same_second_two_current [OF toy_second_reachable vs _ r(2,3) _ _ r(6,7) this] r
  have "find_object ''logs'' ''a.txt'' None (snd ?del) = Some (b\<lparr>o_is_latest := True\<rparr>)" by simp
  then show "map_option o_id (find_object ''logs'' ''a.txt'' None (snd ?del)) = Some (toy_id CHR ''B'')"
    using r(1) by simp
qed

end
