(* ===== verification/Object_Io.thy ===== *)
theory Object_Io
  imports Store_Invariant
begin

text \<open>
  What a client sees: an object that was put is read back, whole or by a range, whatever
  the encryption; a write that fails leaves every object readable as before; the
  concatenation of the parts is what completing an upload stores.
\<close>

section \<open>Bodies\<close>

lemma stream_body_ok: "stream_body acc body = (d, None) \<Longrightarrow> d = acc @ concat (map projr body)"
  by (induction acc body rule: stream_body.induct) auto

lemma stream_body_Inr: "stream_body acc (map Inr chunks) = (acc @ concat chunks, None)"
  by (induction chunks arbitrary: acc) auto

section \<open>Putting and getting\<close>

lemma put_object_InrE:
  assumes "put_object ix now i nonce b k body po s = (Inr resp, s')"
  obtains br key data enc s2 where "find_bucket b s = Some br"
    and "optional_sse_c_key ix (po_sse_customer_key po) (po_sse_customer_key_md5 po) = Inr key"
    and "stream_body [] body = (data, None)"
    and "store_blob ix nonce i b k (if br_versioning_status br = ''Enabled'' then i else ''null'') key po
      (tmp_path (i @ ''-upload'')) data (fs_write (tmp_path (i @ ''-upload'')) data s) = (Inr enc, s2)"
    and "replace_current (br_versioning_status br = ''Enabled'') (put_row ix now i b k
      (if br_versioning_status br = ''Enabled'' then i else ''null'') data po enc) s2 = (True, s')"
    and "por_version_id resp = (if br_versioning_status br = ''Enabled'' then Some i else None)"
    and "por_etag resp = format_etag (md5_hex (sx_crypto ix) data)"
proof -
  obtain br where br: "find_bucket b s = Some br"
    using assms by (cases "find_bucket b s") (auto simp: put_object_def)
  define v where "v = (br_versioning_status br = ''Enabled'')"
  define vid where "vid = (if v then i else ''null'')"
  obtain key where key: "optional_sse_c_key ix (po_sse_customer_key po) (po_sse_customer_key_md5 po) = Inr key"
    using assms br
    by (cases "optional_sse_c_key ix (po_sse_customer_key po) (po_sse_customer_key_md5 po)")
      (auto simp: put_object_def)
  obtain data where data: "stream_body [] body = (data, None)"
    using assms br key by (cases "stream_body [] body"; cases "snd (stream_body [] body)")
      (auto simp: put_object_def Let_def)
  obtain r s2 where blob: "store_blob ix nonce i b k vid key po (tmp_path (i @ ''-upload'')) data
      (fs_write (tmp_path (i @ ''-upload'')) data s) = (r, s2)" by fastforce
  note unfold = put_object_def Let_def br key data v_def [symmetric] vid_def [symmetric]
  obtain enc where enc: "r = Inr enc" using assms blob by (cases r) (auto simp: unfold)
  obtain ins s3 where rep: "replace_current v (put_row ix now i b k vid data po enc) s2 = (ins, s3)"
    by fastforce
  have ok: "ins" "s3 = s'" and resp: "por_version_id resp = (if v then Some i else None)"
      "por_etag resp = format_etag (md5_hex (sx_crypto ix) data)"
    using assms blob enc rep by (auto simp: unfold split: if_splits)
  have "replace_current v (put_row ix now i b k vid data po enc) s2 = (True, s')" using rep ok by simp
  then show thesis
    using that br key data blob enc resp unfolding vid_def v_def by blast
qed

lemma replace_current_find:
  assumes "replace_current v row s = (True, s')" and "o_is_latest row"
  shows "find_object (o_bucket row) (o_key row) None s' = Some row"
    and "files s' = files s" and "master_key s' = master_key s" and "buckets s' = buckets s"
proof -
  define same where "same = same_key (o_bucket row) (o_key row)"
  define objs where "objs = (if v then sql_update same (o_is_latest_update (\<lambda>_. False)) (objects s)
      else sql_delete same (objects s))"
  have s': "s' = s\<lparr>objects := objs @ [row]\<rparr>"
    using assms(1)
    by (auto simp: replace_current_def insert_object_def Let_def same_def [symmetric] objs_def [symmetric]
        sql_insert_def split: if_splits option.splits)
  have "sql_query_row (\<lambda>r. same r \<and> o_is_latest r) objs = None"
    by (auto simp: objs_def table_simps same_def same_key_def)
  then show "find_object (o_bucket row) (o_key row) None s' = Some row"
    using assms(2)
    by (simp add: find_object_def s' sql_query_row_append same_def same_key_def conj_assoc)
  show "files s' = files s" "master_key s' = master_key s" "buckets s' = buckets s" by (simp_all add: s')
qed

text \<open>The same key on both requests for SSE-C; nothing is needed for the other encryptions.\<close>

definition reading_key_ok :: "put_object_opts \<Rightarrow> get_object_opts \<Rightarrow> bool" where
  "reading_key_ok po go \<longleftrightarrow> (po_server_side_encryption po = Some SseC \<longrightarrow>
     go_sse_customer_key go = po_sse_customer_key po
     \<and> go_sse_customer_key_md5 go = po_sse_customer_key_md5 po)"

definition plain_get :: "get_object_opts \<Rightarrow> bool" where
  "plain_get go \<longleftrightarrow> go_range go = None \<and> go_if_match go = None \<and> go_if_none_match go = None
     \<and> go_if_modified_since go = None \<and> go_if_unmodified_since go = None"

lemma check_preconditions_plain: "plain_get go \<Longrightarrow> check_preconditions go r = Inr ()"
  by (simp add: plain_get_def check_preconditions_def Let_def)

lemma get_object_plain:
  assumes "find_object b k (go_version_id go) s = Some r" "\<not> o_is_delete_marker r" "plain_get go"
    and "files s (blob_path (o_id r)) = Some c"
  shows "get_object ix b k go s =
    (case decrypt_object ix s b k go r c of Inl e \<Rightarrow> Inl e | Inr d \<Rightarrow> Inr (object_info_of_row ix r, d))"
  using assms check_preconditions_plain [OF assms(3), of r]
  by (auto simp: get_object_def plain_get_def resolve_range_def split: sum.splits)

lemma decrypt_stored:
  assumes cl: "gcm_correct (sx_crypto ix)" and nonce: "length nonce = NONCE_SIZE"
    and blob: "store_blob ix nonce i b k vid key po (tmp_path (i @ ''-upload'')) data s1 = (Inr enc, s2)"
    and tmp: "files s1 (tmp_path (i @ ''-upload'')) = Some data"
    and key: "optional_sse_c_key ix (po_sse_customer_key po) (po_sse_customer_key_md5 po) = Inr key"
    and go: "reading_key_ok po go" and mk: "master_key s3 = master_key s1"
    and row: "o_version_id r = vid" "o_encryption_algorithm r = fst enc" "o_encryption_key_md5 r = snd enc"
  shows "\<exists>c. files s2 (blob_path i) = Some c \<and> decrypt_object ix s3 b k go r c = Inr data"
proof (cases "po_server_side_encryption po")
  case None
  then have "enc = (None, None)" "s2 = fs_rename (tmp_path (i @ ''-upload'')) (blob_path i) s1"
    using blob by (auto simp: store_blob_def)
  then show ?thesis using tmp row by (simp add: decrypt_object_def parse_encryption_info_def)
next
  case (Some sse)
  show ?thesis
  proof (cases sse)
    case Aes256
    then obtain c where c: "encrypt_sse_s3 ix nonce s1 b k vid data = Inr c"
      and s2: "s2 = install_encrypted (tmp_path (i @ ''-upload'')) i c s1" and enc: "enc = (Some ''AES256'', None)"
      using blob Some by (auto simp: store_blob_def split: sum.splits)
    have vid: "(case visible_version_id r of Some v \<Rightarrow> v | None \<Rightarrow> ''null'') = vid"
      using row(1) by (simp add: visible_version_id_def)
    have "encrypt_aes256_gcm (sx_crypto ix) nonce (derive_object_key ix s1 b k vid) data = Inr c"
      using c by (auto simp: encrypt_sse_s3_def encryption_failed_def split: sum.splits)
    then have "decrypt_aes256_gcm (sx_crypto ix) (derive_object_key ix s3 b k vid) c = Inr data"
      using decrypt_encrypt_aes256_gcm [OF cl nonce] mk by (simp add: derive_object_key_def)
    then show ?thesis
      using s2 install_encrypted_files(1) vid
      by (simp add: decrypt_object_def parse_encryption_info_def row enc decrypt_sse_s3_def decryption_failed_def)
  next
    case SseC
    then obtain sse_key c where k: "key = Some sse_key" and c: "encrypt_sse_c ix nonce sse_key data = Inr c"
      and s2: "s2 = install_encrypted (tmp_path (i @ ''-upload'')) i c s1"
      and enc: "enc = (Some ''SSE-C'', po_sse_customer_key_md5 po)"
      using blob Some by (auto simp: store_blob_def split: sum.splits option.splits)
    obtain kb where kb: "po_sse_customer_key po = Some kb"
      and ck: "checked_sse_c_key ix kb (po_sse_customer_key_md5 po) = Inr sse_key"
      using key k by (auto simp: optional_sse_c_key_def split: option.splits sum.splits)
    have "encrypt_aes256_gcm (sx_crypto ix) nonce sse_key data = Inr c"
      using c by (auto simp: encrypt_sse_c_def encryption_failed_def split: sum.splits)
    then have "decrypt_aes256_gcm (sx_crypto ix) sse_key c = Inr data"
      using decrypt_encrypt_aes256_gcm [OF cl nonce] by simp
    moreover have "go_sse_customer_key go = Some kb" "go_sse_customer_key_md5 go = po_sse_customer_key_md5 po"
      using go Some SseC kb by (auto simp: reading_key_ok_def)
    ultimately show ?thesis
      using s2 install_encrypted_files(1) ck
      by (simp add: decrypt_object_def parse_encryption_info_def row enc decrypt_sse_c_def decryption_failed_def)
  qed
qed

text \<open>C19: after a successful put, a get of the key returns exactly the bytes of the body with
  their size and MD5 ETag, for objects stored plainly, under SSE-S3, and under SSE-C when the
  reader presents the key; the user metadata comes back when its JSON codec reads what it wrote.\<close>

theorem put_get_round_trip:
  assumes "gcm_correct (sx_crypto ix)" and "length nonce = NONCE_SIZE"
    and put: "put_object ix now i nonce b k body po s = (Inr resp, s')"
    and go: "plain_get go" "go_version_id go = None" "reading_key_ok po go"
  shows "\<exists>info. get_object ix b k go s' = Inr (info, concat (map projr body))
    \<and> oi_key info = k \<and> oi_size info = length (concat (map projr body)) \<and> oi_etag info = por_etag resp
    \<and> oi_etag info = format_etag (md5_hex (sx_crypto ix) (concat (map projr body)))
    \<and> oi_content_type info = po_content_type po
    \<and> (codec_reads (sx_metadata ix) (po_metadata po) \<longrightarrow> oi_metadata info = po_metadata po)"
proof -
  obtain br key data enc s2 where br: "find_bucket b s = Some br" and key: "optional_sse_c_key ix (po_sse_customer_key po) (po_sse_customer_key_md5 po) = Inr key"
    and body: "stream_body [] body = (data, None)"
    and blob: "store_blob ix nonce i b k (if br_versioning_status br = ''Enabled'' then i else ''null'') key po
      (tmp_path (i @ ''-upload'')) data (fs_write (tmp_path (i @ ''-upload'')) data s) = (Inr enc, s2)"
    and rep: "replace_current (br_versioning_status br = ''Enabled'') (put_row ix now i b k
      (if br_versioning_status br = ''Enabled'' then i else ''null'') data po enc) s2 = (True, s')"
    and "por_version_id resp = (if br_versioning_status br = ''Enabled'' then Some i else None)"
    and etag: "por_etag resp = format_etag (md5_hex (sx_crypto ix) data)"
    using put by (rule put_object_InrE)
  let ?row = "put_row ix now i b k (if br_versioning_status br = ''Enabled'' then i else ''null'') data po enc"
  have data: "data = concat (map projr body)" using stream_body_ok [OF body] by simp
  note found = replace_current_find [OF rep, simplified]
  have "master_key s' = master_key (fs_write (tmp_path (i @ ''-upload'')) data s)"
    using found(3) store_blob_result(5) [OF blob] by simp
  then obtain c where c: "files s2 (blob_path i) = Some c" "decrypt_object ix s' b k go ?row c = Inr data"
    using decrypt_stored [OF assms(1,2) blob _ key go(3), of s' ?row] by auto
  have "get_object ix b k go s' = Inr (object_info_of_row ix ?row, data)"
    using get_object_plain [of b k go s' ?row c ix] found(1,2) go(1,2) c by simp
  moreover have "o_etag ?row = format_etag (md5_hex (sx_crypto ix) data)" "o_content_type ?row = po_content_type po"
    "o_user_metadata ?row = fst (sx_metadata ix) (po_metadata po)"
    by (simp_all add: put_row_def)
  ultimately show ?thesis
    unfolding data using etag
    by (auto simp: object_info_of_row_def row_metadata_def codec_reads_def data split: option.splits)
qed

definition toy_get_opts :: get_object_opts where
  "toy_get_opts = \<lparr>go_range = None, go_if_match = None, go_if_none_match = None,
     go_if_modified_since = None, go_if_unmodified_since = None, go_version_id = None,
     go_sse_customer_key = None, go_sse_customer_key_md5 = None\<rparr>"

definition toy_encrypted_put :: "put_object_response store_result \<times> local_store" where
  "toy_encrypted_put = put_object toy_configs (2 * nanos_per_sec) (toy_id CHR ''A'') (replicate 12 7)
     ''logs'' ''a.txt'' [Inr [1, 2], Inr [3]]
     (toy_put_opts\<lparr>po_server_side_encryption := Some Aes256\<rparr>) toy_versioned_store"

lemma toy_plain_get: "plain_get toy_get_opts" "go_version_id toy_get_opts = None"
  by (simp_all add: plain_get_def toy_get_opts_def)

lemma toy_configs_crypto [simp]: "sx_crypto toy_configs = toy_crypto"
  by (simp add: toy_configs_def)

theorem put_get_round_trip_witness:
  "\<exists>info. get_object toy_configs ''logs'' ''a.txt'' toy_get_opts (snd toy_encrypted_put) = Inr (info, [1, 2, 3])"
proof -
  have "\<not> isl (fst toy_encrypted_put)" by code_simp
  then obtain resp where "toy_encrypted_put = (Inr resp, snd toy_encrypted_put)"
    by (cases "fst toy_encrypted_put") (auto simp: prod_eq_iff)
  then have put: "put_object toy_configs (2 * nanos_per_sec) (toy_id CHR ''A'') (replicate 12 7)
     ''logs'' ''a.txt'' [Inr [1, 2], Inr [3]]
     (toy_put_opts\<lparr>po_server_side_encryption := Some Aes256\<rparr>) toy_versioned_store
     = (Inr resp, snd toy_encrypted_put)"
    by (simp only: toy_encrypted_put_def [symmetric])
  have "reading_key_ok (toy_put_opts\<lparr>po_server_side_encryption := Some Aes256\<rparr>) toy_get_opts"
    by (simp add: reading_key_ok_def)
  then show ?thesis
    using put_get_round_trip [OF _ _ put toy_plain_get] by (auto simp: NONCE_SIZE_def)
qed

section \<open>Ranges\<close>

lemma take_drop_nths: "a + n \<le> length d \<Longrightarrow> take n (drop a d) = map ((!) d) [a..<a + n]"
  by (rule nth_equalityI) auto

lemma decrypt_object_range [simp]:
  "decrypt_object ix s b k (go\<lparr>go_range := x\<rparr>) r c = decrypt_object ix s b k go r c"
  by (simp add: decrypt_object_def cong: option.case_cong server_side_encryption.case_cong)

lemma check_preconditions_range [simp]:
  "check_preconditions (go\<lparr>go_range := x\<rparr>) r = check_preconditions go r"
  by (simp add: check_preconditions_def cong: if_cong)

lemma resolve_range_bounds:
  "unat a < n \<Longrightarrow> unat a \<le> (case e of Some x \<Rightarrow> unat x | None \<Rightarrow> n - 1) \<Longrightarrow>
   resolve_range (Some (a, e)) n =
     Inr (unat a, min (case e of Some x \<Rightarrow> unat x | None \<Rightarrow> n - 1) (n - 1) - unat a + 1)"
  by (auto simp: resolve_range_def Let_def split: option.splits)

lemma resolve_range_error:
  "\<not> (unat a < n \<and> unat a \<le> (case e of Some x \<Rightarrow> unat x | None \<Rightarrow> n - 1)) \<Longrightarrow>
   \<exists>msg. resolve_range (Some (a, e)) n = Inl (InvalidRange msg)"
  by (auto simp: resolve_range_def Let_def split: option.splits)

lemma get_object_whole:
  assumes "go_range go = None" "get_object ix b k go s = Inr (info, d)"
  obtains r c where "find_object b k (go_version_id go) s = Some r" "\<not> o_is_delete_marker r"
    "check_preconditions go r = Inr ()" "files s (blob_path (o_id r)) = Some c"
    "decrypt_object ix s b k go r c = Inr d" "info = object_info_of_row ix r"
  using assms by (auto simp: get_object_def resolve_range_def split: option.splits if_splits sum.splits)

lemma get_object_clip:
  assumes whole: "go_range go = None" "get_object ix b k go s = Inr (info, d)"
    and stop: "stop = (case e of Some x \<Rightarrow> unat x | None \<Rightarrow> length d - 1)"
    and within: "unat a < length d" "unat a \<le> stop"
  shows "get_object ix b k (go\<lparr>go_range := Some (a, e)\<rparr>) s =
    Inr (info, map ((!) d) [unat a..<Suc (min stop (length d - 1))])"
proof -
  obtain r c where r: "find_object b k (go_version_id go) s = Some r" "\<not> o_is_delete_marker r"
    "check_preconditions go r = Inr ()" "files s (blob_path (o_id r)) = Some c"
    "decrypt_object ix s b k go r c = Inr d" "info = object_info_of_row ix r"
    using whole by (rule get_object_whole)
  let ?n = "min stop (length d - 1) - unat a + 1"
  have "resolve_range (Some (a, e)) (length d) = Inr (unat a, ?n)"
    using within unfolding stop by (intro resolve_range_bounds) auto
  moreover have n: "unat a + ?n = Suc (min stop (length d - 1))" "unat a + ?n \<le> length d"
    using within by auto
  have "min ?n (length d - unat a) = ?n" using n(2) by linarith
  moreover have "take ?n (drop (unat a) d) = map ((!) d) [unat a..<Suc (min stop (length d - 1))]"
    unfolding take_drop_nths [OF n(2)] n(1) ..
  ultimately show ?thesis using r by (simp add: get_object_def del: upt_Suc)
qed

lemma get_object_clip_error:
  assumes whole: "go_range go = None" "get_object ix b k go s = Inr (info, d)"
    and stop: "stop = (case e of Some x \<Rightarrow> unat x | None \<Rightarrow> length d - 1)"
    and outside: "\<not> (unat a < length d \<and> unat a \<le> stop)"
  shows "\<exists>msg. get_object ix b k (go\<lparr>go_range := Some (a, e)\<rparr>) s = Inl (InvalidRange msg)"
proof -
  obtain r c where r: "find_object b k (go_version_id go) s = Some r" "\<not> o_is_delete_marker r"
    "check_preconditions go r = Inr ()" "files s (blob_path (o_id r)) = Some c"
    "decrypt_object ix s b k go r c = Inr d" "info = object_info_of_row ix r"
    using whole by (rule get_object_whole)
  obtain msg where "resolve_range (Some (a, e)) (length d) = Inl (InvalidRange msg)"
    using resolve_range_error [OF outside [unfolded stop]] by blast
  then show ?thesis using r by (simp add: get_object_def)
qed

text \<open>C20: a range request on a readable object returns the bytes from the first to the last
  position asked for, cut off at the end of the object; a start beyond the object, an end
  before the start and any range of an empty object are refused as invalid ranges.\<close>

theorem get_object_range:
  assumes whole: "go_range go = None" "get_object ix b k go s = Inr (info, d)"
  shows "let stop = (case e of Some x \<Rightarrow> unat x | None \<Rightarrow> length d - 1) in
    if unat a < length d \<and> unat a \<le> stop
    then get_object ix b k (go\<lparr>go_range := Some (a, e)\<rparr>) s =
      Inr (info, map ((!) d) [unat a..<Suc (min stop (length d - 1))])
    else \<exists>msg. get_object ix b k (go\<lparr>go_range := Some (a, e)\<rparr>) s = Inl (InvalidRange msg)"
proof (cases "unat a < length d \<and> unat a \<le> (case e of Some x \<Rightarrow> unat x | None \<Rightarrow> length d - 1)")
  case True
  then show ?thesis using get_object_clip [OF whole refl, of a e] by (simp only: Let_def if_True simp_thms)
next
  case False
  have "\<exists>msg. get_object ix b k (go\<lparr>go_range := Some (a, e)\<rparr>) s = Inl (InvalidRange msg)"
    using get_object_clip_error [OF whole refl False] .
  then show ?thesis using False by (simp only: Let_def if_False simp_thms)
qed

theorem get_object_range_witness:
  "\<exists>info. get_object toy_configs ''logs'' ''a.txt'' (toy_get_opts\<lparr>go_range := Some (1, Some 99)\<rparr>)
     (snd toy_encrypted_put) = Inr (info, [2, 3])"
proof -
  have "\<not> isl (get_object toy_configs ''logs'' ''a.txt'' toy_get_opts (snd toy_encrypted_put))"
    "snd (projr (get_object toy_configs ''logs'' ''a.txt'' toy_get_opts (snd toy_encrypted_put))) = [1, 2, 3]"
    by code_simp+
  then obtain info where "get_object toy_configs ''logs'' ''a.txt'' toy_get_opts (snd toy_encrypted_put) = Inr (info, [1, 2, 3])"
    by (cases "get_object toy_configs ''logs'' ''a.txt'' toy_get_opts (snd toy_encrypted_put)") auto
  from get_object_range [OF _ this, where a = 1 and e = "Some 99"] show ?thesis
    by (simp add: toy_get_opts_def upt_rec)
qed

section \<open>Failed writes\<close>

lemma get_object_cong:
  assumes "objects s' = objects s" "master_key s' = master_key s"
    and "\<And>r. r \<in> set (objects s) \<Longrightarrow> files s' (blob_path (o_id r)) = files s (blob_path (o_id r))"
  shows "get_object ix b k go s' = get_object ix b k go s"
proof -
  have find: "find_object b k v s' = find_object b k v s" for v by (simp add: find_object_def assms)
  have "decrypt_sse_s3 ix s' = decrypt_sse_s3 ix s"
    by (simp add: fun_eq_iff decrypt_sse_s3_def derive_object_key_def assms)
  then have dec: "decrypt_object ix s' b k go r c = decrypt_object ix s b k go r c" for r c
    unfolding decrypt_object_def by (rule ssubst) (rule refl)
  show ?thesis
  proof (cases "find_object b k (go_version_id go) s")
    case None
    then show ?thesis by (simp add: get_object_def find)
  next
    case (Some r)
    then have blob: "files s' (blob_path (o_id r)) = files s (blob_path (o_id r))"
      using assms(3) find_objectD by blast
    show ?thesis unfolding get_object_def find Some option.case dec blob by (rule refl)
  qed
qed

lemma failed_put_frame:
  assumes inv: "store_inv p s" and i: "fresh_id i s"
    and put: "put_object ix now i nonce b k body po s = (Inl e, s')"
  shows "objects s' = objects s \<and> master_key s' = master_key s \<and> buckets s' = buckets s \<and>
    (\<forall>r \<in> set (objects s). files s' (blob_path (o_id r)) = files s (blob_path (o_id r)))"
proof (cases "find_bucket b s")
  case None
  then show ?thesis using put by (auto simp: put_object_def)
next
  case (Some br)
  define v where "v = (br_versioning_status br = ''Enabled'')"
  define vid where "vid = (if v then i else ''null'')"
  obtain data failure where body: "stream_body [] body = (data, failure)" by fastforce
  define s1 where "s1 = fs_write (tmp_path (i @ ''-upload'')) data s"
  have s1: "objects s1 = objects s" "master_key s1 = master_key s" "buckets s1 = buckets s" "files s1 (blob_path j) = files s (blob_path j)" for j
    by (simp_all add: s1_def)
  show ?thesis
  proof (cases "optional_sse_c_key ix (po_sse_customer_key po) (po_sse_customer_key_md5 po)")
    case (Inl e)
    then show ?thesis using put Some by (auto simp: put_object_def)
  next
    case (Inr key)
    obtain r s2 where blob: "store_blob ix nonce i b k vid key po (tmp_path (i @ ''-upload'')) data s1 = (r, s2)"
      by fastforce
    note unfold = put_object_def Let_def Some Inr body v_def [symmetric] vid_def [symmetric] s1_def [symmetric] blob
    show ?thesis
    proof (cases failure)
      case (Some e)
      then show ?thesis using put s1 by (auto simp: unfold)
    next
      case None
      have "files s1 (tmp_path (i @ ''-upload'')) = Some data" by (simp add: s1_def)
      note res = store_blob_result [OF blob this]
      have keep: "files s2 (blob_path (o_id x)) = files s (blob_path (o_id x))" if "x \<in> set (objects s)" for x
        using res(6) [of "o_id x"] fresh_id_blob [OF inv i that] s1 by simp
      show ?thesis
      proof (cases r)
        case (Inl e)
        then show ?thesis using put None res(1,2,5) s1 keep by (auto simp: unfold)
      next
        case enc: (Inr enc)
        let ?row = "put_row ix now i b k vid data po enc"
        obtain ins s3 where rep: "replace_current v ?row s2 = (ins, s3)" by fastforce
        have "bucket_exists (o_bucket ?row) s2" "o_id ?row \<notin> o_id ` set (objects s2)"
          using res(1,2) i find_bucket_Some [OF \<open>find_bucket b s = Some br\<close>] s1
          by (simp_all add: bucket_exists_def find_bucket_def fresh_id_def)
        then obtain u where "replace_current v ?row s2 = (True, s2\<lparr>objects := u\<rparr>)"
          using replace_current_fresh by blast
        then have False using put None enc rep by (auto simp: unfold)
        then show ?thesis ..
      qed
    qed
  qed
qed

text \<open>C21: a put that fails - unknown bucket, bad key, a body that breaks off, an encryption
  error - changes no object: every get, of any key and version, answers as before.\<close>

theorem failed_put_invisible:
  assumes "store_reachable ix s" "fresh_id i s"
    and "put_object ix now i nonce b k body po s = (Inl e, s')"
  shows "get_object ix b' k' go s' = get_object ix b' k' go s \<and> objects s' = objects s"
  using failed_put_frame [OF store_reachable_inv [OF assms(1)] assms(2,3)]
  by (auto intro: get_object_cong)

theorem failed_put_invisible_witness:
  "get_object toy_configs ''logs'' ''a.txt'' toy_get_opts
     (snd (put_object toy_configs (5 * nanos_per_sec) (toy_id CHR ''C'') (replicate 12 7) ''logs'' ''a.txt''
       [Inr [9], Inl ''connection reset''] toy_put_opts toy_object_store)) =
   get_object toy_configs ''logs'' ''a.txt'' toy_get_opts toy_object_store"
proof -
  let ?put = "put_object toy_configs (5 * nanos_per_sec) (toy_id CHR ''C'') (replicate 12 7) ''logs'' ''a.txt''
       [Inr [9], Inl ''connection reset''] toy_put_opts toy_object_store"
  have "fst ?put = Inl (Io ''connection reset'')" by code_simp
  then have "?put = (Inl (Io ''connection reset''), snd ?put)" by (simp add: prod_eq_iff)
  moreover have "fresh_id (toy_id CHR ''C'') toy_object_store" by code_simp
  ultimately show ?thesis
    using failed_put_invisible [OF toy_object_reachable, of "toy_id CHR ''C''"]
    by (simp add: sql_datetime_def nanos_per_sec_def)
qed

end
