(* ===== verification/Store_Effect.thy ===== *)
theory Store_Effect
  imports Object_Io
begin

text \<open>
  What the operations of the object store do to the rows and to the blobs of existing
  versions: a successful put, copy, completion or delete marker installs one row, a failed
  one changes neither.
\<close>

section \<open>Installing a row\<close>

definition keeps_blobs :: "local_store \<Rightarrow> local_store \<Rightarrow> bool" where
  "keeps_blobs s s' = (\<forall>r \<in> set (objects s). files s' (blob_path (o_id r)) = files s (blob_path (o_id r)))"

definition older_rows :: "bool \<Rightarrow> object_row \<Rightarrow> object_row list \<Rightarrow> object_row list" where
  "older_rows v row rows =
     (if v then sql_update (same_key (o_bucket row) (o_key row)) (o_is_latest_update (\<lambda>_. False)) rows
      else sql_delete (same_key (o_bucket row) (o_key row)) rows)"

definition installs :: "bool \<Rightarrow> object_row \<Rightarrow> local_store \<Rightarrow> local_store \<Rightarrow> bool" where
  "installs v row s s' = (objects s' = older_rows v row (objects s) @ [row] \<and> keeps_blobs s s'
     \<and> buckets s' = buckets s)"

definition unaltered :: "local_store \<Rightarrow> local_store \<Rightarrow> bool" where
  "unaltered s s' = (objects s' = objects s \<and> keeps_blobs s s' \<and> buckets s' = buckets s)"

lemma unaltered_refl [simp]: "unaltered s s"
  by (simp add: unaltered_def keeps_blobs_def)

lemma keeps_blobs_fs:
  "keeps_blobs s (fs_write (tmp_path p) d s)" "keeps_blobs s (fs_remove (tmp_path p) s)"
  "keeps_blobs s (fs_remove_dir (upload_dir p) s)" "keeps_blobs s (fs_write (part_path p n) d s)"
  by (simp_all add: keeps_blobs_def)

lemma replace_current_installs:
  assumes "replace_current v row s1 = (True, s')" "objects s1 = objects s" "buckets s1 = buckets s"
    "keeps_blobs s s1"
  shows "installs v row s s'" "files s' = files s1"
proof -
  have *: "(if v then sql_update (same_key (o_bucket row) (o_key row)) (o_is_latest_update (\<lambda>_. False)) (objects s1)
      else sql_delete (same_key (o_bucket row) (o_key row)) (objects s1)) = older_rows v row (objects s)"
    using assms(2) by (simp add: older_rows_def)
  have "s' = s1\<lparr>objects := older_rows v row (objects s) @ [row]\<rparr>"
    using assms(1) unfolding replace_current_def Let_def *
    by (auto simp: insert_object_def sql_insert_def split: if_splits option.splits)
  then show "installs v row s s'" "files s' = files s1"
    using assms by (simp_all add: installs_def keeps_blobs_def)
qed

text \<open>A row created now, with a fresh id, is always accepted.\<close>

lemma replace_current_accepts:
  assumes "store_inv p s" "fresh_id (o_id row) s" "bucket_exists (o_bucket row) s"
    "objects s1 = objects s" "buckets s1 = buckets s"
  shows "\<exists>s'. replace_current v row s1 = (True, s')"
proof -
  have "bucket_exists (o_bucket row) s1" "o_id row \<notin> o_id ` set (objects s1)"
    using assms by (simp_all add: bucket_exists_def find_bucket_def fresh_id_def)
  then show ?thesis using replace_current_fresh by blast
qed

section \<open>Put\<close>

lemma put_object_effect:
  assumes inv: "store_inv p s" and i: "fresh_id i s"
    and put: "put_object ix now i nonce b k body po s = (res, s')"
  shows "case res of
      Inl _ \<Rightarrow> unaltered s s'
    | Inr resp \<Rightarrow> \<exists>br data enc d. find_bucket b s = Some br \<and> stream_body [] body = (data, None)
        \<and> installs (br_versioning_status br = ''Enabled'')
            (put_row ix now i b k (if br_versioning_status br = ''Enabled'' then i else ''null'') data po enc) s s'
        \<and> files s' (blob_path i) = Some d \<and> (fst enc = None \<longrightarrow> d = data)
        \<and> (po_server_side_encryption po = None \<longrightarrow> fst enc = None)"
proof (cases res)
  case (Inl e)
  then have put: "put_object ix now i nonce b k body po s = (Inl e, s')" using put by simp
  then show ?thesis
    using failed_put_frame [OF inv i put] Inl by (simp add: unaltered_def keeps_blobs_def)
next
  case (Inr resp)
  then have "put_object ix now i nonce b k body po s = (Inr resp, s')" using put by simp
  then obtain br key data enc s2 where br: "find_bucket b s = Some br"
    and body: "stream_body [] body = (data, None)"
    and blob: "store_blob ix nonce i b k (if br_versioning_status br = ''Enabled'' then i else ''null'') key po
      (tmp_path (i @ ''-upload'')) data (fs_write (tmp_path (i @ ''-upload'')) data s) = (Inr enc, s2)"
    and rep: "replace_current (br_versioning_status br = ''Enabled'') (put_row ix now i b k
      (if br_versioning_status br = ''Enabled'' then i else ''null'') data po enc) s2 = (True, s')"
    by (elim put_object_InrE)
  have tmp: "files (fs_write (tmp_path (i @ ''-upload'')) data s) (tmp_path (i @ ''-upload'')) = Some data"
    by simp
  note blob_res = store_blob_result [OF blob tmp]
  have "keeps_blobs s s2"
    using blob_res(6) fresh_id_blob [OF inv i] by (simp add: keeps_blobs_def)
  note ins = replace_current_installs [OF rep _ _ this]
  have "installs (br_versioning_status br = ''Enabled'') (put_row ix now i b k
      (if br_versioning_status br = ''Enabled'' then i else ''null'') data po enc) s s'"
    using blob_res(1,2) by (intro ins(1)) simp_all
  moreover have fs: "files s' = files s2" using blob_res(1,2) by (intro ins(2)) simp_all
  moreover obtain d where d: "files s2 (blob_path i) = Some d" "fst enc = None \<longrightarrow> d = data"
    using blob_res(7) by blast
  moreover from d fs have "files s' (blob_path i) = Some d" by simp
  moreover have "po_server_side_encryption po = None \<longrightarrow> fst enc = None"
    using blob by (auto simp: store_blob_def)
  ultimately show ?thesis using br body unfolding Inr sum.case by (intro exI conjI)
qed

section \<open>Copy\<close>

lemma head_object_Inr:
  "head_object ix b k s = Inr info \<Longrightarrow>
     \<exists>r. find_object b k None s = Some r \<and> \<not> o_is_delete_marker r \<and> info = object_info_of_row ix r"
proof (cases "find_object b k None s")
  case (Some r)
  moreover assume "head_object ix b k s = Inr info"
  ultimately have "(if o_is_delete_marker r then Inl (ObjectNotFound b k) else Inr (object_info_of_row ix r))
      = Inr info"
    unfolding head_object_def by simp
  then show ?thesis using Some by (cases "o_is_delete_marker r") auto
qed (simp add: head_object_def)

lemma copy_blob_verbatim:
  assumes "copy_blob ix nonce b k src b' k' v i s = (Inr u, s')" "o_encryption_algorithm src \<noteq> Some ''AES256''"
  shows "files s' (blob_path i) = files s (blob_path (o_id src))"
  using assms by (auto simp: copy_blob_def split: option.splits)

lemma copy_object_effect:
  assumes inv: "store_inv p s" and i: "fresh_id i s"
    and copy: "copy_object ix now i nonce b k b' k' co s = (res, s')"
  shows "case res of
      Inl _ \<Rightarrow> unaltered s s'
    | Inr resp \<Rightarrow> \<exists>src br d. find_object b k None s = Some src \<and> \<not> o_is_delete_marker src
        \<and> find_bucket b' s = Some br
        \<and> installs (br_versioning_status br = ''Enabled'')
            (copy_row ix now i b' k' (if br_versioning_status br = ''Enabled'' then i else ''null'')
              (object_info_of_row ix src) src co) s s'
        \<and> files s' (blob_path i) = Some d
        \<and> (o_encryption_algorithm src \<noteq> Some ''AES256'' \<longrightarrow> files s (blob_path (o_id src)) = Some d)"
proof (cases "\<exists>info src br. head_object ix b k s = Inr info \<and> find_object b k None s = Some src
    \<and> find_bucket b' s = Some br")
  case False
  then have "s' = s \<and> (\<exists>e. res = Inl e)"
    using copy by (auto simp: copy_object_def split: sum.splits option.splits)
  then show ?thesis by auto
next
  case True
  then obtain info src br where head: "head_object ix b k s = Inr info"
    and src: "find_object b k None s = Some src" and br: "find_bucket b' s = Some br" by blast
  have info: "info = object_info_of_row ix src" "\<not> o_is_delete_marker src"
    using head_object_Inr [OF head] src by auto
  define v where "v = (br_versioning_status br = ''Enabled'')"
  define vid where "vid = (if v then i else ''null'')"
  obtain r s1 where blob: "copy_blob ix nonce b k src b' k' vid i s = (r, s1)" by fastforce
  note blob_res = copy_blob_result [OF blob]
  have keep: "keeps_blobs s s1" using blob_res(5) fresh_id_blob [OF inv i] by (simp add: keeps_blobs_def)
  note unfold = copy_object_def head src br Let_def v_def [symmetric] vid_def [symmetric] blob
  show ?thesis
  proof (cases r)
    case (Inl e)
    then have "s' = s1 \<and> res = Inl e" using copy by (auto simp: unfold)
    then show ?thesis using keep blob_res(1,2) by (simp add: unaltered_def)
  next
    case (Inr u)
    let ?row = "copy_row ix now i b' k' vid info src co"
    have "bucket_exists (o_bucket ?row) s" "fresh_id (o_id ?row) s"
      using br i find_bucket_Some by simp_all
    then obtain s2 where rep: "replace_current v ?row s1 = (True, s2)"
      using replace_current_accepts [OF inv, of ?row s1 v] blob_res(1,2) by blast
    obtain d where d: "files s1 (blob_path i) = Some d"
      "o_encryption_algorithm src \<noteq> Some ''AES256'' \<longrightarrow> files s (blob_path (o_id src)) = Some d"
      using blob_res(6) [OF Inr] copy_blob_verbatim [OF blob [unfolded Inr]] by auto
    have "snd (copy_object ix now i nonce b k b' k' co s) = s2"
      "\<not> isl (fst (copy_object ix now i nonce b k b' k' co s))"
      by (simp_all add: unfold Inr rep)
    then obtain resp where s': "s' = s2" and res: "res = Inr resp" using copy by (cases res) auto
    note ins = replace_current_installs [OF rep blob_res(2,1) keep, folded s']
    have "files s' (blob_path i) = Some d" using d(1) ins(2) by simp
    with src info(2) br d(2) ins(1) show ?thesis
      unfolding v_def vid_def info(1) res sum.case by (intro exI conjI)
  qed
qed

section \<open>Completing an upload\<close>

lemma assemble_object_effect:
  assumes inv: "store_inv p s" and i: "fresh_id i s" and b: "bucket_exists (up_bucket meta) s"
    and asm: "assemble_object ix now i nonce meta v ps s = (res, s')"
  shows "case res of
      Inl _ \<Rightarrow> unaltered s s'
    | Inr resp \<Rightarrow> \<exists>pt d alg. concat_parts (up_upload_id meta) s [] ps = Inr pt
        \<and> complete_encryption ix nonce s meta (if v then i else ''null'') pt = Inr (d, alg)
        \<and> installs v (completed_row ix now i (if v then i else ''null'') meta ps (length pt) alg) s s'
        \<and> files s' (blob_path i) = Some d"
proof (cases "concat_parts (up_upload_id meta) s [] ps")
  case (Inl e)
  then show ?thesis using asm by (auto simp: assemble_object_def Let_def)
next
  case pt: (Inr pt)
  define vid where "vid = (if v then i else ''null'')"
  note unfold = assemble_object_def Let_def vid_def [symmetric] pt
  show ?thesis
  proof (cases "complete_encryption ix nonce s meta vid pt")
    case (Inl e)
    then show ?thesis using asm by (auto simp: unfold)
  next
    case (Inr enc)
    obtain d alg where enc: "enc = (d, alg)" by fastforce
    let ?row = "completed_row ix now i vid meta ps (length pt) alg"
    define s1 where "s1 = fs_write (blob_path i) d s"
    have keep: "keeps_blobs s s1" using fresh_id_blob [OF inv i] by (simp add: s1_def keeps_blobs_def)
    have tab: "objects s1 = objects s" "buckets s1 = buckets s" by (simp_all add: s1_def)
    have "bucket_exists (o_bucket ?row) s" "fresh_id (o_id ?row) s" using b i by simp_all
    then obtain s2 where rep: "replace_current v ?row s1 = (True, s2)"
      using replace_current_accepts [OF inv, of ?row s1 v] tab by blast
    note ins = replace_current_installs [OF rep tab keep]
    have s': "s' = fs_remove_dir (upload_dir (up_upload_id meta)) (delete_upload_rows (up_upload_id meta) s2)"
      and "\<exists>resp. res = Inr resp"
      using asm Inr enc rep by (auto simp: unfold s1_def [symmetric])
    moreover have "installs v ?row s s'"
      using ins(1) by (simp add: s' installs_def keeps_blobs_def delete_upload_rows_def)
    moreover have "files s' (blob_path i) = Some d"
      using ins(2) by (simp add: s' s1_def delete_upload_rows_def)
    ultimately show ?thesis using pt Inr enc by (auto simp: vid_def)
  qed
qed

lemma complete_effect:
  assumes inv: "store_inv p s" and i: "fresh_id i s"
    and comp: "complete_multipart_upload ix now i nonce up ps s = (res, s')"
  shows "case res of
      Inl _ \<Rightarrow> unaltered s s'
    | Inr resp \<Rightarrow> \<exists>meta br pt d alg. find_upload (mu_upload_id up) s = Some meta
        \<and> find_bucket (up_bucket meta) s = Some br
        \<and> validate_parts (mu_upload_id up) s ps = 0 \<and> parts_in_order 0 ps
        \<and> concat_parts (up_upload_id meta) s [] ps = Inr pt
        \<and> complete_encryption ix nonce s meta
            (if br_versioning_status br = ''Enabled'' then i else ''null'') pt = Inr (d, alg)
        \<and> installs (br_versioning_status br = ''Enabled'')
            (completed_row ix now i (if br_versioning_status br = ''Enabled'' then i else ''null'') meta ps
              (length pt) alg) s s'
        \<and> files s' (blob_path i) = Some d"
proof (cases "\<exists>meta br. parts_in_order 0 ps \<and> find_upload (mu_upload_id up) s = Some meta
    \<and> find_bucket (up_bucket meta) s = Some br \<and> validate_parts (mu_upload_id up) s ps = 0")
  case False
  then have "s' = s \<and> (\<exists>e. res = Inl e)"
    using comp by (auto simp: complete_multipart_upload_def validation_error_def split: option.splits if_splits)
  then show ?thesis by auto
next
  case True
  then obtain meta br where *: "parts_in_order 0 ps" "find_upload (mu_upload_id up) s = Some meta"
    "find_bucket (up_bucket meta) s = Some br" "validate_parts (mu_upload_id up) s ps = 0" by blast
  then have "assemble_object ix now i nonce meta (br_versioning_status br = ''Enabled'') ps s = (res, s')"
    using comp by (simp add: complete_multipart_upload_def validation_error_def)
  from assemble_object_effect [OF inv i find_bucket_Some [OF *(3)] this] show ?thesis
    using * by (cases res) auto
qed

section \<open>Deletions\<close>

text \<open>Different versions have different blobs, so deleting some keeps the others' bytes.\<close>

lemma blob_path_rows:
  assumes "store_inv p s" "x \<in> set (objects s)" "r \<in> set (objects s)" "x \<noteq> r"
  shows "blob_path (o_id x) \<noteq> blob_path (o_id r)"
proof -
  have "o_id x \<noteq> o_id r"
    using assms unique_keyD [of o_id "objects s" x r] by (auto simp: store_inv_def tables_ok_def)
  then show ?thesis using blob_path_inj store_inv_id_length [OF assms(1)] assms(2,3) by blast
qed

lemma delete_specific_keeps:
  assumes inv: "store_inv p s" and x: "x \<in> set (objects s)" "\<not> (same_key b k x \<and> o_version_id x = vid)"
    and s1: "files s1 = files s"
  shows "files (case find_object b k (Some vid) s of
      Some r \<Rightarrow> fs_remove (blob_path (o_id r)) s1 | None \<Rightarrow> s1) (blob_path (o_id x)) = files s (blob_path (o_id x))"
proof (cases "find_object b k (Some vid) s")
  case (Some r)
  then have "r \<in> set (objects s)" "x \<noteq> r" using find_objectD [OF Some] x(2) by auto
  then show ?thesis using blob_path_rows [OF inv x(1)] by (simp add: Some s1)
qed (simp add: s1)

lemma delete_all_keeps:
  assumes inv: "store_inv p s" and x: "x \<in> set (objects s)" "\<not> same_key b k x"
  shows "files (delete_all_versions b k s) (blob_path (o_id x)) = files s (blob_path (o_id x))"
proof -
  have "blob_path (o_id x) \<noteq> blob_path (o_id r)" if "r \<in> set (objects s)" "same_key b k r" for r
    using blob_path_rows [OF inv x(1) that(1)] x(2) that(2) by blast
  then show ?thesis by (auto simp: delete_all_versions_def Let_def versions_of_def table_simps)
qed


lemma create_delete_marker_effect:
  assumes "store_inv p s" "fresh_id i s" "bucket_exists b s"
  shows "\<exists>s'. create_delete_marker now i b k s = (True, s')
    \<and> installs True (delete_marker_row now i b k) s s' \<and> files s' = files s"
proof -
  obtain s' where "replace_current True (delete_marker_row now i b k) s = (True, s')"
    using replace_current_accepts [OF assms(1), of "delete_marker_row now i b k" s True] assms by auto
  then show ?thesis
    using replace_current_installs [of True "delete_marker_row now i b k" s s' s]
    by (auto simp: create_delete_marker_eq keeps_blobs_def)
qed

end
