(* ===== verification/Store_History.thy ===== *)
theory Store_History
  imports Store_Effect
begin

text \<open>
  The object store as a map from keys to histories. A history lists the versions of a key,
  newest first: the version id and the stored bytes, or none for a delete marker. Writing,
  copying and deleting are the obvious operations on histories, and reading returns the
  head. The theorem says that the tables and files of the store implement this map.
\<close>

section \<open>The abstract store\<close>

type_synonym history_map = "string \<times> string \<Rightarrow> (string \<times> bytes option) list"

definition hist_add :: "bool \<Rightarrow> string \<times> string \<Rightarrow> string \<times> bytes option \<Rightarrow> history_map \<Rightarrow> history_map" where
  "hist_add versioned bk ver h = h(bk := ver # (if versioned then h bk else []))"

definition hist_drop :: "string \<times> string \<Rightarrow> string \<Rightarrow> history_map \<Rightarrow> history_map" where
  "hist_drop bk vid h = h(bk := filter (\<lambda>x. fst x \<noteq> vid) (h bk))"

definition hist_clear :: "string \<times> string \<Rightarrow> history_map \<Rightarrow> history_map" where
  "hist_clear bk h = h(bk := [])"

definition hist_read :: "string \<times> string \<Rightarrow> history_map \<Rightarrow> bytes option" where
  "hist_read bk h = (case h bk of [] \<Rightarrow> None | ver # _ \<Rightarrow> snd ver)"

definition hist_read_version :: "string \<times> string \<Rightarrow> string \<Rightarrow> history_map \<Rightarrow> bytes option" where
  "hist_read_version bk vid h =
     (case filter (\<lambda>x. fst x = vid) (h bk) of [] \<Rightarrow> None | ver # _ \<Rightarrow> snd ver)"

section \<open>The abstraction\<close>

definition content :: "(string \<rightharpoonup> bytes) \<Rightarrow> object_row \<Rightarrow> string \<times> bytes option" where
  "content fs r = (o_version_id r, if o_is_delete_marker r then None else fs (blob_path (o_id r)))"

definition newest_first :: "object_row list \<Rightarrow> object_row list" where
  "newest_first = sort_key (\<lambda>r. - o_created_at r)"

definition history :: "local_store \<Rightarrow> history_map" where
  "history s = (\<lambda>(b, k). map (content (files s)) (newest_first (versions_of b k s)))"

definition bucket_versioned :: "string \<Rightarrow> local_store \<Rightarrow> bool" where
  "bucket_versioned b s =
     (case find_bucket b s of None \<Rightarrow> False | Some br \<Rightarrow> br_versioning_status br = ''Enabled'')"

section \<open>Sorting\<close>

lemma sort_key_youngest:
  assumes "\<forall>x \<in> set xs. f y < f x"
  shows "sort_key f (xs @ [y]) = y # sort_key (f :: 'a \<Rightarrow> int) xs"
  using assms by (induction xs) (auto simp: insort_key.simps)

lemma insort_key_map: "(\<And>x. f (g x) = f x) \<Longrightarrow> insort_key f (g x) (map g xs) = map g (insort_key f x xs)"
  by (induction xs) simp_all

lemma sort_key_map: "(\<And>x. f (g x) = f x) \<Longrightarrow> sort_key f (map g xs) = map g (sort_key f xs)"
  by (induction xs) (simp_all add: insort_key_map)

lemma newest_first_map:
  "(\<And>x. o_created_at (g x) = o_created_at x) \<Longrightarrow> newest_first (map g xs) = map g (newest_first xs)"
  unfolding newest_first_def by (rule sort_key_map) simp

lemma newest_first_filter: "newest_first (filter P xs) = filter P (newest_first xs)"
  by (simp add: newest_first_def filter_sort)

lemma set_newest_first [simp]: "set (newest_first xs) = set xs"
  by (simp add: newest_first_def)

lemma versions_of_filter: "versions_of b k s = filter (same_key b k) (objects s)"
  by (simp add: versions_of_def sql_select_def)

lemma content_latest [simp]: "content fs (r\<lparr>o_is_latest := l\<rparr>) = content fs r"
  by (simp add: content_def)

section \<open>Every operation on histories\<close>

lemma history_cong:
  assumes "objects s' = objects s" "keeps_blobs s s'"
  shows "history s' = history s"
proof -
  have "map (content (files s')) (newest_first (versions_of b k s')) =
      map (content (files s)) (newest_first (versions_of b k s))" for b k
    using assms by (auto simp: versions_of_filter content_def keeps_blobs_def)
  then show ?thesis by (simp add: history_def)
qed

lemma same_key_flag [simp]: "same_key b k (r\<lparr>o_is_latest := l\<rparr>) = same_key b k r"
  by (simp add: same_key_def)

lemma filter_update_other:
  assumes "\<And>r. P r \<Longrightarrow> \<not> Q r" "\<And>r. Q (f r) = Q r"
  shows "filter Q (map (\<lambda>r. if P r then f r else r) rows) = filter Q rows"
  using assms by (induction rows) auto

lemma filter_update_same:
  assumes "\<And>r. P (f r) = P r"
  shows "filter P (map (\<lambda>r. if P r then f r else r) rows) = map f (filter P rows)"
  using assms by (induction rows) auto

lemma older_rows_other:
  assumes "(b, k) \<noteq> (o_bucket row, o_key row)"
  shows "filter (same_key b k) (older_rows v row rows) = filter (same_key b k) rows"
proof -
  have excl: "\<not> same_key b k r" if "same_key (o_bucket row) (o_key row) r" for r
    using assms that by (auto simp: same_key_def)
  then have "filter (\<lambda>r. \<not> same_key (o_bucket row) (o_key row) r \<and> same_key b k r) rows = filter (same_key b k) rows"
    by (intro filter_cong) auto
  moreover have "filter (same_key b k) (map (\<lambda>r. if same_key (o_bucket row) (o_key row) r
      then r\<lparr>o_is_latest := False\<rparr> else r) rows) = filter (same_key b k) rows"
    by (rule filter_update_other [OF excl]) simp_all
  ultimately show ?thesis by (simp add: older_rows_def sql_update_def sql_delete_def)
qed

lemma older_rows_same:
  "filter (same_key (o_bucket row) (o_key row)) (older_rows v row rows) =
     (if v then map (\<lambda>r. r\<lparr>o_is_latest := False\<rparr>) (filter (same_key (o_bucket row) (o_key row)) rows) else [])"
proof -
  have "filter (same_key (o_bucket row) (o_key row)) (map (\<lambda>r. if same_key (o_bucket row) (o_key row) r
      then r\<lparr>o_is_latest := False\<rparr> else r) rows) =
      map (\<lambda>r. r\<lparr>o_is_latest := False\<rparr>) (filter (same_key (o_bucket row) (o_key row)) rows)"
    by (rule filter_update_same) simp
  then show ?thesis by (simp add: older_rows_def sql_update_def sql_delete_def)
qed

text \<open>Columns that are not part of the history may change.\<close>

lemma history_map:
  assumes "objects s' = map g (objects s)" "files s' = files s"
    and g: "\<And>r. o_bucket (g r) = o_bucket r" "\<And>r. o_key (g r) = o_key r"
      "\<And>r. o_created_at (g r) = o_created_at r" "\<And>r fs. content fs (g r) = content fs r"
  shows "history s' = history s"
proof -
  have "same_key b k (g r) = same_key b k r" for b k r by (simp add: same_key_def g)
  then have "versions_of b k s' = map g (versions_of b k s)" for b k
    by (simp add: versions_of_filter assms(1) filter_map comp_def)
  then show ?thesis
    by (simp add: history_def newest_first_map g(3) assms(2) comp_def g(4))
qed

lemma history_installs:
  assumes ins: "installs v row s s'"
    and old: "\<And>r. r \<in> set (objects s) \<Longrightarrow> same_object r row \<Longrightarrow> o_created_at r < o_created_at row"
  shows "history s' = hist_add v (o_bucket row, o_key row) (content (files s') row) (history s)"
proof
  fix bk :: "string \<times> string"
  obtain b k where bk: "bk = (b, k)" by fastforce
  let ?same = "same_key (o_bucket row) (o_key row)"
  have obj: "objects s' = older_rows v row (objects s) @ [row]" and keep: "keeps_blobs s s'"
    using ins by (simp_all add: installs_def)
  have con: "map (content (files s')) (filter P (newest_first (objects s))) =
      map (content (files s)) (filter P (newest_first (objects s)))" for P
    using keep by (auto simp: content_def keeps_blobs_def)
  show "history s' bk = hist_add v (o_bucket row, o_key row) (content (files s') row) (history s) bk"
  proof (cases "(b, k) = (o_bucket row, o_key row)")
    case False
    have none: "\<not> same_key b k row" using False by (auto simp: same_key_def)
    have "versions_of b k s' = versions_of b k s"
      using older_rows_other [OF False] none by (simp add: versions_of_filter obj)
    then have "history s' (b, k) = map (content (files s')) (newest_first (versions_of b k s))"
      by (simp add: history_def)
    also have "\<dots> = history s (b, k)"
      using con [of "same_key b k"] by (simp add: history_def versions_of_filter newest_first_filter)
    finally have "history s' (b, k) = history s (b, k)" .
    then show ?thesis using False unfolding bk hist_add_def by (simp only: fun_upd_apply if_False)
  next
    case True
    define g where "g = (\<lambda>r :: object_row. r\<lparr>o_is_latest := False\<rparr>)"
    have row: "same_key b k row" using True by (simp add: same_key_def)
    have "versions_of b k s' = (if v then map g (versions_of b k s) else []) @ [row]"
      using True row by (simp add: versions_of_filter obj older_rows_same g_def)
    moreover have "\<forall>r \<in> set (if v then map g (versions_of b k s) else []). - o_created_at row < - o_created_at r"
      using old True by (auto simp: g_def versions_of_filter same_object_def)
    ultimately have "newest_first (versions_of b k s') =
        row # newest_first (if v then map g (versions_of b k s) else [])"
      by (simp only: newest_first_def sort_key_youngest)
    moreover have "newest_first (map g xs) = map g (newest_first xs)" for xs
      by (rule newest_first_map) (simp add: g_def)
    moreover have "content fs (g r) = content fs r" for fs r by (simp add: g_def)
    ultimately show ?thesis
      using True con [of "same_key b k"]
      by (simp add: bk history_def hist_add_def versions_of_filter newest_first_filter comp_def)
        (simp add: newest_first_def)
  qed
qed

lemma history_promote: "history (promote_latest b k s) = history s"
proof (cases "most_recent (versions_of b k s)")
  case (Some m)
  then show ?thesis
    by (intro history_map [of _ "\<lambda>x. if o_id x = o_id m then o_is_latest_update (\<lambda>_. True) x else x"])
      (auto simp: promote_latest_def sql_update_def content_def)
qed (simp add: promote_latest_def)

text \<open>Deleting rows of one key with their blobs.\<close>

lemma history_dropped:
  assumes "objects s' = filter (\<lambda>r. \<not> P r) (objects s)"
    and "\<And>r. r \<in> set (objects s) \<Longrightarrow> \<not> P r \<Longrightarrow> files s' (blob_path (o_id r)) = files s (blob_path (o_id r))"
    and "\<And>r. r \<in> set (objects s) \<Longrightarrow> same_key b k r \<Longrightarrow> P r = Q (o_version_id r)"
    and "\<And>r. P r \<Longrightarrow> same_key b k r"
  shows "history s' = (history s)((b, k) := filter (\<lambda>x. \<not> Q (fst x)) (history s (b, k)))"
proof
  fix bk :: "string \<times> string"
  obtain b' k' where bk: "bk = (b', k')" by fastforce
  let ?rows = "newest_first (objects s)"
  have hist: "history s (b', k') = map (content (files s)) (filter (same_key b' k') ?rows)" for b' k'
    by (simp add: history_def versions_of_filter newest_first_filter)
  have "history s' (b', k') = map (content (files s')) (filter (same_key b' k') (filter (\<lambda>r. \<not> P r) ?rows))"
    by (simp add: history_def versions_of_filter newest_first_filter assms(1))
  also have "\<dots> = map (content (files s)) (filter (same_key b' k') (filter (\<lambda>r. \<not> P r) ?rows))"
    using assms(2) by (auto simp: content_def)
  finally have hist': "history s' (b', k') = \<dots>" .
  show "history s' bk = ((history s)((b, k) := filter (\<lambda>x. \<not> Q (fst x)) (history s (b, k)))) bk"
  proof (cases "(b', k') = (b, k)")
    case True
    have "filter (same_key b k) (filter (\<lambda>r. \<not> P r) ?rows) =
        filter (\<lambda>r. \<not> Q (o_version_id r)) (filter (same_key b k) ?rows)"
      using assms(3) by (auto intro!: filter_cong simp: filter_filter)
    then show ?thesis using True hist' by (simp add: bk hist filter_map comp_def content_def)
  next
    case False
    then have "filter (same_key b' k') (filter (\<lambda>r. \<not> P r) ?rows) = filter (same_key b' k') ?rows"
      using assms(4) by (auto intro!: filter_cong simp: filter_filter same_key_def)
    then have "history s' (b', k') = history s (b', k')" using hist' by (simp add: hist)
    then show ?thesis using False unfolding bk by (simp only: fun_upd_apply if_False)
  qed
qed

lemma history_delete_specific:
  assumes inv: "store_inv True s"
  shows "history (delete_specific_version b k vid s) = hist_drop (b, k) vid (history s)"
proof -
  let ?P = "\<lambda>r. same_key b k r \<and> o_version_id r = vid"
  define s1 where "s1 = s\<lparr>objects := sql_delete ?P (objects s)\<rparr>"
  define s2 where "s2 = (case find_object b k (Some vid) s of
      Some r \<Rightarrow> fs_remove (blob_path (o_id r)) s1 | None \<Rightarrow> s1)"
  have objs: "objects s2 = filter (\<lambda>r. \<not> ?P r) (objects s)"
    by (simp add: s2_def s1_def sql_delete_def split: option.splits)
  have "files s2 (blob_path (o_id x)) = files s (blob_path (o_id x))"
    if x: "x \<in> set (objects s)" "\<not> ?P x" for x
    unfolding s2_def by (rule delete_specific_keeps [OF inv x]) (simp add: s1_def)
  then have "history s2 = (history s)((b, k) := filter (\<lambda>x. \<not> fst x = vid) (history s (b, k)))"
    by (intro history_dropped [where P = ?P and Q = "\<lambda>v. v = vid", OF objs]) auto
  then show ?thesis
    by (simp add: delete_specific_version_def Let_def s1_def [symmetric] s2_def [symmetric]
        history_promote hist_drop_def)
qed

lemma history_delete_all:
  assumes inv: "store_inv True s"
  shows "history (delete_all_versions b k s) = hist_clear (b, k) (history s)"
proof -
  have "history (delete_all_versions b k s) =
      (history s)((b, k) := filter (\<lambda>x. \<not> True) (history s (b, k)))"
    by (rule history_dropped [where P = "same_key b k" and Q = "\<lambda>_. True"])
      (simp_all add: delete_all_keeps [OF inv], simp add: delete_all_versions_def Let_def sql_delete_def)
  then show ?thesis by (simp add: hist_clear_def)
qed

section \<open>Reading\<close>

lemma newest_first_hd:
  assumes "newest_first rows = r # rest" "x \<in> set rows"
  shows "r \<in> set rows \<and> o_created_at x \<le> o_created_at r"
proof -
  have set: "set (r # rest) = set rows" using assms(1) set_newest_first by metis
  have "sorted (map (\<lambda>r. - o_created_at r) (newest_first rows))" by (simp add: newest_first_def)
  then have "sorted (map (\<lambda>r. - o_created_at r) (r # rest))" unfolding assms(1) .
  then show ?thesis using set assms(2) by auto
qed

text \<open>The current version is the head of the history.\<close>

lemma find_current:
  assumes inv: "store_inv True s"
  shows "find_object b k None s = (case newest_first (versions_of b k s) of [] \<Rightarrow> None | r # _ \<Rightarrow> Some r)"
proof (cases "newest_first (versions_of b k s)")
  case Nil
  then have "versions_of b k s = []" by (metis set_empty set_newest_first)
  then have "\<not> same_key b k r" if "r \<in> set (objects s)" for r
    using that by (auto simp: versions_of_filter filter_empty_conv)
  then have "find_object b k None s = None"
    using find_objectD by (cases "find_object b k None s") blast+
  then show ?thesis using Nil by simp
next
  case (Cons r rest)
  have mem: "x \<in> set (versions_of b k s) \<longleftrightarrow> x \<in> set (objects s) \<and> same_key b k x" for x
    by (auto simp: versions_of_filter)
  have "r \<in> set (versions_of b k s)" using Cons set_newest_first by (metis list.set_intros(1))
  then have r: "r \<in> set (objects s)" "same_key b k r" by (simp_all add: mem)
  have "o_created_at x \<le> o_created_at r" if "x \<in> set (objects s)" "same_object x r" for x
  proof -
    have "same_key b k x" using that(2) r(2) same_key_object by blast
    then show ?thesis using newest_first_hd [OF Cons] that(1) mem by blast
  qed
  moreover have "latest_ok (set (objects s))" using inv by (simp add: store_inv_def)
  ultimately have "o_is_latest r" using r(1) unfolding latest_ok_def by blast
  then have "find_object b k None s = Some r" using find_latest_row [OF latest_ok_single r] \<open>latest_ok _\<close> by blast
  then show ?thesis using Cons by simp
qed

lemma hist_read_current:
  assumes inv: "store_inv True s"
  shows "hist_read (b, k) (history s) =
    (case find_object b k None s of None \<Rightarrow> None
     | Some r \<Rightarrow> if o_is_delete_marker r then None else files s (blob_path (o_id r)))"
  using find_current [OF inv, of b k]
  by (cases "newest_first (versions_of b k s)") (simp_all add: hist_read_def history_def content_def)

definition plain_get_opts :: get_object_opts where
  "plain_get_opts = \<lparr>go_range = None, go_if_match = None, go_if_none_match = None,
     go_if_modified_since = None, go_if_unmodified_since = None, go_version_id = None,
     go_sse_customer_key = None, go_sse_customer_key_md5 = None\<rparr>"

lemma get_plain_current:
  assumes inv: "store_inv True s"
  shows "get_object ix b k plain_get_opts s = Inl (ObjectNotFound b k) \<longleftrightarrow> hist_read (b, k) (history s) = None"
    and "get_object ix b k plain_get_opts s = Inr (info, d) \<Longrightarrow> oi_encryption info = None \<Longrightarrow>
      hist_read (b, k) (history s) = Some d"
proof -
  note read = hist_read_current [OF inv, of b k]
  have "hist_read (b, k) (history s) = None \<longleftrightarrow> get_object ix b k plain_get_opts s = Inl (ObjectNotFound b k)"
    if found: "find_object b k None s = Some r" "\<not> o_is_delete_marker r" for r
  proof -
    have "r \<in> set (objects s)" using find_objectD [OF found(1)] by blast
    then obtain c where c: "files s (blob_path (o_id r)) = Some c"
      using inv found(2) by (auto simp: store_inv_def blob_ok_def)
    have "get_object ix b k plain_get_opts s \<noteq> Inl (ObjectNotFound b k)"
      using found c
      by (auto simp: get_object_def plain_get_opts_def check_preconditions_def decrypt_object_def
          resolve_range_def decrypt_sse_s3_def decryption_failed_def Let_def
          split: option.splits sum.splits server_side_encryption.splits)
    then show ?thesis using read found c by simp
  qed
  moreover have "get_object ix b k plain_get_opts s = Inl (ObjectNotFound b k)"
    if "find_object b k None s = None"
    using that by (simp add: get_object_def plain_get_opts_def)
  moreover have "get_object ix b k plain_get_opts s = Inl (ObjectNotFound b k)"
    if "find_object b k None s = Some r" "o_is_delete_marker r" for r
    using that by (simp add: get_object_def plain_get_opts_def)
  ultimately show "get_object ix b k plain_get_opts s = Inl (ObjectNotFound b k) \<longleftrightarrow>
      hist_read (b, k) (history s) = None"
    using read by (cases "find_object b k None s") (auto split: if_splits)
  show "hist_read (b, k) (history s) = Some d"
    if get: "get_object ix b k plain_get_opts s = Inr (info, d)" and plain: "oi_encryption info = None"
  proof -
    obtain r c where "find_object b k None s = Some r" "\<not> o_is_delete_marker r"
      "files s (blob_path (o_id r)) = Some c" "decrypt_object ix s b k plain_get_opts r c = Inr d"
      "info = object_info_of_row ix r"
      using get by (auto simp: get_object_def plain_get_opts_def resolve_range_def
          split: option.splits if_splits sum.splits)
    then show ?thesis using read plain by (simp add: decrypt_object_def object_info_of_row_def)
  qed
qed

section \<open>The refinement\<close>

definition keeps_versions :: "string \<Rightarrow> local_store \<Rightarrow> bool" where
  "keeps_versions b s = (case find_bucket b s of None \<Rightarrow> False
     | Some br \<Rightarrow> br_versioning_status br = ''Enabled'' \<or> br_versioning_status br = ''Suspended'')"

text \<open>No version of the key was created in the current second or later.\<close>

definition later_than :: "instant \<Rightarrow> string \<Rightarrow> string \<Rightarrow> local_store \<Rightarrow> bool" where
  "later_than now b k s = (\<forall>r \<in> set (versions_of b k s). o_created_at r < sql_datetime now)"

lemma later_thanD:
  assumes "later_than now b k s" "r \<in> set (objects s)" "same_object r row"
    "o_bucket row = b" "o_key row = k" "o_created_at row = sql_datetime now"
  shows "o_created_at r < o_created_at row"
  using assms by (auto simp: later_than_def versions_of_filter same_object_def)

lemma refines_put:
  assumes inv: "store_inv True s" and t: "later_than now b k s" and i: "fresh_id i s"
    and put: "put_object ix now i nonce b k body po s = (Inr resp, s')"
  shows "\<exists>d. history s' = hist_add (bucket_versioned b s) (b, k)
      (if bucket_versioned b s then i else ''null'', Some d) (history s)
    \<and> (po_server_side_encryption po = None \<longrightarrow> d = concat (map projr body))"
proof -
  obtain br data enc d where br: "find_bucket b s = Some br" and body: "stream_body [] body = (data, None)"
    and ins: "installs (br_versioning_status br = ''Enabled'') (put_row ix now i b k
        (if br_versioning_status br = ''Enabled'' then i else ''null'') data po enc) s s'"
    and d: "files s' (blob_path i) = Some d" "fst enc = None \<longrightarrow> d = data"
      "po_server_side_encryption po = None \<longrightarrow> fst enc = None"
    using put_object_effect [OF inv i put] unfolding sum.case by (elim exE conjE) (rule that)
  have "data = concat (map projr body)" using stream_body_ok [OF body] by simp
  then show ?thesis
    using history_installs [OF ins later_thanD [OF t]] d br by (auto simp: bucket_versioned_def content_def)
qed

lemma refines_copy:
  assumes inv: "store_inv True s" and t: "later_than now b' k' s" and i: "fresh_id i s"
    and copy: "copy_object ix now i nonce b k b' k' co s = (Inr resp, s')"
  shows "\<exists>d. history s' = hist_add (bucket_versioned b' s) (b', k')
      (if bucket_versioned b' s then i else ''null'', Some d) (history s)
    \<and> (\<forall>src. find_object b k None s = Some src \<longrightarrow> o_encryption_algorithm src \<noteq> Some ''AES256'' \<longrightarrow>
        hist_read (b, k) (history s) = Some d)"
proof -
  obtain src br d where src: "find_object b k None s = Some src" "\<not> o_is_delete_marker src"
    and br: "find_bucket b' s = Some br"
    and ins: "installs (br_versioning_status br = ''Enabled'')
      (copy_row ix now i b' k' (if br_versioning_status br = ''Enabled'' then i else ''null'')
        (object_info_of_row ix src) src co) s s'"
    and d: "files s' (blob_path i) = Some d"
      "o_encryption_algorithm src \<noteq> Some ''AES256'' \<longrightarrow> files s (blob_path (o_id src)) = Some d"
    using copy_object_effect [OF inv i copy] unfolding sum.case by (elim exE conjE) (rule that)
  have "\<not> o_is_delete_marker (copy_row ix now i b' k' (if br_versioning_status br = ''Enabled'' then i else ''null'')
        (object_info_of_row ix src) src co)"
    by (simp add: copy_row_def object_row_default_def Let_def)
  then have "history s' = hist_add (bucket_versioned b' s) (b', k')
      (if bucket_versioned b' s then i else ''null'', Some d) (history s)"
    using history_installs [OF ins later_thanD [OF t]] d(1) br by (simp add: bucket_versioned_def content_def)
  moreover have "hist_read (b, k) (history s) = Some d" if "o_encryption_algorithm src \<noteq> Some ''AES256''"
    using hist_read_current [OF inv, of b k] src d(2) that by simp
  ultimately show ?thesis using src(1) by auto
qed

lemma refines_delete:
  assumes inv: "store_inv True s" and t: "later_than now b k s" and i: "fresh_id i s"
    and del: "delete_object_version now i b k vid s = (Inr resp, s')"
  shows "history s' = (case vid of
      Some v \<Rightarrow> hist_drop (b, k) v (history s)
    | None \<Rightarrow> if keeps_versions b s then hist_add True (b, k) (i, None) (history s)
        else hist_clear (b, k) (history s))"
proof -
  obtain br where br: "find_bucket b s = Some br"
    using del by (cases "find_bucket b s") (auto simp: delete_object_version_def)
  have unlocked: "\<not> object_delete_locked now b k vid s"
    using del br by (auto simp: delete_object_version_def Let_def)
  show ?thesis
  proof (cases vid)
    case (Some v)
    then have "snd (delete_object_version now i b k vid s) = delete_specific_version b k v s"
      using br unlocked by (simp add: delete_object_version_def Let_def)
    then have "s' = delete_specific_version b k v s" using del by simp
    then show ?thesis using history_delete_specific [OF inv] Some by simp
  next
    case None
    show ?thesis
    proof (cases "keeps_versions b s")
      case True
      obtain s1 where s1: "create_delete_marker now i b k s = (True, s1)"
        "installs True (delete_marker_row now i b k) s s1"
        using create_delete_marker_effect [OF inv i find_bucket_Some [OF br]] by blast
      have "snd (delete_object_version now i b k vid s) = s1"
        using br unlocked None True s1(1) by (simp add: delete_object_version_def Let_def keeps_versions_def)
      then have "s' = s1" using del by simp
      then show ?thesis
        using history_installs [OF s1(2) later_thanD [OF t]] None True by (simp add: content_def)
    next
      case False
      then have "snd (delete_object_version now i b k vid s) = delete_all_versions b k s"
        using br unlocked None by (simp add: delete_object_version_def Let_def keeps_versions_def)
      then have "s' = delete_all_versions b k s" using del by simp
      then show ?thesis using history_delete_all [OF inv] None False by simp
    qed
  qed
qed

lemma refines_errors:
  assumes inv: "store_inv True s" and i: "fresh_id i s"
  shows "put_object ix now i nonce b k body po s = (Inl e, s') \<Longrightarrow> history s' = history s"
    and "copy_object ix now i nonce b k b' k' co s = (Inl e, s') \<Longrightarrow> history s' = history s"
    and "delete_object_version now i b k vid s = (Inl e, s') \<Longrightarrow> history s' = history s"
proof -
  have same: "history s' = history s" if "unaltered s s'" for s'
    using that history_cong by (simp add: unaltered_def)
  show "history s' = history s" if put: "put_object ix now i nonce b k body po s = (Inl e, s')"
    using put_object_effect [OF inv i put] unfolding sum.case by (rule same)
  show "history s' = history s" if copy: "copy_object ix now i nonce b k b' k' co s = (Inl e, s')"
    using copy_object_effect [OF inv i copy] unfolding sum.case by (rule same)
  show "history s' = history s" if del: "delete_object_version now i b k vid s = (Inl e, s')"
  proof (cases "s' = s")
    case False
    then obtain br where br: "find_bucket b s = Some br"
      using del by (cases "find_bucket b s") (auto simp: delete_object_version_def)
    have "\<exists>s1. create_delete_marker now i b k s = (True, s1)"
      using create_delete_marker_effect [OF inv i find_bucket_Some [OF br]] by blast
    then show ?thesis
      using del br False by (auto simp: delete_object_version_def Let_def split: if_splits option.splits)
  qed simp
qed



end
