(* ===== verification/Multipart_Content.thy ===== *)
theory Multipart_Content
  imports Store_History
begin

text \<open>
  What completing a multipart upload stores: the parts in the order of their numbers, once
  they passed the checks; and what a failed upload of a part leaves behind.
\<close>

section \<open>The checks\<close>

lemma parts_in_order_iff: "parts_in_order n ps \<longleftrightarrow> sorted_wrt (<) (n # map cp_part_number ps)"
proof (induction ps arbitrary: n)
  case (Cons p ps)
  have "n < m" if "n < cp_part_number p" "cp_part_number p < m" for m using that by (rule less_trans)
  then show ?case using Cons by (auto simp: not_le)
qed simp

definition part_ok :: "string \<Rightarrow> local_store \<Rightarrow> bool \<Rightarrow> complete_part \<Rightarrow> bool" where
  "part_ok upload_id s final p = (\<exists>row. find_part upload_id (unat (cp_part_number p)) s = Some row
     \<and> trim_matches (CHR 0x22) (pt_etag row) = trim_matches (CHR 0x22) (cp_etag p)
     \<and> (final \<or> MIN_PART_SIZE \<le> pt_size row))"

lemma validate_parts_0:
  "validate_parts u s ps = 0 \<longleftrightarrow> (\<forall>p \<in> set (butlast ps). part_ok u s False p) \<and> (\<forall>p \<in> set ps. part_ok u s True p)"
proof (induction ps)
  case (Cons p ps)
  then show ?case by (cases ps) (auto simp: part_ok_def split: option.splits)
qed simp

lemma concat_parts_Inr:
  "concat_parts u s acc ps = Inr pt \<Longrightarrow>
     \<exists>datas. map (\<lambda>p. files s (part_path u (cp_part_number p))) ps = map Some datas \<and> pt = acc @ concat datas"
proof (induction ps arbitrary: acc)
  case (Cons p ps)
  then obtain d where d: "files s (part_path u (cp_part_number p)) = Some d"
    and rest: "concat_parts u s (acc @ d) ps = Inr pt" by (auto split: option.splits)
  from Cons.IH [OF rest] obtain datas where
    "map (\<lambda>p. files s (part_path u (cp_part_number p))) ps = map Some datas" "pt = (acc @ d) @ concat datas"
    by blast
  then show ?case using d by (intro exI [of _ "d # datas"]) simp
qed simp

section \<open>Completion\<close>

lemma installs_find:
  assumes "installs v row s s'" "o_is_latest row"
  shows "find_object (o_bucket row) (o_key row) None s' = Some row"
proof -
  have "\<not> (same_key (o_bucket row) (o_key row) r \<and> o_is_latest r)" if "r \<in> set (older_rows v row (objects s))" for r
    using that by (cases v) (auto simp: older_rows_def table_simps)
  then have "sql_query_row (\<lambda>r. o_bucket r = o_bucket row \<and> o_key r = o_key row \<and> o_is_latest r)
      (older_rows v row (objects s)) = None"
    by (auto simp: sql_query_row_None same_key_def)
  then show ?thesis
    using assms by (simp add: installs_def find_object_def sql_query_row_append)
qed

lemma replace_current_frame:
  "replace_current v row s = (ins, s') \<Longrightarrow> master_key s' = master_key s \<and> multipart_uploads s' = multipart_uploads s"
  by (auto simp: replace_current_def Let_def insert_object_def split: option.splits if_splits)

lemma assemble_frame:
  "assemble_object ix now i nonce meta v ps s = (Inr resp, s') \<Longrightarrow>
     master_key s' = master_key s \<and> find_upload (up_upload_id meta) s' = None"
  by (auto simp: assemble_object_def Let_def fs_remove_dir_def delete_upload_rows_def find_upload_def
      sql_query_row_None table_simps dest!: replace_current_frame
      split: sum.splits prod.splits if_splits)

lemma decrypt_completed:
  assumes cl: "gcm_correct (sx_crypto ix)" "length nonce = NONCE_SIZE"
    and enc: "complete_encryption ix nonce s meta vid pt = Inr (d, alg)" and mk: "master_key s' = master_key s"
    and row: "o_version_id r = vid" "o_encryption_algorithm r = alg"
  shows "decrypt_object ix s' (up_bucket meta) (up_key meta) go r d = Inr pt"
proof (cases "up_encryption_algorithm meta = Some ''AES256''")
  case True
  then have alg: "alg = Some ''AES256''" and e: "encrypt_sse_s3 ix nonce s (up_bucket meta) (up_key meta) vid pt = Inr d"
    using enc by (auto simp: complete_encryption_def split: sum.splits)
  have vid: "(case visible_version_id r of Some v \<Rightarrow> v | None \<Rightarrow> ''null'') = vid"
    using row(1) by (simp add: visible_version_id_def)
  have "encrypt_aes256_gcm (sx_crypto ix) nonce (derive_object_key ix s (up_bucket meta) (up_key meta) vid) pt = Inr d"
    using e by (auto simp: encrypt_sse_s3_def encryption_failed_def split: sum.splits)
  then have "decrypt_aes256_gcm (sx_crypto ix) (derive_object_key ix s' (up_bucket meta) (up_key meta) vid) d = Inr pt"
    using decrypt_encrypt_aes256_gcm [OF cl] mk by (simp add: derive_object_key_def)
  then show ?thesis
    using alg row vid by (simp add: decrypt_object_def parse_encryption_info_def decrypt_sse_s3_def decryption_failed_def)
next
  case False
  then have "alg = None" "d = pt" using enc by (auto simp: complete_encryption_def split: if_splits)
  then show ?thesis using row by (simp add: decrypt_object_def parse_encryption_info_def)
qed

text \<open>C24: a multipart upload that is completed names its parts in increasing order, each one
  uploaded with the ETag given and every part but the last of at least 5 MiB; a get of the
  key then returns the bytes of the part files one after the other, with their total size and
  the multipart ETag, encrypted at rest or not, and the upload is gone.\<close>

theorem completed_upload_content:
  assumes "gcm_correct (sx_crypto ix)" "length nonce = NONCE_SIZE"
    and "store_reachable ix s" "fresh_id i s"
    and comp: "complete_multipart_upload ix now i nonce up ps s = (Inr resp, s')"
  shows "\<exists>meta datas info. find_upload (mu_upload_id up) s = Some meta
    \<and> sorted_wrt (<) (0 # map cp_part_number ps)
    \<and> (\<forall>p \<in> set (butlast ps). part_ok (mu_upload_id up) s False p)
    \<and> (\<forall>p \<in> set ps. part_ok (mu_upload_id up) s True p)
    \<and> map (\<lambda>p. files s (part_path (mu_upload_id up) (cp_part_number p))) ps = map Some datas
    \<and> get_object ix (up_bucket meta) (up_key meta) plain_get_opts s' = Inr (info, concat datas)
    \<and> oi_size info = length (concat datas)
    \<and> oi_etag info = format_multipart_etag (sx_crypto ix) (map cp_etag ps)
    \<and> find_upload (mu_upload_id up) s' = None"
proof -
  have inv: "store_inv False s" using store_reachable_inv assms(3) by blast
  obtain meta br pt d alg where meta: "find_upload (mu_upload_id up) s = Some meta"
    and br: "find_bucket (up_bucket meta) s = Some br"
    and checks: "validate_parts (mu_upload_id up) s ps = 0" "parts_in_order 0 ps"
    and pt: "concat_parts (up_upload_id meta) s [] ps = Inr pt"
    and enc: "complete_encryption ix nonce s meta
      (if br_versioning_status br = ''Enabled'' then i else ''null'') pt = Inr (d, alg)"
    and ins: "installs (br_versioning_status br = ''Enabled'')
      (completed_row ix now i (if br_versioning_status br = ''Enabled'' then i else ''null'') meta ps
        (length pt) alg) s s'"
    and d: "files s' (blob_path i) = Some d"
    using complete_effect [OF inv assms(4) comp] unfolding sum.case by (elim exE conjE) (rule that)
  let ?row = "completed_row ix now i (if br_versioning_status br = ''Enabled'' then i else ''null'') meta ps (length pt) alg"
  have uid: "up_upload_id meta = mu_upload_id up"
    using meta by (auto simp: find_upload_def dest: sql_query_row_SomeD)
  have "assemble_object ix now i nonce meta (br_versioning_status br = ''Enabled'') ps s = (Inr resp, s')"
    using comp meta br checks by (simp add: complete_multipart_upload_def validation_error_def)
  note frame = assemble_frame [OF this]
  obtain datas where datas: "map (\<lambda>p. files s (part_path (mu_upload_id up) (cp_part_number p))) ps = map Some datas"
    "pt = concat datas"
    using concat_parts_Inr [OF pt] by (auto simp: uid)
  have find: "find_object (up_bucket meta) (up_key meta) None s' = Some ?row"
    using installs_find [OF ins] by simp
  have "decrypt_object ix s' (up_bucket meta) (up_key meta) plain_get_opts ?row d = Inr pt"
    using frame by (intro decrypt_completed [OF assms(1,2) enc]) simp_all
  moreover have "plain_get plain_get_opts" "go_version_id plain_get_opts = None"
    by (simp_all add: plain_get_def plain_get_opts_def)
  ultimately have "get_object ix (up_bucket meta) (up_key meta) plain_get_opts s' =
      Inr (object_info_of_row ix ?row, pt)"
    using get_object_plain [of "up_bucket meta" "up_key meta" plain_get_opts s' ?row d ix] find d by simp
  moreover have "oi_size (object_info_of_row ix ?row) = length pt"
    "oi_etag (object_info_of_row ix ?row) = format_multipart_etag (sx_crypto ix) (map cp_etag ps)"
    by (simp_all add: object_info_of_row_def) (simp add: completed_row_def)
  ultimately show ?thesis
    using meta checks frame uid datas
    by (intro exI [of _ meta] exI [of _ datas] exI [of _ "object_info_of_row ix ?row"])
      (simp add: parts_in_order_iff validate_parts_0)
qed

section \<open>A part that is uploaded again\<close>

text \<open>C25: uploading a part number again while the body breaks off reports an error but keeps
  the row of the first upload - its ETag and size - and replaces the file by the bytes that
  arrived, so the checks of a completion accept the old ETag and store the broken bytes.\<close>

theorem failed_part_upload_replaces_bytes:
  assumes "1 \<le> n" "n \<le> 10000" "find_upload (mu_upload_id up) s = Some meta"
    and "stream_body [] body = (received, Some e)"
  shows "\<exists>s'. upload_part ix now blob up n body s = (Inl (Io e), s') \<and> parts s' = parts s
    \<and> files s' (part_path (mu_upload_id up) n) = Some received
    \<and> (\<forall>p. cp_part_number p = n \<longrightarrow>
        validate_parts (mu_upload_id up) s' [p] = validate_parts (mu_upload_id up) s [p]
        \<and> concat_parts (mu_upload_id up) s' [] [p] = Inr received)"
  using assms by (auto simp: upload_part_def find_part_def split: option.splits)

definition toy_upload :: multipart_upload where
  "toy_upload = \<lparr>mu_upload_id = toy_id CHR ''U'', mu_bucket = ''logs'', mu_key = ''big'', mu_initiated = 0\<rparr>"

definition toy_part :: complete_part where
  "toy_part = \<lparr>cp_part_number = 1, cp_etag = format_etag (md5_hex toy_crypto [1, 2, 3])\<rparr>"

definition toy_upload_store :: local_store where
  "toy_upload_store = snd (upload_part toy_configs (4 * nanos_per_sec) (toy_id CHR ''P'') toy_upload 1 [Inr [1, 2, 3]]
     (snd (create_multipart_upload toy_configs (3 * nanos_per_sec) (toy_id CHR ''U'') ''logs'' ''big'' toy_put_opts
       toy_versioned_store)))"

definition toy_completed :: "put_object_response store_result \<times> local_store" where
  "toy_completed = complete_multipart_upload toy_configs (5 * nanos_per_sec) (toy_id CHR ''D'') (replicate 12 7)
     toy_upload [toy_part] toy_upload_store"

lemma toy_upload_reachable: "store_reachable toy_configs toy_upload_store"
proof -
  have "fresh_id (toy_id CHR ''U'') toy_versioned_store" by code_simp
  then show ?thesis
    unfolding toy_upload_store_def
    by (intro store_reachable_step [OF _ store_step.upload_part] store_reachable_step [OF _ store_step.create_upload]
        spaced_reachable_reachable [OF toy_versioned_spaced])
qed

theorem completed_upload_content_witness:
  "\<exists>info. get_object toy_configs ''logs'' ''big'' plain_get_opts (snd toy_completed) = Inr (info, [1, 2, 3])"
proof -
  have "\<not> isl (fst toy_completed)" by code_simp
  then obtain resp where "toy_completed = (Inr resp, snd toy_completed)"
    by (cases "fst toy_completed") (auto simp: prod_eq_iff)
  then have comp: "complete_multipart_upload toy_configs (5 * nanos_per_sec) (toy_id CHR ''D'') (replicate 12 7)
      toy_upload [toy_part] toy_upload_store = (Inr resp, snd toy_completed)"
    by (simp only: toy_completed_def [symmetric])
  have "fresh_id (toy_id CHR ''D'') toy_upload_store" by code_simp
  note use = completed_upload_content [OF _ _ toy_upload_reachable this comp]
  have "gcm_correct (sx_crypto toy_configs)" "length (replicate 12 (7 :: byte)) = NONCE_SIZE"
    by (simp_all add: NONCE_SIZE_def)
  from use [OF this] obtain meta datas info where "find_upload (mu_upload_id toy_upload) toy_upload_store = Some meta"
    "map (\<lambda>p. files toy_upload_store (part_path (mu_upload_id toy_upload) (cp_part_number p))) [toy_part] = map Some datas"
    "get_object toy_configs (up_bucket meta) (up_key meta) plain_get_opts (snd toy_completed) = Inr (info, concat datas)"
    by (elim exE conjE) (rule that)
  moreover have "map_option (\<lambda>m. (up_bucket m, up_key m)) (find_upload (mu_upload_id toy_upload) toy_upload_store)
      = Some (''logs'', ''big'')" by code_simp
  moreover have "files toy_upload_store (part_path (mu_upload_id toy_upload) (cp_part_number toy_part)) = Some [1, 2, 3]"
    by code_simp
  ultimately show ?thesis by auto
qed

theorem failed_part_upload_replaces_bytes_witness:
  "\<exists>s'. upload_part toy_configs 9 (toy_id CHR ''P'') toy_upload 1 [Inr [9], Inl ''connection reset''] toy_upload_store
      = (Inl (Io ''connection reset''), s')
    \<and> validate_parts (mu_upload_id toy_upload) s' [toy_part] = 0
    \<and> concat_parts (mu_upload_id toy_upload) s' [] [toy_part] = Inr [9]"
proof -
  obtain meta where "find_upload (mu_upload_id toy_upload) toy_upload_store = Some meta"
  proof -
    have "find_upload (mu_upload_id toy_upload) toy_upload_store \<noteq> None" by code_simp
    then show thesis using that by blast
  qed
  moreover have "stream_body [] [Inr [9], Inl ''connection reset''] = ([9], Some ''connection reset'')" by simp
  ultimately obtain s' where s': "upload_part toy_configs 9 (toy_id CHR ''P'') toy_upload 1
      [Inr [9], Inl ''connection reset''] toy_upload_store = (Inl (Io ''connection reset''), s')"
    and "\<forall>p. cp_part_number p = 1 \<longrightarrow>
      validate_parts (mu_upload_id toy_upload) s' [p] = validate_parts (mu_upload_id toy_upload) toy_upload_store [p]
      \<and> concat_parts (mu_upload_id toy_upload) s' [] [p] = Inr [9]"
    using failed_part_upload_replaces_bytes [of 1 toy_upload toy_upload_store meta] by fastforce
  moreover have "cp_part_number toy_part = 1" by (simp add: toy_part_def)
  moreover have "validate_parts (mu_upload_id toy_upload) toy_upload_store [toy_part] = 0" by code_simp
  ultimately show ?thesis by metis
qed

end
