(* ===== verification/Store_Retention.thy ===== *)
theory Store_Retention
  imports Store_Effect
begin

text \<open>
  Object lock: in a bucket with versioning enabled no operation of the store removes or
  overwrites a version that is under legal hold or whose retention has not ended, and a
  compliance retention stays as it is as long as no key has two current versions.
\<close>

section \<open>Versions that survive\<close>

text \<open>The same version, up to the flags an operation may change.\<close>

definition same_version :: "object_row \<Rightarrow> object_row \<Rightarrow> bool" where
  "same_version r r' = (r' = r\<lparr>o_is_latest := o_is_latest r', o_legal_hold := o_legal_hold r',
     o_retention_mode := o_retention_mode r', o_retain_until_date := o_retain_until_date r'\<rparr>)"

definition compliance_kept :: "object_row \<Rightarrow> object_row \<Rightarrow> bool" where
  "compliance_kept r r' = (o_retention_mode r = Some ''COMPLIANCE'' \<and> o_retain_until_date r \<noteq> None \<longrightarrow>
     o_retention_mode r' = o_retention_mode r \<and> o_retain_until_date r' = o_retain_until_date r)"

definition survives :: "bool \<Rightarrow> object_row \<Rightarrow> local_store \<Rightarrow> local_store \<Rightarrow> bool" where
  "survives c r s s' = ((\<exists>r' \<in> set (objects s'). same_version r r' \<and> (c \<longrightarrow> compliance_kept r r'))
     \<and> files s' (blob_path (o_id r)) = files s (blob_path (o_id r)))"

lemma same_version_flags [simp]:
  "same_version r r" "same_version r (r\<lparr>o_is_latest := l\<rparr>)" "same_version r (r\<lparr>o_legal_hold := h\<rparr>)"
  "same_version r (r\<lparr>o_retention_mode := m, o_retain_until_date := u\<rparr>)"
  by (simp_all add: same_version_def)

lemma compliance_kept_flags [simp]:
  "compliance_kept r r" "compliance_kept r (r\<lparr>o_is_latest := l\<rparr>)" "compliance_kept r (r\<lparr>o_legal_hold := h\<rparr>)"
  by (simp_all add: compliance_kept_def)

lemma same_version_id: "same_version r r' \<Longrightarrow> o_id r' = o_id r"
  unfolding same_version_def by (drule arg_cong [of _ _ o_id]) simp

lemma survivesI:
  assumes "r' \<in> set (objects s')" "same_version r r'" "c \<longrightarrow> compliance_kept r r'"
    "files s' (blob_path (o_id r)) = files s (blob_path (o_id r))"
  shows "survives c r s s'"
  using assms by (auto simp: survives_def)

lemma survives_unaltered:
  "unaltered s s' \<Longrightarrow> r \<in> set (objects s) \<Longrightarrow> survives c r s s'"
  by (rule survivesI [of r]) (simp_all add: unaltered_def keeps_blobs_def)

lemma survives_core:
  "core s' = core s \<Longrightarrow> r \<in> set (objects s) \<Longrightarrow> survives c r s s'"
  by (rule survivesI [of r]) (simp_all add: core_def)

lemma survives_update:
  assumes "r \<in> set (objects s)" "objects s' = sql_update P f (objects s)" "files s' = files s"
    and "P r \<Longrightarrow> same_version r (f r) \<and> (c \<longrightarrow> compliance_kept r (f r))"
  shows "survives c r s s'"
proof -
  have "(if P r then f r else r) \<in> set (objects s')" using assms(1,2) by (simp add: table_simps)
  then show ?thesis using assms(3,4) by (intro survivesI [of "if P r then f r else r"]) auto
qed

text \<open>A row that is installed in a bucket with versioning replaces no version.\<close>

lemma survives_installs:
  assumes "installs v row s s'" "r \<in> set (objects s)" "o_bucket row = o_bucket r \<Longrightarrow> v"
  shows "survives c r s s'"
proof -
  let ?same = "same_key (o_bucket row) (o_key row)"
  have blob: "files s' (blob_path (o_id r)) = files s (blob_path (o_id r))"
    using assms(1,2) by (simp add: installs_def keeps_blobs_def)
  have rows: "r' \<in> set (objects s')" if "r' \<in> set (older_rows v row (objects s))" for r'
    using that assms(1) by (simp add: installs_def)
  show ?thesis
  proof (cases v)
    case True
    then have "(if ?same r then r\<lparr>o_is_latest := False\<rparr> else r) \<in> set (older_rows v row (objects s))"
      using assms(2) by (auto simp: older_rows_def table_simps)
    then show ?thesis
      by (intro survivesI [OF rows]) (auto simp: blob)
  next
    case False
    then have "\<not> ?same r" using assms(3) by (auto simp: same_key_def)
    then have "r \<in> set (older_rows v row (objects s))"
      using assms(2) False by (simp add: older_rows_def table_simps)
    then show ?thesis by (intro survivesI [OF rows]) (auto simp: blob)
  qed
qed

section \<open>Deletions and locks\<close>

lemma survives_promote:
  assumes "r \<in> set (objects s1)" "files s1 (blob_path (o_id r)) = files s (blob_path (o_id r))"
  shows "survives c r s (promote_latest b k s1)"
proof (cases "most_recent (versions_of b k s1)")
  case None
  then show ?thesis using assms by (intro survivesI [of r]) (simp_all add: promote_latest_def)
next
  case (Some m)
  have "(if o_id r = o_id m then r\<lparr>o_is_latest := True\<rparr> else r) \<in> set (objects (promote_latest b k s1))"
    using assms(1) Some by (auto simp: promote_latest_def table_simps)
  moreover have "files (promote_latest b k s1) = files s1" by (simp add: promote_latest_def Some)
  ultimately show ?thesis
    using assms(2) by (intro survivesI [of "if o_id r = o_id m then r\<lparr>o_is_latest := True\<rparr> else r"]) auto
qed

lemma survives_delete_specific:
  assumes inv: "store_inv p s" and r: "r \<in> set (objects s)" "\<not> (same_key b k r \<and> o_version_id r = vid)"
  shows "survives c r s (delete_specific_version b k vid s)"
proof -
  let ?P = "\<lambda>r. same_key b k r \<and> o_version_id r = vid"
  define s1 where "s1 = s\<lparr>objects := sql_delete ?P (objects s)\<rparr>"
  define s2 where "s2 = (case find_object b k (Some vid) s of
      Some r \<Rightarrow> fs_remove (blob_path (o_id r)) s1 | None \<Rightarrow> s1)"
  have "objects s2 = sql_delete ?P (objects s)" by (simp add: s2_def s1_def split: option.splits)
  then have "r \<in> set (objects s2)" using r by (simp add: table_simps)
  moreover have "files s2 (blob_path (o_id r)) = files s (blob_path (o_id r))"
    unfolding s2_def by (rule delete_specific_keeps [OF inv r]) (simp add: s1_def)
  ultimately have "survives c r s (promote_latest b k s2)" by (rule survives_promote)
  then show ?thesis by (simp add: delete_specific_version_def Let_def s1_def [symmetric] s2_def [symmetric])
qed

lemma survives_delete_version:
  assumes inv: "store_inv p s" and i: "fresh_id i s" and r: "r \<in> set (objects s)"
    and lock: "row_locked now r" and en: "find_bucket (o_bucket r) s = Some br" "br_versioning_status br = ''Enabled''"
  shows "survives c r s (snd (delete_object_version now i b k vid s))"
proof -
  consider (locked) "snd (delete_object_version now i b k vid s) = s"
    | (version) v where "vid = Some v" "\<not> object_delete_locked now b k vid s"
        "snd (delete_object_version now i b k vid s) = delete_specific_version b k v s"
    | (marker) "find_bucket b s \<noteq> None"
        "snd (delete_object_version now i b k vid s) = snd (create_delete_marker now i b k s)"
    | (all) br' where "find_bucket b s = Some br'" "br_versioning_status br' \<noteq> ''Enabled''"
        "snd (delete_object_version now i b k vid s) = delete_all_versions b k s"
  proof (cases "find_bucket b s = None \<or> object_delete_locked now b k vid s")
    case True
    then show thesis by (intro locked) (auto simp: delete_object_version_def Let_def split: option.splits)
  next
    case False
    then obtain br' where br': "find_bucket b s = Some br'" and un: "\<not> object_delete_locked now b k vid s" by auto
    show thesis
    proof (cases vid)
      case None
      have "snd (delete_object_version now i b k vid s) =
          (if br_versioning_status br' = ''Enabled'' \<or> br_versioning_status br' = ''Suspended''
           then snd (create_delete_marker now i b k s) else delete_all_versions b k s)"
        using br' un None by (simp add: delete_object_version_def Let_def split: prod.split)
      then show thesis using marker all br' by (auto split: if_splits)
    next
      case (Some v)
      then show thesis using br' un by (intro version) (simp_all add: delete_object_version_def Let_def)
    qed
  qed
  then show ?thesis
  proof cases
    case locked
    then show ?thesis using survives_unaltered [of s s r] r by simp
  next
    case (version v)
    have "\<not> (same_key b k r \<and> o_version_id r = v)"
      using find_version_row [OF inv r] version(1,2) lock by (auto simp: object_delete_locked_def)
    then show ?thesis using survives_delete_specific [OF inv r] version(3) by simp
  next
    case marker
    then have "bucket_exists b s" by (simp add: bucket_exists_def)
    then obtain s' where "create_delete_marker now i b k s = (True, s')"
      "installs True (delete_marker_row now i b k) s s'"
      using create_delete_marker_effect [OF inv i] by blast
    then show ?thesis using survives_installs [of True _ s s' r] r marker(2) by simp
  next
    case (all br')
    have "\<not> same_key b k r" using all(1,2) en by (auto simp: same_key_def)
    moreover have "r \<in> set (objects (delete_all_versions b k s))"
      using r calculation by (simp add: delete_all_versions_def Let_def table_simps)
    ultimately show ?thesis
      using delete_all_keeps [OF inv r] all(3) by (intro survivesI [of r]) simp_all
  qed
qed

lemma survives_put_retention:
  assumes inv: "store_inv p s" and r: "r \<in> set (objects s)" and single: "c \<Longrightarrow> single_current s"
  shows "survives c r s (snd (put_object_retention b k vid ret bypass s))"
proof (cases "snd (put_object_retention b k vid ret bypass s) = s")
  case True
  then show ?thesis using survives_unaltered [of s s r] r by simp
next
  case False
  let ?cur = "case find_object b k vid s of
      Some r \<Rightarrow> (o_retention_mode r, o_retain_until_date r) | None \<Rightarrow> (None, None)"
  have ok: "can_modify_retention bypass (fst ?cur) (snd ?cur)"
    and eq: "snd (put_object_retention b k vid ret bypass s) = s\<lparr>objects := sql_update (selects_version b k vid)
      (\<lambda>r. r\<lparr>o_retention_mode := Some (retention_mode_to_string (ret_mode ret)),
        o_retain_until_date := Some (ret_retain_until_date ret)\<rparr>) (objects s)\<rparr>"
    using False by (auto simp: put_object_retention_def split_def Let_def split: if_splits)
  have "\<not> (o_retention_mode r = Some ''COMPLIANCE'' \<and> o_retain_until_date r \<noteq> None)"
    if c and sel: "selects_version b k vid r"
  proof -
    have "find_object b k vid s = Some r"
      using sel find_version_row [OF inv r] find_latest_row [OF single [OF \<open>c\<close>] r]
      by (cases vid) (auto simp: selects_version_def)
    then show ?thesis using ok by (auto simp: can_modify_retention_def split: option.splits)
  qed
  then show ?thesis
    unfolding eq
    by (intro survives_update [OF r, where P = "selects_version b k vid" and f = "\<lambda>r. r\<lparr>o_retention_mode :=
        Some (retention_mode_to_string (ret_mode ret)), o_retain_until_date := Some (ret_retain_until_date ret)\<rparr>"])
      (auto simp: compliance_kept_def)
qed

lemma survives_legal_hold:
  assumes "r \<in> set (objects s)"
  shows "survives c r s (snd (put_object_legal_hold b k vid hold s))"
proof (cases "bucket_exists b s")
  case True
  then show ?thesis
    by (intro survives_update [OF assms, of _ "selects_version b k vid"
          "o_legal_hold_update (\<lambda>_. hold = HoldOn)"]) (simp_all add: put_object_legal_hold_def same_version_def compliance_kept_def)
next
  case False
  then show ?thesis using survives_unaltered [of s s r] assms by (simp add: put_object_legal_hold_def)
qed

section \<open>Every step\<close>

lemma core_uploads:
  "objects (snd (create_bucket now b opts s)) = objects s" "files (snd (create_bucket now b opts s)) = files s"
  "objects (snd (set_bucket_versioning b e s)) = objects s" "files (snd (set_bucket_versioning b e s)) = files s"
  "objects (snd (create_multipart_upload ix now i b k po s)) = objects s"
  "files (snd (create_multipart_upload ix now i b k po s)) = files s"
  by (simp_all add: create_bucket_def set_bucket_versioning_def create_multipart_upload_def Let_def
      split: sum.splits option.splits prod.splits)

lemma upload_part_frame:
  "objects (snd (upload_part ix now blob up n body s)) = objects s"
  "files (snd (upload_part ix now blob up n body s)) (blob_path i) = files s (blob_path i)"
  by (simp_all add: upload_part_def Let_def split: option.splits prod.splits)

lemma abort_frame:
  "objects (snd (abort_multipart_upload up s)) = objects s"
  "files (snd (abort_multipart_upload up s)) (blob_path i) = files s (blob_path i)"
  by (simp_all add: abort_multipart_upload_def Let_def delete_upload_rows_def)

lemma cleanup_frame:
  "objects (cleanup_stale_multipart_uploads now age s) = objects s \<and>
   files (cleanup_stale_multipart_uploads now age s) (blob_path i) = files s (blob_path i)"
proof -
  have "objects (fold (\<lambda>u. abort_stale_multipart (up_upload_id u)) us s) = objects s \<and>
      files (fold (\<lambda>u. abort_stale_multipart (up_upload_id u)) us s) (blob_path i) = files s (blob_path i)"
    for us :: "upload_row list"
    by (induction us arbitrary: s) (simp_all add: abort_stale_multipart_def delete_upload_rows_def)
  then show ?thesis by (simp add: cleanup_stale_multipart_uploads_def Let_def)
qed

lemma delete_bucket_frame:
  "objects (snd (delete_bucket b s)) = objects s \<and> files (snd (delete_bucket b s)) = files s"
proof (cases "sql_exists (\<lambda>r. o_bucket r = b) (objects s)")
  case False
  then have "sql_delete (\<lambda>r. o_bucket r = b) (objects s) = objects s"
    by (auto simp: table_simps sql_delete_def filter_id_conv)
  then show ?thesis using False by (simp add: delete_bucket_def delete_bucket_rows_def Let_def)
qed (simp add: delete_bucket_def)

lemma survives_written:
  assumes inv: "store_inv p s" and i: "fresh_id i s" and r: "r \<in> set (objects s)"
    and en: "find_bucket (o_bucket r) s = Some br" "br_versioning_status br = ''Enabled''"
  shows "survives c r s (snd (put_object ix now i nonce b k body po s))"
    and "survives c r s (snd (copy_object ix now i nonce b k b' k' co s))"
    and "survives c r s (snd (complete_multipart_upload ix now i nonce up ps s))"
proof -
  have written: "survives c r s s'"
    if "unaltered s s' \<or> (\<exists>br row. find_bucket (o_bucket row) s = Some br
      \<and> installs (br_versioning_status br = ''Enabled'') row s s')" for s'
    using that survives_unaltered [OF _ r] survives_installs [OF _ r] en by fastforce
  show "survives c r s (snd (put_object ix now i nonce b k body po s))"
  proof -
    obtain res s' where put: "put_object ix now i nonce b k body po s = (res, s')" by fastforce
    show ?thesis
      using put_object_effect [OF inv i put] unfolding put snd_conv
      by (intro written) (cases res; fastforce)
  qed
  show "survives c r s (snd (copy_object ix now i nonce b k b' k' co s))"
  proof -
    obtain res s' where copy: "copy_object ix now i nonce b k b' k' co s = (res, s')" by fastforce
    show ?thesis
      using copy_object_effect [OF inv i copy] unfolding copy snd_conv
      by (intro written) (cases res; fastforce)
  qed
  show "survives c r s (snd (complete_multipart_upload ix now i nonce up ps s))"
  proof -
    obtain res s' where comp: "complete_multipart_upload ix now i nonce up ps s = (res, s')" by fastforce
    show ?thesis
      using complete_effect [OF inv i comp] unfolding comp snd_conv
      by (intro written) (cases res; fastforce)
  qed
qed

text \<open>C23: in a bucket with versioning enabled, a version that is under legal hold or whose
  retention has not ended outlives every operation of the store: whatever the next request
  is, its row is there afterwards with every column but the current-version flag and the
  locks themselves, and its blob holds the same bytes. A compliance retention is unchanged,
  too, as long as no key has two current versions, which C15 gives when the versions of a
  key are created in different seconds.\<close>

theorem locked_version_survives:
  assumes "store_reachable ix s" "store_step ix now s s'"
    and "r \<in> set (objects s)" "row_locked now r"
    and "find_bucket (o_bucket r) s = Some br" "br_versioning_status br = ''Enabled''"
  shows "(\<exists>r' \<in> set (objects s'). same_version r r' \<and> (single_current s \<longrightarrow> compliance_kept r r'))
    \<and> files s' (blob_path (o_id r)) = files s (blob_path (o_id r))"
proof -
  let ?c = "single_current s"
  have inv: "store_inv False s" using store_reachable_inv assms(1) by blast
  have same: "survives ?c r s s''" if "objects s'' = objects s" "\<And>i. files s'' (blob_path i) = files s (blob_path i)" for s''
    using that assms(3) by (intro survivesI [of r]) simp_all
  note written = survives_written [OF inv _ assms(3,5,6)]
  have "survives ?c r s s'"
    using assms(2)
    by cases (simp_all add: written survives_delete_version [OF inv _ assms(3-6)] survives_put_retention [OF inv assms(3)]
      survives_legal_hold [OF assms(3)] survives_core [OF _ assms(3)] core_put_doc same
      core_uploads upload_part_frame abort_frame cleanup_frame delete_bucket_frame)
  then show ?thesis by (simp add: survives_def)
qed

definition toy_locked_store :: local_store where
  "toy_locked_store = snd (put_object_retention ''logs'' ''a.txt'' None
     \<lparr>ret_mode = Compliance, ret_retain_until_date = 100 * nanos_per_sec\<rparr> False toy_object_store)"

lemma toy_locked_reachable: "store_reachable toy_configs toy_locked_store"
  unfolding toy_locked_store_def by (rule store_reachable_step [OF toy_object_reachable store_step.put_retention])

theorem locked_version_survives_witness:
  "\<exists>r \<in> set (objects (snd (delete_object_version (5 * nanos_per_sec) (toy_id CHR ''C'') ''logs'' ''a.txt''
     (Some (toy_id CHR ''B'')) toy_locked_store))). o_id r = toy_id CHR ''B''"
proof -
  let ?now = "5 * nanos_per_sec"
  let ?del = "delete_object_version ?now (toy_id CHR ''C'') ''logs'' ''a.txt'' (Some (toy_id CHR ''B'')) toy_locked_store"
  have "list_ex (\<lambda>r. o_id r = toy_id CHR ''B'' \<and> row_locked ?now r \<and> o_bucket r = ''logs'') (objects toy_locked_store)"
    by code_simp
  then obtain r where r: "r \<in> set (objects toy_locked_store)" "row_locked ?now r"
    and i: "o_id r = toy_id CHR ''B''" and b: "o_bucket r = ''logs''"
    by (auto simp: list_ex_iff)
  have "map_option br_versioning_status (find_bucket ''logs'' toy_locked_store) = Some ''Enabled''" by code_simp
  then obtain br where br: "find_bucket (o_bucket r) toy_locked_store = Some br" "br_versioning_status br = ''Enabled''"
    using b by auto
  have fresh: "fresh_id (toy_id CHR ''C'') toy_locked_store" by code_simp
  from locked_version_survives [OF toy_locked_reachable store_step.delete_version [OF fresh] r br]
  obtain r' where "r' \<in> set (objects (snd ?del))" "same_version r r'" by blast
  moreover from this(2) have "o_id r' = o_id r" by (rule same_version_id)
  ultimately show ?thesis using i by auto
qed

end
