(* ===== verification/Store_Typing.thy ===== *)
theory Store_Typing
  imports Multipart_Content Store_Retention
begin

text \<open>
  The texts and numbers in the columns of the object store. SQLite does not check them: a
  versioning status, a storage class, an encryption algorithm or a retention mode is any
  text, a part number any integer. The readers fall back on a default when they cannot
  decode a column. Every store that the operations can produce holds only values that
  decode, so the fallbacks are dead code.
\<close>

section \<open>Well-typed rows\<close>

definition bucket_typed :: "bucket_row \<Rightarrow> bool" where
  "bucket_typed b = (versioning_as_str (versioning_from_db_str (br_versioning_status b)) = br_versioning_status b)"

definition class_typed :: "string \<Rightarrow> bool" where
  "class_typed c = (storage_class_to_string (parse_storage_class c) = c)"

definition encryption_typed :: "string option \<Rightarrow> string option \<Rightarrow> bool" where
  "encryption_typed alg md5 = (alg = None \<and> md5 = None \<or> alg = Some ''AES256'' \<and> md5 = None
     \<or> alg = Some ''SSE-C'')"

definition retention_typed :: "string option \<Rightarrow> instant option \<Rightarrow> bool" where
  "retention_typed mode until = (case (mode, until) of
     (None, None) \<Rightarrow> True
   | (Some m, Some _) \<Rightarrow> m = retention_mode_to_string Governance \<or> m = retention_mode_to_string Compliance
   | _ \<Rightarrow> False)"

text \<open>A metadata column is empty or holds a document that is read again.\<close>

definition metadata_typed :: "store_ext \<Rightarrow> string option \<Rightarrow> bool" where
  "metadata_typed ix m = (case m of None \<Rightarrow> True | Some text \<Rightarrow> snd (sx_metadata ix) text \<noteq> None)"

definition object_typed :: "store_ext \<Rightarrow> object_row \<Rightarrow> bool" where
  "object_typed ix r = (class_typed (o_storage_class r) \<and> metadata_typed ix (o_user_metadata r)
     \<and> encryption_typed (o_encryption_algorithm r) (o_encryption_key_md5 r)
     \<and> retention_typed (o_retention_mode r) (o_retain_until_date r))"

definition upload_typed :: "store_ext \<Rightarrow> upload_row \<Rightarrow> bool" where
  "upload_typed ix u = (class_typed (up_storage_class u) \<and> metadata_typed ix (up_user_metadata u)
     \<and> encryption_typed (up_encryption_algorithm u) (up_encryption_key_md5 u))"

definition part_typed :: "part_row \<Rightarrow> bool" where
  "part_typed p = (1 \<le> pt_part_number p \<and> pt_part_number p \<le> 10000)"

definition store_typed :: "store_ext \<Rightarrow> local_store \<Rightarrow> bool" where
  "store_typed ix s = ((\<forall>b \<in> set (buckets s). bucket_typed b) \<and> (\<forall>r \<in> set (objects s). object_typed ix r)
     \<and> (\<forall>u \<in> set (multipart_uploads s). upload_typed ix u) \<and> (\<forall>p \<in> set (parts s). part_typed p))"

text \<open>\<^verbatim>\<open>serde_json\<close> reads again the maps of strings it writes.\<close>

definition metadata_written :: "store_ext \<Rightarrow> bool" where
  "metadata_written ix =
     (\<forall>m text. fst (sx_metadata ix) m = Some text \<longrightarrow> snd (sx_metadata ix) text \<noteq> None)"

section \<open>The rows the operations write\<close>

lemma metadata_typed_written [simp]: "metadata_written ix \<Longrightarrow> metadata_typed ix (fst (sx_metadata ix) m)"
  by (auto simp: metadata_written_def metadata_typed_def split: option.splits)

lemma metadata_typed_None [simp]: "metadata_typed ix None"
  by (simp add: metadata_typed_def)

lemma class_typed_written [simp]: "class_typed (storage_class_to_string c)"
  by (simp add: class_typed_def)

lemma class_typed_STANDARD [simp]: "class_typed ''STANDARD''"
  by (simp add: class_typed_def parse_storage_class_def)

lemma object_typed_flags [simp]:
  "object_typed ix (r\<lparr>o_is_latest := l\<rparr>) = object_typed ix r"
  "object_typed ix (r\<lparr>o_legal_hold := h\<rparr>) = object_typed ix r"
  by (simp_all add: object_typed_def)

lemma object_typed_retention:
  "object_typed ix r \<Longrightarrow> object_typed ix (r\<lparr>o_retention_mode := Some (retention_mode_to_string m), o_retain_until_date := Some u\<rparr>)"
  by (cases m) (simp_all add: object_typed_def retention_typed_def)

lemma put_row_typed:
  "metadata_written ix \<Longrightarrow> encryption_typed (fst enc) (snd enc) \<Longrightarrow> object_typed ix (put_row ix now i b k v data po enc)"
  by (simp add: object_typed_def put_row_def object_row_default_def retention_typed_def)

lemma copy_row_typed:
  "metadata_written ix \<Longrightarrow> object_typed ix src \<Longrightarrow> object_typed ix (copy_row ix now i b k v info src co)"
  by (simp add: object_typed_def copy_row_def object_row_default_def retention_typed_def Let_def)

lemma completed_row_typed:
  assumes "upload_typed ix meta" "complete_encryption ix nonce s meta v pt = Inr (d, alg)"
  shows "object_typed ix (completed_row ix now i v meta ps n alg)"
  using assms
  by (auto simp: object_typed_def upload_typed_def completed_row_def object_row_default_def
      retention_typed_def encryption_typed_def complete_encryption_def split: if_splits sum.splits)

lemma delete_marker_typed: "object_typed ix (delete_marker_row now i b k)"
  by (simp add: object_typed_def delete_marker_row_def object_row_default_def retention_typed_def
      encryption_typed_def class_typed_def parse_storage_class_def)

lemma store_blob_typed:
  "store_blob ix nonce i b k v key opts tmp pt s = (Inr enc, s') \<Longrightarrow> encryption_typed (fst enc) (snd enc)"
  by (auto simp: store_blob_def encryption_typed_def
      split: option.splits server_side_encryption.splits sum.splits)

lemma objects_typed_installs:
  assumes "installs v row s s'" "\<forall>r \<in> set (objects s). object_typed ix r" "object_typed ix row"
  shows "\<forall>r \<in> set (objects s'). object_typed ix r"
proof -
  have "object_typed ix r" if "r \<in> set (older_rows v row (objects s))" for r
    using that assms(2) by (cases v) (auto simp: older_rows_def set_sql_update set_sql_delete)
  then show ?thesis using assms(1,3) by (auto simp: installs_def)
qed

section \<open>The other tables\<close>

text \<open>No bucket, upload or part row is new.\<close>

definition no_new_rows :: "local_store \<Rightarrow> local_store \<Rightarrow> bool" where
  "no_new_rows s s' = (set (buckets s') \<subseteq> set (buckets s)
     \<and> set (multipart_uploads s') \<subseteq> set (multipart_uploads s) \<and> set (parts s') \<subseteq> set (parts s))"

lemma no_new_rows_refl [simp]: "no_new_rows s s"
  by (simp add: no_new_rows_def)

lemma no_new_rows_trans: "no_new_rows s s' \<Longrightarrow> no_new_rows s' s'' \<Longrightarrow> no_new_rows s s''"
  by (auto simp: no_new_rows_def)

lemma store_typed_step:
  "store_typed ix s \<Longrightarrow> no_new_rows s s' \<Longrightarrow> \<forall>r \<in> set (objects s'). object_typed ix r \<Longrightarrow> store_typed ix s'"
  by (auto simp: store_typed_def no_new_rows_def)

lemma no_new_rows_replace:
  "replace_current v row s = (ins, s') \<Longrightarrow> no_new_rows s s'"
  by (auto simp: no_new_rows_def replace_current_def Let_def insert_object_def split: option.splits if_splits)

lemma no_new_rows_delete_rows: "no_new_rows s (delete_upload_rows u s)"
  by (auto simp: no_new_rows_def delete_upload_rows_def table_simps)

lemma no_new_rows_files:
  "no_new_rows s (fs_write p d s')  = no_new_rows s s'" "no_new_rows s (fs_remove p s') = no_new_rows s s'"
  "no_new_rows s (fs_remove_dir p s') = no_new_rows s s'" "no_new_rows (fs_write p d s) s' = no_new_rows s s'"
  by (simp_all add: no_new_rows_def)

lemma no_new_rows_put: "no_new_rows s (snd (put_object ix now i nonce b k body po s))"
proof -
  let ?tmp = "tmp_path (i @ ''-upload'')"
  have blob: "no_new_rows s s2"
    if "store_blob ix nonce i b k v key po ?tmp data (fs_write ?tmp data s) = (r, s2)" for v key data r s2
    using store_blob_result(1,3,4) [OF that] by (simp add: no_new_rows_def)
  show ?thesis
    by (auto simp: put_object_def Let_def no_new_rows_files split: option.splits sum.splits prod.splits
        dest!: blob no_new_rows_replace intro: no_new_rows_trans)
qed

lemma no_new_rows_copy: "no_new_rows s (snd (copy_object ix now i nonce b k b' k' co s))"
proof -
  have blob: "no_new_rows s s1" if "copy_blob ix nonce b k src b' k' v i s = (r, s1)" for src v r s1
    using copy_blob_result(1,3,4) [OF that] by (simp add: no_new_rows_def)
  show ?thesis
    by (auto simp: copy_object_def Let_def split: option.splits sum.splits prod.splits
        dest!: blob no_new_rows_replace intro: no_new_rows_trans)
qed

lemma no_new_rows_complete: "no_new_rows s (snd (complete_multipart_upload ix now i nonce up ps s))"
proof -
  have "no_new_rows s (snd (assemble_object ix now i nonce meta v ps s))" for meta v
    using no_new_rows_delete_rows
    by (auto simp: assemble_object_def Let_def no_new_rows_files split: sum.splits prod.splits
        dest!: no_new_rows_replace intro: no_new_rows_trans)
  then show ?thesis by (auto simp: complete_multipart_upload_def split: option.splits)
qed

lemma no_new_rows_abort: "no_new_rows s (snd (abort_multipart_upload up s))"
  using no_new_rows_delete_rows by (simp add: abort_multipart_upload_def Let_def no_new_rows_files)

lemma no_new_rows_cleanup: "no_new_rows s (cleanup_stale_multipart_uploads now age s)"
proof -
  have "no_new_rows s (fold (\<lambda>u. abort_stale_multipart (up_upload_id u)) us s')"
    if "no_new_rows s s'" for us s'
    using that
  proof (induction us arbitrary: s')
    case (Cons u us)
    have "no_new_rows s' (abort_stale_multipart (up_upload_id u) s')"
      using no_new_rows_delete_rows [of "fs_remove_dir (upload_dir (up_upload_id u)) s'"]
      by (simp add: abort_stale_multipart_def no_new_rows_def)
    then show ?case using Cons.IH [OF no_new_rows_trans [OF Cons.prems]] by simp
  qed simp
  note step = this
  show ?thesis unfolding cleanup_stale_multipart_uploads_def Let_def by (rule step) simp
qed

lemma no_new_rows_delete_bucket: "no_new_rows s (snd (delete_bucket b s))"
  by (auto simp: no_new_rows_def delete_bucket_def delete_bucket_rows_def Let_def table_simps)

section \<open>Every step\<close>

lemma store_typed_effect:
  assumes typed: "store_typed ix s" and new: "no_new_rows s s'"
    and "unaltered s s' \<or> (\<exists>v row. installs v row s s' \<and> object_typed ix row)"
  shows "store_typed ix s'"
proof -
  have old: "\<forall>r \<in> set (objects s). object_typed ix r" using typed by (simp add: store_typed_def)
  have "\<forall>r \<in> set (objects s'). object_typed ix r"
    using assms(3) objects_typed_installs [OF _ old] old by (auto simp: unaltered_def)
  then show ?thesis by (rule store_typed_step [OF typed new])
qed

lemma store_typed_put:
  assumes typed: "store_typed ix s" and "store_inv p s" "fresh_id i s" and codec: "metadata_written ix"
  shows "store_typed ix (snd (put_object ix now i nonce b k body po s))"
proof -
  obtain res s' where put: "put_object ix now i nonce b k body po s = (res, s')" by fastforce
  note effect = put_object_effect [OF assms(2,3) put]
  have "unaltered s s' \<or> (\<exists>v row. installs v row s s' \<and> object_typed ix row)"
  proof (cases res)
    case (Inr resp)
    then have put': "put_object ix now i nonce b k body po s = (Inr resp, s')" using put by simp
    obtain br key data enc s2 where "find_bucket b s = Some br"
      and "optional_sse_c_key ix (po_sse_customer_key po) (po_sse_customer_key_md5 po) = Inr key"
      and "stream_body [] body = (data, None)"
      and blob: "store_blob ix nonce i b k (if br_versioning_status br = ''Enabled'' then i else ''null'') key po
        (tmp_path (i @ ''-upload'')) data (fs_write (tmp_path (i @ ''-upload'')) data s) = (Inr enc, s2)"
      and rep: "replace_current (br_versioning_status br = ''Enabled'') (put_row ix now i b k
        (if br_versioning_status br = ''Enabled'' then i else ''null'') data po enc) s2 = (True, s')"
      using put' by (rule put_object_InrE)
    have tmp: "files (fs_write (tmp_path (i @ ''-upload'')) data s) (tmp_path (i @ ''-upload'')) = Some data"
      by simp
    have "keeps_blobs s s2"
      using store_blob_result(6) [OF blob tmp] fresh_id_blob [OF assms(2,3)] by (simp add: keeps_blobs_def)
    with replace_current_installs(1) [OF rep, of s] store_blob_result(1,2) [OF blob tmp]
      put_row_typed [OF codec store_blob_typed [OF blob]]
    show ?thesis by fastforce
  qed (use effect in simp)
  moreover have "no_new_rows s s'"
    using no_new_rows_put [of s ix now i nonce b k body po] by (simp add: put)
  ultimately show ?thesis using store_typed_effect [OF typed] by (simp add: put)
qed

lemma store_typed_copy:
  assumes typed: "store_typed ix s" and "store_inv p s" "fresh_id i s" and codec: "metadata_written ix"
  shows "store_typed ix (snd (copy_object ix now i nonce b k b' k' co s))"
proof -
  obtain res s' where copy: "copy_object ix now i nonce b k b' k' co s = (res, s')" by fastforce
  have src: "object_typed ix src" if "find_object b k None s = Some src" for src
    using find_objectD [OF that] typed by (simp add: store_typed_def)
  have "unaltered s s' \<or> (\<exists>v row. installs v row s s' \<and> object_typed ix row)"
  proof (cases res)
    case (Inr resp)
    then obtain src v vid where "find_object b k None s = Some src"
      "installs v (copy_row ix now i b' k' vid (object_info_of_row ix src) src co) s s'"
      using copy_object_effect [OF assms(2,3) copy] by auto
    then show ?thesis using copy_row_typed [OF codec src] by blast
  qed (use copy_object_effect [OF assms(2,3) copy] in simp)
  moreover have "no_new_rows s s'"
    using no_new_rows_copy [of s ix now i nonce b k b' k' co] by (simp add: copy)
  ultimately show ?thesis using store_typed_effect [OF typed] by (simp add: copy)
qed

lemma store_typed_complete:
  assumes typed: "store_typed ix s" and "store_inv p s" "fresh_id i s"
  shows "store_typed ix (snd (complete_multipart_upload ix now i nonce up ps s))"
proof -
  obtain res s' where comp: "complete_multipart_upload ix now i nonce up ps s = (res, s')" by fastforce
  have meta: "upload_typed ix meta" if "find_upload uid s = Some meta" for uid meta
    using sql_query_row_SomeD [OF that [unfolded find_upload_def]] typed by (simp add: store_typed_def)
  have "unaltered s s' \<or> (\<exists>v row. installs v row s s' \<and> object_typed ix row)"
  proof (cases res)
    case (Inr resp)
    then obtain m v vid pt d alg where "find_upload (mu_upload_id up) s = Some m"
      "complete_encryption ix nonce s m vid pt = Inr (d, alg)"
      "installs v (completed_row ix now i vid m ps (length pt) alg) s s'"
      using complete_effect [OF assms(2,3) comp] by auto
    then show ?thesis using completed_row_typed [OF meta] by blast
  qed (use complete_effect [OF assms(2,3) comp] in simp)
  moreover have "no_new_rows s s'"
    using no_new_rows_complete [of s ix now i nonce up ps] by (simp add: comp)
  ultimately show ?thesis using store_typed_effect [OF typed] by (simp add: comp)
qed

lemma promote_typed:
  assumes "\<forall>r \<in> set (objects s). object_typed ix r"
  shows "\<forall>r \<in> set (objects (promote_latest b k s)). object_typed ix r"
proof (cases "most_recent (versions_of b k s)")
  case (Some m)
  have "objects (promote_latest b k s) =
      sql_update (\<lambda>x. o_id x = o_id m) (o_is_latest_update (\<lambda>_. True)) (objects s)"
    by (simp add: promote_latest_def Some)
  then have eq: "set (objects (promote_latest b k s)) =
      (\<lambda>x. if o_id x = o_id m then x\<lparr>o_is_latest := True\<rparr> else x) ` set (objects s)"
    by (simp only: set_sql_update)
  have "object_typed ix (if o_id x = o_id m then x\<lparr>o_is_latest := True\<rparr> else x)" if "x \<in> set (objects s)" for x
    using assms that by (cases "o_id x = o_id m") simp_all
  then show ?thesis unfolding eq by (intro ballI) (erule imageE, simp only:)
qed (use assms in \<open>simp add: promote_latest_def\<close>)

lemma no_new_rows_promote: "no_new_rows s (promote_latest b k s)"
  by (simp add: no_new_rows_def promote_latest_def split: option.splits)

lemma store_typed_delete_specific:
  assumes "store_typed ix s"
  shows "store_typed ix (delete_specific_version b k vid s)"
proof -
  define s1 where "s1 = s\<lparr>objects := sql_delete (\<lambda>r. same_key b k r \<and> o_version_id r = vid) (objects s)\<rparr>"
  define s2 where "s2 = (case find_object b k (Some vid) s of
      Some r \<Rightarrow> fs_remove (blob_path (o_id r)) s1 | None \<Rightarrow> s1)"
  have "\<forall>r \<in> set (objects s2). object_typed ix r"
    using assms by (auto simp: s2_def s1_def store_typed_def table_simps split: option.splits)
  moreover have "no_new_rows s s2" by (simp add: s2_def s1_def no_new_rows_def split: option.splits)
  ultimately have "store_typed ix s2" using store_typed_step assms by blast
  then have "store_typed ix (promote_latest b k s2)"
    by (intro store_typed_step [OF \<open>store_typed ix s2\<close> no_new_rows_promote] promote_typed)
      (simp add: store_typed_def)
  then show ?thesis by (simp add: delete_specific_version_def Let_def s1_def [symmetric] s2_def [symmetric])
qed

lemma store_typed_delete_all:
  assumes "store_typed ix s"
  shows "store_typed ix (delete_all_versions b k s)"
  using assms by (auto simp: delete_all_versions_def Let_def store_typed_def table_simps)

lemma store_typed_delete_version:
  assumes typed: "store_typed ix s" and inv: "store_inv p s" and i: "fresh_id i s"
  shows "store_typed ix (snd (delete_object_version now i b k vid s))"
proof (cases "find_bucket b s")
  case (Some br)
  have "store_typed ix (snd (create_delete_marker now i b k s))"
  proof -
    obtain s' where s': "create_delete_marker now i b k s = (True, s')" "installs True (delete_marker_row now i b k) s s'"
      using create_delete_marker_effect [OF inv i find_bucket_Some [OF Some]] by blast
    have "\<forall>r \<in> set (objects s'). object_typed ix r"
      using objects_typed_installs [OF s'(2)] typed delete_marker_typed by (simp add: store_typed_def)
    moreover have "no_new_rows s s'" using no_new_rows_replace s'(1) by (metis create_delete_marker_eq)
    ultimately show ?thesis using store_typed_step [OF typed] s'(1) by simp
  qed
  then show ?thesis
    using Some store_typed_delete_specific [OF typed] store_typed_delete_all [OF typed] typed
    by (auto simp: delete_object_version_def Let_def split: option.splits prod.splits)
qed (simp add: delete_object_version_def typed)

lemma store_typed_locks:
  assumes "store_typed ix s"
  shows "store_typed ix (snd (put_object_retention b k vid ret bypass s))"
    and "store_typed ix (snd (put_object_legal_hold b k vid hold s))"
  using assms object_typed_retention
  by (auto simp: put_object_retention_def put_object_legal_hold_def store_typed_def table_simps split: prod.splits)

lemma store_typed_uploads:
  assumes "store_typed ix s" and codec: "metadata_written ix"
  shows "store_typed ix (snd (create_multipart_upload ix now i b k po s))"
    and "store_typed ix (snd (upload_part ix now blob up n body s))"
proof -
  have "encryption_typed alg md5" if "upload_encryption po = (alg, md5)" for alg md5
    using that by (auto simp: upload_encryption_def encryption_typed_def
        split: option.splits server_side_encryption.splits)
  then show "store_typed ix (snd (create_multipart_upload ix now i b k po s))"
    using assms(1) codec
    by (simp add: create_multipart_upload_def Let_def store_typed_def upload_typed_def set_sql_insert
        split: option.split prod.split)
  have "1 \<le> unat n \<and> unat n \<le> 10000" if "1 \<le> n" "n \<le> 10000"
    using that by (simp add: word_le_nat_alt)
  then show "store_typed ix (snd (upload_part ix now blob up n body s))"
    using assms
    by (auto simp: upload_part_def Let_def store_typed_def part_typed_def table_simps dest!: set_sql_insert
        split: option.splits prod.splits)
qed

lemma store_typed_buckets:
  assumes "store_typed ix s"
  shows "store_typed ix (snd (create_bucket now b opts s))" and "store_typed ix (snd (set_bucket_versioning b e s))"
proof -
  have new: "bucket_typed r" if "br_versioning_status r = versioning_as_str v" for r v
    using that by (simp add: bucket_typed_def)
  then have "bucket_typed r" if "br_versioning_status r = ''Unversioned''" for r
    using that versioning_as_str.simps(1) by metis
  then show "store_typed ix (snd (create_bucket now b opts s))"
    using assms
    by (auto simp: create_bucket_def store_typed_def Let_def dest!: set_sql_insert split: option.splits sum.splits)
  have "bucket_typed (r\<lparr>br_versioning_status := ''Enabled''\<rparr>)"
    "bucket_typed (r\<lparr>br_versioning_status := ''Suspended''\<rparr>)" for r
    by (simp_all add: bucket_typed_def versioning_from_db_str_def)
  then show "store_typed ix (snd (set_bucket_versioning b e s))"
    using assms by (auto simp: set_bucket_versioning_def store_typed_def Let_def table_simps)
qed

lemma store_typed_frames:
  assumes "store_typed ix s"
  shows "store_typed ix (snd (delete_bucket b s))" "store_typed ix (snd (abort_multipart_upload up s))"
    "store_typed ix (cleanup_stale_multipart_uploads now age s)"
proof -
  have same: "store_typed ix s'" if "no_new_rows s s'" "objects s' = objects s" for s'
    using store_typed_step [OF assms that(1)] that(2) assms by (simp add: store_typed_def)
  show "store_typed ix (snd (delete_bucket b s))"
    by (rule same [OF no_new_rows_delete_bucket]) (simp add: delete_bucket_frame)
  show "store_typed ix (snd (abort_multipart_upload up s))"
    by (rule same [OF no_new_rows_abort]) (simp add: abort_frame)
  show "store_typed ix (cleanup_stale_multipart_uploads now age s)"
    by (rule same [OF no_new_rows_cleanup]) (simp add: cleanup_frame)
qed

lemma store_typed_core: "core s' = core s \<Longrightarrow> store_typed ix s' = store_typed ix s"
  by (simp add: core_def store_typed_def)

lemma store_run_typed:
  assumes codec: "metadata_written ix"
  shows "store_run p ix s \<Longrightarrow> store_typed ix s"
proof (induction rule: store_run.induct)
  case (start mk)
  then show ?case by (simp add: store_typed_def store_empty_def)
next
  case (step s now s')
  have inv: "store_inv p s" using store_run_inv step(1) by blast
  from step(2) show ?case
    by cases (simp_all add: store_typed_put [OF step(4) inv _ codec] store_typed_copy [OF step(4) inv _ codec]
      store_typed_complete [OF step(4) inv] store_typed_delete_version [OF step(4) inv]
      store_typed_locks [OF step(4)] store_typed_uploads [OF step(4) codec] store_typed_buckets [OF step(4)]
      store_typed_frames [OF step(4)] store_typed_core [of _ s] step(4) core_put_doc)
qed

section \<open>What the types give\<close>

lemma get_object_retention_fails:
  assumes "store_typed ix s"
  shows "isl (get_object_retention b k vid s) \<longleftrightarrow> \<not> bucket_exists b s"
proof (cases "find_object b k vid s")
  case (Some r)
  then have "retention_typed (o_retention_mode r) (o_retain_until_date r)"
    using assms find_objectD [OF Some] by (simp add: store_typed_def object_typed_def)
  then show ?thesis
    using Some
    by (auto simp: get_object_retention_def retention_typed_def retention_codec.parse_render [of Governance, simplified]
        retention_codec.parse_render [of Compliance, simplified] split: option.splits sum.splits)
qed (simp add: get_object_retention_def)

lemma list_parts_numbers:
  assumes "store_typed ix s" "p \<in> set (lpr_parts (list_parts up opts s))"
  shows "1 \<le> pi_part_number p \<and> pi_part_number p \<le> 10000"
proof -
  obtain row where row: "row \<in> set (parts s)" "pi_part_number p = word_of_nat (pt_part_number row)"
    using assms(2) by (auto simp: list_parts_def Let_def table_simps dest!: in_set_takeD split: if_splits)
  then have n: "1 \<le> pt_part_number row" "pt_part_number row \<le> 10000"
    using assms(1) by (auto simp: store_typed_def part_typed_def)
  then have "unat (word_of_nat (pt_part_number row) :: u16) = pt_part_number row"
    by (simp add: unat_of_nat take_bit_nat_eq_self)
  then show ?thesis using n row(2) by (simp add: word_le_nat_alt)
qed

text \<open>C31: in every state the store can reach, provided that the JSON library reads the metadata
  documents it writes, the text columns of the bucket, object, upload and part tables that are
  decoded with a default decode without it: the versioning status of a bucket is the text of a
  status, the storage class of an object or an upload that of a class, the metadata are empty
  or a document that parses, the encryption columns are empty or name SSE-S3 or SSE-C, and the
  retention columns are both empty or a mode's text with a date (the columns of dates hold
  instants in the model). Reading a retention then fails only for a missing bucket, and the part
  numbers of a listing, cast from the database's integers to 16 bits, are between 1 and 10000.\<close>

theorem stored_columns_typed:
  assumes "metadata_written ix" "store_reachable ix s"
  shows "store_typed ix s \<and> (isl (get_object_retention b k vid s) \<longleftrightarrow> \<not> bucket_exists b s)
    \<and> (\<forall>part. part \<in> set (lpr_parts (list_parts up opts s)) \<longrightarrow>
        1 \<le> pi_part_number part \<and> pi_part_number part \<le> 10000)"
  using store_run_typed [OF assms(1) assms(2) [unfolded store_reachable_def]] get_object_retention_fails
    list_parts_numbers by blast

theorem stored_columns_typed_witness:
  "\<not> isl (get_object_retention ''logs'' ''a.txt'' None toy_locked_store)"
proof -
  have "bucket_exists ''logs'' toy_locked_store" by code_simp
  moreover have "metadata_written toy_configs"
    by (simp add: metadata_written_def toy_configs_def toy_codec_def)
  ultimately show ?thesis using stored_columns_typed [OF _ toy_locked_reachable] by blast
qed

end
