(* ===== verification/Listing.thy ===== *)
theory Listing
  imports Multipart
begin

text \<open>
  \<^verbatim>\<open>strix-storage/src/localfs.rs\<close>: listing the objects and the object versions of a
  bucket, page by page, with prefixes and delimiters.
\<close>

section \<open>Objects\<close>

text \<open>The common prefix a key is folded into, when a non-empty delimiter occurs after the prefix.\<close>

definition common_prefix_of :: "string \<Rightarrow> string option \<Rightarrow> string \<Rightarrow> string option" where
  "common_prefix_of pfx delimiter key =
     (case delimiter of
        None \<Rightarrow> None
      | Some delim \<Rightarrow>
          if delim = [] then None
          else let suffix = drop (length pfx) key
               in map_option (\<lambda>pos. pfx @ take pos suffix @ delim) (str_find suffix delim))"

text \<open>The rows in order, with the infos and the sorted set of prefixes so far. The loop stops
  one object past the limit.\<close>

fun list_loop ::
  "store_ext \<Rightarrow> string \<Rightarrow> string option \<Rightarrow> nat \<Rightarrow> object_row list \<Rightarrow> object_info list \<Rightarrow> string list \<Rightarrow>
     object_info list \<times> string list" where
  "list_loop ix pfx delimiter max_keys [] infos groups = (infos, groups)"
| "list_loop ix pfx delimiter max_keys (r # rs) infos groups =
     (case common_prefix_of pfx delimiter (o_key r) of
        Some cp \<Rightarrow> list_loop ix pfx delimiter max_keys rs infos (List.insort_insert cp groups)
      | None \<Rightarrow>
          let infos' = infos @ [object_info_of_row ix r]
          in if length infos' > max_keys then (infos', groups)
             else list_loop ix pfx delimiter max_keys rs infos' groups)"

definition listable :: "string \<Rightarrow> string \<Rightarrow> string option \<Rightarrow> object_row \<Rightarrow> bool" where
  "listable bucket pfx start_after r =
     (o_bucket r = bucket \<and> sql_like (like_prefix pfx) (o_key r)
      \<and> (case start_after of None \<Rightarrow> True | Some start \<Rightarrow> start < o_key r)
      \<and> o_is_latest r \<and> \<not> o_is_delete_marker r)"

definition list_rows :: "string \<Rightarrow> string \<Rightarrow> string option \<Rightarrow> local_store \<Rightarrow> object_row list" where
  "list_rows bucket pfx start_after s =
     sort_key o_key (sql_select (listable bucket pfx start_after) (objects s))"

definition list_objects ::
  "store_ext \<Rightarrow> string \<Rightarrow> list_objects_opts \<Rightarrow> local_store \<Rightarrow> list_objects_response store_result" where
  "list_objects ix bucket opts s =
     (if \<not> bucket_exists bucket s then Inl (BucketNotFound bucket)
      else
        let pfx = (case lo_prefix opts of Some p \<Rightarrow> p | None \<Rightarrow> []);
            max_keys = (case lo_max_keys opts of Some n \<Rightarrow> unat n | None \<Rightarrow> 1000);
            start_after = (case lo_start_after opts of Some a \<Rightarrow> Some a | None \<Rightarrow> lo_continuation_token opts);
            (infos, groups) = list_loop ix pfx (lo_delimiter opts) max_keys
              (list_rows bucket pfx start_after s) [] [];
            is_truncated = length infos > max_keys;
            kept = (if is_truncated then take max_keys infos else infos);
            next_token = (if is_truncated \<and> kept \<noteq> [] then Some (oi_key (last kept)) else None)
        in Inr \<lparr>lor_objects = kept, lor_common_prefixes = groups, lor_is_truncated = is_truncated,
             lor_next_continuation_token = next_token\<rparr>)"

section \<open>Versions\<close>

definition version_of_row :: "object_row \<Rightarrow> object_version" where
  "version_of_row r =
     (let dm = o_is_delete_marker r
      in \<lparr>ov_key = o_key r, ov_version_id = o_version_id r, ov_is_latest = o_is_latest r,
          ov_is_delete_marker = dm, ov_last_modified = of_sql_datetime (o_last_modified r),
          ov_etag = (if dm then None else Some (o_etag r)),
          ov_size = (if dm then None else Some (o_size r)),
          ov_storage_class = (if dm then None else Some (parse_storage_class (o_storage_class r)))\<rparr>)"

text \<open>The rows after the marker, with the versions, the delete markers and the prefixes so far.\<close>

fun versions_loop ::
  "string \<Rightarrow> string option \<Rightarrow> nat \<Rightarrow> string option \<Rightarrow> bool \<Rightarrow> object_row list \<Rightarrow> object_version list \<Rightarrow>
     object_version list \<Rightarrow> string list \<Rightarrow> object_version list \<times> object_version list \<times> string list" where
  "versions_loop pfx delimiter max_keys marker past [] vs dms groups = (vs, dms, groups)"
| "versions_loop pfx delimiter max_keys marker past (r # rs) vs dms groups =
     (if \<not> past then
        versions_loop pfx delimiter max_keys marker (marker = Some (o_version_id r)) rs vs dms groups
      else (case common_prefix_of pfx delimiter (o_key r) of
        Some cp \<Rightarrow>
          versions_loop pfx delimiter max_keys marker past rs vs dms (List.insort_insert cp groups)
      | None \<Rightarrow>
          let v = version_of_row r;
              vs' = (if o_is_delete_marker r then vs else vs @ [v]);
              dms' = (if o_is_delete_marker r then dms @ [v] else dms)
          in if length vs' + length dms' > max_keys then (vs', dms', groups)
             else versions_loop pfx delimiter max_keys marker past rs vs' dms' groups))"

text \<open>Cutting the two lists back to the limit: delete markers go first.\<close>

definition truncate_versions ::
  "nat \<Rightarrow> object_version list \<Rightarrow> object_version list \<Rightarrow> object_version list \<times> object_version list" where
  "truncate_versions max_keys vs dms =
     (let to_remove = length vs + length dms - max_keys
      in if length dms \<ge> to_remove then (vs, take (length dms - to_remove) dms)
         else (take (length vs - (to_remove - length dms)) vs, []))"

definition next_markers ::
  "object_version list \<Rightarrow> object_version list \<Rightarrow> string option \<times> string option" where
  "next_markers vs dms =
     (let mark = (\<lambda>v. (Some (ov_key v), Some (ov_version_id v))) in
      if vs \<noteq> [] \<and> dms \<noteq> [] then
        (if ov_last_modified (last vs) \<ge> ov_last_modified (last dms) then mark (last vs) else mark (last dms))
      else if vs \<noteq> [] then mark (last vs)
      else if dms \<noteq> [] then mark (last dms)
      else (None, None))"

definition version_rows :: "string \<Rightarrow> string \<Rightarrow> string option \<Rightarrow> local_store \<Rightarrow> object_row list" where
  "version_rows bucket pfx key_marker s =
     sort_key o_key (sort_key (\<lambda>r. - o_last_modified r) (sql_select (\<lambda>r. o_bucket r = bucket
       \<and> sql_like (like_prefix pfx) (o_key r)
       \<and> (case key_marker of None \<Rightarrow> True | Some m \<Rightarrow> m \<le> o_key r)) (objects s)))"

definition list_object_versions ::
  "string \<Rightarrow> list_versions_opts \<Rightarrow> local_store \<Rightarrow> list_versions_response store_result" where
  "list_object_versions bucket opts s =
     (if \<not> bucket_exists bucket s then Inl (BucketNotFound bucket)
      else
        let pfx = (case lv_prefix opts of Some p \<Rightarrow> p | None \<Rightarrow> []);
            max_keys = (case lv_max_keys opts of Some n \<Rightarrow> unat n | None \<Rightarrow> 1000);
            marker = lv_version_id_marker opts;
            (vs, dms, groups) = versions_loop pfx (lv_delimiter opts) max_keys marker (marker = None)
              (version_rows bucket pfx (lv_key_marker opts) s) [] [] [];
            is_truncated = length vs + length dms > max_keys;
            (vs, dms) = (if is_truncated then truncate_versions max_keys vs dms else (vs, dms));
            (next_key_marker, next_version_id_marker) =
              (if is_truncated then next_markers vs dms else (None, None))
        in Inr \<lparr>lvr_versions = vs, lvr_delete_markers = dms, lvr_common_prefixes = groups,
             lvr_is_truncated = is_truncated, lvr_next_key_marker = next_key_marker,
             lvr_next_version_id_marker = next_version_id_marker\<rparr>)"

end
