(* ===== verification/Listing_Pages.thy ===== *)
theory Listing_Pages
  imports Listing Object_Io
begin

text \<open>
  A client that follows the continuation tokens of \<^verbatim>\<open>list_objects\<close> gets every current object
  with the prefix exactly once, in key order, after finitely many pages.
\<close>

section \<open>One page\<close>

lemma list_loop_flat:
  "length infos \<le> n \<Longrightarrow>
     list_loop ix pfx None n rows infos groups =
       (take (Suc n) (infos @ map (object_info_of_row ix) rows), groups)"
proof (induction rows arbitrary: infos)
  case (Cons r rs)
  show ?case
  proof (cases "length infos = n")
    case False
    then have "length (infos @ [object_info_of_row ix r]) \<le> n" using Cons.prems by simp
    from Cons.IH [OF this] show ?thesis using False Cons.prems by (simp add: common_prefix_of_def)
  qed (simp add: common_prefix_of_def)
qed simp

text \<open>The rows after a start key, in terms of all rows.\<close>

definition after :: "string option \<Rightarrow> object_row \<Rightarrow> bool" where
  "after start r = (case start of None \<Rightarrow> True | Some a \<Rightarrow> a < o_key r)"

lemma list_rows_after: "list_rows b pfx start s = filter (after start) (list_rows b pfx None s)"
proof -
  have "sql_select (listable b pfx start) (objects s) =
      filter (after start) (sql_select (listable b pfx None) (objects s))"
    unfolding sql_select_def filter_filter by (rule filter_cong) (auto simp: listable_def after_def)
  then show ?thesis by (simp add: list_rows_def filter_sort)
qed

text \<open>The current objects of a bucket have different keys.\<close>

lemma list_rows_strict:
  assumes inv: "store_inv p s" and single: "single_current s"
  shows "sorted_wrt (\<lambda>x y. o_key x < o_key y) (list_rows b pfx start s)"
proof -
  let ?sel = "sql_select (listable b pfx start) (objects s)"
  have uk: "distinct (map o_id (objects s))" using inv by (simp add: store_inv_def tables_ok_def unique_key_def)
  then have "distinct (objects s)" by (simp add: distinct_map)
  moreover have "x = y" if xy: "x \<in> set ?sel" "y \<in> set ?sel" "o_key x = o_key y" for x y
  proof -
    have "x \<in> set (objects s)" "same_key b (o_key y) x" "o_is_latest x"
      "y \<in> set (objects s)" "same_key b (o_key y) y" "o_is_latest y"
      using xy by (auto simp: table_simps listable_def same_key_def)
    then show ?thesis using find_latest_row [OF single] by (metis option.inject)
  qed
  ultimately have "distinct (map o_key ?sel)"
    by (auto simp: distinct_map sql_select_def inj_on_def)
  then have "distinct (map o_key (list_rows b pfx start s))"
    by (simp add: list_rows_def distinct_map inj_on_def)
  moreover have "sorted (map o_key (list_rows b pfx start s))" by (simp add: list_rows_def)
  ultimately have "sorted_wrt (<) (map o_key (list_rows b pfx start s))"
    by (simp add: strict_sorted_iff)
  then show ?thesis by (simp add: sorted_wrt_map)
qed

lemma filter_after_split:
  assumes "sorted_wrt (\<lambda>x y. o_key x < o_key y) (xs @ z # zs)"
  shows "filter (after (Some (o_key z))) (xs @ z # zs) = zs"
proof -
  have "\<not> o_key z < o_key x" if "x \<in> set xs" for x
    using assms that by (fastforce simp: sorted_wrt_append)
  moreover have "o_key z < o_key x" if "x \<in> set zs" for x using assms that by (simp add: sorted_wrt_append)
  ultimately show ?thesis by (auto simp: after_def filter_empty_conv filter_id_conv)
qed

definition page_size :: "list_objects_opts \<Rightarrow> nat" where
  "page_size opts = (case lo_max_keys opts of Some n \<Rightarrow> unat n | None \<Rightarrow> 1000)"

definition opts_prefix :: "list_objects_opts \<Rightarrow> string" where
  "opts_prefix opts = (case lo_prefix opts of Some p \<Rightarrow> p | None \<Rightarrow> [])"

lemma list_objects_page:
  assumes "bucket_exists b s" "lo_delimiter opts = None" "lo_start_after opts = None"
  shows "list_objects ix b opts s =
    (let rows = list_rows b (opts_prefix opts) (lo_continuation_token opts) s; n = page_size opts
     in Inr \<lparr>lor_objects = map (object_info_of_row ix) (take n rows), lor_common_prefixes = [],
          lor_is_truncated = n < length rows,
          lor_next_continuation_token =
            (if n < length rows \<and> n \<noteq> 0 then Some (o_key (rows ! (n - 1))) else None)\<rparr>)"
proof -
  let ?rows = "list_rows b (opts_prefix opts) (lo_continuation_token opts) s"
  let ?n = "page_size opts"
  have loop: "list_loop ix (opts_prefix opts) None ?n ?rows [] [] =
      (take (Suc ?n) (map (object_info_of_row ix) ?rows), [])"
    using list_loop_flat [of "[]" ?n] by simp
  have "oi_key (last (map (object_info_of_row ix) (take ?n ?rows))) = o_key (?rows ! (?n - 1))"
    if "?n < length ?rows" "?n \<noteq> 0"
  proof -
    have "take ?n ?rows \<noteq> []" using that by auto
    moreover have "last (take ?n ?rows) = ?rows ! (?n - 1)"
      using that calculation by (simp add: last_conv_nth min_absorb2)
    ultimately show ?thesis by (simp add: last_map object_info_of_row_def)
  qed
  then show ?thesis
    using assms loop
    by (auto simp: list_objects_def Let_def page_size_def [symmetric] opts_prefix_def [symmetric] take_map)
qed

section \<open>All pages\<close>

text \<open>The client's loop, with a bound on the number of requests.\<close>

fun list_all_pages ::
  "store_ext \<Rightarrow> string \<Rightarrow> list_objects_opts \<Rightarrow> local_store \<Rightarrow> nat \<Rightarrow> object_info list option" where
  "list_all_pages ix b opts s 0 = None"
| "list_all_pages ix b opts s (Suc fuel) =
     (case list_objects ix b opts s of
        Inl _ \<Rightarrow> None
      | Inr page \<Rightarrow>
          (case lor_next_continuation_token page of
             None \<Rightarrow> Some (lor_objects page)
           | Some token \<Rightarrow>
               map_option ((@) (lor_objects page))
                 (list_all_pages ix b (opts\<lparr>lo_continuation_token := Some token\<rparr>) s fuel)))"

lemma list_all_pages_from:
  assumes inv: "store_inv p s" and single: "single_current s" and b: "bucket_exists b s" and "page_size opts \<noteq> 0"
    and "lo_delimiter opts = None" "lo_start_after opts = None"
    and "length (list_rows b (opts_prefix opts) (lo_continuation_token opts) s) < fuel"
  shows "list_all_pages ix b opts s fuel =
    Some (map (object_info_of_row ix) (list_rows b (opts_prefix opts) (lo_continuation_token opts) s))"
  using assms(4-)
proof (induction fuel arbitrary: opts)
  case (Suc fuel)
  define rows where "rows = list_rows b (opts_prefix opts) (lo_continuation_token opts) s"
  define n where "n = page_size opts"
  note page = list_objects_page [OF b Suc.prems(2,3), of ix, folded rows_def n_def, unfolded Let_def]
  show ?case
  proof (cases "n < length rows")
    case False
    then show ?thesis by (simp add: page rows_def [symmetric])
  next
    case True
    define z where "z = rows ! (n - 1)"
    define opts' where "opts' = opts\<lparr>lo_continuation_token := Some (o_key z)\<rparr>"
    have n: "n \<noteq> 0" using Suc.prems(1) by (simp add: n_def)
    have split: "rows = take (n - 1) rows @ z # drop n rows"
      using True n id_take_nth_drop [of "n - 1" rows] by (simp add: z_def)
    have strict: "sorted_wrt (\<lambda>x y. o_key x < o_key y) rows"
      unfolding rows_def by (rule list_rows_strict [OF inv single])
    have "filter (after (Some (o_key z))) rows = drop n rows"
      using filter_after_split [of "take (n - 1) rows" z "drop n rows"] strict split by metis
    moreover have "filter (after (Some (o_key z))) (list_rows b (opts_prefix opts) None s) =
        filter (after (Some (o_key z))) rows"
    proof -
      have "z \<in> set rows" using True n by (simp add: z_def)
      then have "after (lo_continuation_token opts) z"
        unfolding rows_def by (subst (asm) list_rows_after) simp
      then have "after (lo_continuation_token opts) r" if "after (Some (o_key z)) r" for r
        using that by (auto simp: after_def split: option.splits)
      then show ?thesis
        unfolding rows_def list_rows_after [of b _ "lo_continuation_token opts"] filter_filter
        by (intro filter_cong) auto
    qed
    ultimately have rest: "list_rows b (opts_prefix opts') (lo_continuation_token opts') s = drop n rows"
      by (simp add: opts'_def opts_prefix_def [of "opts\<lparr>lo_continuation_token := _\<rparr>"] list_rows_after [of b _ "Some (o_key z)"])
        (simp add: opts_prefix_def)
    have "length (drop n rows) < fuel" using Suc.prems(4) n True by (simp add: rows_def [symmetric])
    then have "list_all_pages ix b opts' s fuel = Some (map (object_info_of_row ix) (drop n rows))"
      using Suc.IH [of opts'] Suc.prems rest by (simp add: opts'_def page_size_def)
    then have "list_all_pages ix b opts s (Suc fuel) =
        Some (map (object_info_of_row ix) (take n rows) @ map (object_info_of_row ix) (drop n rows))"
      using True n by (simp add: page opts'_def z_def)
    then show ?thesis by (simp add: rows_def [symmetric] map_append [symmetric] del: map_append)
  qed
qed simp

text \<open>C26: in a store that does not change meanwhile and where no key has two current versions
  (C15), with a page size of at least one, no delimiter and no start-after key, following the
  continuation tokens ends after at most one page more than there are objects, and the pages together list the
  current objects whose keys match the prefix: each once, in strictly ascending key order,
  none left out.\<close>

theorem pagination_complete:
  assumes "store_reachable ix s" "single_current s" "bucket_exists b s" "page_size opts \<noteq> 0"
    and "lo_delimiter opts = None" "lo_start_after opts = None" "lo_continuation_token opts = None"
  shows "\<exists>infos. list_all_pages ix b opts s (Suc (length (objects s))) = Some infos
    \<and> sorted_wrt (<) (map oi_key infos)
    \<and> set infos = {object_info_of_row ix r | r. r \<in> set (objects s) \<and> o_bucket r = b \<and> o_is_latest r
        \<and> \<not> o_is_delete_marker r \<and> sql_like (like_prefix (opts_prefix opts)) (o_key r)}"
proof -
  have inv: "store_inv False s" using store_reachable_inv assms(1) by blast
  let ?rows = "list_rows b (opts_prefix opts) None s"
  have "length ?rows \<le> length (objects s)" by (simp add: list_rows_def sql_select_def)
  then have "list_all_pages ix b opts s (Suc (length (objects s))) = Some (map (object_info_of_row ix) ?rows)"
    using list_all_pages_from [OF inv assms(2-6), of "Suc (length (objects s))" ix] assms(7) by simp
  moreover have "sorted_wrt (<) (map oi_key (map (object_info_of_row ix) ?rows))"
    using list_rows_strict [OF inv assms(2)] by (simp add: sorted_wrt_map object_info_of_row_def)
  moreover have "set (map (object_info_of_row ix) ?rows) = {object_info_of_row ix r | r. r \<in> set (objects s)
      \<and> o_bucket r = b \<and> o_is_latest r \<and> \<not> o_is_delete_marker r
      \<and> sql_like (like_prefix (opts_prefix opts)) (o_key r)}"
    by (auto simp: list_rows_def table_simps listable_def)
  ultimately show ?thesis by blast
qed

definition toy_list_opts :: list_objects_opts where
  "toy_list_opts = \<lparr>lo_prefix = None, lo_delimiter = None, lo_max_keys = Some 1,
     lo_continuation_token = None, lo_start_after = None\<rparr>"

theorem pagination_complete_witness:
  "\<exists>infos. list_all_pages toy_configs ''logs'' toy_list_opts toy_object_store 3 = Some infos
    \<and> sorted_wrt (<) (map oi_key infos)"
proof -
  have b: "bucket_exists ''logs'' toy_object_store" by code_simp
  have n: "length (objects toy_object_store) = 2" by code_simp
  show ?thesis
    using pagination_complete [OF toy_object_reachable spaced_reachable_single [OF toy_object_spaced] b, of toy_list_opts] n
    by (auto simp: toy_list_opts_def page_size_def)
qed

end
