(* ===== verification/Rust_Text.thy ===== *)
theory Rust_Text
  imports Bucket_Policy
begin

text \<open>
  Operations of Rust's standard library on text that the request handlers use: trimming,
  joining, splitting at white space and reading unsigned integers.
\<close>

fun str_join :: "string \<Rightarrow> string list \<Rightarrow> string" where
  "str_join sep [] = []"
| "str_join sep [x] = x"
| "str_join sep (x # y # ys) = x @ sep @ str_join sep (y # ys)"

definition strip_prefix :: "string \<Rightarrow> string \<Rightarrow> string option" where
  "strip_prefix p s = (if starts_with s p then Some (drop (length p) s) else None)"

definition is_ascii_space :: "char \<Rightarrow> bool" where
  "is_ascii_space c = (c = CHR '' '' \<or> c = CHR 0x09 \<or> c = CHR 0x0A \<or> c = CHR 0x0B \<or> c = CHR 0x0C \<or> c = CHR 0x0D)"

definition str_trim :: "string \<Rightarrow> string" where
  "str_trim s = rev (dropWhile is_ascii_space (rev (dropWhile is_ascii_space s)))"

text \<open>\<^verbatim>\<open>split_whitespace\<close>: the maximal pieces without white space.\<close>

fun split_words :: "string \<Rightarrow> string \<Rightarrow> string list" where
  "split_words acc [] = (if acc = [] then [] else [acc])"
| "split_words acc (c # s) =
     (if is_ascii_space c then (if acc = [] then [] else [acc]) @ split_words [] s
      else split_words (acc @ [c]) s)"

definition split_whitespace :: "string \<Rightarrow> string list" where
  "split_whitespace s = split_words [] s"

definition parse_u64 :: "string \<Rightarrow> u64 option" where
  "parse_u64 s = map_option word_of_nat (parse_unsigned (2 ^ 64 - 1) s)"

lemma parse_u64_show [simp]: "n < 2 ^ 64 \<Longrightarrow> parse_u64 (show_nat n) = Some (word_of_nat n)"
  by (simp add: parse_u64_def parse_unsigned_show_nat)

lemma parse_u64_empty [simp]: "parse_u64 [] = None"
  by (simp add: parse_u64_def parse_unsigned_def)

lemma show_nat_no_dash: "CHR ''-'' \<notin> set (show_nat n)"
proof -
  have "\<not> is_ascii_digit (CHR ''-'')" by code_simp
  then show ?thesis using show_nat_digits [of n] by (auto simp: list_all_iff)
qed

lemma strip_prefix_append [simp]: "strip_prefix p (p @ s) = Some s"
  by (simp add: strip_prefix_def)

end
