(* ===== verification/Dispatcher.thy ===== *)
theory Dispatcher
  imports Rust_Text Bucket_Config Audit_Log
begin

text \<open>
  \<^verbatim>\<open>strix-s3/src/dispatcher.rs\<close>: events of S3 operations, the rules of a bucket that match
  them, and the delivery of webhooks with retries.

  The network is a function from the number of a delivery and the number of an attempt to a
  reply; fresh UUIDs and the clock are functions of the number of the delivery. Delays are
  nanoseconds. The release profile has no overflow checks, so the \<^verbatim>\<open>u32\<close> arithmetic wraps.
\<close>

section \<open>Events and rules\<close>

record s3_event =
  ev_event_type :: s3_event_type
  ev_bucket :: string
  ev_key :: string
  ev_size :: "u64 option"
  ev_etag :: "string option"
  ev_version_id :: "string option"
  ev_request_id :: string
  ev_source_ip :: "string option"

record s3_event_record =
  er_event_version :: string
  er_event_source :: string
  er_event_time :: instant
  er_event_name :: string
  er_bucket_name :: string
  er_object_key :: string
  er_object_size :: "u64 option"
  er_object_etag :: "string option"
  er_object_version_id :: "string option"
  er_request_id :: string
  er_source_ip :: "string option"

fun event_covers :: "s3_event_type \<Rightarrow> s3_event_type \<Rightarrow> bool" where
  "event_covers ObjectCreatedAll ObjectCreatedPut = True"
| "event_covers ObjectCreatedAll ObjectCreatedPost = True"
| "event_covers ObjectCreatedAll ObjectCreatedCopy = True"
| "event_covers ObjectCreatedAll ObjectCreatedCompleteMultipartUpload = True"
| "event_covers ObjectRemovedAll ObjectRemovedDelete = True"
| "event_covers ObjectRemovedAll ObjectRemovedDeleteMarkerCreated = True"
| "event_covers rule_event e = (rule_event = e)"

definition matches_rule :: "notification_rule \<Rightarrow> s3_event \<Rightarrow> bool" where
  "matches_rule rule event =
     (if \<not> list_ex (\<lambda>re. event_covers re (ev_event_type event)) (nr_events rule) then False
      else if (case nf_prefix (nr_filter rule) of None \<Rightarrow> False
          | Some p \<Rightarrow> \<not> starts_with (ev_key event) p) then False
      else if (case nf_suffix (nr_filter rule) of None \<Rightarrow> False
          | Some p \<Rightarrow> \<not> ends_with (ev_key event) p) then False
      else True)"

definition build_event_record :: "instant \<Rightarrow> s3_event \<Rightarrow> s3_event_record" where
  "build_event_record now event =
     \<lparr>er_event_version = ''2.1'', er_event_source = ''strix:s3'', er_event_time = now,
      er_event_name = s3_event_type_to_string (ev_event_type event),
      er_bucket_name = ev_bucket event, er_object_key = ev_key event, er_object_size = ev_size event,
      er_object_etag = ev_etag event, er_object_version_id = ev_version_id event,
      er_request_id = ev_request_id event, er_source_ip = ev_source_ip event\<rparr>"

fun describe_destination :: "notification_destination \<Rightarrow> string \<times> string" where
  "describe_destination (Webhook url) = (''webhook'', url)"
| "describe_destination (Amqp url _ _) = (''amqp'', url)"
| "describe_destination (Kafka brokers topic) = (''kafka'', str_join '','' brokers @ ''/'' @ topic)"
| "describe_destination (Redis url channel) = (''redis'', url @ ''/'' @ channel)"

section \<open>Webhooks\<close>

text \<open>A reply with its status and the text the status is shown as, or a transport error.\<close>

datatype webhook_reply = Replied u16 string | SendFailed string

definition reply_success :: "webhook_reply \<Rightarrow> bool" where
  "reply_success r = (case r of Replied st _ \<Rightarrow> 200 \<le> st \<and> st < 300 | SendFailed _ \<Rightarrow> False)"

record delivery_outcome =
  do_attempts :: u32
  do_status :: delivery_status
  do_response_code :: "u16 option"
  do_last_error :: "string option"

text \<open>The attempts still to make, the last status and error, and the delays slept so far. The
  factor wraps like \<^verbatim>\<open>2u32.pow\<close>; its product with the base delay is taken to fit a
  \<^verbatim>\<open>Duration\<close>, where Rust panics, as it does for the fixed base of one second.\<close>

fun deliver_loop ::
  "(s3_event_record \<Rightarrow> nat \<Rightarrow> webhook_reply) \<Rightarrow> s3_event_record \<Rightarrow> u32 \<Rightarrow> nat \<Rightarrow> nat list \<Rightarrow>
     u16 option \<Rightarrow> string option \<Rightarrow> nat list \<Rightarrow> delivery_outcome \<times> nat list" where
  "deliver_loop post record max_retries base [] code err slept =
     (\<lparr>do_attempts = max_retries + 1, do_status = DeliveryFailed, do_response_code = code,
       do_last_error = err\<rparr>, slept)"
| "deliver_loop post record max_retries base (attempt # rest) code err slept =
     (let slept' = (if word_of_nat attempt < max_retries
            then slept @ [base * unat ((2 :: u32) ^ attempt)] else slept) in
      case post record attempt of
        Replied st text \<Rightarrow>
          if 200 \<le> st \<and> st < 300 then
            (\<lparr>do_attempts = word_of_nat attempt + 1, do_status = DeliverySuccess,
              do_response_code = Some st, do_last_error = None\<rparr>, slept)
          else deliver_loop post record max_retries base rest (Some st)
                 (Some (''non-success status '' @ text)) slept'
      | SendFailed e \<Rightarrow> deliver_loop post record max_retries base rest code (Some e) slept')"

definition deliver_webhook ::
  "(s3_event_record \<Rightarrow> nat \<Rightarrow> webhook_reply) \<Rightarrow> s3_event_record \<Rightarrow> u32 \<Rightarrow> nat \<Rightarrow>
     delivery_outcome \<times> nat list" where
  "deliver_webhook post record max_retries base =
     deliver_loop post record max_retries base [0..<Suc (unat max_retries)] None None []"

section \<open>The dispatcher\<close>

record dispatcher_config =
  dc_max_retries :: u32
  dc_retry_base_delay :: nat
  dc_delivery_timeout :: nat
  dc_channel_capacity :: nat

definition dispatcher_config_default :: dispatcher_config where
  "dispatcher_config_default = \<lparr>dc_max_retries = 3, dc_retry_base_delay = 1000000000,
     dc_delivery_timeout = 10000000000, dc_channel_capacity = 1024\<rparr>"

text \<open>\<^verbatim>\<open>EventSender::emit\<close>: \<^verbatim>\<open>try_send\<close> on a bounded channel drops what does not fit.\<close>

definition emit :: "nat \<Rightarrow> s3_event \<Rightarrow> s3_event list \<Rightarrow> s3_event list" where
  "emit capacity event queue = (if length queue < capacity then queue @ [event] else queue)"

record network =
  nw_post :: "nat \<Rightarrow> string \<Rightarrow> s3_event_record \<Rightarrow> nat \<Rightarrow> webhook_reply"
  nw_uuid :: "nat \<Rightarrow> string"
  nw_now :: "nat \<Rightarrow> instant"
  nw_alerter :: bool

record dispatcher =
  dp_store :: local_store
  dp_alerts :: "notification_delivery_attempt list"
  dp_deliveries :: nat

definition delivery_of_rule ::
  "dispatcher_config \<Rightarrow> network \<Rightarrow> nat \<Rightarrow> notification_rule \<Rightarrow> s3_event \<Rightarrow> notification_delivery_attempt" where
  "delivery_of_rule cfg nw k rule event =
     (let record = build_event_record (nw_now nw k) event;
          (destination_type, target) = describe_destination (nr_destination rule);
          outcome = (case nr_destination rule of
              Webhook url \<Rightarrow>
                fst (deliver_webhook (nw_post nw k url) record (dc_max_retries cfg) (dc_retry_base_delay cfg))
            | _ \<Rightarrow> \<lparr>do_attempts = 0, do_status = DeliveryUnsupported, do_response_code = None,
                   do_last_error = Some (''destination type '' @ [CHR 0x27] @ destination_type @ [CHR 0x27]
                     @ '' is not yet supported for delivery'')\<rparr>)
      in \<lparr>nd_id = nw_uuid nw k, nd_timestamp = nw_now nw k, nd_bucket = ev_bucket event,
          nd_rule_id = nr_id rule, nd_destination_type = destination_type, nd_target = target,
          nd_event_type = s3_event_type_to_string (ev_event_type event), nd_object_key = ev_key event,
          nd_attempts = do_attempts outcome, nd_status = do_status outcome,
          nd_response_code = do_response_code outcome, nd_last_error = do_last_error outcome\<rparr>)"

definition dispatch_rule ::
  "dispatcher_config \<Rightarrow> network \<Rightarrow> s3_event \<Rightarrow> notification_rule \<Rightarrow> dispatcher \<Rightarrow> dispatcher" where
  "dispatch_rule cfg nw event rule d =
     (if \<not> matches_rule rule event then d
      else
        let attempt = delivery_of_rule cfg nw (dp_deliveries d) rule event;
            needs_alert = (nd_status attempt \<noteq> DeliverySuccess)
        in d\<lparr>dp_store := snd (log_notification_delivery attempt (dp_store d)),
             dp_alerts := (if nw_alerter nw \<and> needs_alert then dp_alerts d @ [attempt] else dp_alerts d),
             dp_deliveries := dp_deliveries d + 1\<rparr>)"

definition dispatch_event ::
  "store_ext \<Rightarrow> dispatcher_config \<Rightarrow> network \<Rightarrow> s3_event \<Rightarrow> dispatcher \<Rightarrow> dispatcher" where
  "dispatch_event ix cfg nw event d =
     (case get_bucket_notification ix (ev_bucket event) (dp_store d) of
        Inr (Some config) \<Rightarrow> fold (dispatch_rule cfg nw event) (notification_rules config) d
      | Inr None \<Rightarrow> d
      | Inl _ \<Rightarrow> d)"

fun run_dispatcher ::
  "store_ext \<Rightarrow> dispatcher_config \<Rightarrow> network \<Rightarrow> s3_event list \<Rightarrow> dispatcher \<Rightarrow> dispatcher" where
  "run_dispatcher ix cfg nw [] d = d"
| "run_dispatcher ix cfg nw (event # queue) d =
     run_dispatcher ix cfg nw queue (dispatch_event ix cfg nw event d)"

section \<open>Which rules match\<close>

text \<open>A family of events is the events whose names share the part before the star.\<close>

definition event_family :: "string \<Rightarrow> string \<Rightarrow> bool" where
  "event_family pattern name = (pattern = name \<or> (pattern \<noteq> [] \<and> last pattern = CHR ''*''
     \<and> starts_with name (butlast pattern)))"

lemma event_covers_family:
  "event_covers re e \<longleftrightarrow> event_family (s3_event_type_to_string re) (s3_event_type_to_string e)"
  by (cases re; cases e; hypsubst; code_simp)

lemma matches_rule_iff:
  "matches_rule rule event \<longleftrightarrow>
     (\<exists>re \<in> set (nr_events rule). event_family (s3_event_type_to_string re)
        (s3_event_type_to_string (ev_event_type event)))
     \<and> (\<forall>p. nf_prefix (nr_filter rule) = Some p \<longrightarrow> prefix p (ev_key event))
     \<and> (\<forall>p. nf_suffix (nr_filter rule) = Some p \<longrightarrow> suffix p (ev_key event))"
  by (auto simp: matches_rule_def event_covers_family list_ex_iff starts_with_iff ends_with_iff
      split: option.splits)

section \<open>Retries\<close>

definition backoff :: "nat \<Rightarrow> nat \<Rightarrow> nat" where
  "backoff base attempt = base * unat ((2 :: u32) ^ attempt)"

definition attempt_succeeds :: "(s3_event_record \<Rightarrow> nat \<Rightarrow> webhook_reply) \<Rightarrow> s3_event_record \<Rightarrow> nat \<Rightarrow> bool" where
  "attempt_succeeds post ev n = reply_success (post ev n)"

lemma word_of_nat_less_iff:
  assumes "n \<le> unat m"
  shows "(word_of_nat n :: u32) < m \<longleftrightarrow> n < unat m"
proof -
  have "unat m < 2 ^ 32" using unsigned_less [of m] by simp
  then have "n < 2 ^ 32" using assms by simp
  then show ?thesis by (simp add: word_less_nat_alt unat_of_nat take_bit_nat_eq_self)
qed

lemma deliver_loop_success:
  assumes "\<And>n. n < k \<Longrightarrow> \<not> attempt_succeeds post ev (a + n)" "attempt_succeeds post ev (a + k)"
    and "a + k \<le> unat m"
  shows "deliver_loop post ev m base [a..<Suc (unat m)] code err slept =
    (\<lparr>do_attempts = word_of_nat (a + k) + 1, do_status = DeliverySuccess,
      do_response_code = (case post ev (a + k) of Replied st _ \<Rightarrow> Some st | SendFailed _ \<Rightarrow> None),
      do_last_error = None\<rparr>, slept @ map (backoff base) [a..<a + k])"
  using assms
proof (induction k arbitrary: a code err slept)
  case 0
  then have "[a..<Suc (unat m)] = a # [Suc a..<Suc (unat m)]" by (simp add: upt_conv_Cons)
  then show ?case
    using 0 by (auto simp: attempt_succeeds_def reply_success_def Let_def simp del: upt_Suc
        split: webhook_reply.splits)
next
  case (Suc k)
  have list: "[a..<Suc (unat m)] = a # [Suc a..<Suc (unat m)]"
    using Suc.prems(3) by (intro upt_conv_Cons) simp
  have fail: "\<not> attempt_succeeds post ev a" using Suc.prems(1) [of 0] by simp
  have "(word_of_nat a :: u32) < m"
    using Suc.prems(3) word_of_nat_less_iff [of a m] by simp
  moreover have "deliver_loop post ev m base [Suc a..<Suc (unat m)] c e (slept @ [backoff base a]) =
    (\<lparr>do_attempts = word_of_nat (Suc a + k) + 1, do_status = DeliverySuccess,
      do_response_code = (case post ev (Suc a + k) of Replied st _ \<Rightarrow> Some st | SendFailed _ \<Rightarrow> None),
      do_last_error = None\<rparr>, (slept @ [backoff base a]) @ map (backoff base) [Suc a..<Suc a + k])" for c e
    using Suc.prems by (intro Suc.IH) (metis add_Suc_shift Suc_mono, simp_all)
  moreover have "[a..<a + Suc k] = a # [Suc a..<Suc a + k]" by (simp add: upt_conv_Cons)
  ultimately show ?case
    using fail by (auto simp: list attempt_succeeds_def reply_success_def Let_def backoff_def [symmetric]
        simp del: upt_Suc split: webhook_reply.splits)
qed

definition reply_error :: "webhook_reply \<Rightarrow> string" where
  "reply_error r = (case r of Replied _ text \<Rightarrow> ''non-success status '' @ text | SendFailed e \<Rightarrow> e)"

lemma deliver_loop_failure:
  assumes "\<And>n. n \<in> set as \<Longrightarrow> \<not> attempt_succeeds post ev n"
  shows "\<exists>code'. deliver_loop post ev m base as code err slept =
    (\<lparr>do_attempts = m + 1, do_status = DeliveryFailed, do_response_code = code',
      do_last_error = (if as = [] then err else Some (reply_error (post ev (last as))))\<rparr>,
     slept @ map (backoff base) (filter (\<lambda>n. word_of_nat n < m) as))"
  using assms
proof (induction "as" arbitrary: code err slept)
  case (Cons a as)
  let ?slept = "if word_of_nat a < m then slept @ [backoff base a] else slept"
  have fail: "\<not> reply_success (post ev a)" using Cons.prems [of a] by (simp add: attempt_succeeds_def)
  obtain c where step: "deliver_loop post ev m base (a # as) code err slept =
      deliver_loop post ev m base as c (Some (reply_error (post ev a))) ?slept"
  proof (cases "post ev a")
    case (Replied st msg)
    then show thesis
      using fail by (intro that [of "Some st"]) (auto simp: reply_success_def reply_error_def Let_def backoff_def)
  next
    case (SendFailed e)
    then show thesis by (intro that [of code]) (simp add: reply_error_def Let_def backoff_def)
  qed
  obtain code' where "deliver_loop post ev m base as c (Some (reply_error (post ev a))) ?slept =
    (\<lparr>do_attempts = m + 1, do_status = DeliveryFailed, do_response_code = code',
      do_last_error = (if as = [] then Some (reply_error (post ev a)) else Some (reply_error (post ev (last as))))\<rparr>,
     ?slept @ map (backoff base) (filter (\<lambda>n. word_of_nat n < m) as))"
    using Cons.IH [of c "Some (reply_error (post ev a))" ?slept] Cons.prems by auto
  then show ?case unfolding step by auto
qed simp

lemma retries_filter: "filter (\<lambda>n. (word_of_nat n :: u32) < m) [0..<Suc (unat m)] = [0..<unat m]"
proof -
  have "filter (\<lambda>n. (word_of_nat n :: u32) < m) [0..<unat m] = [0..<unat m]"
    "\<not> (word_of_nat (unat m) :: u32) < m"
    using word_of_nat_less_iff [of _ m] by (auto simp: filter_id_conv)
  then show ?thesis by simp
qed

text \<open>C27: the delivery of a webhook always ends. When some attempt up to the number of retries
  is answered with a 2xx status, the first such attempt ends the delivery as a success with
  that status; otherwise it ends as a failure after one attempt more than there are retries,
  with the error of the last attempt. It sleeps before each retry: the base delay before the
  first one, and twice as long as the time before for the next ones as long as the factor fits
  32 bits, which it does for the first 32 retries. The default configuration makes three.\<close>

theorem webhook_delivery_ends:
  "(\<forall>k. k \<le> unat m \<and> attempt_succeeds post ev k \<and> (\<forall>n < k. \<not> attempt_succeeds post ev n) \<longrightarrow>
      deliver_webhook post ev m base =
        (\<lparr>do_attempts = word_of_nat k + 1, do_status = DeliverySuccess,
          do_response_code = (case post ev k of Replied st _ \<Rightarrow> Some st | SendFailed _ \<Rightarrow> None),
          do_last_error = None\<rparr>, map (backoff base) [0..<k]))
   \<and> ((\<forall>n \<le> unat m. \<not> attempt_succeeds post ev n) \<longrightarrow>
      (\<exists>code. deliver_webhook post ev m base =
        (\<lparr>do_attempts = m + 1, do_status = DeliveryFailed, do_response_code = code,
          do_last_error = Some (reply_error (post ev (unat m)))\<rparr>, map (backoff base) [0..<unat m])))"
proof (intro conjI allI impI)
  fix k assume "k \<le> unat m \<and> attempt_succeeds post ev k \<and> (\<forall>n < k. \<not> attempt_succeeds post ev n)"
  then show "deliver_webhook post ev m base =
        (\<lparr>do_attempts = word_of_nat k + 1, do_status = DeliverySuccess,
          do_response_code = (case post ev k of Replied st _ \<Rightarrow> Some st | SendFailed _ \<Rightarrow> None),
          do_last_error = None\<rparr>, map (backoff base) [0..<k])"
    using deliver_loop_success [of k post ev 0 m base None None "[]"] by (simp add: deliver_webhook_def del: upt_Suc)
next
  assume fail: "\<forall>n \<le> unat m. \<not> attempt_succeeds post ev n"
  then have "\<not> attempt_succeeds post ev n" if "n \<in> set [0..<Suc (unat m)]" for n
    using that by (simp del: upt_Suc)
  note loop = deliver_loop_failure [of "[0..<Suc (unat m)]", OF this, of m base None None "[]",
      unfolded retries_filter]
  then show "\<exists>code. deliver_webhook post ev m base =
        (\<lparr>do_attempts = m + 1, do_status = DeliveryFailed, do_response_code = code,
          do_last_error = Some (reply_error (post ev (unat m)))\<rparr>, map (backoff base) [0..<unat m])"
    unfolding deliver_webhook_def by simp
qed

definition toy_event :: s3_event where
  "toy_event = \<lparr>ev_event_type = ObjectCreatedPut, ev_bucket = ''logs'', ev_key = ''a.txt'', ev_size = Some 3,
     ev_etag = None, ev_version_id = None, ev_request_id = ''r1'', ev_source_ip = None\<rparr>"

definition toy_post :: "s3_event_record \<Rightarrow> nat \<Rightarrow> webhook_reply" where
  "toy_post ev n = (if n < 2 then Replied 503 ''503 Service Unavailable'' else Replied 204 ''204 No Content'')"

theorem webhook_delivery_ends_witness:
  "do_status (fst (deliver_webhook toy_post (build_event_record 0 toy_event) 3 5)) = DeliverySuccess
   \<and> snd (deliver_webhook toy_post (build_event_record 0 toy_event) 3 5) = [5, 10]"
proof -
  let ?r = "build_event_record 0 toy_event"
  have "attempt_succeeds toy_post ?r 2" "\<forall>n < 2. \<not> attempt_succeeds toy_post ?r n"
    by (simp_all add: attempt_succeeds_def reply_success_def toy_post_def)
  then have "deliver_webhook toy_post ?r 3 5 =
        (\<lparr>do_attempts = word_of_nat 2 + 1, do_status = DeliverySuccess,
          do_response_code = (case toy_post ?r 2 of Replied st _ \<Rightarrow> Some st | SendFailed _ \<Rightarrow> None),
          do_last_error = None\<rparr>, map (backoff 5) [0..<2])"
    using webhook_delivery_ends [of 3 toy_post ?r 5, THEN conjunct1, THEN spec, of 2] by simp
  then show ?thesis by (simp add: backoff_def upt_rec)
qed

section \<open>Every matching rule is delivered once\<close>

text \<open>The deliveries of an event, numbered from the ones made before.\<close>

definition event_deliveries ::
  "dispatcher_config \<Rightarrow> network \<Rightarrow> s3_event \<Rightarrow> notification_rule list \<Rightarrow> nat \<Rightarrow> notification_delivery_attempt list" where
  "event_deliveries cfg nw event rules n =
     (let matching = filter (\<lambda>r. matches_rule r event) rules
      in map (\<lambda>(k, rule). delivery_of_rule cfg nw k rule event) (zip [n..<n + length matching] matching))"

lemma event_deliveries_Cons:
  "event_deliveries cfg nw event (rule # rules) n =
     (if matches_rule rule event
      then delivery_of_rule cfg nw n rule event # event_deliveries cfg nw event rules (Suc n)
      else event_deliveries cfg nw event rules n)"
  by (simp add: event_deliveries_def upt_conv_Cons Let_def del: upt_Suc)

lemma delivery_of_rule_simps [simp]:
  "nd_id (delivery_of_rule cfg nw k rule event) = nw_uuid nw k"
  "nd_rule_id (delivery_of_rule cfg nw k rule event) = nr_id rule"
  by (simp_all add: delivery_of_rule_def split_def Let_def)

lemma dispatch_rules:
  assumes "inj (nw_uuid nw)" "\<forall>k \<ge> dp_deliveries d. nw_uuid nw k \<notin> nd_id ` set (notification_delivery (dp_store d))"
  shows "fold (dispatch_rule cfg nw event) rules d =
    d\<lparr>dp_store := (dp_store d)\<lparr>notification_delivery := notification_delivery (dp_store d)
        @ event_deliveries cfg nw event rules (dp_deliveries d)\<rparr>,
      dp_alerts := dp_alerts d @ (if nw_alerter nw then filter (\<lambda>a. nd_status a \<noteq> DeliverySuccess)
        (event_deliveries cfg nw event rules (dp_deliveries d)) else []),
      dp_deliveries := dp_deliveries d + length (filter (\<lambda>r. matches_rule r event) rules)\<rparr>"
  using assms
proof (induction rules arbitrary: d)
  case Nil
  then show ?case by (simp add: event_deliveries_def)
next
  case (Cons rule rules)
  show ?case
  proof (cases "matches_rule rule event")
    case False
    then have "dispatch_rule cfg nw event rule d = d" by (simp add: dispatch_rule_def)
    then show ?thesis using Cons.IH [OF Cons.prems] False by (simp add: event_deliveries_Cons)
  next
    case True
    define n where "n = dp_deliveries d"
    define a where "a = delivery_of_rule cfg nw n rule event"
    define d' where "d' = dispatch_rule cfg nw event rule d"
    have "nd_id a \<notin> nd_id ` set (notification_delivery (dp_store d))"
      using Cons.prems(2) by (simp add: a_def n_def)
    then have log: "snd (log_notification_delivery a (dp_store d)) =
        (dp_store d)\<lparr>notification_delivery := notification_delivery (dp_store d) @ [a]\<rparr>"
      by (simp add: log_notification_delivery_def sql_insert_def)
    have d': "d' = d\<lparr>dp_store := (dp_store d)\<lparr>notification_delivery := notification_delivery (dp_store d) @ [a]\<rparr>,
        dp_alerts := (if nw_alerter nw \<and> nd_status a \<noteq> DeliverySuccess then dp_alerts d @ [a] else dp_alerts d),
        dp_deliveries := n + 1\<rparr>"
      using True log by (simp add: d'_def dispatch_rule_def Let_def a_def n_def)
    have "\<forall>k \<ge> dp_deliveries d'. nw_uuid nw k \<notin> nd_id ` set (notification_delivery (dp_store d'))"
      using Cons.prems injD [OF Cons.prems(1)] by (auto simp: d' a_def n_def) (metis not_less_eq_eq order_refl)
    note rest = Cons.IH [OF Cons.prems(1) this]
    have "fold (dispatch_rule cfg nw event) (rule # rules) d = fold (dispatch_rule cfg nw event) rules d'"
      by (simp add: d'_def)
    then show ?thesis
      unfolding rest using True by (simp add: d' event_deliveries_Cons a_def [symmetric] n_def [symmetric])
  qed
qed

text \<open>C28: when an event is dispatched, the delivery log gains exactly one record for every rule
  of the bucket that matches it, in the order of the rules and with the outcome of that
  rule's delivery, the rest of the store is unchanged, and the alerter - if there is one -
  is told exactly of the deliveries that did not succeed.\<close>

theorem event_dispatched:
  assumes "inj (nw_uuid nw)" "\<forall>k \<ge> dp_deliveries d. nw_uuid nw k \<notin> nd_id ` set (notification_delivery (dp_store d))"
    and "get_bucket_notification ix (ev_bucket event) (dp_store d) = Inr (Some config)"
  shows "\<exists>new. dp_store (dispatch_event ix cfg nw event d) =
      (dp_store d)\<lparr>notification_delivery := notification_delivery (dp_store d) @ new\<rparr>
    \<and> map nd_rule_id new = map nr_id (filter (\<lambda>r. matches_rule r event) (notification_rules config))
    \<and> dp_alerts (dispatch_event ix cfg nw event d) =
        dp_alerts d @ (if nw_alerter nw then filter (\<lambda>a. nd_status a \<noteq> DeliverySuccess) new else [])"
proof -
  let ?new = "event_deliveries cfg nw event (notification_rules config) (dp_deliveries d)"
  let ?rules = "filter (\<lambda>r. matches_rule r event) (notification_rules config)"
  let ?zip = "zip [dp_deliveries d..<dp_deliveries d + length ?rules] ?rules"
  have "map nd_rule_id ?new = map (\<lambda>p. nr_id (snd p)) ?zip"
    by (simp add: event_deliveries_def split_def comp_def Let_def)
  also have "\<dots> = map nr_id (map snd ?zip)" by (simp only: map_map comp_def)
  also have "map snd ?zip = ?rules" by simp
  finally have "map nd_rule_id ?new = map nr_id ?rules" .
  then show ?thesis
    using dispatch_rules [OF assms(1,2)] assms(3) by (intro exI [of _ ?new]) (simp add: dispatch_event_def)
qed

definition toy_rule :: notification_rule where
  "toy_rule = \<lparr>nr_id = ''r'', nr_events = [ObjectCreatedAll],
     nr_filter = \<lparr>nf_prefix = None, nf_suffix = Some ''.txt''\<rparr>, nr_destination = Webhook ''http://hook''\<rparr>"

definition toy_network :: network where
  "toy_network = \<lparr>nw_post = (\<lambda>k url. toy_post), nw_uuid = (\<lambda>k. replicate k CHR ''u''), nw_now = (\<lambda>k. 0), nw_alerter = True\<rparr>"

definition toy_notify :: store_ext where
  "toy_notify = toy_configs\<lparr>sx_notification := toy_codec \<lparr>notification_rules = [toy_rule]\<rparr>\<rparr>"

definition toy_dispatcher :: dispatcher where
  "toy_dispatcher = \<lparr>dp_store = snd (put_bucket_notification toy_notify ''logs''
     \<lparr>notification_rules = [toy_rule]\<rparr> toy_bucket_store), dp_alerts = [], dp_deliveries = 0\<rparr>"

theorem event_dispatched_witness:
  "\<exists>new. notification_delivery (dp_store (dispatch_event toy_notify dispatcher_config_default toy_network toy_event
     toy_dispatcher)) = new \<and> map nd_rule_id new = [''r'']"
proof -
  have "inj (nw_uuid toy_network)" by (rule injI) (simp add: toy_network_def replicate_eq_replicate)
  moreover have empty: "notification_delivery (dp_store toy_dispatcher) = []" by code_simp
  moreover have "get_bucket_notification toy_notify (ev_bucket toy_event) (dp_store toy_dispatcher) =
      Inr (Some \<lparr>notification_rules = [toy_rule]\<rparr>)" by code_simp
  moreover have "matches_rule toy_rule toy_event" by code_simp
  ultimately show ?thesis
    using event_dispatched [of toy_network toy_dispatcher toy_notify toy_event "\<lparr>notification_rules = [toy_rule]\<rparr>"
        dispatcher_config_default]
    by (auto simp: toy_rule_def)
qed

end
