(* ===== verification/S3_Service.thy ===== *)
theory S3_Service
  imports S3_Auth Dispatcher Object_Lock
begin

text \<open>
  \<^verbatim>\<open>strix-s3/src/service.rs\<close>, first part: the context of a request, audit events, the
  authorization guard, the parsers, and the handlers of bucket requests.

  A handler takes the request, its input and the server, and returns the output or the S3
  error with the server after it. The IAM store is only read. What the \<^verbatim>\<open>s3s\<close> crate parses
  (ETags, MIME types) and the JSON of object tags are functions of the record \<open>s3s_ext\<close>.
  Metrics and traces are left out. Fresh UUIDs and ULIDs are numbered within a request.
\<close>

section \<open>Requests and the server\<close>

datatype etag = StrongTag string | WeakTag string

datatype etag_condition = AnyTag | TagCondition etag

record 'f s3s_ext =
  se_iam :: "'f iam_ext"
  se_store :: store_ext
  parse_etag_header :: "string \<Rightarrow> etag option"
  parse_mime :: "string \<Rightarrow> string option"
  object_tags_json :: "(string \<times> string) list json_codec"

record audit_context =
  ac_source_ip :: "string option"
  ac_request_id :: string

text \<open>The clock is read once for the checks and the log of a request, and anew by every operation
  of the store; \<open>rq_clock\<close> numbers these.\<close>

record request =
  rq_now :: instant
  rq_clock :: "nat \<Rightarrow> instant"
  rq_credentials :: "string option"
  rq_headers :: "string \<rightharpoonup> string"
  rq_extension :: "audit_context option"
  rq_uuid :: "nat \<Rightarrow> string"
  rq_ulid :: "nat \<Rightarrow> string"
  rq_nonce :: bytes

text \<open>The store and the notification channel, if there is one: its capacity and its content.\<close>

record server =
  sv_store :: local_store
  sv_channel :: "(nat \<times> s3_event list) option"

type_synonym 'a s3_result = "('a, s3_error) result"

definition emit_event :: "s3_event \<Rightarrow> server \<Rightarrow> server" where
  "emit_event event sv =
     (case sv_channel sv of
        None \<Rightarrow> sv
      | Some (capacity, queue) \<Rightarrow> sv\<lparr>sv_channel := Some (capacity, emit capacity event queue)\<rparr>)"

section \<open>Audit events\<close>

text \<open>The entry of an audit event. Without a context both ids are fresh.\<close>

definition audit_entry ::
  "instant \<Rightarrow> string \<Rightarrow> string \<Rightarrow> audit_event \<Rightarrow> audit_context option \<Rightarrow> audit_log_entry" where
  "audit_entry now uuid1 uuid2 event ctx =
     \<lparr>al_id = (case ctx of Some c \<Rightarrow> ac_request_id c | None \<Rightarrow> uuid1), al_timestamp = now,
      al_operation = ae_operation event, al_bucket = ae_bucket event, al_key = ae_key event,
      al_principal = ae_principal event,
      al_source_ip = (case ctx of Some c \<Rightarrow> ac_source_ip c | None \<Rightarrow> None),
      al_status_code = (if ae_success event then 200 else 403),
      al_error_code = ae_error_message event, al_duration_ms = None, al_bytes_sent = None,
      al_request_id = (case ctx of Some c \<Rightarrow> ac_request_id c | None \<Rightarrow> uuid2)\<rparr>"

text \<open>A failure to store the entry is only traced.\<close>

definition log_audit :: "audit_log_entry \<Rightarrow> server \<Rightarrow> server" where
  "log_audit entry sv = sv\<lparr>sv_store := snd (log_audit_event entry (sv_store sv))\<rparr>"

definition extract_forwarded_ip :: "(string \<rightharpoonup> string) \<Rightarrow> string option" where
  "extract_forwarded_ip headers =
     (case Option.bind (headers ''x-forwarded-for'')
         (\<lambda>v. List.find (\<lambda>s. s \<noteq> []) (map str_trim (split_on (CHR '','') v))) of
        Some first \<Rightarrow> Some first
      | None \<Rightarrow> headers ''x-real-ip'')"

definition request_audit_context :: "request \<Rightarrow> audit_context" where
  "request_audit_context rq =
     (case rq_extension rq of
        Some ctx \<Rightarrow> ctx
      | None \<Rightarrow> \<lparr>ac_source_ip = extract_forwarded_ip (rq_headers rq), ac_request_id = rq_uuid rq 0\<rparr>)"

section \<open>The guard\<close>

text \<open>\<open>n\<close> numbers the checks of a request, so that every denial is logged under fresh ids.\<close>

definition authorize ::
  "'f s3s_ext \<Rightarrow> s3_service \<Rightarrow> request \<Rightarrow> nat \<Rightarrow> string \<Rightarrow> string option \<Rightarrow> string option \<Rightarrow> server \<Rightarrow>
     unit s3_result \<times> server" where
  "authorize sx svc rq n act bucket key sv =
     (case check_authorization (se_iam sx) (rq_now rq) svc (rq_credentials rq) (rq_headers rq) act bucket key of
        (r, None) \<Rightarrow> (r, sv)
      | (r, Some event) \<Rightarrow>
          (r, log_audit (audit_entry (rq_now rq) (rq_uuid rq (2 * n + 1)) (rq_uuid rq (2 * n + 2)) event None) sv))"

definition guarded ::
  "'f s3s_ext \<Rightarrow> s3_service \<Rightarrow> request \<Rightarrow> nat \<Rightarrow> string \<Rightarrow> string option \<Rightarrow> string option \<Rightarrow>
     (server \<Rightarrow> 'a s3_result \<times> server) \<Rightarrow> server \<Rightarrow> 'a s3_result \<times> server" where
  "guarded sx svc rq n act bucket key body sv =
     (case authorize sx svc rq n act bucket key sv of
        (Inl e, sv') \<Rightarrow> (Inl e, sv') | (Inr _, sv') \<Rightarrow> body sv')"

definition of_store :: "'a store_result \<Rightarrow> 'a s3_result" where
  "of_store r = (case r of Inl e \<Rightarrow> Inl (to_s3_error e) | Inr x \<Rightarrow> Inr x)"

text \<open>Running an operation of the store, and going on with its result.\<close>

definition on_store ::
  "(local_store \<Rightarrow> 'a store_result \<times> local_store) \<Rightarrow> ('a \<Rightarrow> server \<Rightarrow> 'b s3_result \<times> server) \<Rightarrow>
     server \<Rightarrow> 'b s3_result \<times> server" where
  "on_store operation continue sv =
     (case operation (sv_store sv) of
        (Inl e, s') \<Rightarrow> (Inl (to_s3_error e), sv\<lparr>sv_store := s'\<rparr>)
      | (Inr x, s') \<Rightarrow> continue x (sv\<lparr>sv_store := s'\<rparr>))"

text \<open>The name for the audit log; a failed lookup leaves it out.\<close>

definition audit_principal :: "'f s3s_ext \<Rightarrow> s3_service \<Rightarrow> request \<Rightarrow> string option" where
  "audit_principal sx svc rq =
     (case get_username (se_iam sx) (rq_now rq) svc (rq_credentials rq) of Inl _ \<Rightarrow> None | Inr u \<Rightarrow> Some u)"

definition log_success ::
  "'f s3s_ext \<Rightarrow> s3_service \<Rightarrow> request \<Rightarrow> string \<Rightarrow> string option \<Rightarrow> string option \<Rightarrow> server \<Rightarrow> server" where
  "log_success sx svc rq operation bucket key =
     log_audit (audit_entry (rq_now rq) [] []
       \<lparr>ae_operation = operation, ae_bucket = bucket, ae_key = key,
        ae_principal = audit_principal sx svc rq, ae_success = True, ae_error_message = None\<rparr>
       (Some (request_audit_context rq)))"

section \<open>Parsers and conversions\<close>

definition etag_value :: "etag \<Rightarrow> string" where
  "etag_value t = (case t of StrongTag s \<Rightarrow> s | WeakTag s \<Rightarrow> s)"

definition dto_etag :: "'f s3s_ext \<Rightarrow> string \<Rightarrow> etag" where
  "dto_etag sx etag =
     (case parse_etag_header sx etag of Some t \<Rightarrow> t | None \<Rightarrow> StrongTag (trim_matches (CHR 0x22) etag))"

definition dto_etag_condition :: "etag_condition \<Rightarrow> string" where
  "dto_etag_condition c = (case c of AnyTag \<Rightarrow> ''*'' | TagCondition t \<Rightarrow> etag_value t)"

definition parse_copy_source_range :: "string \<Rightarrow> (u64 \<times> u64 option) s3_result" where
  "parse_copy_source_range header =
     (case strip_prefix ''bytes='' header of
        None \<Rightarrow> Inl (s3_err ''InvalidArgument'' ''Invalid copy source range format'')
      | Some spec \<Rightarrow>
          (case split_once (CHR ''-'') spec of
             None \<Rightarrow> Inl (s3_err ''InvalidArgument'' ''Invalid copy source range format'')
           | Some (start, end') \<Rightarrow>
               (case parse_u64 start of
                  None \<Rightarrow> Inl (s3_err ''InvalidArgument'' ''Invalid range start'')
                | Some start \<Rightarrow>
                    if end' = [] then Inr (start, None)
                    else (case parse_u64 end' of
                        None \<Rightarrow> Inl (s3_err ''InvalidArgument'' ''Invalid range end'')
                      | Some stop \<Rightarrow>
                          if stop < start then
                            Inl (s3_err ''InvalidArgument'' ''Invalid range: end before start'')
                          else Inr (start, Some stop)))))"

definition parse_http_range_header :: "string \<Rightarrow> (u64 \<times> u64 option) option" where
  "parse_http_range_header header =
     (case strip_prefix ''bytes='' header of
        None \<Rightarrow> None
      | Some spec \<Rightarrow>
          (case split_once (CHR ''-'') spec of
             None \<Rightarrow> None
           | Some (start, end') \<Rightarrow>
               (case parse_u64 start of
                  None \<Rightarrow> None
                | Some start \<Rightarrow>
                    if end' = [] then Some (start, None)
                    else (case parse_u64 end' of
                        None \<Rightarrow> None
                      | Some stop \<Rightarrow> if stop < start then None else Some (start, Some stop)))))"

definition OBJECT_TAGS_METADATA_KEY :: string where
  "OBJECT_TAGS_METADATA_KEY = ''strix-object-tags''"

definition decode_object_tags :: "'f s3s_ext \<Rightarrow> metadata \<Rightarrow> (string \<times> string) list s3_result" where
  "decode_object_tags sx m =
     (case m OBJECT_TAGS_METADATA_KEY of
        None \<Rightarrow> Inr []
      | Some raw \<Rightarrow>
          (case snd (object_tags_json sx) raw of
             None \<Rightarrow> Inl (s3_err ''InternalError'' ''Invalid stored object tags'')
           | Some tags \<Rightarrow> Inr tags))"

fun encode_object_tags :: "(string option \<times> string option) list \<Rightarrow> (string \<times> string) list s3_result" where
  "encode_object_tags [] = Inr []"
| "encode_object_tags ((key, value) # rest) =
     (case key of
        None \<Rightarrow> Inl (s3_err ''InvalidTag'' ''Tag key is required'')
      | Some k \<Rightarrow>
          (case value of
             None \<Rightarrow> Inl (s3_err ''InvalidTag'' ''Tag value is required'')
           | Some v \<Rightarrow>
               (case encode_object_tags rest of Inl e \<Rightarrow> Inl e | Inr out \<Rightarrow> Inr ((k, v) # out))))"

text \<open>Time stamps of the protocol have whole seconds.\<close>

definition to_timestamp :: "instant \<Rightarrow> nat" where
  "to_timestamp dt = unat (word_of_int (sql_datetime dt) :: u64)"

definition from_timestamp :: "instant \<Rightarrow> instant" where
  "from_timestamp ts = of_sql_datetime (sql_datetime ts)"

section \<open>Buckets\<close>

definition s3_create_bucket ::
  "'f s3s_ext \<Rightarrow> s3_service \<Rightarrow> request \<Rightarrow> string \<Rightarrow> string option \<Rightarrow> server \<Rightarrow> string s3_result \<times> server" where
  "s3_create_bucket sx svc rq bucket location =
     guarded sx svc rq 0 ''CreateBucket'' (Some bucket) None
       (on_store (create_bucket (rq_clock rq 0) bucket \<lparr>cb_region = location, cb_tenant_slug = None\<rparr>)
         (\<lambda>_ sv. (Inr (''/'' @ bucket), log_success sx svc rq ''CreateBucket'' (Some bucket) None sv)))"

definition s3_delete_bucket ::
  "'f s3s_ext \<Rightarrow> s3_service \<Rightarrow> request \<Rightarrow> string \<Rightarrow> server \<Rightarrow> unit s3_result \<times> server" where
  "s3_delete_bucket sx svc rq bucket =
     guarded sx svc rq 0 ''DeleteBucket'' (Some bucket) None
       (on_store (delete_bucket bucket)
         (\<lambda>_ sv. (Inr (), log_success sx svc rq ''DeleteBucket'' (Some bucket) None sv)))"

definition s3_list_buckets ::
  "'f s3s_ext \<Rightarrow> s3_service \<Rightarrow> request \<Rightarrow> server \<Rightarrow> (string \<times> nat) list s3_result \<times> server" where
  "s3_list_buckets sx svc rq =
     guarded sx svc rq 0 ''ListBuckets'' None None
       (\<lambda>sv. (Inr (map (\<lambda>b. (bi_name b, to_timestamp (bi_created_at b))) (list_buckets (sv_store sv))), sv))"

definition s3_head_bucket ::
  "'f s3s_ext \<Rightarrow> s3_service \<Rightarrow> request \<Rightarrow> string \<Rightarrow> server \<Rightarrow> unit s3_result \<times> server" where
  "s3_head_bucket sx svc rq bucket =
     guarded sx svc rq 0 ''HeadBucket'' (Some bucket) None
       (\<lambda>sv. (case of_store (head_bucket bucket (sv_store sv)) of Inl e \<Rightarrow> Inl e | Inr _ \<Rightarrow> Inr (), sv))"

text \<open>The location constraint is never set.\<close>

definition s3_get_bucket_location ::
  "'f s3s_ext \<Rightarrow> s3_service \<Rightarrow> request \<Rightarrow> string \<Rightarrow> server \<Rightarrow> string option s3_result \<times> server" where
  "s3_get_bucket_location sx svc rq bucket =
     guarded sx svc rq 0 ''GetBucketLocation'' (Some bucket) None
       (\<lambda>sv. (case of_store (head_bucket bucket (sv_store sv)) of Inl e \<Rightarrow> Inl e | Inr _ \<Rightarrow> Inr None, sv))"

definition s3_get_bucket_versioning ::
  "'f s3s_ext \<Rightarrow> s3_service \<Rightarrow> request \<Rightarrow> string \<Rightarrow> server \<Rightarrow> string option s3_result \<times> server" where
  "s3_get_bucket_versioning sx svc rq bucket =
     guarded sx svc rq 0 ''GetBucketVersioning'' (Some bucket) None
       (\<lambda>sv. (case of_store (get_bucket_versioning bucket (sv_store sv)) of
           Inl e \<Rightarrow> Inl e
         | Inr status \<Rightarrow> Inr (map_option (\<lambda>on. if on then ''Enabled'' else ''Suspended'') status), sv))"

definition s3_put_bucket_versioning ::
  "'f s3s_ext \<Rightarrow> s3_service \<Rightarrow> request \<Rightarrow> string \<Rightarrow> string option \<Rightarrow> server \<Rightarrow> unit s3_result \<times> server" where
  "s3_put_bucket_versioning sx svc rq bucket status =
     guarded sx svc rq 0 ''PutBucketVersioning'' (Some bucket) None
       (\<lambda>sv. if status = Some ''Enabled'' then
               on_store (set_bucket_versioning bucket True) (\<lambda>_ sv. (Inr (), sv)) sv
             else if status = Some ''Suspended'' then
               on_store (set_bucket_versioning bucket False) (\<lambda>_ sv. (Inr (), sv)) sv
             else (Inl (s3_err ''InvalidArgument'' ''Versioning status must be Enabled or Suspended''), sv))"

section \<open>Bucket tags and CORS\<close>

type_synonym s3_tag = "string option \<times> string option"

definition s3_get_bucket_tagging ::
  "'f s3s_ext \<Rightarrow> s3_service \<Rightarrow> request \<Rightarrow> string \<Rightarrow> server \<Rightarrow> s3_tag list s3_result \<times> server" where
  "s3_get_bucket_tagging sx svc rq bucket =
     guarded sx svc rq 0 ''GetBucketTagging'' (Some bucket) None
       (\<lambda>sv. (case get_bucket_tagging (se_store sx) bucket (sv_store sv) of
           Inr (Some config) \<Rightarrow> Inr (map (\<lambda>t. (Some (tag_key t), Some (tag_value t))) (tc_tags config))
         | Inr None \<Rightarrow> Inl (s3_err ''NoSuchTagSet'' ''No tags configured'')
         | Inl e \<Rightarrow> Inl (to_s3_error e), sv))"

definition core_tag :: "s3_tag \<Rightarrow> tag" where
  "core_tag t = \<lparr>tag_key = (case fst t of Some k \<Rightarrow> k | None \<Rightarrow> []),
     tag_value = (case snd t of Some v \<Rightarrow> v | None \<Rightarrow> [])\<rparr>"

definition s3_put_bucket_tagging ::
  "'f s3s_ext \<Rightarrow> s3_service \<Rightarrow> request \<Rightarrow> string \<Rightarrow> s3_tag list \<Rightarrow> server \<Rightarrow> unit s3_result \<times> server" where
  "s3_put_bucket_tagging sx svc rq bucket tags =
     guarded sx svc rq 0 ''PutBucketTagging'' (Some bucket) None
       (on_store (put_bucket_tagging (se_store sx) bucket \<lparr>tc_tags = map core_tag tags\<rparr>) (\<lambda>_ sv. (Inr (), sv)))"

definition s3_delete_bucket_tagging ::
  "'f s3s_ext \<Rightarrow> s3_service \<Rightarrow> request \<Rightarrow> string \<Rightarrow> server \<Rightarrow> unit s3_result \<times> server" where
  "s3_delete_bucket_tagging sx svc rq bucket =
     guarded sx svc rq 0 ''DeleteBucketTagging'' (Some bucket) None
       (on_store (delete_bucket_tagging bucket) (\<lambda>_ sv. (Inr (), sv)))"

text \<open>A rule as the protocol has it: methods are texts, absent lists are absent.\<close>

record s3_cors_rule =
  scr_id :: "string option"
  scr_allowed_origins :: "string list"
  scr_allowed_methods :: "string list"
  scr_allowed_headers :: "string list option"
  scr_expose_headers :: "string list option"
  scr_max_age_seconds :: "u32 option"

definition list_opt :: "'a list \<Rightarrow> 'a list option" where
  "list_opt xs = (if xs = [] then None else Some xs)"

definition opt_list :: "'a list option \<Rightarrow> 'a list" where
  "opt_list xs = (case xs of None \<Rightarrow> [] | Some l \<Rightarrow> l)"

definition s3_rule_of_core :: "cors_rule \<Rightarrow> s3_cors_rule" where
  "s3_rule_of_core r =
     \<lparr>scr_id = cr_id r, scr_allowed_origins = cr_allowed_origins r,
      scr_allowed_methods = map cors_method_to_string (cr_allowed_methods r),
      scr_allowed_headers = list_opt (cr_allowed_headers r),
      scr_expose_headers = list_opt (cr_expose_headers r), scr_max_age_seconds = cr_max_age_seconds r\<rparr>"

text \<open>A method that does not parse is left out.\<close>

definition core_rule_of_s3 :: "s3_cors_rule \<Rightarrow> cors_rule" where
  "core_rule_of_s3 r =
     \<lparr>cr_id = scr_id r, cr_allowed_origins = scr_allowed_origins r,
      cr_allowed_methods = List.map_filter (\<lambda>m. case cors_method_from_str m of Inl _ \<Rightarrow> None | Inr c \<Rightarrow> Some c)
        (scr_allowed_methods r),
      cr_allowed_headers = opt_list (scr_allowed_headers r),
      cr_expose_headers = opt_list (scr_expose_headers r), cr_max_age_seconds = scr_max_age_seconds r\<rparr>"

definition s3_get_bucket_cors ::
  "'f s3s_ext \<Rightarrow> s3_service \<Rightarrow> request \<Rightarrow> string \<Rightarrow> server \<Rightarrow> s3_cors_rule list s3_result \<times> server" where
  "s3_get_bucket_cors sx svc rq bucket =
     guarded sx svc rq 0 ''GetBucketCors'' (Some bucket) None
       (\<lambda>sv. (case get_bucket_cors (se_store sx) bucket (sv_store sv) of
           Inr (Some config) \<Rightarrow> Inr (map s3_rule_of_core (cors_rules config))
         | Inr None \<Rightarrow> Inl (s3_err ''NoSuchCORSConfiguration'' ''CORS configuration not found'')
         | Inl e \<Rightarrow> Inl (to_s3_error e), sv))"

definition s3_put_bucket_cors ::
  "'f s3s_ext \<Rightarrow> s3_service \<Rightarrow> request \<Rightarrow> string \<Rightarrow> s3_cors_rule list \<Rightarrow> server \<Rightarrow> unit s3_result \<times> server" where
  "s3_put_bucket_cors sx svc rq bucket rules =
     guarded sx svc rq 0 ''PutBucketCors'' (Some bucket) None
       (on_store (put_bucket_cors (se_store sx) bucket \<lparr>cors_rules = map core_rule_of_s3 rules\<rparr>)
         (\<lambda>_ sv. (Inr (), sv)))"

definition s3_delete_bucket_cors ::
  "'f s3s_ext \<Rightarrow> s3_service \<Rightarrow> request \<Rightarrow> string \<Rightarrow> server \<Rightarrow> unit s3_result \<times> server" where
  "s3_delete_bucket_cors sx svc rq bucket =
     guarded sx svc rq 0 ''DeleteBucketCors'' (Some bucket) None
       (on_store (delete_bucket_cors bucket) (\<lambda>_ sv. (Inr (), sv)))"

end
