(* ===== verification/S3_Objects.thy ===== *)
theory S3_Objects
  imports S3_Service Multipart Listing Bucket_Config
begin

text \<open>
  \<^verbatim>\<open>strix-s3/src/service.rs\<close>, second part: the handlers of object, multipart, listing and
  configuration requests.

  The records are the inputs and outputs of the protocol, with the fields the handlers read
  or set. An \<^verbatim>\<open>i32\<close> of the protocol and the \<^verbatim>\<open>u32\<close> it is cast to are the same word; an
  error in a \<open>DeleteObjects\<close> reply carries the error value instead of its text.
\<close>

section \<open>Object tags\<close>

definition s3_get_object_tagging ::
  "'f s3s_ext \<Rightarrow> s3_service \<Rightarrow> request \<Rightarrow> string \<Rightarrow> string \<Rightarrow> string option \<Rightarrow> server \<Rightarrow>
     (s3_tag list \<times> string option) s3_result \<times> server" where
  "s3_get_object_tagging sx svc rq bucket key version_id =
     guarded sx svc rq 0 ''GetObjectTagging'' (Some bucket) (Some key)
       (\<lambda>sv. (case of_store (head_object (se_store sx) bucket key (sv_store sv)) of
           Inl e \<Rightarrow> Inl e
         | Inr info \<Rightarrow>
             (case decode_object_tags sx (oi_metadata info) of
                Inl e \<Rightarrow> Inl e
              | Inr tags \<Rightarrow> Inr (map (\<lambda>(k, v). (Some k, Some v)) tags, version_id)), sv))"

text \<open>Tags live in the metadata: changing them copies the object onto itself.\<close>

definition rewrite_metadata ::
  "'f s3s_ext \<Rightarrow> request \<Rightarrow> string \<Rightarrow> string \<Rightarrow> metadata \<Rightarrow> server \<Rightarrow> string option s3_result \<times> server" where
  "rewrite_metadata sx rq bucket key m =
     on_store (copy_object (se_store sx) (rq_clock rq 0) (rq_ulid rq 0) (rq_nonce rq) bucket key bucket key
         \<lparr>co_metadata_directive = ReplaceMetadata, co_metadata = m\<rparr>)
       (\<lambda>resp sv. (Inr (cor_version_id resp), sv))"

definition s3_put_object_tagging ::
  "'f s3s_ext \<Rightarrow> s3_service \<Rightarrow> request \<Rightarrow> string \<Rightarrow> string \<Rightarrow> s3_tag list \<Rightarrow> server \<Rightarrow>
     string option s3_result \<times> server" where
  "s3_put_object_tagging sx svc rq bucket key tag_set =
     guarded sx svc rq 0 ''PutObjectTagging'' (Some bucket) (Some key)
       (\<lambda>sv. case of_store (head_object (se_store sx) bucket key (sv_store sv)) of
           Inl e \<Rightarrow> (Inl e, sv)
         | Inr info \<Rightarrow>
             (case encode_object_tags tag_set of
                Inl e \<Rightarrow> (Inl e, sv)
              | Inr tags \<Rightarrow>
                  (case fst (object_tags_json sx) tags of
                     None \<Rightarrow> (Inl (s3_err ''InternalError'' ''Failed to encode object tags''), sv)
                   | Some text \<Rightarrow>
                       rewrite_metadata sx rq bucket key
                         ((oi_metadata info)(OBJECT_TAGS_METADATA_KEY \<mapsto> text)) sv)))"

definition s3_delete_object_tagging ::
  "'f s3s_ext \<Rightarrow> s3_service \<Rightarrow> request \<Rightarrow> string \<Rightarrow> string \<Rightarrow> server \<Rightarrow> string option s3_result \<times> server" where
  "s3_delete_object_tagging sx svc rq bucket key =
     guarded sx svc rq 0 ''DeleteObjectTagging'' (Some bucket) (Some key)
       (\<lambda>sv. case of_store (head_object (se_store sx) bucket key (sv_store sv)) of
           Inl e \<Rightarrow> (Inl e, sv)
         | Inr info \<Rightarrow>
             rewrite_metadata sx rq bucket key ((oi_metadata info)(OBJECT_TAGS_METADATA_KEY := None)) sv)"

section \<open>Reading objects\<close>

datatype s3_range = RangeInt u64 "u64 option" | RangeSuffix u64

record get_object_input =
  gin_range :: "s3_range option"
  gin_if_match :: "etag_condition option"
  gin_if_none_match :: "etag_condition option"
  gin_if_modified_since :: "instant option"
  gin_if_unmodified_since :: "instant option"
  gin_version_id :: "string option"
  gin_sse_customer_key :: "string option"
  gin_sse_customer_key_md5 :: "string option"

text \<open>Metadata that is empty is left out of the reply: the empty map here.\<close>

record head_object_output =
  ho_content_length :: nat
  ho_content_type :: "string option"
  ho_e_tag :: etag
  ho_last_modified :: nat
  ho_metadata :: metadata
  ho_storage_class :: string

record get_object_output = head_object_output +
  gout_body :: bytes
  gout_content_range :: "string option"

text \<open>A suffix range is ignored; the header stands in for a range that is absent or ignored.\<close>

definition requested_range :: "request \<Rightarrow> get_object_input \<Rightarrow> (u64 \<times> u64 option) option" where
  "requested_range rq input =
     (case (case gin_range input of Some (RangeInt first stop) \<Rightarrow> Some (first, stop) | _ \<Rightarrow> None) of
        Some r \<Rightarrow> Some r
      | None \<Rightarrow> Option.bind (rq_headers rq ''range'') parse_http_range_header)"

definition get_opts_of :: "request \<Rightarrow> get_object_input \<Rightarrow> get_object_opts" where
  "get_opts_of rq input =
     \<lparr>go_range = requested_range rq input,
      go_if_match = map_option dto_etag_condition (gin_if_match input),
      go_if_none_match = map_option dto_etag_condition (gin_if_none_match input),
      go_if_modified_since = map_option from_timestamp (gin_if_modified_since input),
      go_if_unmodified_since = map_option from_timestamp (gin_if_unmodified_since input),
      go_version_id = gin_version_id input, go_sse_customer_key = gin_sse_customer_key input,
      go_sse_customer_key_md5 = gin_sse_customer_key_md5 input\<rparr>"

text \<open>\<^verbatim>\<open>bytes start-end/size\<close>, the end saturating at \<^verbatim>\<open>u64::MAX\<close>.\<close>

definition content_range :: "nat \<Rightarrow> nat \<Rightarrow> nat \<Rightarrow> string" where
  "content_range start len full_size =
     ''bytes '' @ show_nat start @ ''-'' @ show_nat (min (start + (len - 1)) (2 ^ 64 - 1)) @ ''/''
       @ show_nat full_size"

definition head_output :: "'f s3s_ext \<Rightarrow> object_info \<Rightarrow> nat \<Rightarrow> head_object_output" where
  "head_output sx info content_len =
     \<lparr>ho_content_length = content_len,
      ho_content_type = Option.bind (oi_content_type info) (parse_mime sx),
      ho_e_tag = dto_etag sx (oi_etag info), ho_last_modified = to_timestamp (oi_last_modified info),
      ho_metadata = oi_metadata info,
      ho_storage_class = storage_class_to_string (oi_storage_class info)\<rparr>"

definition get_output ::
  "'f s3s_ext \<Rightarrow> object_info \<Rightarrow> bytes \<Rightarrow> (u64 \<times> u64 option) option \<Rightarrow> get_object_output" where
  "get_output sx info body requested =
     (case requested of
        Some (start, _) \<Rightarrow>
          head_object_output.extend (head_output sx info (length body))
            \<lparr>gout_body = body, gout_content_range = Some (content_range (unat start) (length body) (oi_size info))\<rparr>
      | None \<Rightarrow>
          head_object_output.extend (head_output sx info (oi_size info))
            \<lparr>gout_body = body, gout_content_range = None\<rparr>)"

definition s3_get_object ::
  "'f s3s_ext \<Rightarrow> s3_service \<Rightarrow> request \<Rightarrow> string \<Rightarrow> string \<Rightarrow> get_object_input \<Rightarrow> server \<Rightarrow>
     get_object_output s3_result \<times> server" where
  "s3_get_object sx svc rq bucket key input =
     guarded sx svc rq 0 ''GetObject'' (Some bucket) (Some key)
       (\<lambda>sv. (case of_store (get_object (se_store sx) bucket key (get_opts_of rq input) (sv_store sv)) of
           Inl e \<Rightarrow> Inl e
         | Inr (info, body) \<Rightarrow> Inr (get_output sx info body (requested_range rq input)), sv))"

definition s3_head_object ::
  "'f s3s_ext \<Rightarrow> s3_service \<Rightarrow> request \<Rightarrow> string \<Rightarrow> string \<Rightarrow> server \<Rightarrow> head_object_output s3_result \<times> server" where
  "s3_head_object sx svc rq bucket key =
     guarded sx svc rq 0 ''HeadObject'' (Some bucket) (Some key)
       (\<lambda>sv. (case of_store (head_object (se_store sx) bucket key (sv_store sv)) of
           Inl e \<Rightarrow> Inl e
         | Inr info \<Rightarrow> Inr (head_output sx info (oi_size info)), sv))"

section \<open>Writing objects\<close>

record put_object_input =
  pin_body :: "(bytes, string) result list option"
  pin_content_length :: "u64 option"
  pin_content_type :: "string option"
  pin_content_encoding :: "string option"
  pin_content_disposition :: "string option"
  pin_cache_control :: "string option"
  pin_metadata :: "metadata option"
  pin_storage_class :: "string option"
  pin_server_side_encryption :: "string option"
  pin_sse_customer_algorithm :: "string option"
  pin_sse_customer_key :: "string option"
  pin_sse_customer_key_md5 :: "string option"

definition storage_class_of_header :: "string \<Rightarrow> storage_class" where
  "storage_class_of_header s =
     (if s = ''REDUCED_REDUNDANCY'' then ReducedRedundancy
      else if s = ''GLACIER'' then Glacier
      else if s = ''DEEP_ARCHIVE'' then DeepArchive
      else Standard)"

text \<open>A single put knows only SSE-S3; the start of a multipart upload also knows SSE-C.\<close>

definition put_encryption :: "put_object_input \<Rightarrow> server_side_encryption option" where
  "put_encryption input = (if pin_server_side_encryption input = Some ''AES256'' then Some Aes256 else None)"

definition multipart_encryption :: "put_object_input \<Rightarrow> server_side_encryption option" where
  "multipart_encryption input =
     (if pin_server_side_encryption input = Some ''AES256'' then Some Aes256
      else if pin_sse_customer_algorithm input = Some ''AES256'' \<or> pin_sse_customer_key input \<noteq> None
          \<or> pin_sse_customer_key_md5 input \<noteq> None then Some SseC
      else None)"

definition put_opts_of :: "server_side_encryption option \<Rightarrow> put_object_input \<Rightarrow> put_object_opts" where
  "put_opts_of encryption input =
     \<lparr>po_content_type = pin_content_type input, po_content_encoding = pin_content_encoding input,
      po_content_disposition = pin_content_disposition input, po_cache_control = pin_cache_control input,
      po_metadata = (case pin_metadata input of Some m \<Rightarrow> m | None \<Rightarrow> Map.empty),
      po_storage_class = map_option storage_class_of_header (pin_storage_class input),
      po_server_side_encryption = encryption, po_sse_customer_key = pin_sse_customer_key input,
      po_sse_customer_key_md5 = pin_sse_customer_key_md5 input\<rparr>"

definition request_event ::
  "request \<Rightarrow> s3_event_type \<Rightarrow> string \<Rightarrow> string \<Rightarrow> u64 option \<Rightarrow> string option \<Rightarrow> string option \<Rightarrow> s3_event" where
  "request_event rq type bucket key sz etag version_id =
     \<lparr>ev_event_type = type, ev_bucket = bucket, ev_key = key, ev_size = sz, ev_etag = etag,
      ev_version_id = version_id, ev_request_id = ac_request_id (request_audit_context rq),
      ev_source_ip = ac_source_ip (request_audit_context rq)\<rparr>"

definition s3_put_object ::
  "'f s3s_ext \<Rightarrow> s3_service \<Rightarrow> request \<Rightarrow> string \<Rightarrow> string \<Rightarrow> put_object_input \<Rightarrow> server \<Rightarrow>
     (etag \<times> string option) s3_result \<times> server" where
  "s3_put_object sx svc rq bucket key input =
     guarded sx svc rq 0 ''PutObject'' (Some bucket) (Some key)
       (\<lambda>sv. case pin_body input of
           None \<Rightarrow> (Inl (s3_err ''InvalidRequest'' ''Missing body''), sv)
         | Some body \<Rightarrow>
             let content_len = (case pin_content_length input of Some n \<Rightarrow> n | None \<Rightarrow> 0) in
             on_store (put_object (se_store sx) (rq_clock rq 0) (rq_ulid rq 0) (rq_nonce rq) bucket key body
                 (put_opts_of (put_encryption input) input))
               (\<lambda>resp sv. (Inr (dto_etag sx (por_etag resp), por_version_id resp),
                  emit_event (request_event rq ObjectCreatedPut bucket key (Some content_len)
                    (Some (por_etag resp)) (por_version_id resp)) sv)) sv)"

datatype copy_source = FromBucket string string "string option" | FromAccessPoint | FromOutpost

text \<open>The source is written as \<^verbatim>\<open>bucket/key\<close> and split again at the first slash.\<close>

definition s3_copy_object ::
  "'f s3s_ext \<Rightarrow> s3_service \<Rightarrow> request \<Rightarrow> string \<Rightarrow> string \<Rightarrow> copy_source \<Rightarrow> string option \<Rightarrow>
     metadata option \<Rightarrow> server \<Rightarrow> (etag \<times> nat) s3_result \<times> server" where
  "s3_copy_object sx svc rq bucket key source directive metadata =
     guarded sx svc rq 0 ''PutObject'' (Some bucket) (Some key)
       (\<lambda>sv. case source of
           FromAccessPoint \<Rightarrow> (Inl (s3_err ''InvalidArgument'' ''Access point not supported''), sv)
         | FromOutpost \<Rightarrow> (Inl (s3_err ''InvalidArgument'' ''Outpost copy source not supported''), sv)
         | FromBucket source_bucket source_key _ \<Rightarrow>
             (case split_once (CHR ''/'') (source_bucket @ ''/'' @ source_key) of
                None \<Rightarrow> (Inl (s3_err ''InvalidArgument'' ''Invalid copy source format''), sv)
              | Some (src_bucket, src_key) \<Rightarrow>
                  guarded sx svc rq 1 ''GetObject'' (Some src_bucket) (Some src_key)
                    (on_store (copy_object (se_store sx) (rq_clock rq 0) (rq_ulid rq 0) (rq_nonce rq)
                        src_bucket src_key bucket key
                        \<lparr>co_metadata_directive =
                           (if directive = Some ''REPLACE'' then ReplaceMetadata else CopyMetadata),
                         co_metadata = (case metadata of Some m \<Rightarrow> m | None \<Rightarrow> Map.empty)\<rparr>)
                      (\<lambda>resp sv. (Inr (dto_etag sx (cor_etag resp), to_timestamp (cor_last_modified resp)),
                         emit_event (request_event rq ObjectCreatedCopy bucket key None
                           (Some (cor_etag resp)) None) sv))) sv))"

section \<open>Deleting objects\<close>

definition s3_delete_object ::
  "'f s3s_ext \<Rightarrow> s3_service \<Rightarrow> request \<Rightarrow> string \<Rightarrow> string \<Rightarrow> string option \<Rightarrow> server \<Rightarrow>
     delete_object_response s3_result \<times> server" where
  "s3_delete_object sx svc rq bucket key version_id =
     guarded sx svc rq 0 ''DeleteObject'' (Some bucket) (Some key)
       (on_store (delete_object_version (rq_clock rq 0) (rq_ulid rq 0) bucket key version_id)
         (\<lambda>resp sv. (Inr resp,
            emit_event (request_event rq
                (if dor_delete_marker resp then ObjectRemovedDeleteMarkerCreated else ObjectRemovedDelete)
                bucket key None None (dor_version_id resp))
              (log_success sx svc rq ''DeleteObject'' (Some bucket) (Some key) sv))))"

record delete_failure =
  df_key :: string
  df_version_id :: "string option"
  df_code :: string
  df_error :: "s3_error + strix_error"

text \<open>The loop over the keys; \<open>n\<close> numbers the keys. No events are emitted.\<close>

fun delete_keys ::
  "'f s3s_ext \<Rightarrow> s3_service \<Rightarrow> request \<Rightarrow> string \<Rightarrow> nat \<Rightarrow> (string \<times> string option) list \<Rightarrow>
     (string \<times> string option) list \<Rightarrow> delete_failure list \<Rightarrow> server \<Rightarrow>
     ((string \<times> string option) list \<times> delete_failure list) \<times> server" where
  "delete_keys sx svc rq bucket n [] deleted errors sv = ((deleted, errors), sv)"
| "delete_keys sx svc rq bucket n ((key, version_id) # rest) deleted errors sv =
     (case authorize sx svc rq (Suc n) ''DeleteObject'' (Some bucket) (Some key) sv of
        (Inl e, sv1) \<Rightarrow>
          delete_keys sx svc rq bucket (Suc n) rest deleted
            (errors @ [\<lparr>df_key = key, df_version_id = version_id, df_code = ''AccessDenied'', df_error = Inl e\<rparr>]) sv1
      | (Inr _, sv1) \<Rightarrow>
          (case delete_object_version (rq_clock rq n) (rq_ulid rq n) bucket key version_id (sv_store sv1) of
             (Inl e, s) \<Rightarrow>
               delete_keys sx svc rq bucket (Suc n) rest deleted
                 (errors @ [\<lparr>df_key = key, df_version_id = None, df_code = ''InternalError'', df_error = Inr e\<rparr>])
                 (sv1\<lparr>sv_store := s\<rparr>)
           | (Inr _, s) \<Rightarrow>
               delete_keys sx svc rq bucket (Suc n) rest (deleted @ [(key, version_id)]) errors
                 (sv1\<lparr>sv_store := s\<rparr>)))"

definition s3_delete_objects ::
  "'f s3s_ext \<Rightarrow> s3_service \<Rightarrow> request \<Rightarrow> string \<Rightarrow> (string \<times> string option) list \<Rightarrow> server \<Rightarrow>
     ((string \<times> string option) list option \<times> delete_failure list option) s3_result \<times> server" where
  "s3_delete_objects sx svc rq bucket objs =
     guarded sx svc rq 0 ''DeleteObjects'' (Some bucket) None
       (\<lambda>sv. let ((deleted, errors), sv') = delete_keys sx svc rq bucket 0 objs [] [] sv
             in (Inr (list_opt deleted, list_opt errors), sv'))"

end
