(* ===== verification/S3_Uploads.thy ===== *)
theory S3_Uploads
  imports S3_Objects
begin

text \<open>
  \<^verbatim>\<open>strix-s3/src/service.rs\<close>, third part: the handlers of multipart uploads and of listings.
  An \<^verbatim>\<open>i32\<close> of the protocol is a 32-bit word; cast to \<^verbatim>\<open>u16\<close> it loses its upper half.
\<close>

section \<open>Multipart uploads\<close>

definition upload_handle :: "request \<Rightarrow> string \<Rightarrow> string \<Rightarrow> string \<Rightarrow> multipart_upload" where
  "upload_handle rq bucket key upload_id =
     \<lparr>mu_upload_id = upload_id, mu_bucket = bucket, mu_key = key, mu_initiated = rq_now rq\<rparr>"

definition s3_create_multipart_upload ::
  "'f s3s_ext \<Rightarrow> s3_service \<Rightarrow> request \<Rightarrow> string \<Rightarrow> string \<Rightarrow> put_object_input \<Rightarrow> server \<Rightarrow>
     multipart_upload s3_result \<times> server" where
  "s3_create_multipart_upload sx svc rq bucket key input =
     guarded sx svc rq 0 ''PutObject'' (Some bucket) (Some key)
       (on_store (create_multipart_upload (se_store sx) (rq_clock rq 0) (rq_ulid rq 0) bucket key
           (put_opts_of (multipart_encryption input) input))
         (\<lambda>upload sv. (Inr upload, sv)))"

definition s3_upload_part ::
  "'f s3s_ext \<Rightarrow> s3_service \<Rightarrow> request \<Rightarrow> string \<Rightarrow> string \<Rightarrow> string \<Rightarrow> u32 \<Rightarrow>
     (bytes, string) result list option \<Rightarrow> server \<Rightarrow> etag s3_result \<times> server" where
  "s3_upload_part sx svc rq bucket key upload_id part_number body =
     guarded sx svc rq 0 ''PutObject'' (Some bucket) (Some key)
       (\<lambda>sv. case body of
           None \<Rightarrow> (Inl (s3_err ''InvalidRequest'' ''Missing body''), sv)
         | Some chunks \<Rightarrow>
             on_store (upload_part (se_store sx) (rq_clock rq 0) (rq_ulid rq 0)
                 (upload_handle rq bucket key upload_id) (ucast part_number) chunks)
               (\<lambda>part sv. (Inr (dto_etag sx (pi_etag part)), sv)) sv)"

definition copy_part_opts ::
  "(u64 \<times> u64 option) option \<Rightarrow> string option \<Rightarrow> string option \<Rightarrow> string option \<Rightarrow> get_object_opts" where
  "copy_part_opts spec version_id sse_key sse_md5 =
     \<lparr>go_range = spec, go_if_match = None, go_if_none_match = None, go_if_modified_since = None,
      go_if_unmodified_since = None, go_version_id = version_id, go_sse_customer_key = sse_key,
      go_sse_customer_key_md5 = sse_md5\<rparr>"

definition optional_copy_range :: "string option \<Rightarrow> (u64 \<times> u64 option) option s3_result" where
  "optional_copy_range header =
     (case header of
        None \<Rightarrow> Inr None
      | Some h \<Rightarrow> (case parse_copy_source_range h of Inl e \<Rightarrow> Inl e | Inr r \<Rightarrow> Inr (Some r)))"

definition s3_upload_part_copy ::
  "'f s3s_ext \<Rightarrow> s3_service \<Rightarrow> request \<Rightarrow> string \<Rightarrow> string \<Rightarrow> string \<Rightarrow> u32 \<Rightarrow> copy_source \<Rightarrow> string option \<Rightarrow>
     string option \<Rightarrow> string option \<Rightarrow> server \<Rightarrow> (etag \<times> nat) s3_result \<times> server" where
  "s3_upload_part_copy sx svc rq bucket key upload_id part_number source header sse_key sse_md5 =
     guarded sx svc rq 0 ''PutObject'' (Some bucket) (Some key)
       (\<lambda>sv. case source of
           FromAccessPoint \<Rightarrow> (Inl (s3_err ''InvalidArgument'' ''Access point copy source not supported''), sv)
         | FromOutpost \<Rightarrow> (Inl (s3_err ''InvalidArgument'' ''Outpost copy source not supported''), sv)
         | FromBucket src_bucket src_key src_version_id \<Rightarrow>
             guarded sx svc rq 1 ''GetObject'' (Some src_bucket) (Some src_key)
               (\<lambda>sv. case optional_copy_range header of
                   Inl e \<Rightarrow> (Inl e, sv)
                 | Inr spec \<Rightarrow>
                     (case of_store (get_object (se_store sx) src_bucket src_key
                         (copy_part_opts spec src_version_id sse_key sse_md5) (sv_store sv)) of
                        Inl e \<Rightarrow> (Inl e, sv)
                      | Inr (_, data) \<Rightarrow>
                          on_store (upload_part (se_store sx) (rq_clock rq 0) (rq_ulid rq 0)
                              (upload_handle rq bucket key upload_id) (ucast part_number) [Inr data])
                            (\<lambda>part sv. (Inr (dto_etag sx (pi_etag part), to_timestamp (pi_last_modified part)), sv))
                            sv)) sv)"

definition complete_part_of :: "u32 option \<times> etag option \<Rightarrow> complete_part" where
  "complete_part_of p =
     \<lparr>cp_part_number = ucast (case fst p of Some n \<Rightarrow> n | None \<Rightarrow> 0),
      cp_etag = (case snd p of Some t \<Rightarrow> etag_value t | None \<Rightarrow> [])\<rparr>"

definition s3_complete_multipart_upload ::
  "'f s3s_ext \<Rightarrow> s3_service \<Rightarrow> request \<Rightarrow> string \<Rightarrow> string \<Rightarrow> string \<Rightarrow>
     (u32 option \<times> etag option) list option \<Rightarrow> server \<Rightarrow> (etag \<times> string option) s3_result \<times> server" where
  "s3_complete_multipart_upload sx svc rq bucket key upload_id ps =
     guarded sx svc rq 0 ''PutObject'' (Some bucket) (Some key)
       (on_store (complete_multipart_upload (se_store sx) (rq_clock rq 0) (rq_ulid rq 0) (rq_nonce rq)
           (upload_handle rq bucket key upload_id) (map complete_part_of (opt_list ps)))
         (\<lambda>resp sv. (Inr (dto_etag sx (por_etag resp), por_version_id resp),
            emit_event (request_event rq ObjectCreatedCompleteMultipartUpload bucket key None
              (Some (por_etag resp)) (por_version_id resp)) sv)))"

definition s3_abort_multipart_upload ::
  "'f s3s_ext \<Rightarrow> s3_service \<Rightarrow> request \<Rightarrow> string \<Rightarrow> string \<Rightarrow> string \<Rightarrow> server \<Rightarrow> unit s3_result \<times> server" where
  "s3_abort_multipart_upload sx svc rq bucket key upload_id =
     guarded sx svc rq 0 ''AbortMultipartUpload'' (Some bucket) (Some key)
       (on_store (abort_multipart_upload (upload_handle rq bucket key upload_id)) (\<lambda>_ sv. (Inr (), sv)))"

record part_output =
  pao_part_number :: u32
  pao_e_tag :: etag
  pao_size :: nat
  pao_last_modified :: nat

record list_parts_output =
  lpo_max_parts :: u32
  lpo_is_truncated :: bool
  lpo_next_part_number_marker :: "u32 option"
  lpo_parts :: "part_output list"

text \<open>\<^verbatim>\<open>u16::try_from\<close> of an \<^verbatim>\<open>i32\<close>: a negative or too large marker is no marker.\<close>

definition part_marker :: "u32 option \<Rightarrow> u16 option" where
  "part_marker m = Option.bind m (\<lambda>n. if n < 65536 then Some (ucast n) else None)"

definition s3_list_parts ::
  "'f s3s_ext \<Rightarrow> s3_service \<Rightarrow> request \<Rightarrow> string \<Rightarrow> string \<Rightarrow> string \<Rightarrow> u32 option \<Rightarrow> u32 option \<Rightarrow>
     server \<Rightarrow> list_parts_output s3_result \<times> server" where
  "s3_list_parts sx svc rq bucket key upload_id part_number_marker max_parts_opt =
     guarded sx svc rq 0 ''ListParts'' (Some bucket) (Some key)
       (\<lambda>sv. let max_parts = (case max_parts_opt of Some n \<Rightarrow> n | None \<Rightarrow> 1000);
                 resp = list_parts (upload_handle rq bucket key upload_id)
                   \<lparr>lp_max_parts = Some max_parts, lp_part_number_marker = part_marker part_number_marker\<rparr>
                   (sv_store sv)
             in (Inr \<lparr>lpo_max_parts = max_parts, lpo_is_truncated = lpr_is_truncated resp,
                   lpo_next_part_number_marker = map_option ucast (lpr_next_part_number_marker resp),
                   lpo_parts = map (\<lambda>p. \<lparr>pao_part_number = ucast (pi_part_number p),
                     pao_e_tag = dto_etag sx (pi_etag p), pao_size = pi_size p,
                     pao_last_modified = to_timestamp (pi_last_modified p)\<rparr>) (lpr_parts resp)\<rparr>, sv))"

record list_uploads_output =
  luo_max_uploads :: u32
  luo_is_truncated :: bool
  luo_next_key_marker :: "string option"
  luo_next_upload_id_marker :: "string option"
  luo_uploads :: "(string \<times> string \<times> nat) list"
  luo_common_prefixes :: "string list option"

definition s3_list_multipart_uploads ::
  "'f s3s_ext \<Rightarrow> s3_service \<Rightarrow> request \<Rightarrow> string \<Rightarrow> list_uploads_opts \<Rightarrow> server \<Rightarrow>
     list_uploads_output s3_result \<times> server" where
  "s3_list_multipart_uploads sx svc rq bucket opts =
     guarded sx svc rq 0 ''ListMultipartUploads'' (Some bucket) None
       (\<lambda>sv. (case of_store (list_multipart_uploads bucket opts (sv_store sv)) of
           Inl e \<Rightarrow> Inl e
         | Inr resp \<Rightarrow>
             Inr \<lparr>luo_max_uploads = (case lu_max_uploads opts of Some n \<Rightarrow> n | None \<Rightarrow> 1000),
               luo_is_truncated = lur_is_truncated resp, luo_next_key_marker = lur_next_key_marker resp,
               luo_next_upload_id_marker = lur_next_upload_id_marker resp,
               luo_uploads = map (\<lambda>u. (mu_upload_id u, mu_key u, to_timestamp (mu_initiated u))) (lur_uploads resp),
               luo_common_prefixes = list_opt (lur_common_prefixes resp)\<rparr>, sv))"

section \<open>Listings\<close>

record object_output =
  obo_key :: string
  obo_size :: nat
  obo_e_tag :: etag
  obo_last_modified :: nat
  obo_storage_class :: string

definition object_of_info :: "'f s3s_ext \<Rightarrow> object_info \<Rightarrow> object_output" where
  "object_of_info sx info =
     \<lparr>obo_key = oi_key info, obo_size = oi_size info, obo_e_tag = dto_etag sx (oi_etag info),
      obo_last_modified = to_timestamp (oi_last_modified info),
      obo_storage_class = storage_class_to_string (oi_storage_class info)\<rparr>"

record list_objects_output =
  loo_max_keys :: u32
  loo_is_truncated :: bool
  loo_next_marker :: "string option"
  loo_key_count :: "u32 option"
  loo_contents :: "object_output list"
  loo_common_prefixes :: "string list option"

definition list_output ::
  "'f s3s_ext \<Rightarrow> u32 option \<Rightarrow> u32 option \<Rightarrow> list_objects_response \<Rightarrow> list_objects_output" where
  "list_output sx max_keys key_count resp =
     \<lparr>loo_max_keys = (case max_keys of Some n \<Rightarrow> n | None \<Rightarrow> 1000), loo_is_truncated = lor_is_truncated resp,
      loo_next_marker = lor_next_continuation_token resp, loo_key_count = key_count,
      loo_contents = map (object_of_info sx) (lor_objects resp),
      loo_common_prefixes = list_opt (lor_common_prefixes resp)\<rparr>"

text \<open>The marker of the first version is where to start after; the reply has no key count.\<close>

definition s3_list_objects ::
  "'f s3s_ext \<Rightarrow> s3_service \<Rightarrow> request \<Rightarrow> string \<Rightarrow> string option \<Rightarrow> string option \<Rightarrow> u32 option \<Rightarrow>
     string option \<Rightarrow> server \<Rightarrow> list_objects_output s3_result \<times> server" where
  "s3_list_objects sx svc rq bucket pfx delimiter max_keys marker =
     guarded sx svc rq 0 ''ListObjects'' (Some bucket) None
       (\<lambda>sv. (case of_store (list_objects (se_store sx) bucket
             \<lparr>lo_prefix = pfx, lo_delimiter = delimiter, lo_max_keys = max_keys,
              lo_continuation_token = None, lo_start_after = marker\<rparr> (sv_store sv)) of
           Inl e \<Rightarrow> Inl e
         | Inr resp \<Rightarrow> Inr (list_output sx max_keys None resp), sv))"

definition s3_list_objects_v2 ::
  "'f s3s_ext \<Rightarrow> s3_service \<Rightarrow> request \<Rightarrow> string \<Rightarrow> list_objects_opts \<Rightarrow> server \<Rightarrow>
     list_objects_output s3_result \<times> server" where
  "s3_list_objects_v2 sx svc rq bucket opts =
     guarded sx svc rq 0 ''ListObjectsV2'' (Some bucket) None
       (\<lambda>sv. (case of_store (list_objects (se_store sx) bucket opts (sv_store sv)) of
           Inl e \<Rightarrow> Inl e
         | Inr resp \<Rightarrow>
             Inr (list_output sx (lo_max_keys opts) (Some (word_of_nat (length (lor_objects resp)))) resp), sv))"

record version_output =
  vo_e_tag :: "etag option"
  vo_is_latest :: bool
  vo_key :: string
  vo_last_modified :: nat
  vo_size :: "nat option"
  vo_storage_class :: "string option"
  vo_version_id :: string

record marker_output =
  mo_is_latest :: bool
  mo_key :: string
  mo_last_modified :: nat
  mo_version_id :: string

record list_versions_output =
  lvo_max_keys :: u32
  lvo_is_truncated :: bool
  lvo_next_key_marker :: "string option"
  lvo_next_version_id_marker :: "string option"
  lvo_versions :: "version_output list option"
  lvo_delete_markers :: "marker_output list option"
  lvo_common_prefixes :: "string list option"

definition version_output_of :: "'f s3s_ext \<Rightarrow> object_version \<Rightarrow> version_output" where
  "version_output_of sx v =
     \<lparr>vo_e_tag = map_option (dto_etag sx) (ov_etag v), vo_is_latest = ov_is_latest v, vo_key = ov_key v,
      vo_last_modified = to_timestamp (ov_last_modified v), vo_size = ov_size v,
      vo_storage_class = map_option storage_class_to_string (ov_storage_class v),
      vo_version_id = ov_version_id v\<rparr>"

definition marker_output_of :: "object_version \<Rightarrow> marker_output" where
  "marker_output_of v =
     \<lparr>mo_is_latest = ov_is_latest v, mo_key = ov_key v, mo_last_modified = to_timestamp (ov_last_modified v),
      mo_version_id = ov_version_id v\<rparr>"

definition s3_list_object_versions ::
  "'f s3s_ext \<Rightarrow> s3_service \<Rightarrow> request \<Rightarrow> string \<Rightarrow> list_versions_opts \<Rightarrow> server \<Rightarrow>
     list_versions_output s3_result \<times> server" where
  "s3_list_object_versions sx svc rq bucket opts =
     guarded sx svc rq 0 ''ListObjectVersions'' (Some bucket) None
       (\<lambda>sv. (case of_store (list_object_versions bucket opts (sv_store sv)) of
           Inl e \<Rightarrow> Inl e
         | Inr resp \<Rightarrow>
             Inr \<lparr>lvo_max_keys = (case lv_max_keys opts of Some n \<Rightarrow> n | None \<Rightarrow> 1000),
               lvo_is_truncated = lvr_is_truncated resp, lvo_next_key_marker = lvr_next_key_marker resp,
               lvo_next_version_id_marker = lvr_next_version_id_marker resp,
               lvo_versions = list_opt (map (version_output_of sx) (lvr_versions resp)),
               lvo_delete_markers = list_opt (map marker_output_of (lvr_delete_markers resp)),
               lvo_common_prefixes = list_opt (lvr_common_prefixes resp)\<rparr>, sv))"

end
