(* ===== verification/S3_Rules.thy ===== *)
theory S3_Rules
  imports S3_Uploads
begin

text \<open>
  \<^verbatim>\<open>strix-s3/src/service.rs\<close>, fourth part: the handlers of lifecycle rules, object lock,
  retention, legal hold and notifications. Dates and filters of lifecycle rules are read by
  no handler.
\<close>

section \<open>Lifecycle rules\<close>

record s3_lifecycle_expiration =
  sle_days :: "u32 option"
  sle_expired_object_delete_marker :: "bool option"

record s3_transition =
  stn_days :: "u32 option"
  stn_storage_class :: "string option"

record s3_lifecycle_rule =
  slr_id :: "string option"
  slr_status :: string
  slr_prefix :: "string option"
  slr_filter_prefix :: "string option"
  slr_expiration :: "s3_lifecycle_expiration option"
  slr_transitions :: "s3_transition list option"
  slr_noncurrent :: "(u32 option \<times> u32 option) option"
  slr_abort_days :: "u32 option option"

definition s3_lifecycle_of_core :: "lifecycle_rule \<Rightarrow> s3_lifecycle_rule" where
  "s3_lifecycle_of_core r =
     \<lparr>slr_id = Some (lr_id r), slr_status = (if lr_enabled r then ''Enabled'' else ''Disabled''),
      slr_prefix = lr_prefix r, slr_filter_prefix = None,
      slr_expiration = map_option (\<lambda>e. \<lparr>sle_days = le_days e,
        sle_expired_object_delete_marker = Some (le_expired_object_delete_marker e)\<rparr>) (lr_expiration r),
      slr_transitions = list_opt (map (\<lambda>t. \<lparr>stn_days = lt_days t,
        stn_storage_class = Some (storage_class_to_string (lt_storage_class t))\<rparr>) (lr_transitions r)),
      slr_noncurrent = map_option (\<lambda>n. (Some (nve_noncurrent_days n), nve_newer_noncurrent_versions n))
        (lr_noncurrent_version_expiration r),
      slr_abort_days = map_option (\<lambda>a. Some (aim_days_after_initiation a))
        (lr_abort_incomplete_multipart_upload r)\<rparr>"

definition transition_class :: "string option \<Rightarrow> storage_class" where
  "transition_class c =
     (case c of
        None \<Rightarrow> Standard
      | Some s \<Rightarrow> if s = ''GLACIER'' then Glacier else if s = ''DEEP_ARCHIVE'' then DeepArchive else Standard)"

definition core_lifecycle_of_s3 :: "s3_lifecycle_rule \<Rightarrow> lifecycle_rule" where
  "core_lifecycle_of_s3 r =
     \<lparr>lr_id = (case slr_id r of Some i \<Rightarrow> i | None \<Rightarrow> []), lr_enabled = (slr_status r = ''Enabled''),
      lr_prefix = slr_prefix r, lr_tags = [],
      lr_expiration = map_option (\<lambda>e. \<lparr>le_days = sle_days e, le_date = None,
        le_expired_object_delete_marker =
          (case sle_expired_object_delete_marker e of Some b \<Rightarrow> b | None \<Rightarrow> False)\<rparr>) (slr_expiration r),
      lr_transitions = map (\<lambda>t. \<lparr>lt_days = stn_days t, lt_date = None,
        lt_storage_class = transition_class (stn_storage_class t)\<rparr>) (opt_list (slr_transitions r)),
      lr_noncurrent_version_expiration = Option.bind (slr_noncurrent r) (\<lambda>(days, newer).
        map_option (\<lambda>d. \<lparr>nve_noncurrent_days = d, nve_newer_noncurrent_versions = newer\<rparr>) days),
      lr_abort_incomplete_multipart_upload = Option.bind (slr_abort_days r)
        (map_option (\<lambda>d. \<lparr>aim_days_after_initiation = d\<rparr>))\<rparr>"

definition s3_get_bucket_lifecycle_configuration ::
  "'f s3s_ext \<Rightarrow> s3_service \<Rightarrow> request \<Rightarrow> string \<Rightarrow> server \<Rightarrow> s3_lifecycle_rule list s3_result \<times> server" where
  "s3_get_bucket_lifecycle_configuration sx svc rq bucket =
     guarded sx svc rq 0 ''GetBucketLifecycleConfiguration'' (Some bucket) None
       (\<lambda>sv. (case get_bucket_lifecycle (se_store sx) bucket (sv_store sv) of
           Inr (Some config) \<Rightarrow> Inr (map s3_lifecycle_of_core (lifecycle_rules config))
         | Inr None \<Rightarrow> Inl (s3_err ''NoSuchLifecycleConfiguration'' ''Lifecycle configuration not found'')
         | Inl e \<Rightarrow> Inl (to_s3_error e), sv))"

definition s3_put_bucket_lifecycle_configuration ::
  "'f s3s_ext \<Rightarrow> s3_service \<Rightarrow> request \<Rightarrow> string \<Rightarrow> s3_lifecycle_rule list option \<Rightarrow> server \<Rightarrow>
     unit s3_result \<times> server" where
  "s3_put_bucket_lifecycle_configuration sx svc rq bucket rules =
     guarded sx svc rq 0 ''PutBucketLifecycleConfiguration'' (Some bucket) None
       (on_store (put_bucket_lifecycle (se_store sx) bucket
           \<lparr>lifecycle_rules = map core_lifecycle_of_s3 (opt_list rules)\<rparr>) (\<lambda>_ sv. (Inr (), sv)))"

definition s3_delete_bucket_lifecycle ::
  "'f s3s_ext \<Rightarrow> s3_service \<Rightarrow> request \<Rightarrow> string \<Rightarrow> server \<Rightarrow> unit s3_result \<times> server" where
  "s3_delete_bucket_lifecycle sx svc rq bucket =
     guarded sx svc rq 0 ''DeleteBucketLifecycle'' (Some bucket) None
       (on_store (delete_bucket_lifecycle bucket) (\<lambda>_ sv. (Inr (), sv)))"

section \<open>Object lock\<close>

record s3_default_retention =
  sdr_mode :: "string option"
  sdr_days :: "u32 option"
  sdr_years :: "u32 option"

definition retention_mode_of_header :: "string option \<Rightarrow> retention_mode" where
  "retention_mode_of_header m = (if m = Some ''COMPLIANCE'' then Compliance else Governance)"

text \<open>The reply says \<^verbatim>\<open>Enabled\<close> whatever is stored; a rule without a default is no rule.\<close>

definition s3_get_object_lock_configuration ::
  "'f s3s_ext \<Rightarrow> s3_service \<Rightarrow> request \<Rightarrow> string \<Rightarrow> server \<Rightarrow>
     (string \<times> s3_default_retention option) s3_result \<times> server" where
  "s3_get_object_lock_configuration sx svc rq bucket =
     guarded sx svc rq 0 ''GetObjectLockConfiguration'' (Some bucket) None
       (\<lambda>sv. (case get_object_lock_configuration (se_store sx) bucket (sv_store sv) of
           Inr (Some config) \<Rightarrow> Inr (''Enabled'', map_option (\<lambda>dr.
             \<lparr>sdr_mode = Some (retention_mode_to_string (dr_mode dr)), sdr_days = dr_days dr,
              sdr_years = dr_years dr\<rparr>) (Option.bind (olc_rule config) olr_default_retention))
         | Inr None \<Rightarrow>
             Inl (s3_err ''ObjectLockConfigurationNotFoundError'' ''Object lock configuration not found'')
         | Inl e \<Rightarrow> Inl (to_s3_error e), sv))"

text \<open>The input is the default retention below the optional configuration and rule.\<close>

definition s3_put_object_lock_configuration ::
  "'f s3s_ext \<Rightarrow> s3_service \<Rightarrow> request \<Rightarrow> string \<Rightarrow> s3_default_retention option \<Rightarrow> server \<Rightarrow>
     unit s3_result \<times> server" where
  "s3_put_object_lock_configuration sx svc rq bucket default_ret =
     guarded sx svc rq 0 ''PutObjectLockConfiguration'' (Some bucket) None
       (on_store (put_object_lock_configuration (se_store sx) bucket
           \<lparr>olc_enabled = True,
            olc_rule = map_option (\<lambda>dr. \<lparr>olr_default_retention =
              Some \<lparr>dr_mode = retention_mode_of_header (sdr_mode dr), dr_days = sdr_days dr,
                dr_years = sdr_years dr\<rparr>\<rparr>) default_ret\<rparr>)
         (\<lambda>_ sv. (Inr (), sv)))"

definition s3_get_object_retention ::
  "'f s3s_ext \<Rightarrow> s3_service \<Rightarrow> request \<Rightarrow> string \<Rightarrow> string \<Rightarrow> string option \<Rightarrow> server \<Rightarrow>
     (string \<times> nat) s3_result \<times> server" where
  "s3_get_object_retention sx svc rq bucket key version_id =
     guarded sx svc rq 0 ''GetObjectRetention'' (Some bucket) (Some key)
       (\<lambda>sv. (case get_object_retention bucket key version_id (sv_store sv) of
           Inr (Some ret) \<Rightarrow>
             Inr (retention_mode_to_string (ret_mode ret), to_timestamp (ret_retain_until_date ret))
         | Inr None \<Rightarrow> Inl (s3_err ''NoSuchKey'' ''Object retention not found'')
         | Inl e \<Rightarrow> Inl (to_s3_error e), sv))"

text \<open>Without a date the object is retained until now; without a retention nothing happens.\<close>

definition s3_put_object_retention ::
  "'f s3s_ext \<Rightarrow> s3_service \<Rightarrow> request \<Rightarrow> string \<Rightarrow> string \<Rightarrow> string option \<Rightarrow>
     (string option \<times> instant option) option \<Rightarrow> bool option \<Rightarrow> server \<Rightarrow> unit s3_result \<times> server" where
  "s3_put_object_retention sx svc rq bucket key version_id retention bypass =
     guarded sx svc rq 0 ''PutObjectRetention'' (Some bucket) (Some key)
       (\<lambda>sv. case retention of
           None \<Rightarrow> (Inr (), sv)
         | Some (mode, until) \<Rightarrow>
             on_store (put_object_retention bucket key version_id
                 \<lparr>ret_mode = retention_mode_of_header mode,
                  ret_retain_until_date = (case until of Some t \<Rightarrow> from_timestamp t | None \<Rightarrow> rq_now rq)\<rparr>
                 (bypass = Some True))
               (\<lambda>_ sv. (Inr (), sv)) sv)"

definition s3_get_object_legal_hold ::
  "'f s3s_ext \<Rightarrow> s3_service \<Rightarrow> request \<Rightarrow> string \<Rightarrow> string \<Rightarrow> string option \<Rightarrow> server \<Rightarrow>
     string s3_result \<times> server" where
  "s3_get_object_legal_hold sx svc rq bucket key version_id =
     guarded sx svc rq 0 ''GetObjectLegalHold'' (Some bucket) (Some key)
       (\<lambda>sv. (case of_store (get_object_legal_hold bucket key version_id (sv_store sv)) of
           Inl e \<Rightarrow> Inl e | Inr status \<Rightarrow> Inr (legal_hold_to_string status), sv))"

definition s3_put_object_legal_hold ::
  "'f s3s_ext \<Rightarrow> s3_service \<Rightarrow> request \<Rightarrow> string \<Rightarrow> string \<Rightarrow> string option \<Rightarrow> string option \<Rightarrow> server \<Rightarrow>
     unit s3_result \<times> server" where
  "s3_put_object_legal_hold sx svc rq bucket key version_id status =
     guarded sx svc rq 0 ''PutObjectLegalHold'' (Some bucket) (Some key)
       (on_store (put_object_legal_hold bucket key version_id (if status = Some ''ON'' then HoldOn else HoldOff))
         (\<lambda>_ sv. (Inr (), sv)))"

section \<open>Notifications\<close>

text \<open>The configuration is read and thrown away, and never written.\<close>

definition s3_get_bucket_notification_configuration ::
  "'f s3s_ext \<Rightarrow> s3_service \<Rightarrow> request \<Rightarrow> string \<Rightarrow> server \<Rightarrow> unit s3_result \<times> server" where
  "s3_get_bucket_notification_configuration sx svc rq bucket =
     guarded sx svc rq 0 ''GetBucketNotificationConfiguration'' (Some bucket) None
       (\<lambda>sv. (case of_store (get_bucket_notification (se_store sx) bucket (sv_store sv)) of
           Inl e \<Rightarrow> Inl e | Inr _ \<Rightarrow> Inr (), sv))"

definition s3_put_bucket_notification_configuration ::
  "'f s3s_ext \<Rightarrow> s3_service \<Rightarrow> request \<Rightarrow> string \<Rightarrow> notification_configuration \<Rightarrow> server \<Rightarrow>
     unit s3_result \<times> server" where
  "s3_put_bucket_notification_configuration sx svc rq bucket config =
     guarded sx svc rq 0 ''PutBucketNotificationConfiguration'' (Some bucket) None
       (\<lambda>sv. (case of_store (head_bucket bucket (sv_store sv)) of Inl e \<Rightarrow> Inl e | Inr _ \<Rightarrow> Inr (), sv))"

end
