(* ===== verification/S3_Requests.thy ===== *)
theory S3_Requests
  imports S3_Rules Store_Effect
begin

text \<open>
  The requests of the S3 service as one datatype, the permissions each of them is checked
  for, and the step each makes on the server: a request that lacks a permission leaves only
  audit entries, and every request acts on the store by operations of the store.
\<close>

section \<open>Calls\<close>

datatype s3_call =
    CreateBucketRq string "string option"
  | DeleteBucketRq string
  | ListBucketsRq
  | HeadBucketRq string
  | GetBucketLocationRq string
  | GetBucketVersioningRq string
  | PutBucketVersioningRq string "string option"
  | GetBucketTaggingRq string
  | PutBucketTaggingRq string "s3_tag list"
  | DeleteBucketTaggingRq string
  | GetBucketCorsRq string
  | PutBucketCorsRq string "s3_cors_rule list"
  | DeleteBucketCorsRq string
  | GetObjectTaggingRq string string "string option"
  | PutObjectTaggingRq string string "s3_tag list"
  | DeleteObjectTaggingRq string string
  | GetObjectRq string string get_object_input
  | HeadObjectRq string string
  | PutObjectRq string string put_object_input
  | CopyObjectRq string string copy_source "string option" "metadata option"
  | DeleteObjectRq string string "string option"
  | DeleteObjectsRq string "(string \<times> string option) list"
  | CreateMultipartUploadRq string string put_object_input
  | UploadPartRq string string string u32 "(bytes, string) result list option"
  | UploadPartCopyRq string string string u32 copy_source "string option" "string option" "string option"
  | CompleteMultipartUploadRq string string string "(u32 option \<times> etag option) list option"
  | AbortMultipartUploadRq string string string
  | ListPartsRq string string string "u32 option" "u32 option"
  | ListMultipartUploadsRq string list_uploads_opts
  | ListObjectsRq string "string option" "string option" "u32 option" "string option"
  | ListObjectsV2Rq string list_objects_opts
  | ListObjectVersionsRq string list_versions_opts
  | GetLifecycleRq string
  | PutLifecycleRq string "s3_lifecycle_rule list option"
  | DeleteLifecycleRq string
  | GetObjectLockRq string
  | PutObjectLockRq string "s3_default_retention option"
  | GetRetentionRq string string "string option"
  | PutRetentionRq string string "string option" "(string option \<times> instant option) option" "bool option"
  | GetLegalHoldRq string string "string option"
  | PutLegalHoldRq string string "string option" "string option"
  | GetNotificationRq string
  | PutNotificationRq string notification_configuration

text \<open>The error of the reply, if it is one, and the server afterwards.\<close>

definition outcome :: "'a s3_result \<times> server \<Rightarrow> s3_error option \<times> server" where
  "outcome p = (case fst p of Inl e \<Rightarrow> Some e | Inr _ \<Rightarrow> None, snd p)"

fun serve :: "'f s3s_ext \<Rightarrow> s3_service \<Rightarrow> request \<Rightarrow> s3_call \<Rightarrow> server \<Rightarrow> s3_error option \<times> server" where
  "serve sx svc rq (CreateBucketRq b loc) sv = outcome (s3_create_bucket sx svc rq b loc sv)"
| "serve sx svc rq (DeleteBucketRq b) sv = outcome (s3_delete_bucket sx svc rq b sv)"
| "serve sx svc rq ListBucketsRq sv = outcome (s3_list_buckets sx svc rq sv)"
| "serve sx svc rq (HeadBucketRq b) sv = outcome (s3_head_bucket sx svc rq b sv)"
| "serve sx svc rq (GetBucketLocationRq b) sv = outcome (s3_get_bucket_location sx svc rq b sv)"
| "serve sx svc rq (GetBucketVersioningRq b) sv = outcome (s3_get_bucket_versioning sx svc rq b sv)"
| "serve sx svc rq (PutBucketVersioningRq b st) sv = outcome (s3_put_bucket_versioning sx svc rq b st sv)"
| "serve sx svc rq (GetBucketTaggingRq b) sv = outcome (s3_get_bucket_tagging sx svc rq b sv)"
| "serve sx svc rq (PutBucketTaggingRq b tags) sv = outcome (s3_put_bucket_tagging sx svc rq b tags sv)"
| "serve sx svc rq (DeleteBucketTaggingRq b) sv = outcome (s3_delete_bucket_tagging sx svc rq b sv)"
| "serve sx svc rq (GetBucketCorsRq b) sv = outcome (s3_get_bucket_cors sx svc rq b sv)"
| "serve sx svc rq (PutBucketCorsRq b rules) sv = outcome (s3_put_bucket_cors sx svc rq b rules sv)"
| "serve sx svc rq (DeleteBucketCorsRq b) sv = outcome (s3_delete_bucket_cors sx svc rq b sv)"
| "serve sx svc rq (GetObjectTaggingRq b k v) sv = outcome (s3_get_object_tagging sx svc rq b k v sv)"
| "serve sx svc rq (PutObjectTaggingRq b k tags) sv = outcome (s3_put_object_tagging sx svc rq b k tags sv)"
| "serve sx svc rq (DeleteObjectTaggingRq b k) sv = outcome (s3_delete_object_tagging sx svc rq b k sv)"
| "serve sx svc rq (GetObjectRq b k input) sv = outcome (s3_get_object sx svc rq b k input sv)"
| "serve sx svc rq (HeadObjectRq b k) sv = outcome (s3_head_object sx svc rq b k sv)"
| "serve sx svc rq (PutObjectRq b k input) sv = outcome (s3_put_object sx svc rq b k input sv)"
| "serve sx svc rq (CopyObjectRq b k source directive m) sv =
     outcome (s3_copy_object sx svc rq b k source directive m sv)"
| "serve sx svc rq (DeleteObjectRq b k v) sv = outcome (s3_delete_object sx svc rq b k v sv)"
| "serve sx svc rq (DeleteObjectsRq b objs) sv = outcome (s3_delete_objects sx svc rq b objs sv)"
| "serve sx svc rq (CreateMultipartUploadRq b k input) sv =
     outcome (s3_create_multipart_upload sx svc rq b k input sv)"
| "serve sx svc rq (UploadPartRq b k u n body) sv = outcome (s3_upload_part sx svc rq b k u n body sv)"
| "serve sx svc rq (UploadPartCopyRq b k u n source header sse_key sse_md5) sv =
     outcome (s3_upload_part_copy sx svc rq b k u n source header sse_key sse_md5 sv)"
| "serve sx svc rq (CompleteMultipartUploadRq b k u ps) sv =
     outcome (s3_complete_multipart_upload sx svc rq b k u ps sv)"
| "serve sx svc rq (AbortMultipartUploadRq b k u) sv = outcome (s3_abort_multipart_upload sx svc rq b k u sv)"
| "serve sx svc rq (ListPartsRq b k u marker n) sv = outcome (s3_list_parts sx svc rq b k u marker n sv)"
| "serve sx svc rq (ListMultipartUploadsRq b opts) sv = outcome (s3_list_multipart_uploads sx svc rq b opts sv)"
| "serve sx svc rq (ListObjectsRq b pfx delim n marker) sv =
     outcome (s3_list_objects sx svc rq b pfx delim n marker sv)"
| "serve sx svc rq (ListObjectsV2Rq b opts) sv = outcome (s3_list_objects_v2 sx svc rq b opts sv)"
| "serve sx svc rq (ListObjectVersionsRq b opts) sv = outcome (s3_list_object_versions sx svc rq b opts sv)"
| "serve sx svc rq (GetLifecycleRq b) sv = outcome (s3_get_bucket_lifecycle_configuration sx svc rq b sv)"
| "serve sx svc rq (PutLifecycleRq b rules) sv =
     outcome (s3_put_bucket_lifecycle_configuration sx svc rq b rules sv)"
| "serve sx svc rq (DeleteLifecycleRq b) sv = outcome (s3_delete_bucket_lifecycle sx svc rq b sv)"
| "serve sx svc rq (GetObjectLockRq b) sv = outcome (s3_get_object_lock_configuration sx svc rq b sv)"
| "serve sx svc rq (PutObjectLockRq b dr) sv = outcome (s3_put_object_lock_configuration sx svc rq b dr sv)"
| "serve sx svc rq (GetRetentionRq b k v) sv = outcome (s3_get_object_retention sx svc rq b k v sv)"
| "serve sx svc rq (PutRetentionRq b k v ret bypass) sv =
     outcome (s3_put_object_retention sx svc rq b k v ret bypass sv)"
| "serve sx svc rq (GetLegalHoldRq b k v) sv = outcome (s3_get_object_legal_hold sx svc rq b k v sv)"
| "serve sx svc rq (PutLegalHoldRq b k v st) sv = outcome (s3_put_object_legal_hold sx svc rq b k v st sv)"
| "serve sx svc rq (GetNotificationRq b) sv = outcome (s3_get_bucket_notification_configuration sx svc rq b sv)"
| "serve sx svc rq (PutNotificationRq b config) sv =
     outcome (s3_put_bucket_notification_configuration sx svc rq b config sv)"

text \<open>The permissions a request needs as a whole: action, bucket and key. The keys of a
  \<^verbatim>\<open>DeleteObjects\<close> request are checked one by one, too, in \<open>delete_keys\<close>: a key that may not be
  deleted is reported, and the others are deleted.\<close>

definition source_permission :: "copy_source \<Rightarrow> (string \<times> string option \<times> string option) list" where
  "source_permission source =
     (case source of FromBucket b k _ \<Rightarrow> [(''GetObject'', Some b, Some k)] | _ \<Rightarrow> [])"

text \<open>A copy joins the source to one text first; it is split again at its first slash.\<close>

definition joined_source :: "copy_source \<Rightarrow> copy_source" where
  "joined_source source =
     (case source of
        FromBucket b k v \<Rightarrow>
          (case split_once (CHR ''/'') (b @ ''/'' @ k) of
             Some (b', k') \<Rightarrow> FromBucket b' k' v | None \<Rightarrow> FromBucket b k v)
      | other \<Rightarrow> other)"

fun permissions :: "s3_call \<Rightarrow> (string \<times> string option \<times> string option) list" where
  "permissions (CreateBucketRq b _) = [(''CreateBucket'', Some b, None)]"
| "permissions (DeleteBucketRq b) = [(''DeleteBucket'', Some b, None)]"
| "permissions ListBucketsRq = [(''ListBuckets'', None, None)]"
| "permissions (HeadBucketRq b) = [(''HeadBucket'', Some b, None)]"
| "permissions (GetBucketLocationRq b) = [(''GetBucketLocation'', Some b, None)]"
| "permissions (GetBucketVersioningRq b) = [(''GetBucketVersioning'', Some b, None)]"
| "permissions (PutBucketVersioningRq b _) = [(''PutBucketVersioning'', Some b, None)]"
| "permissions (GetBucketTaggingRq b) = [(''GetBucketTagging'', Some b, None)]"
| "permissions (PutBucketTaggingRq b _) = [(''PutBucketTagging'', Some b, None)]"
| "permissions (DeleteBucketTaggingRq b) = [(''DeleteBucketTagging'', Some b, None)]"
| "permissions (GetBucketCorsRq b) = [(''GetBucketCors'', Some b, None)]"
| "permissions (PutBucketCorsRq b _) = [(''PutBucketCors'', Some b, None)]"
| "permissions (DeleteBucketCorsRq b) = [(''DeleteBucketCors'', Some b, None)]"
| "permissions (GetObjectTaggingRq b k _) = [(''GetObjectTagging'', Some b, Some k)]"
| "permissions (PutObjectTaggingRq b k _) = [(''PutObjectTagging'', Some b, Some k)]"
| "permissions (DeleteObjectTaggingRq b k) = [(''DeleteObjectTagging'', Some b, Some k)]"
| "permissions (GetObjectRq b k _) = [(''GetObject'', Some b, Some k)]"
| "permissions (HeadObjectRq b k) = [(''HeadObject'', Some b, Some k)]"
| "permissions (PutObjectRq b k _) = [(''PutObject'', Some b, Some k)]"
| "permissions (CopyObjectRq b k source _ _) =
     (''PutObject'', Some b, Some k) # source_permission (joined_source source)"
| "permissions (DeleteObjectRq b k _) = [(''DeleteObject'', Some b, Some k)]"
| "permissions (DeleteObjectsRq b _) = [(''DeleteObjects'', Some b, None)]"
| "permissions (CreateMultipartUploadRq b k _) = [(''PutObject'', Some b, Some k)]"
| "permissions (UploadPartRq b k _ _ _) = [(''PutObject'', Some b, Some k)]"
| "permissions (UploadPartCopyRq b k _ _ source _ _ _) =
     (''PutObject'', Some b, Some k) # source_permission source"
| "permissions (CompleteMultipartUploadRq b k _ _) = [(''PutObject'', Some b, Some k)]"
| "permissions (AbortMultipartUploadRq b k _) = [(''AbortMultipartUpload'', Some b, Some k)]"
| "permissions (ListPartsRq b k _ _ _) = [(''ListParts'', Some b, Some k)]"
| "permissions (ListMultipartUploadsRq b _) = [(''ListMultipartUploads'', Some b, None)]"
| "permissions (ListObjectsRq b _ _ _ _) = [(''ListObjects'', Some b, None)]"
| "permissions (ListObjectsV2Rq b _) = [(''ListObjectsV2'', Some b, None)]"
| "permissions (ListObjectVersionsRq b _) = [(''ListObjectVersions'', Some b, None)]"
| "permissions (GetLifecycleRq b) = [(''GetBucketLifecycleConfiguration'', Some b, None)]"
| "permissions (PutLifecycleRq b _) = [(''PutBucketLifecycleConfiguration'', Some b, None)]"
| "permissions (DeleteLifecycleRq b) = [(''DeleteBucketLifecycle'', Some b, None)]"
| "permissions (GetObjectLockRq b) = [(''GetObjectLockConfiguration'', Some b, None)]"
| "permissions (PutObjectLockRq b _) = [(''PutObjectLockConfiguration'', Some b, None)]"
| "permissions (GetRetentionRq b k _) = [(''GetObjectRetention'', Some b, Some k)]"
| "permissions (PutRetentionRq b k _ _ _) = [(''PutObjectRetention'', Some b, Some k)]"
| "permissions (GetLegalHoldRq b k _) = [(''GetObjectLegalHold'', Some b, Some k)]"
| "permissions (PutLegalHoldRq b k _ _) = [(''PutObjectLegalHold'', Some b, Some k)]"
| "permissions (GetNotificationRq b) = [(''GetBucketNotificationConfiguration'', Some b, None)]"
| "permissions (PutNotificationRq b _) = [(''PutBucketNotificationConfiguration'', Some b, None)]"

section \<open>Denied requests\<close>

lemmas handler_defs =
  s3_create_bucket_def s3_delete_bucket_def s3_list_buckets_def s3_head_bucket_def
  s3_get_bucket_location_def s3_get_bucket_versioning_def s3_put_bucket_versioning_def
  s3_get_bucket_tagging_def s3_put_bucket_tagging_def s3_delete_bucket_tagging_def
  s3_get_bucket_cors_def s3_put_bucket_cors_def s3_delete_bucket_cors_def
  s3_get_object_tagging_def s3_put_object_tagging_def s3_delete_object_tagging_def
  s3_get_object_def s3_head_object_def s3_put_object_def s3_copy_object_def s3_delete_object_def
  s3_delete_objects_def s3_create_multipart_upload_def s3_upload_part_def s3_upload_part_copy_def
  s3_complete_multipart_upload_def s3_abort_multipart_upload_def s3_list_parts_def
  s3_list_multipart_uploads_def s3_list_objects_def s3_list_objects_v2_def
  s3_list_object_versions_def s3_get_bucket_lifecycle_configuration_def
  s3_put_bucket_lifecycle_configuration_def s3_delete_bucket_lifecycle_def
  s3_get_object_lock_configuration_def s3_put_object_lock_configuration_def
  s3_get_object_retention_def s3_put_object_retention_def s3_get_object_legal_hold_def
  s3_put_object_legal_hold_def s3_get_bucket_notification_configuration_def
  s3_put_bucket_notification_configuration_def

definition permitted ::
  "'f s3s_ext \<Rightarrow> s3_service \<Rightarrow> request \<Rightarrow> string \<times> string option \<times> string option \<Rightarrow> bool" where
  "permitted sx svc rq p = (case p of (act, bucket, key) \<Rightarrow>
     (case fst (check_authorization (se_iam sx) (rq_now rq) svc (rq_credentials rq) (rq_headers rq) act bucket key) of
        Inl _ \<Rightarrow> False | Inr _ \<Rightarrow> True))"

text \<open>Nothing differs but entries at the end of the audit log.\<close>

definition only_logged :: "server \<Rightarrow> server \<Rightarrow> bool" where
  "only_logged sv sv' \<longleftrightarrow> (\<exists>entries. sv' = sv\<lparr>sv_store := (sv_store sv)
     \<lparr>audit_log := audit_log (sv_store sv) @ entries\<rparr>\<rparr>)"

definition denied_with :: "server \<Rightarrow> s3_error option \<times> server \<Rightarrow> bool" where
  "denied_with sv p \<longleftrightarrow> fst p \<noteq> None \<and> only_logged sv (snd p)"

lemma only_logged_refl [simp]: "only_logged sv sv"
  by (auto simp: only_logged_def intro: exI [of _ "[]"])

lemma only_logged_trans: "only_logged a b \<Longrightarrow> only_logged b c \<Longrightarrow> only_logged a c"
  by (auto simp: only_logged_def)

lemma only_logged_log: "only_logged sv (log_audit entry sv)"
  by (auto simp: only_logged_def log_audit_def log_audit_event_def sql_insert_def
      split: option.splits intro: exI [of _ "[]"])

lemma denied_error [intro]: "denied_with sv (outcome (Inl e, sv))"
  by (simp add: denied_with_def outcome_def)

lemma authorize_logged:
  "authorize sx svc rq n act bucket key sv = (r, sv') \<Longrightarrow> only_logged sv sv'"
  by (auto simp: authorize_def only_logged_log split: prod.splits option.splits)

lemma authorize_permitted:
  "permitted sx svc rq (act, bucket, key) \<longleftrightarrow> fst (authorize sx svc rq n act bucket key sv) = Inr ()"
  by (auto simp: permitted_def authorize_def split: prod.splits option.splits sum.splits)

lemma guarded_denied:
  assumes "\<not> permitted sx svc rq (act, bucket, key)"
  shows "denied_with sv (outcome (guarded sx svc rq n act bucket key body sv))"
proof -
  obtain e sv' where "authorize sx svc rq n act bucket key sv = (Inl e, sv')"
    using assms authorize_permitted [of sx svc rq act bucket key n sv]
    by (cases "authorize sx svc rq n act bucket key sv"; cases "fst (authorize sx svc rq n act bucket key sv)") auto
  then show ?thesis
    using authorize_logged by (fastforce simp: guarded_def outcome_def denied_with_def)
qed

text \<open>The permission may also be missing further inside.\<close>

lemma guarded_inner_denied:
  assumes "\<And>sv. denied_with sv (outcome (body sv))"
  shows "denied_with sv (outcome (guarded sx svc rq n act bucket key body sv))"
proof (cases "authorize sx svc rq n act bucket key sv")
  case (Pair r sv')
  then have "only_logged sv sv'" by (rule authorize_logged)
  then show ?thesis
    using assms [of sv'] Pair
    by (cases r) (auto simp: guarded_def denied_with_def outcome_def intro: only_logged_trans)
qed

text \<open>C29: a request that lacks one of the permissions it needs ends with an error and leaves
  the server as it was, but for entries at the end of the audit log. For a copy these are the
  right to write the target and the right to read the source.\<close>

theorem denied_request_only_logged:
  assumes "p \<in> set (permissions call)" and "\<not> permitted sx svc rq p"
  shows "fst (serve sx svc rq call sv) \<noteq> None \<and> only_logged sv (snd (serve sx svc rq call sv))"
proof -
  have "denied_with sv (serve sx svc rq call sv)"
  proof (cases "\<exists>b k. (''PutObject'', Some b, Some k) \<in> set (permissions call) \<and> length (permissions call) = 2")
    case False
    then show ?thesis using assms
      by (cases call) (auto simp: handler_defs source_permission_def joined_source_def
          intro!: guarded_denied split: copy_source.splits option.splits)
  next
    case True
    then show ?thesis using assms
      by (cases call) (auto simp: handler_defs source_permission_def joined_source_def
          intro: guarded_denied guarded_inner_denied denied_error split: copy_source.splits option.splits)
  qed
  then show ?thesis unfolding denied_with_def .
qed

text \<open>Without an IAM store only the root key is served.\<close>

definition toy_service :: s3_service where
  "toy_service = \<lparr>svc_iam = None, svc_root_access_key = ''admin''\<rparr>"

definition toy_s3 :: "nat s3s_ext" where
  "toy_s3 = \<lparr>se_iam = toy_iam, se_store = toy_configs, parse_etag_header = (\<lambda>_. None),
     parse_mime = Some, object_tags_json = toy_codec []\<rparr>"

definition toy_request :: "string option \<Rightarrow> request" where
  "toy_request credentials = \<lparr>rq_now = 9 * nanos_per_sec, rq_clock = (\<lambda>_. 9 * nanos_per_sec), rq_credentials = credentials, rq_headers = Map.empty,
     rq_extension = None, rq_uuid = (\<lambda>n. show_nat n), rq_ulid = (\<lambda>n. toy_id (if n = 0 then CHR ''X'' else CHR ''Y'')),
     rq_nonce = replicate 12 7\<rparr>"

definition toy_server :: server where
  "toy_server = \<lparr>sv_store = toy_object_store, sv_channel = Some (8, [])\<rparr>"

theorem denied_request_only_logged_witness:
  "only_logged toy_server (snd (serve toy_s3 toy_service (toy_request None)
     (DeleteObjectRq ''logs'' ''a.txt'' None) toy_server))"
proof -
  have "\<not> permitted toy_s3 toy_service (toy_request None) (''DeleteObject'', Some ''logs'', Some ''a.txt'')"
    by (simp add: permitted_def check_authorization_def svc_validate_session_token_def get_username_def
        toy_request_def toy_service_def)
  then show ?thesis using denied_request_only_logged [of "(''DeleteObject'', Some ''logs'', Some ''a.txt'')"
        "DeleteObjectRq ''logs'' ''a.txt'' None" toy_s3 toy_service "toy_request None" toy_server]
    by (simp del: serve.simps)
qed

section \<open>Requests as steps of the store\<close>

text \<open>The store of one server is reached from that of the other by operations of the store.\<close>

definition any_step :: "store_ext \<Rightarrow> local_store \<Rightarrow> local_store \<Rightarrow> bool" where
  "any_step ix s s' = (\<exists>now. store_step ix now s s')"

lemma any_stepI: "store_step ix now s s' \<Longrightarrow> any_step ix s s'"
  by (auto simp: any_step_def)

lemmas any_step_intros = store_step.intros [THEN any_stepI]

definition acts :: "'f s3s_ext \<Rightarrow> server \<Rightarrow> server \<Rightarrow> bool" where
  "acts sx sv sv' \<longleftrightarrow> rtranclp (any_step (se_store sx)) (sv_store sv) (sv_store sv')"

lemma acts_refl [simp]: "sv_store sv' = sv_store sv \<Longrightarrow> acts sx sv sv'"
  by (simp add: acts_def)

lemma acts_trans: "acts sx a b \<Longrightarrow> acts sx b c \<Longrightarrow> acts sx a c"
  by (simp add: acts_def)

lemma acts_step: "any_step (se_store sx) (sv_store sv) s' \<Longrightarrow> acts sx sv (sv\<lparr>sv_store := s'\<rparr>)"
  by (simp add: acts_def r_into_rtranclp)

lemma acts_log [simp]: "acts sx sv (log_audit entry sv)"
  unfolding log_audit_def by (rule acts_step) (rule any_step_intros)

lemma emit_event_store [simp]: "sv_store (emit_event event sv) = sv_store sv"
  by (simp add: emit_event_def split: option.split)

lemma acts_log_success [simp]: "acts sx sv (log_success sx svc rq operation bucket key sv)"
  by (simp add: log_success_def)

lemma acts_emit [simp]: "acts sx sv (emit_event event sv') = acts sx sv sv'"
  by (simp add: acts_def)

lemma acts_authorize: "authorize sx svc rq n act bucket key sv = (r, sv') \<Longrightarrow> acts sx sv sv'"
  by (auto simp: authorize_def split: prod.splits option.splits)

lemma acts_guarded:
  assumes "\<And>sv'. only_logged sv sv' \<Longrightarrow> acts sx sv' (snd (body sv'))"
  shows "acts sx sv (snd (guarded sx svc rq n act bucket key body sv))"
proof (cases "authorize sx svc rq n act bucket key sv")
  case (Pair r sv')
  have "acts sx sv' (snd (body sv'))" by (rule assms [OF authorize_logged [OF Pair]])
  then have "acts sx sv (snd (body sv'))" by (rule acts_trans [OF acts_authorize [OF Pair]])
  then show ?thesis
    using acts_authorize [OF Pair] by (simp add: guarded_def Pair split: sum.split)
qed

lemma acts_on_store:
  assumes "any_step (se_store sx) (sv_store sv) (snd (operation (sv_store sv)))"
    and "\<And>x sv'. acts sx sv' (snd (continue x sv'))"
  shows "acts sx sv (snd (on_store operation continue sv))"
proof (cases "operation (sv_store sv)")
  case (Pair r s')
  then have "acts sx sv (sv\<lparr>sv_store := s'\<rparr>)" using assms(1) by (intro acts_step) simp
  moreover from this have "acts sx sv (snd (continue x (sv\<lparr>sv_store := s'\<rparr>)))" for x
    using assms(2) by (rule acts_trans)
  ultimately show ?thesis by (simp add: on_store_def Pair split: sum.split)
qed

lemma only_logged_fresh: "only_logged sv sv' \<Longrightarrow> fresh_id i (sv_store sv') \<longleftrightarrow> fresh_id i (sv_store sv)"
  by (auto simp: only_logged_def fresh_id_def)

text \<open>The loop over the keys of a \<^verbatim>\<open>DeleteObjects\<close> request uses one id for each key.\<close>

lemma latest_update_ids [simp]:
  "o_id ` set (sql_update p (o_is_latest_update f) t) = o_id ` set t"
proof -
  have "(\<lambda>r. o_id (if p r then o_is_latest_update f r else r)) = o_id" by auto
  then show ?thesis by (simp only: sql_update_def set_map image_image)
qed

lemma promote_latest_ids [simp]:
  "o_id ` set (objects (promote_latest b k s)) = o_id ` set (objects s)"
  "multipart_uploads (promote_latest b k s) = multipart_uploads s"
  by (simp_all add: promote_latest_def split: option.split)

lemma delete_version_ids:
  "o_id ` set (objects (snd (delete_object_version now i b k vid s))) \<subseteq> insert i (o_id ` set (objects s))
   \<and> multipart_uploads (snd (delete_object_version now i b k vid s)) = multipart_uploads s"
proof -
  have "o_id ` set (objects (delete_specific_version b k v s)) \<subseteq> o_id ` set (objects s)
      \<and> multipart_uploads (delete_specific_version b k v s) = multipart_uploads s" for v
    by (auto simp: delete_specific_version_def Let_def sql_delete_def fs_remove_def split: option.split)
  moreover have "objects (delete_all_versions b k s) = sql_delete (same_key b k) (objects s)
      \<and> multipart_uploads (delete_all_versions b k s) = multipart_uploads s"
    by (simp add: delete_all_versions_def Let_def)
  moreover have "o_id ` set (objects (snd (create_delete_marker now i b k s))) \<subseteq> insert i (o_id ` set (objects s))
      \<and> multipart_uploads (snd (create_delete_marker now i b k s)) = multipart_uploads s"
    by (auto simp: create_delete_marker_def Let_def insert_object_def sql_insert_def
        delete_marker_row_def split: option.splits if_splits)
  ultimately show ?thesis
    by (cases "create_delete_marker now i b k s"; cases vid)
      (auto simp: delete_object_version_def Let_def sql_delete_def split: option.split)
qed

lemma acts_delete_keys:
  assumes "distinct (map (rq_ulid rq) [n..<n + length objs])"
    and "\<forall>i \<in> {n..<n + length objs}. fresh_id (rq_ulid rq i) (sv_store sv)"
  shows "acts sx sv (snd (delete_keys sx svc rq bucket n objs deleted errors sv))"
  using assms
proof (induction objs arbitrary: n deleted errors sv)
  case Nil
  then show ?case by simp
next
  case (Cons obj objs)
  obtain key vid where obj: "obj = (key, vid)" by fastforce
  obtain r sv1 where auth: "authorize sx svc rq (Suc n) ''DeleteObject'' (Some bucket) (Some key) sv = (r, sv1)"
    by fastforce
  have fresh1: "fresh_id (rq_ulid rq i) (sv_store sv1)" if "i \<in> {n..<n + length (obj # objs)}" for i
    using only_logged_fresh [OF authorize_logged [OF auth]] Cons.prems(2) that by blast
  have "[n..<n + length (obj # objs)] = n # [Suc n..<Suc n + length objs]"
    by (simp add: upt_conv_Cons del: upt_Suc)
  with Cons.prems(1) have "distinct (rq_ulid rq n # map (rq_ulid rq) [Suc n..<Suc n + length objs])"
    by (simp only: list.map)
  then have ids: "distinct (map (rq_ulid rq) [Suc n..<Suc n + length objs])"
    and new: "rq_ulid rq n \<notin> rq_ulid rq ` {Suc n..<Suc n + length objs}"
    by (simp_all only: distinct.simps set_map set_upt simp_thms)
  obtain res s' where del: "delete_object_version (rq_clock rq n) (rq_ulid rq n) bucket key vid (sv_store sv1) = (res, s')"
    by fastforce
  let ?sv2 = "sv1\<lparr>sv_store := s'\<rparr>"
  have "any_step (se_store sx) (sv_store sv1) s'"
    using store_step.delete_version [of "rq_ulid rq n" "sv_store sv1" "se_store sx" "rq_clock rq n" bucket key vid]
      fresh1 [of n] del by (intro any_stepI) simp
  then have acts2: "acts sx sv ?sv2"
    using acts_authorize [OF auth] acts_step acts_trans by blast
  have "fresh_id (rq_ulid rq i) s'" if i: "i \<in> {Suc n..<Suc n + length objs}" for i
  proof -
    have "rq_ulid rq i \<noteq> rq_ulid rq n" using new i by (metis imageI)
    then show ?thesis
      using fresh1 [of i] i delete_version_ids [of "rq_clock rq n" "rq_ulid rq n" bucket key vid "sv_store sv1"] del
      by (auto simp: fresh_id_def)
  qed
  then have rest2: "acts sx sv (snd (delete_keys sx svc rq bucket (Suc n) objs d e ?sv2))" for d e
    using Cons.IH [OF ids, of ?sv2] by (intro acts_trans [OF acts2]) simp
  have rest1: "acts sx sv (snd (delete_keys sx svc rq bucket (Suc n) objs d e sv1))" for d e
    using Cons.IH [OF ids, of sv1] fresh1 by (intro acts_trans [OF acts_authorize [OF auth]]) simp
  show ?case
    using rest1 rest2 by (simp add: obj auth del split: sum.split)
qed

text \<open>The number of ids a request draws.\<close>

definition ids_drawn :: "s3_call \<Rightarrow> nat" where
  "ids_drawn call = (case call of DeleteObjectsRq _ objs \<Rightarrow> length objs | _ \<Rightarrow> 1)"

lemma acts_rewrite_metadata:
  "fresh_id (rq_ulid rq 0) (sv_store sv) \<Longrightarrow> acts sx sv (snd (rewrite_metadata sx rq b k m sv))"
  unfolding rewrite_metadata_def by (intro acts_on_store any_step_intros) simp_all

text \<open>Whatever a client sends, the store moves by operations of the object store, provided the
  ids the request draws are fresh and distinct. So it stays reachable, and what is shown of
  the reachable stores - their integrity, the content of completed uploads, the retention of
  locked versions - holds of the stores behind the service.\<close>

lemma served_request_acts:
  assumes "distinct (map (rq_ulid rq) [0..<ids_drawn call])"
    and "\<forall>i < ids_drawn call. fresh_id (rq_ulid rq i) (sv_store sv)"
  shows "acts sx sv (snd (serve sx svc rq call sv))"
proof (cases "\<exists>b objs. call = DeleteObjectsRq b objs")
  case True
  then obtain b objs where call: "call = DeleteObjectsRq b objs" by blast
  have "acts sx sv' (snd (delete_keys sx svc rq b 0 objs [] [] sv'))" if "only_logged sv sv'" for sv'
    using assms only_logged_fresh [OF that] by (intro acts_delete_keys) (simp_all add: call ids_drawn_def)
  then show ?thesis
    by (auto simp: call s3_delete_objects_def outcome_def case_prod_beta intro!: acts_guarded)
next
  case False
  then have "ids_drawn call = 1" by (auto simp: ids_drawn_def split: s3_call.split)
  then have fresh: "fresh_id (rq_ulid rq 0) (sv_store sv')" if "only_logged sv sv'" for sv'
    using only_logged_fresh [OF that] assms(2) by simp
  show ?thesis using False
    by (cases call) (auto simp: handler_defs outcome_def Let_def
        intro!: acts_guarded acts_on_store any_step_intros acts_rewrite_metadata fresh intro: only_logged_trans
        split: option.split sum.split copy_source.split prod.split)
qed

lemma served_request_reachable:
  assumes "distinct (map (rq_ulid rq) [0..<ids_drawn call])"
    and "\<forall>i < ids_drawn call. fresh_id (rq_ulid rq i) (sv_store sv)"
    and "store_reachable (se_store sx) (sv_store sv)"
  shows "store_reachable (se_store sx) (sv_store (snd (serve sx svc rq call sv)))"
proof -
  have "rtranclp (any_step (se_store sx)) (sv_store sv) (sv_store (snd (serve sx svc rq call sv)))"
    using served_request_acts [OF assms(1,2)] by (simp only: acts_def)
  then show ?thesis using assms(3) by induction (auto simp: any_step_def intro: store_reachable_step)
qed

end
