(* ===== verification/S3_Behaviour.thy ===== *)
theory S3_Behaviour
  imports S3_Requests Multipart_Content
begin

text \<open>
  What clients of the S3 service observe: range requests answered from the header, an object
  put with a customer key, and the tags of a locked object.
\<close>

section \<open>Range requests\<close>

lemma guarded_permitted:
  assumes "permitted sx svc rq (act, bucket, key)"
  obtains sv' where "only_logged sv sv'" "guarded sx svc rq n act bucket key body sv = body sv'"
proof -
  obtain sv' where "authorize sx svc rq n act bucket key sv = (Inr (), sv')"
    using assms authorize_permitted [of sx svc rq act bucket key n sv]
    by (cases "authorize sx svc rq n act bucket key sv") auto
  then show thesis using that authorize_logged by (fastforce simp: guarded_def)
qed

lemma only_logged_get:
  "only_logged sv sv' \<Longrightarrow> get_object ix b k go (sv_store sv') = get_object ix b k go (sv_store sv)"
  by (auto simp: only_logged_def intro!: get_object_cong)

text \<open>The header of a client that asks for the last \<open>n\<close> bytes is no range to the parser of headers.\<close>

definition suffix_header :: "u64 \<Rightarrow> string" where
  "suffix_header n = ''bytes=-'' @ show_nat (unat n)"

lemma parse_suffix_header: "parse_http_range_header (suffix_header n) = None"
proof -
  have "strip_prefix ''bytes='' (suffix_header n) = Some ([] @ CHR ''-'' # show_nat (unat n))"
    using strip_prefix_append [of "''bytes=''" "CHR ''-'' # show_nat (unat n)"] by (simp add: suffix_header_def)
  moreover have "split_once (CHR ''-'') ([] @ CHR ''-'' # show_nat (unat n)) = Some ([], show_nat (unat n))"
    by (rule split_once_append) simp
  ultimately show ?thesis by (simp add: parse_http_range_header_def)
qed

lemma s3_get_object_permitted:
  assumes "permitted sx svc rq (''GetObject'', Some b, Some k)"
  shows "fst (s3_get_object sx svc rq b k input sv) =
    (case get_object (se_store sx) b k (get_opts_of rq input) (sv_store sv) of
       Inl e \<Rightarrow> Inl (to_s3_error e)
     | Inr (info, body) \<Rightarrow> Inr (get_output sx info body (requested_range rq input)))"
proof -
  obtain sv' where "only_logged sv sv'"
    and "s3_get_object sx svc rq b k input sv =
      (case of_store (get_object (se_store sx) b k (get_opts_of rq input) (sv_store sv')) of
         Inl e \<Rightarrow> Inl e
       | Inr (info, body) \<Rightarrow> Inr (get_output sx info body (requested_range rq input)), sv')"
    using guarded_permitted [OF assms] unfolding s3_get_object_def by blast
  then show ?thesis using only_logged_get by (auto simp: of_store_def split: sum.split)
qed

text \<open>C32: the HTTP library has parsed the \<^verbatim>\<open>Range\<close> header of a permitted \<^verbatim>\<open>GetObject\<close> on an
  object that can be read whole. Bytes \<open>a\<close> to \<open>e\<close>, or \<open>a\<close> to the end, are answered with exactly
  these, cut off at the end of the object, their number as the content length, and the content
  range that names the first and the last byte sent; a start beyond the object or behind the
  end is refused as an invalid range. Without the header the whole object is sent, and so it
  is for a request for the last \<open>n\<close> bytes, which is not supported: there is no content range.\<close>

theorem range_header_reply:
  assumes "permitted sx svc rq (''GetObject'', Some b, Some k)"
    and whole: "get_object (se_store sx) b k ((get_opts_of rq input)\<lparr>go_range := None\<rparr>) (sv_store sv) = Inr (info, d)"
    and fits: "length d < 2 ^ 64"
  shows "(\<forall>a e. gin_range input = Some (RangeInt a e) \<longrightarrow>
        (let stop = (case e of Some x \<Rightarrow> unat x | None \<Rightarrow> length d - 1); m = min stop (length d - 1)
         in if unat a < length d \<and> unat a \<le> stop
            then \<exists>out. fst (s3_get_object sx svc rq b k input sv) = Inr out
              \<and> gout_body out = map ((!) d) [unat a..<Suc m]
              \<and> ho_content_length out = Suc m - unat a
              \<and> gout_content_range out = Some (''bytes '' @ show_nat (unat a) @ ''-'' @ show_nat m @ ''/''
                  @ show_nat (oi_size info))
            else \<exists>msg. fst (s3_get_object sx svc rq b k input sv) = Inl (to_s3_error (InvalidRange msg))))
    \<and> (gin_range input = None \<and> rq_headers rq ''range'' = None
        \<or> (\<exists>n. gin_range input = Some (RangeSuffix n) \<and> rq_headers rq ''range'' = Some (suffix_header n)) \<longrightarrow>
        (\<exists>out. fst (s3_get_object sx svc rq b k input sv) = Inr out \<and> gout_body out = d
          \<and> ho_content_length out = oi_size info \<and> gout_content_range out = None))"
proof (intro conjI allI impI)
  have opts: "((get_opts_of rq input)\<lparr>go_range := None\<rparr>)\<lparr>go_range := requested_range rq input\<rparr> = get_opts_of rq input"
    by (simp add: get_opts_of_def)
  note reply = s3_get_object_permitted [OF assms(1), of input sv]
  fix a e assume int: "gin_range input = Some (RangeInt a e)"
  then have range: "requested_range rq input = Some (a, e)" by (simp add: requested_range_def)
  define stop where "stop = (case e of Some x \<Rightarrow> unat x | None \<Rightarrow> length d - 1)"
  define m where "m = min stop (length d - 1)"
  have "if unat a < length d \<and> unat a \<le> stop
      then fst (s3_get_object sx svc rq b k input sv) =
        Inr (get_output sx info (map ((!) d) [unat a..<Suc m]) (Some (a, e)))
      else \<exists>msg. fst (s3_get_object sx svc rq b k input sv) = Inl (to_s3_error (InvalidRange msg))"
    using get_object_clip [OF _ whole stop_def, of a] get_object_clip_error [OF _ whole stop_def, of a] opts
    by (auto simp: range reply m_def simp del: upt_Suc)
  moreover have "min (unat a + (Suc m - unat a - 1)) (2 ^ 64 - 1) = m" if "unat a < length d" "unat a \<le> stop"
    using that fits by (simp add: m_def)
  ultimately show "let stop = (case e of Some x \<Rightarrow> unat x | None \<Rightarrow> length d - 1); m = min stop (length d - 1)
      in if unat a < length d \<and> unat a \<le> stop
         then \<exists>out. fst (s3_get_object sx svc rq b k input sv) = Inr out
           \<and> gout_body out = map ((!) d) [unat a..<Suc m]
           \<and> ho_content_length out = Suc m - unat a
           \<and> gout_content_range out = Some (''bytes '' @ show_nat (unat a) @ ''-'' @ show_nat m @ ''/''
               @ show_nat (oi_size info))
         else \<exists>msg. fst (s3_get_object sx svc rq b k input sv) = Inl (to_s3_error (InvalidRange msg))"
    unfolding stop_def [symmetric] Let_def m_def [symmetric]
    by (simp add: get_output_def head_output_def head_object_output.defs content_range_def split: if_splits del: upt_Suc)
next
  assume "gin_range input = None \<and> rq_headers rq ''range'' = None
    \<or> (\<exists>n. gin_range input = Some (RangeSuffix n) \<and> rq_headers rq ''range'' = Some (suffix_header n))"
  then have none: "requested_range rq input = None"
    by (auto simp: requested_range_def parse_suffix_header)
  then have "(get_opts_of rq input)\<lparr>go_range := None\<rparr> = get_opts_of rq input" by (simp add: get_opts_of_def)
  then have "fst (s3_get_object sx svc rq b k input sv) = Inr (get_output sx info d None)"
    using whole by (simp add: s3_get_object_permitted [OF assms(1)] none)
  then show "\<exists>out. fst (s3_get_object sx svc rq b k input sv) = Inr out \<and> gout_body out = d
      \<and> ho_content_length out = oi_size info \<and> gout_content_range out = None"
    by (simp add: get_output_def head_output_def head_object_output.defs)
qed

definition toy_get_input :: "s3_range option \<Rightarrow> get_object_input" where
  "toy_get_input range_asked = \<lparr>gin_range = range_asked, gin_if_match = None, gin_if_none_match = None,
     gin_if_modified_since = None, gin_if_unmodified_since = None, gin_version_id = None,
     gin_sse_customer_key = None, gin_sse_customer_key_md5 = None\<rparr>"

text \<open>\<^verbatim>\<open>a.txt\<close> holds the bytes 4 and 5; the bytes 1 to 99 are asked for.\<close>

theorem range_header_reply_witness:
  "\<exists>out. fst (s3_get_object toy_s3 toy_service (toy_request (Some ''admin''))
      ''logs'' ''a.txt'' (toy_get_input (Some (RangeInt 1 (Some 99)))) toy_server) = Inr out \<and> gout_body out = [5]"
proof -
  let ?rq = "toy_request (Some ''admin'')" and ?in = "toy_get_input (Some (RangeInt 1 (Some 99)))"
  have "\<not> starts_with ''admin'' ''ASIA''" by code_simp
  then have root: "permitted toy_s3 toy_service ?rq (''GetObject'', Some ''logs'', Some ''a.txt'')"
    by (simp add: permitted_def check_authorization_def svc_validate_session_token_def get_username_def
        toy_request_def toy_service_def)
  have "\<not> isl (get_object toy_configs ''logs'' ''a.txt'' toy_get_opts toy_object_store)"
    "snd (projr (get_object toy_configs ''logs'' ''a.txt'' toy_get_opts toy_object_store)) = [4, 5]"
    by code_simp+
  then obtain info where info: "get_object toy_configs ''logs'' ''a.txt'' toy_get_opts toy_object_store = Inr (info, [4, 5])"
    by (cases "get_object toy_configs ''logs'' ''a.txt'' toy_get_opts toy_object_store") auto
  have "(get_opts_of ?rq ?in)\<lparr>go_range := None\<rparr> = toy_get_opts"
    by (simp add: get_opts_of_def toy_get_input_def toy_get_opts_def)
  then have whole: "get_object (se_store toy_s3) ''logs'' ''a.txt'' ((get_opts_of ?rq ?in)\<lparr>go_range := None\<rparr>)
      (sv_store toy_server) = Inr (info, [4, 5])"
    using info by (simp add: toy_s3_def toy_server_def)
  have "gin_range ?in = Some (RangeInt 1 (Some 99))" by (simp add: toy_get_input_def)
  then show ?thesis
    using range_header_reply [OF root whole, THEN conjunct1, rule_format, of 1 "Some 99"]
    by (auto simp: Let_def upt_rec)
qed

section \<open>Customer keys\<close>

lemma guarded_Inr:
  "guarded sx svc rq n act bucket key body sv = (Inr x, sv') \<Longrightarrow>
     \<exists>sv1. only_logged sv sv1 \<and> body sv1 = (Inr x, sv')"
  using authorize_logged by (fastforce simp: guarded_def split: prod.splits sum.splits)

lemma on_store_Inr:
  "on_store operation continue sv = (Inr x, sv') \<Longrightarrow>
     \<exists>y s'. operation (sv_store sv) = (Inr y, s') \<and> continue y (sv\<lparr>sv_store := s'\<rparr>) = (Inr x, sv')"
  by (auto simp: on_store_def split: prod.splits sum.splits)

lemma only_logged_inv: "only_logged sv sv' \<Longrightarrow> store_inv p (sv_store sv') = store_inv p (sv_store sv)"
  by (rule store_inv_cong) (auto simp: only_logged_def core_def)

lemma put_object_plain:
  assumes "store_inv p s" "fresh_id i s" "po_server_side_encryption po = None"
    and put: "put_object ix now i nonce b k body po s = (Inr resp, s')"
  shows "\<exists>data r. stream_body [] body = (data, None) \<and> find_object b k None s' = Some r
    \<and> o_encryption_algorithm r = None \<and> files s' (blob_path (o_id r)) = Some data"
proof -
  from put_object_effect [OF assms(1,2) put] obtain br data enc d where "find_bucket b s = Some br"
    and data: "stream_body [] body = (data, None)"
    and ins: "installs (br_versioning_status br = ''Enabled'') (put_row ix now i b k
      (if br_versioning_status br = ''Enabled'' then i else ''null'') data po enc) s s'"
    and d: "files s' (blob_path i) = Some d" "fst enc = None \<longrightarrow> d = data"
    and "po_server_side_encryption po = None \<longrightarrow> fst enc = None"
    unfolding sum.case by (elim exE conjE) (rule that)
  then have enc: "fst enc = None" using assms(3) by simp
  let ?row = "put_row ix now i b k (if br_versioning_status br = ''Enabled'' then i else ''null'') data po enc"
  have "o_is_latest ?row" by (simp add: put_row_def object_row_default_def)
  from installs_find [OF ins this] have "find_object b k None s' = Some ?row" by simp
  moreover have "o_encryption_algorithm ?row = None" using enc by (simp add: put_row_def)
  moreover have "files s' (blob_path (o_id ?row)) = Some data" using d enc by simp
  ultimately show ?thesis using data by blast
qed

text \<open>C33: a single put that does not ask for SSE-S3 stores the bytes it received as they are,
  whatever the headers for SSE-C say: the row of the new current version names no
  encryption, and its blob holds the plaintext. The client that sent a key to encrypt with
  is told of success.\<close>

theorem customer_key_ignored:
  assumes "store_reachable (se_store sx) (sv_store sv)"
    and "fresh_id (rq_ulid rq 0) (sv_store sv)" "pin_server_side_encryption input \<noteq> Some ''AES256''"
    and put: "s3_put_object sx svc rq b k input sv = (Inr resp, sv')"
  shows "\<exists>body data r. pin_body input = Some body \<and> stream_body [] body = (data, None)
    \<and> find_object b k None (sv_store sv') = Some r \<and> o_encryption_algorithm r = None
    \<and> files (sv_store sv') (blob_path (o_id r)) = Some data"
proof -
  let ?po = "put_opts_of (put_encryption input) input"
  obtain sv1 body where log: "only_logged sv sv1" and body: "pin_body input = Some body"
    and run: "on_store (put_object (se_store sx) (rq_clock rq 0) (rq_ulid rq 0) (rq_nonce rq) b k body ?po)
      (\<lambda>resp sv. (Inr (dto_etag sx (por_etag resp), por_version_id resp),
         emit_event (request_event rq ObjectCreatedPut b k
           (Some (case pin_content_length input of Some n \<Rightarrow> n | None \<Rightarrow> 0))
           (Some (por_etag resp)) (por_version_id resp)) sv)) sv1 = (Inr resp, sv')"
    using guarded_Inr [OF put [unfolded s3_put_object_def]] unfolding Let_def by (cases "pin_body input") auto
  from on_store_Inr [OF run] obtain r s' where
    "put_object (se_store sx) (rq_clock rq 0) (rq_ulid rq 0) (rq_nonce rq) b k body ?po (sv_store sv1) = (Inr r, s')"
    and "sv_store sv' = s'" by auto
  moreover have "store_inv False (sv_store sv1)" "fresh_id (rq_ulid rq 0) (sv_store sv1)"
    using only_logged_inv [OF log] store_reachable_inv [OF assms(1)] only_logged_fresh [OF log] assms(2) by auto
  moreover have "po_server_side_encryption ?po = None"
    using assms(3) by (simp add: put_opts_of_def put_encryption_def)
  ultimately show ?thesis using put_object_plain body by blast
qed

definition toy_put_input :: put_object_input where
  "toy_put_input = \<lparr>pin_body = Some [Inr [6, 7, 8]], pin_content_length = Some 3, pin_content_type = None,
     pin_content_encoding = None, pin_content_disposition = None, pin_cache_control = None,
     pin_metadata = None, pin_storage_class = None, pin_server_side_encryption = None,
     pin_sse_customer_algorithm = Some ''AES256'', pin_sse_customer_key = Some (replicate 64 (CHR ''1'')),
     pin_sse_customer_key_md5 = None\<rparr>"

theorem customer_key_ignored_witness:
  "\<exists>r. find_object ''logs'' ''b.txt'' None (sv_store (snd (s3_put_object toy_s3 toy_service
      (toy_request (Some ''admin'')) ''logs'' ''b.txt'' toy_put_input toy_server))) = Some r
    \<and> o_encryption_algorithm r = None
    \<and> files (sv_store (snd (s3_put_object toy_s3 toy_service (toy_request (Some ''admin''))
      ''logs'' ''b.txt'' toy_put_input toy_server))) (blob_path (o_id r)) = Some [6, 7, 8]"
proof -
  let ?rq = "toy_request (Some ''admin'')"
  let ?put = "s3_put_object toy_s3 toy_service ?rq ''logs'' ''b.txt'' toy_put_input toy_server"
  let ?op = "put_object toy_configs (9 * nanos_per_sec) (toy_id CHR ''X'') (replicate 12 7) ''logs'' ''b.txt''
      [Inr [6, 7, 8]] (put_opts_of (put_encryption toy_put_input) toy_put_input) toy_object_store"
  have ok: "\<not> isl (fst ?op)" by code_simp
  obtain r s' where op: "?op = (r, s')" by (rule prod.exhaust)
  obtain x where "r = Inr x" using ok unfolding op by (cases r) simp_all
  note op = op [unfolded this]
  have "\<not> starts_with ''admin'' ''ASIA''" by code_simp
  then have "authorize toy_s3 toy_service ?rq 0 ''PutObject'' (Some ''logs'') (Some ''b.txt'') toy_server = (Inr (), toy_server)"
    by (simp add: authorize_def check_authorization_def svc_validate_session_token_def get_username_def
        toy_request_def toy_service_def)
  then obtain resp sv' where put: "?put = (Inr resp, sv')"
    using op by (simp add: s3_put_object_def guarded_def on_store_def toy_s3_def toy_server_def
        toy_request_def toy_put_input_def)
  have fresh: "fresh_id (rq_ulid ?rq 0) (sv_store toy_server)" by code_simp
  have reach: "store_reachable (se_store toy_s3) (sv_store toy_server)"
    using toy_object_reachable by (simp add: toy_s3_def toy_server_def)
  have "pin_server_side_encryption toy_put_input \<noteq> Some ''AES256''" by (simp add: toy_put_input_def)
  then obtain body data r where "pin_body toy_put_input = Some body" "stream_body [] body = (data, None)"
    "find_object ''logs'' ''b.txt'' None (sv_store sv') = Some r" "o_encryption_algorithm r = None"
    "files (sv_store sv') (blob_path (o_id r)) = Some data"
    using customer_key_ignored [OF reach fresh _ put] by blast
  then show ?thesis by (simp add: put) (auto simp: toy_put_input_def)
qed

end
