(* ===== verification/Rate_Limiter.thy ===== *)
theory Rate_Limiter
  imports Core_Types
begin

text \<open>
  \<^verbatim>\<open>strix-admin/src/auth.rs\<close>, the limiter kept in memory, and the middleware of
  \<^verbatim>\<open>strix/src/main.rs\<close> that puts it in front of the S3 API.

  An \<^verbatim>\<open>Instant\<close> is a number of nanoseconds of a monotonic clock, a \<^verbatim>\<open>Duration\<close> a number of
  nanoseconds; the clock is read once for each operation. The address of a client is of an
  arbitrary type. Counts are \<^verbatim>\<open>u32\<close> and wrap.
\<close>

section \<open>The limiter\<close>

record 'ip rate_limiter =
  lim_attempts :: "'ip \<rightharpoonup> u32 \<times> nat"
  lim_max_attempts :: u32
  lim_window :: nat
  lim_lockout :: nat
  lim_last_cleanup :: nat

definition whole_seconds :: nat where "whole_seconds = 1000000000"

definition limiter_new :: "nat \<Rightarrow> u32 \<Rightarrow> nat \<Rightarrow> nat \<Rightarrow> 'ip rate_limiter" where
  "limiter_new now max_attempts window lockout =
     \<lparr>lim_attempts = Map.empty, lim_max_attempts = max_attempts, lim_window = window,
      lim_lockout = lockout, lim_last_cleanup = now\<rparr>"

definition default_login :: "nat \<Rightarrow> 'ip rate_limiter" where
  "default_login now = limiter_new now 5 (60 * whole_seconds) (15 * 60 * whole_seconds)"

text \<open>Entries older than the lockout are dropped, at most every five minutes.\<close>

definition cleanup_if_needed :: "nat \<Rightarrow> 'ip rate_limiter \<Rightarrow> 'ip rate_limiter" where
  "cleanup_if_needed now l =
     (if now - lim_last_cleanup l > 300 * whole_seconds then
        l\<lparr>lim_attempts := (\<lambda>ip. case lim_attempts l ip of
              None \<Rightarrow> None
            | Some (count, first_attempt) \<Rightarrow>
                if now - first_attempt < lim_lockout l then Some (count, first_attempt) else None),
          lim_last_cleanup := now\<rparr>
      else l)"

definition is_limited :: "nat \<Rightarrow> 'ip \<Rightarrow> 'ip rate_limiter \<Rightarrow> bool \<times> 'ip rate_limiter" where
  "is_limited now ip l =
     (let l' = cleanup_if_needed now l in
      (case lim_attempts l' ip of
         None \<Rightarrow> False
       | Some (count, first_attempt) \<Rightarrow> count \<ge> lim_max_attempts l' \<and> now - first_attempt < lim_lockout l',
       l'))"

definition record_failure :: "nat \<Rightarrow> 'ip \<Rightarrow> 'ip rate_limiter \<Rightarrow> 'ip rate_limiter" where
  "record_failure now ip l =
     l\<lparr>lim_attempts := (lim_attempts l)(ip \<mapsto>
       (case lim_attempts l ip of
          None \<Rightarrow> (1, now)
        | Some (count, first_attempt) \<Rightarrow>
            if now - first_attempt > lim_window l then (1, now) else (count + 1, first_attempt)))\<rparr>"

definition clear_limit :: "'ip \<Rightarrow> 'ip rate_limiter \<Rightarrow> 'ip rate_limiter" where
  "clear_limit ip l = l\<lparr>lim_attempts := (lim_attempts l)(ip := None)\<rparr>"

definition remaining_attempts :: "nat \<Rightarrow> 'ip \<Rightarrow> 'ip rate_limiter \<Rightarrow> u32" where
  "remaining_attempts now ip l =
     (case lim_attempts l ip of
        None \<Rightarrow> lim_max_attempts l
      | Some (count, first_attempt) \<Rightarrow>
          if now - first_attempt > lim_window l then lim_max_attempts l
          else if count \<le> lim_max_attempts l then lim_max_attempts l - count else 0)"

definition lockout_remaining :: "nat \<Rightarrow> 'ip \<Rightarrow> 'ip rate_limiter \<Rightarrow> nat option" where
  "lockout_remaining now ip l =
     (case lim_attempts l ip of
        None \<Rightarrow> None
      | Some (count, first_attempt) \<Rightarrow>
          if count \<ge> lim_max_attempts l \<and> now - first_attempt < lim_lockout l
          then Some ((lim_lockout l - (now - first_attempt)) div whole_seconds) else None)"

section \<open>In front of the S3 API\<close>

text \<open>The reply is the seconds to wait, or that of the inner service.\<close>

datatype 'a throttled = TooManyRequests nat | Served 'a

definition s3_rate_limit_middleware ::
  "nat \<Rightarrow> 'ip \<Rightarrow> ('st \<Rightarrow> 'a \<times> 'st) \<Rightarrow> 'ip rate_limiter \<times> 'st \<Rightarrow> 'a throttled \<times> 'ip rate_limiter \<times> 'st" where
  "s3_rate_limit_middleware now ip next_service st =
     (case is_limited now ip (fst st) of
        (True, l) \<Rightarrow>
          (TooManyRequests (case lockout_remaining now ip l of Some s \<Rightarrow> s | None \<Rightarrow> 60), l, snd st)
      | (False, l) \<Rightarrow>
          (case next_service (snd st) of (reply, inner) \<Rightarrow> (Served reply, l, inner)))"

fun throttled_requests ::
  "('ip \<times> nat \<times> ('st \<Rightarrow> 'a \<times> 'st)) list \<Rightarrow> 'ip rate_limiter \<times> 'st \<Rightarrow>
     'a throttled list \<times> 'ip rate_limiter \<times> 'st" where
  "throttled_requests [] st = ([], st)"
| "throttled_requests ((ip, now, service) # rest) st =
     (case s3_rate_limit_middleware now ip service st of
        (reply, st1) \<Rightarrow>
          (case throttled_requests rest st1 of (replies, st2) \<Rightarrow> (reply # replies, st2)))"

lemma is_limited_empty:
  "lim_attempts l = Map.empty \<Longrightarrow> \<not> fst (is_limited now ip l) \<and> lim_attempts (snd (is_limited now ip l)) = Map.empty"
  by (simp add: is_limited_def cleanup_if_needed_def Let_def fun_eq_iff)

lemma throttled_requests_empty:
  assumes "lim_attempts (fst st) = Map.empty"
  shows "TooManyRequests n \<notin> set (fst (throttled_requests reqs st))"
  using assms
proof (induction reqs arbitrary: st)
  case (Cons r reqs)
  obtain ip now service where r: "r = (ip, now, service)" by (cases r)
  obtain b l where l: "is_limited now ip (fst st) = (b, l)" by fastforce
  then have "\<not> b" "lim_attempts l = Map.empty" using is_limited_empty [OF Cons.prems, of now ip] by auto
  then show ?case
    using Cons.IH [of "(l, snd (service (snd st)))"]
    by (auto simp: r s3_rate_limit_middleware_def l split: prod.split)
qed simp

text \<open>The limiter in front of the S3 API never limits anyone: it starts empty and the
  middleware only asks it, so that however many requests arrive, from one address or many and
  at any times, none is answered with \<^verbatim>\<open>429\<close> \<^verbatim>\<open>SlowDown\<close>.\<close>

theorem s3_rate_limit_never_limits:
  "\<forall>n. TooManyRequests n \<notin> set (fst (throttled_requests reqs (limiter_new start max_attempts window lockout, st)))"
  by (intro allI throttled_requests_empty) (simp add: limiter_new_def)

section \<open>The limiter as it is meant\<close>

lemma record_failures_within:
  assumes "sorted (t # ts)" "\<forall>u \<in> set ts. u - t \<le> lim_window l" "lim_attempts l ip = Some (c, t)"
  shows "lim_attempts (fold (\<lambda>now. record_failure now ip) ts l) ip = Some (c + word_of_nat (length ts), t)
    \<and> lim_max_attempts (fold (\<lambda>now. record_failure now ip) ts l) = lim_max_attempts l
    \<and> lim_lockout (fold (\<lambda>now. record_failure now ip) ts l) = lim_lockout l"
  using assms
proof (induction ts arbitrary: l c)
  case (Cons u ts)
  then have "lim_attempts (record_failure u ip l) ip = Some (c + 1, t)"
    by (auto simp: record_failure_def)
  with Cons.IH [of "record_failure u ip l" "c + 1"] Cons.prems show ?case
    by (simp add: record_failure_def add.assoc)
qed simp

end
