(* ===== verification/Login_Limit.thy ===== *)
theory Login_Limit
  imports Sql_Table Core_Types
begin

text \<open>
  \<^verbatim>\<open>strix-iam/src/store.rs\<close>: the persistent login rate limiter, which locks a key (an
  address or a user) out after too many failures. The table \<^verbatim>\<open>rate_limits\<close> is used by these
  operations only and is a state of its own. Attempts are \<^verbatim>\<open>i32\<close> and \<^verbatim>\<open>u32\<close> words compared as
  signed numbers; durations given in seconds are cast to \<^verbatim>\<open>i64\<close>.
\<close>

section \<open>State and operations\<close>

record rate_limit_config =
  rlc_max_attempts :: u32
  rlc_window_secs :: u64
  rlc_lockout_secs :: u64

definition rate_limit_config_default :: rate_limit_config where
  "rate_limit_config_default = \<lparr>rlc_max_attempts = 5, rlc_window_secs = 60, rlc_lockout_secs = 15 * 60\<rparr>"

record rate_limit_status =
  rls_is_locked :: bool
  rls_attempts :: u32
  rls_lockout_remaining_secs :: "u64 option"

record rate_limit_row =
  rl_key :: string
  rl_attempts :: u32
  rl_first_attempt_at :: instant
  rl_locked_until :: "instant option"

type_synonym rate_limits = "rate_limit_row list"

definition seconds_of :: "u64 \<Rightarrow> int" where
  "seconds_of secs = sint secs * nanos_per_sec"

definition find_limit :: "string \<Rightarrow> rate_limits \<Rightarrow> rate_limit_row option" where
  "find_limit key t = sql_query_row (\<lambda>r. rl_key r = key) t"

definition update_limit ::
  "string \<Rightarrow> (rate_limit_row \<Rightarrow> rate_limit_row) \<Rightarrow> rate_limits \<Rightarrow> rate_limits" where
  "update_limit key f t = sql_update (\<lambda>r. rl_key r = key) f t"

text \<open>The answer while the key is locked: \<open>None\<close> when it is not.\<close>

definition locked_status :: "instant \<Rightarrow> rate_limit_row \<Rightarrow> rate_limit_status option" where
  "locked_status now r =
     (case rl_locked_until r of
        None \<Rightarrow> None
      | Some locked_dt \<Rightarrow>
          if locked_dt > now then
            Some \<lparr>rls_is_locked = True, rls_attempts = rl_attempts r,
              rls_lockout_remaining_secs = Some (word_of_int (max 0 ((locked_dt - now) div nanos_per_sec)))\<rparr>
          else None)"

definition record_login_failure ::
  "rate_limit_config \<Rightarrow> instant \<Rightarrow> string \<Rightarrow> rate_limits \<Rightarrow> rate_limit_status \<times> rate_limits" where
  "record_login_failure cfg now key t =
     (let window_start = now - seconds_of (rlc_window_secs cfg);
          lockout_until = now + seconds_of (rlc_lockout_secs cfg);
          unlocked = (\<lambda>n. \<lparr>rls_is_locked = False, rls_attempts = n, rls_lockout_remaining_secs = None\<rparr>)
      in case find_limit key t of
           None \<Rightarrow>
             (unlocked 1, t @ [\<lparr>rl_key = key, rl_attempts = 1, rl_first_attempt_at = now, rl_locked_until = None\<rparr>])
         | Some r \<Rightarrow>
             (case locked_status now r of
                Some status \<Rightarrow> (status, t)
              | None \<Rightarrow>
                  if rl_first_attempt_at r < window_start then
                    (unlocked 1, update_limit key (\<lambda>r. r\<lparr>rl_attempts := 1, rl_first_attempt_at := now,
                       rl_locked_until := None\<rparr>) t)
                  else
                    let new_attempts = rl_attempts r + 1
                    in if sint new_attempts \<ge> sint (rlc_max_attempts cfg) then
                         (\<lparr>rls_is_locked = True, rls_attempts = new_attempts,
                           rls_lockout_remaining_secs = Some (rlc_lockout_secs cfg)\<rparr>,
                          update_limit key (\<lambda>r. r\<lparr>rl_attempts := new_attempts,
                            rl_locked_until := Some lockout_until\<rparr>) t)
                       else (unlocked new_attempts, update_limit key (rl_attempts_update (\<lambda>_. new_attempts)) t)))"

definition clear_login_attempts :: "string \<Rightarrow> rate_limits \<Rightarrow> rate_limits" where
  "clear_login_attempts key t = sql_delete (\<lambda>r. rl_key r = key) t"

definition is_rate_limited ::
  "rate_limit_config \<Rightarrow> instant \<Rightarrow> string \<Rightarrow> rate_limits \<Rightarrow> rate_limit_status" where
  "is_rate_limited cfg now key t =
     (case find_limit key t of
        None \<Rightarrow> \<lparr>rls_is_locked = False, rls_attempts = 0, rls_lockout_remaining_secs = None\<rparr>
      | Some r \<Rightarrow>
          (case locked_status now r of
             Some status \<Rightarrow> status
           | None \<Rightarrow>
               if rl_first_attempt_at r < now - seconds_of (rlc_window_secs cfg) then
                 \<lparr>rls_is_locked = False, rls_attempts = 0, rls_lockout_remaining_secs = None\<rparr>
               else
                 \<lparr>rls_is_locked = (sint (rl_attempts r) \<ge> sint (rlc_max_attempts cfg)),
                  rls_attempts = rl_attempts r, rls_lockout_remaining_secs = None\<rparr>))"

text \<open>Dates compare as texts, which for the dates that are stored is their order.\<close>

definition cleanup_rate_limits :: "instant \<Rightarrow> rate_limits \<Rightarrow> nat \<times> rate_limits" where
  "cleanup_rate_limits now t =
     (let expired = (\<lambda>r. case rl_locked_until r of Some until \<Rightarrow> until < now | None \<Rightarrow> False)
      in (length (filter expired t), sql_delete expired t))"

section \<open>Lockout\<close>

definition record_failures ::
  "rate_limit_config \<Rightarrow> string \<Rightarrow> instant list \<Rightarrow> rate_limits \<Rightarrow> rate_limits" where
  "record_failures cfg key ts t = fold (\<lambda>now t. snd (record_login_failure cfg now key t)) ts t"

text \<open>The row after \<open>m\<close> failures, the first at \<open>t0\<close>.\<close>

definition limit_row ::
  "rate_limit_config \<Rightarrow> string \<Rightarrow> instant \<Rightarrow> instant list \<Rightarrow> rate_limit_row" where
  "limit_row cfg key t0 ts =
     (let n = nat (sint (rlc_max_attempts cfg))
      in \<lparr>rl_key = key, rl_attempts = word_of_nat (min n (Suc (length ts))), rl_first_attempt_at = t0,
          rl_locked_until = (if n \<le> Suc (length ts) then Some (ts ! (n - 2) + seconds_of (rlc_lockout_secs cfg)) else None)\<rparr>)"

lemma find_limit_append: "find_limit key t = None \<Longrightarrow> rl_key r = key \<Longrightarrow> find_limit key (t @ [r]) = Some r"
  by (simp add: find_limit_def sql_query_row_append)

lemma update_limit_append:
  "find_limit key t = None \<Longrightarrow> rl_key r = key \<Longrightarrow> update_limit key f (t @ [r]) = t @ [f r]"
  by (auto simp: find_limit_def update_limit_def sql_update_def sql_query_row_def find_None_iff
      intro!: map_idI)

lemma sint_small: "k < 2 ^ 31 \<Longrightarrow> sint (word_of_nat k :: u32) = int k"
  by (simp add: signed_of_nat signed_take_bit_int_eq_self)

text \<open>Each further failure within the window moves the row as \<open>limit_row\<close> says.\<close>

lemma record_within_window:
  fixes cfg :: rate_limit_config
  defines "n \<equiv> nat (sint (rlc_max_attempts cfg))"
  assumes n: "2 \<le> n" and key: "find_limit key t = None"
    and window: "u \<le> t0 + seconds_of (rlc_window_secs cfg)"
    and lockout: "n \<le> Suc (length ts) \<Longrightarrow> u < ts ! (n - 2) + seconds_of (rlc_lockout_secs cfg)"
  shows "snd (record_login_failure cfg u key (t @ [limit_row cfg key t0 ts])) = t @ [limit_row cfg key t0 (ts @ [u])]"
proof -
  let ?r = "limit_row cfg key t0 ts"
  have row: "rl_key ?r = key" "rl_first_attempt_at ?r = t0" by (simp_all add: limit_row_def Let_def)
  note found = find_limit_append [OF key row(1)] and update = update_limit_append [OF key row(1)]
  show ?thesis
  proof (cases "n \<le> Suc (length ts)")
    case True
    then have "locked_status u ?r \<noteq> None"
      using lockout by (simp add: locked_status_def limit_row_def Let_def n_def)
    moreover have "limit_row cfg key t0 (ts @ [u]) = ?r"
      using True n by (auto simp: limit_row_def Let_def n_def [symmetric] nth_append)
    ultimately show ?thesis by (auto simp: record_login_failure_def Let_def found)
  next
    case False
    let ?m = "Suc (length ts)"
    have "sint (rlc_max_attempts cfg) < 2 ^ 31" using sint_lt [of "rlc_max_attempts cfg"] by simp
    then have m: "Suc ?m < 2 ^ 31" using False by (simp add: n_def)
    have unlocked: "locked_status u ?r = None" using False
      by (simp add: locked_status_def limit_row_def Let_def n_def [symmetric])
    have attempts: "rl_attempts ?r + 1 = word_of_nat (Suc ?m)"
      using False by (simp add: limit_row_def Let_def n_def [symmetric])
    have ge: "sint (rl_attempts ?r + 1) \<ge> sint (rlc_max_attempts cfg) \<longleftrightarrow> n \<le> Suc ?m"
      unfolding attempts sint_small [OF m] using n by (auto simp: n_def)
    have nth: "(ts @ [u]) ! (n - 2) = u" if "n \<le> Suc ?m"
    proof -
      have "n - 2 = length ts" using that False n by simp
      then show ?thesis by simp
    qed
    have "\<not> rl_first_attempt_at ?r < u - seconds_of (rlc_window_secs cfg)" using window row by simp
    moreover have "word_of_nat n = (2 + word_of_nat (length ts) :: u32)" if "n \<le> Suc ?m"
    proof -
      have "n = Suc (Suc (length ts))" using that False by simp
      then show ?thesis by simp
    qed
    moreover have "min n (Suc (length (ts @ [u]))) = Suc ?m" "min n ?m = ?m" using False by simp_all
    moreover have "n \<le> Suc (length (ts @ [u])) \<longleftrightarrow> n \<le> Suc ?m" by simp
    ultimately show ?thesis
      using unlocked ge nth attempts False
      by (cases "n \<le> Suc ?m") (simp_all add: record_login_failure_def Let_def found update, simp_all add: limit_row_def Let_def n_def [symmetric])
  qed
qed

lemma record_failures_row:
  fixes cfg :: rate_limit_config
  defines "n \<equiv> nat (sint (rlc_max_attempts cfg))"
  assumes n: "2 \<le> n" and key: "find_limit key t = None"
    and longer: "seconds_of (rlc_window_secs cfg) < seconds_of (rlc_lockout_secs cfg)"
    and "sorted (t0 # ts)" "\<forall>u \<in> set ts. u \<le> t0 + seconds_of (rlc_window_secs cfg)"
  shows "record_failures cfg key (t0 # ts) t = t @ [limit_row cfg key t0 ts]"
  using assms(5,6)
proof (induction ts rule: rev_induct)
  case Nil
  then show ?case
    using n key by (simp add: record_failures_def record_login_failure_def limit_row_def Let_def n_def [symmetric])
next
  case (snoc u ts)
  have sorted: "sorted (t0 # ts)" using snoc.prems(1) by (simp add: sorted_append)
  have "u < ts ! (n - 2) + seconds_of (rlc_lockout_secs cfg)" if "n \<le> Suc (length ts)"
  proof -
    have "ts ! (n - 2) \<in> set ts" using that n by simp
    then have "t0 \<le> ts ! (n - 2)" using sorted by simp
    then show ?thesis using snoc.prems(2) longer by force
  qed
  then show ?case
    using record_within_window [of cfg key t u t0 ts] snoc n key sorted
    by (simp add: record_failures_def n_def)
qed

text \<open>With a lockout longer than the window and \<open>n \<ge> 2\<close> attempts allowed, a key with failures
  at the times \<open>ts\<close>, all within one window, is locked exactly from the \<open>n\<close>-th failure on, for
  the lockout.\<close>

lemma lockout_iff:
  fixes cfg :: rate_limit_config
  defines "n \<equiv> nat (sint (rlc_max_attempts cfg))"
  assumes n: "2 \<le> n" and key: "find_limit key t = None"
    and longer: "seconds_of (rlc_window_secs cfg) < seconds_of (rlc_lockout_secs cfg)"
    and ts: "sorted (t0 # ts)" "\<forall>u \<in> set ts. u \<le> t0 + seconds_of (rlc_window_secs cfg)"
  shows "rls_is_locked (is_rate_limited cfg now key (record_failures cfg key (t0 # ts) t)) \<longleftrightarrow>
    n \<le> length (t0 # ts) \<and> now < (t0 # ts) ! (n - 1) + seconds_of (rlc_lockout_secs cfg)"
proof -
  let ?r = "limit_row cfg key t0 ts" and ?m = "Suc (length ts)"
  have row: "rl_key ?r = key" "rl_first_attempt_at ?r = t0" by (simp_all add: limit_row_def Let_def)
  have found: "find_limit key (record_failures cfg key (t0 # ts) t) = Some ?r"
    using record_failures_row [of cfg key t t0 ts] find_limit_append [OF key row(1)] assms by simp
  show ?thesis
  proof (cases "n \<le> ?m")
    case True
    define until where "until = (t0 # ts) ! (n - 1) + seconds_of (rlc_lockout_secs cfg)"
    have "n - Suc 0 = Suc (n - 2)" using n by simp
    then have nth: "(t0 # ts) ! (n - Suc 0) = ts ! (n - 2)" by simp
    have locked: "rl_locked_until ?r = Some until"
      using True by (simp add: limit_row_def Let_def n_def [symmetric] until_def nth)
    have "ts ! (n - 2) \<in> set ts" using True n by simp
    then have "t0 + seconds_of (rlc_window_secs cfg) < until"
      using ts(1) longer by (force simp: until_def nth)
    then have "rl_first_attempt_at ?r < now - seconds_of (rlc_window_secs cfg)" if "\<not> now < until"
      using that row by simp
    then show ?thesis
      using True found locked unfolding until_def [symmetric]
      by (simp add: is_rate_limited_def locked_status_def)
  next
    case False
    have "sint (rlc_max_attempts cfg) < 2 ^ 31" using sint_lt [of "rlc_max_attempts cfg"] by simp
    then have "?m < 2 ^ 31" using False by (simp add: n_def)
    moreover have "rl_attempts ?r = word_of_nat ?m" "rl_locked_until ?r = None"
      using False by (simp_all add: limit_row_def Let_def n_def [symmetric])
    ultimately have "sint (rl_attempts ?r) = int ?m" "locked_status now ?r = None"
      using sint_small by (simp_all only: locked_status_def option.case)
    moreover have "int ?m < sint (rlc_max_attempts cfg)" using False n by (simp add: n_def)
    ultimately show ?thesis using False found by (simp add: is_rate_limited_def)
  qed
qed

end
