(* ===== verification/Admin_Auth.thy ===== *)
theory Admin_Auth
  imports Iam_Authz Rust_Text Local_Fs Audit_Log Login_Limit
begin

text \<open>
  \<^verbatim>\<open>strix-admin/src/auth.rs\<close> and the audit middleware of \<^verbatim>\<open>handlers.rs\<close>: session tokens, the
  origin check, authentication and authorization in front of the admin API, in the order in
  which \<^verbatim>\<open>routes.rs\<close> stacks them.

  The JSON Web Token library, the URL parser and the IP addresses of connections come in
  through the record \<open>web_ext\<close>. A middleware takes the inner service as an argument.
\<close>

section \<open>Requests, replies and the state\<close>

datatype http_method = GET | HEAD | OPTIONS | POST | PUT | DELETE | OtherMethod string

fun method_name :: "http_method \<Rightarrow> string" where
  "method_name GET = ''GET''"
| "method_name HEAD = ''HEAD''"
| "method_name OPTIONS = ''OPTIONS''"
| "method_name POST = ''POST''"
| "method_name PUT = ''PUT''"
| "method_name DELETE = ''DELETE''"
| "method_name (OtherMethod m) = m"

record authenticated_user =
  au_username :: string
  au_access_key_id :: string
  au_is_root :: bool

text \<open>\<open>ar_user\<close> is the request extension that authentication fills in.\<close>

record admin_request =
  arq_method :: http_method
  arq_path :: string
  arq_headers :: "string \<rightharpoonup> string"
  arq_user :: "authenticated_user option"
  arq_peer_ip :: "string option"

record 'b admin_reply =
  rep_status :: u16
  rep_body :: "string + 'b"
  rep_request_id :: "string option"

definition error_reply :: "u16 \<Rightarrow> string \<Rightarrow> 'b admin_reply" where
  "error_reply status msg = \<lparr>rep_status = status, rep_body = Inl msg, rep_request_id = None\<rparr>"

definition ok_reply :: "u16 \<Rightarrow> 'b \<Rightarrow> 'b admin_reply" where
  "ok_reply status body = \<lparr>rep_status = status, rep_body = Inr body, rep_request_id = None\<rparr>"

record admin_state =
  as_iam :: iam_store
  as_limits :: rate_limits
  as_storage :: local_store

type_synonym 'b service = "admin_request \<Rightarrow> admin_state \<Rightarrow> 'b admin_reply \<times> admin_state"

section \<open>Session tokens\<close>

record claims =
  cl_sub :: string
  cl_access_key_id :: string
  cl_is_root :: bool
  cl_iat :: int
  cl_exp :: int

text \<open>\<^verbatim>\<open>jsonwebtoken\<close>: encoding under a secret, decoding under a secret at a time; and the
  scheme, host and port of a URL.\<close>

record web_ext =
  jwt_encode :: "bytes \<Rightarrow> claims \<Rightarrow> (string, string) result"
  jwt_decode :: "bytes \<Rightarrow> instant \<Rightarrow> string \<Rightarrow> (claims, string) result"
  url_parse :: "string \<Rightarrow> (string \<times> string option \<times> u16 option) option"

record session_config =
  sc_secret :: bytes
  sc_expiry_secs :: u64

definition create_token ::
  "web_ext \<Rightarrow> session_config \<Rightarrow> instant \<Rightarrow> string \<Rightarrow> string \<Rightarrow> bool \<Rightarrow> (string, string) result" where
  "create_token wx cfg now username access_key_id is_root =
     jwt_encode wx (sc_secret cfg)
       \<lparr>cl_sub = username, cl_access_key_id = access_key_id, cl_is_root = is_root,
        cl_iat = sql_datetime now, cl_exp = sql_datetime (now + seconds_of (sc_expiry_secs cfg))\<rparr>"

definition verify_token :: "web_ext \<Rightarrow> session_config \<Rightarrow> instant \<Rightarrow> string \<Rightarrow> (claims, string) result" where
  "verify_token wx cfg now token = jwt_decode wx (sc_secret cfg) now token"

section \<open>Origin check\<close>

record csrf_config =
  csrf_allowed_origins :: "string list"
  csrf_enabled :: bool

definition csrf_new :: "string list \<Rightarrow> csrf_config" where
  "csrf_new origins = \<lparr>csrf_allowed_origins = origins, csrf_enabled = True\<rparr>"

definition single_origin :: "string \<Rightarrow> csrf_config" where
  "single_origin origin = csrf_new [origin]"

definition csrf_disabled :: csrf_config where
  "csrf_disabled = \<lparr>csrf_allowed_origins = [], csrf_enabled = False\<rparr>"

definition with_origin :: "string \<Rightarrow> csrf_config \<Rightarrow> csrf_config" where
  "with_origin origin cfg = cfg\<lparr>csrf_allowed_origins := List.insert origin (csrf_allowed_origins cfg)\<rparr>"

definition csrf_default :: csrf_config where
  "csrf_default = csrf_new [''http://localhost:9001'', ''http://127.0.0.1:9001'']"

definition is_origin_allowed :: "csrf_config \<Rightarrow> string \<Rightarrow> bool" where
  "is_origin_allowed cfg origin = (\<not> csrf_enabled cfg \<or> origin \<in> set (csrf_allowed_origins cfg))"

definition origin_of_url :: "string \<times> string option \<times> u16 option \<Rightarrow> string" where
  "origin_of_url u = (case u of (scheme, host, port) \<Rightarrow>
     scheme @ ''://'' @ (case host of Some h \<Rightarrow> h | None \<Rightarrow> [])
       @ (case port of Some p \<Rightarrow> '':'' @ show_nat (unat p) | None \<Rightarrow> []))"

definition request_origin :: "web_ext \<Rightarrow> admin_request \<Rightarrow> string option" where
  "request_origin wx req =
     (case arq_headers req ''origin'' of
        Some origin \<Rightarrow> Some origin
      | None \<Rightarrow> Option.bind (arq_headers req ''referer'') (\<lambda>r. map_option origin_of_url (url_parse wx r)))"

definition csrf_middleware :: "web_ext \<Rightarrow> csrf_config \<Rightarrow> 'b service \<Rightarrow> 'b service" where
  "csrf_middleware wx cfg next_service req st =
     (if arq_method req = GET \<or> arq_method req = HEAD \<or> arq_method req = OPTIONS then next_service req st
      else if \<not> csrf_enabled cfg then next_service req st
      else (case request_origin wx req of
        Some origin \<Rightarrow>
          if is_origin_allowed cfg origin then next_service req st
          else (error_reply 403 ''Cross-origin request not allowed'', st)
      | None \<Rightarrow> next_service req st))"

section \<open>Authentication\<close>

definition auth_middleware ::
  "web_ext \<Rightarrow> session_config \<Rightarrow> instant \<Rightarrow> 'b service \<Rightarrow> 'b service" where
  "auth_middleware wx cfg now next_service req st =
     (case Option.bind (arq_headers req ''authorization'') (strip_prefix ''Bearer '') of
        None \<Rightarrow> (error_reply 401 ''Missing or invalid authorization header'', st)
      | Some token \<Rightarrow>
          (case verify_token wx cfg now token of
             Inl _ \<Rightarrow> (error_reply 401 ''Invalid or expired token'', st)
           | Inr c \<Rightarrow>
               next_service (req\<lparr>arq_user := Some \<lparr>au_username = cl_sub c,
                 au_access_key_id = cl_access_key_id c, au_is_root = cl_is_root c\<rparr>\<rparr>) st))"

section \<open>Authorization\<close>

definition authorization_target :: "http_method \<Rightarrow> string \<Rightarrow> action \<times> resource" where
  "authorization_target m path =
     (let p = (case strip_prefix ''/api/v1'' path of Some q \<Rightarrow> q | None \<Rightarrow> path);
          segments = filter (\<lambda>s. s \<noteq> []) (split_on (CHR ''/'') p)
      in case segments of
           [] \<Rightarrow> (ListAllMyBuckets, resource_all)
         | first # others \<Rightarrow>
             if first = ''usage'' then (ListAllMyBuckets, resource_all)
             else if first = ''tenants'' then
               (if m = GET then (ListAllMyBuckets, resource_all) else (AllActions, resource_all))
             else if first \<noteq> ''buckets'' then (AllActions, resource_all)
             else (case others of
               [] \<Rightarrow>
                 (if m = GET \<or> m = HEAD then (ListAllMyBuckets, resource_all)
                  else if m = POST then (CreateBucket, resource_all)
                  else (AllActions, resource_all))
             | bucket # below \<Rightarrow>
                 (case below of
                    [] \<Rightarrow>
                      (if m = GET \<or> m = HEAD then (HeadBucket, resource_bucket bucket)
                       else if m = DELETE then (DeleteBucket, resource_bucket bucket)
                       else (AllActions, resource_bucket bucket))
                  | kind # keys \<Rightarrow>
                      if kind = ''versioning'' then
                        (if m = GET then (GetBucketVersioning, resource_bucket bucket)
                         else if m = PUT then (PutBucketVersioning, resource_bucket bucket)
                         else (AllActions, resource_bucket bucket))
                      else if kind = ''objects'' then
                        (if keys = [] then
                           (if m = GET then (ListBucket, resource_bucket bucket)
                            else if m = DELETE then (DeleteObject, resource_bucket bucket)
                            else (AllActions, resource_bucket bucket))
                         else
                           let key = str_join ''/'' keys in
                           if m = DELETE then (DeleteObject, resource_object bucket key)
                           else if m = GET then (GetObject, resource_object bucket key)
                           else if m = PUT \<or> m = POST then (PutObject, resource_object bucket key)
                           else (AllActions, resource_object bucket key))
                      else (AllActions, resource_bucket bucket))))"

definition authorize_middleware :: "'f iam_ext \<Rightarrow> 'b service \<Rightarrow> 'b service" where
  "authorize_middleware ix next_service req st =
     (case arq_user req of
        None \<Rightarrow> (error_reply 401 ''Authentication required'', st)
      | Some user \<Rightarrow>
          if au_is_root user then next_service req st
          else
            let (act, res) = authorization_target (arq_method req) (arq_path req) in
            (case is_authorized ix (au_username user) act res (as_iam st) of
               Inl _ \<Rightarrow> (error_reply 500 ''Authorization check failed'', st)
             | Inr allowed \<Rightarrow>
                 if allowed then next_service req st
                 else (error_reply 403 ''Insufficient permissions for admin operation'', st)))"

section \<open>Audit\<close>

text \<open>The principal is read before the inner service runs.\<close>

definition admin_source_ip :: "admin_request \<Rightarrow> string option" where
  "admin_source_ip req =
     (case Option.bind (arq_headers req ''x-forwarded-for'')
         (\<lambda>v. List.find (\<lambda>s. s \<noteq> []) (map str_trim (split_on (CHR '','') v))) of
        Some ip \<Rightarrow> Some ip
      | None \<Rightarrow> (case arq_headers req ''x-real-ip'' of Some ip \<Rightarrow> Some ip | None \<Rightarrow> arq_peer_ip req))"

definition admin_request_id :: "admin_request \<Rightarrow> string \<Rightarrow> string" where
  "admin_request_id req fresh_uuid =
     (case arq_headers req ''x-request-id'' of
        Some i \<Rightarrow> i
      | None \<Rightarrow> (case arq_headers req ''x-amz-request-id'' of Some i \<Rightarrow> i | None \<Rightarrow> fresh_uuid))"

definition admin_audit_entry ::
  "instant \<Rightarrow> nat \<Rightarrow> string \<Rightarrow> admin_request \<Rightarrow> u16 \<Rightarrow> audit_log_entry" where
  "admin_audit_entry now duration_ms request_id req status =
     \<lparr>al_id = request_id, al_timestamp = now,
      al_operation = ''Admin:'' @ method_name (arq_method req) @ '' '' @ arq_path req,
      al_bucket = None, al_key = None, al_principal = map_option au_username (arq_user req),
      al_source_ip = admin_source_ip req, al_status_code = status,
      al_error_code = (if 200 \<le> status \<and> status < 300 then None else Some (show_nat (unat status))),
      al_duration_ms = Some duration_ms, al_bytes_sent = None, al_request_id = request_id\<rparr>"

definition audit_middleware :: "instant \<Rightarrow> nat \<Rightarrow> string \<Rightarrow> 'b service \<Rightarrow> 'b service" where
  "audit_middleware now duration_ms fresh_uuid next_service req st =
     (let request_id = admin_request_id req fresh_uuid;
          (reply, st') = next_service req st;
          entry = admin_audit_entry now duration_ms request_id req (rep_status reply)
      in (reply\<lparr>rep_request_id := Some request_id\<rparr>,
          st'\<lparr>as_storage := snd (log_audit_event entry (as_storage st'))\<rparr>))"

text \<open>The stack in front of every protected route.\<close>

definition protected_route ::
  "'f iam_ext \<Rightarrow> web_ext \<Rightarrow> session_config \<Rightarrow> csrf_config \<Rightarrow> instant \<Rightarrow> nat \<Rightarrow> string \<Rightarrow>
     'b service \<Rightarrow> 'b service" where
  "protected_route ix wx sc csrf now duration_ms fresh_uuid handler =
     audit_middleware now duration_ms fresh_uuid
       (csrf_middleware wx csrf (auth_middleware wx sc now (authorize_middleware ix handler)))"

section \<open>What the stack lets through\<close>

definition origin_ok :: "web_ext \<Rightarrow> csrf_config \<Rightarrow> admin_request \<Rightarrow> bool" where
  "origin_ok wx csrf req \<longleftrightarrow>
     arq_method req \<in> {GET, HEAD, OPTIONS} \<or> \<not> csrf_enabled csrf
     \<or> (case request_origin wx req of None \<Rightarrow> True | Some origin \<Rightarrow> origin \<in> set (csrf_allowed_origins csrf))"

definition bearer_claims :: "web_ext \<Rightarrow> session_config \<Rightarrow> instant \<Rightarrow> admin_request \<Rightarrow> claims option" where
  "bearer_claims wx sc now req =
     (case arq_headers req ''authorization'' of
        None \<Rightarrow> None
      | Some h \<Rightarrow> if starts_with h ''Bearer '' then
            (case verify_token wx sc now (drop (length ''Bearer '') h) of Inl _ \<Rightarrow> None | Inr c \<Rightarrow> Some c) else None)"

definition claims_admitted :: "'f iam_ext \<Rightarrow> iam_store \<Rightarrow> admin_request \<Rightarrow> claims \<Rightarrow> bool" where
  "claims_admitted ix s req c \<longleftrightarrow> cl_is_root c
     \<or> (case authorization_target (arq_method req) (arq_path req) of
          (act, res) \<Rightarrow> is_authorized ix (cl_sub c) act res s = Inr True)"

definition user_of_claims :: "claims \<Rightarrow> authenticated_user" where
  "user_of_claims c = \<lparr>au_username = cl_sub c, au_access_key_id = cl_access_key_id c, au_is_root = cl_is_root c\<rparr>"

lemma csrf_passes:
  "csrf_middleware wx csrf service req st =
     (if origin_ok wx csrf req then service req st else (error_reply 403 ''Cross-origin request not allowed'', st))"
  by (auto simp: csrf_middleware_def origin_ok_def is_origin_allowed_def split: option.split)

lemma auth_passes:
  "bearer_claims wx sc now req = Some c \<Longrightarrow>
     auth_middleware wx sc now service req st = service (req\<lparr>arq_user := Some (user_of_claims c)\<rparr>) st"
  "bearer_claims wx sc now req = None \<Longrightarrow>
     \<exists>msg. auth_middleware wx sc now service req st = (error_reply 401 msg, st)"
  by (auto simp: auth_middleware_def bearer_claims_def strip_prefix_def user_of_claims_def
      split: option.splits sum.splits if_splits)

lemma authorize_passes:
  assumes "arq_user req = Some (user_of_claims c)"
  shows "if claims_admitted ix (as_iam st) req c then authorize_middleware ix service req st = service req st
    else \<exists>status msg. authorize_middleware ix service req st = (error_reply status msg, st) \<and> status \<in> {403, 500}"
  using assms
  by (auto simp: authorize_middleware_def claims_admitted_def user_of_claims_def Let_def
      split: prod.splits sum.splits bool.splits)

text \<open>C34: a request to a protected route reaches its handler exactly when its origin is allowed
  (or it cannot change state, or it names none), it bears a token the session secret verifies,
  and the claims are those of the root user or the IAM policies authorize their subject for
  the action and resource of the route. The handler then sees the user of the claims. Every
  other request is refused with 401, 403 or 500 and changes nothing but the audit log.\<close>

theorem protected_route_guard:
  fixes handler :: "'b service" and ix :: "'f iam_ext" and wx sc csrf now ms uuid
  defines "run \<equiv> protected_route ix wx sc csrf now ms uuid handler"
  shows "if origin_ok wx csrf req \<and> (\<exists>c. bearer_claims wx sc now req = Some c \<and> claims_admitted ix (as_iam st) req c)
    then \<exists>c reply st'. bearer_claims wx sc now req = Some c
      \<and> handler (req\<lparr>arq_user := Some (user_of_claims c)\<rparr>) st = (reply, st')
      \<and> fst (run req st) = reply\<lparr>rep_request_id := Some (admin_request_id req uuid)\<rparr>
      \<and> as_iam (snd (run req st)) = as_iam st' \<and> as_limits (snd (run req st)) = as_limits st'
    else rep_status (fst (run req st)) \<in> {401, 403, 500} \<and> (\<exists>msg. rep_body (fst (run req st)) = Inl msg)
      \<and> (\<exists>entry. snd (run req st) = st\<lparr>as_storage := snd (log_audit_event entry (as_storage st))\<rparr>)"
proof -
  let ?inner = "csrf_middleware wx csrf (auth_middleware wx sc now (authorize_middleware ix handler)) req st"
  let ?id = "admin_request_id req uuid"
  have run: "run req st = ((fst ?inner)\<lparr>rep_request_id := Some ?id\<rparr>,
      (snd ?inner)\<lparr>as_storage := snd (log_audit_event (admin_audit_entry now ms ?id req (rep_status (fst ?inner)))
        (as_storage (snd ?inner)))\<rparr>)"
    by (simp add: run_def protected_route_def audit_middleware_def Let_def case_prod_beta)
  show ?thesis
  proof (cases "origin_ok wx csrf req \<and> (\<exists>c. bearer_claims wx sc now req = Some c \<and> claims_admitted ix (as_iam st) req c)")
    case True
    then obtain c where c: "bearer_claims wx sc now req = Some c" "claims_admitted ix (as_iam st) req c" by blast
    let ?req = "req\<lparr>arq_user := Some (user_of_claims c)\<rparr>"
    have "claims_admitted ix (as_iam st) ?req c" using c(2) by (simp add: claims_admitted_def)
    then have "?inner = handler ?req st"
      using authorize_passes [of ?req c ix st handler] True c(1) by (simp add: csrf_passes auth_passes)
    then show ?thesis using True c(1) by (cases "handler ?req st") (simp add: run)
  next
    case False
    have "\<exists>status msg. ?inner = (error_reply status msg, st) \<and> status \<in> {401, 403, 500}"
    proof (cases "origin_ok wx csrf req")
      case True
      then show ?thesis
      proof (cases "bearer_claims wx sc now req")
        case (Some c)
        let ?req = "req\<lparr>arq_user := Some (user_of_claims c)\<rparr>"
        have "\<not> claims_admitted ix (as_iam st) ?req c"
          using False True Some by (simp add: claims_admitted_def)
        then show ?thesis
          using authorize_passes [of ?req c ix st handler] True Some by (auto simp: csrf_passes auth_passes)
      next
        case None
        then show ?thesis
          using True auth_passes(2) [OF None, of "authorize_middleware ix handler" st] by (auto simp: csrf_passes)
      qed
    next
      case False
      then show ?thesis by (auto simp: csrf_passes)
    qed
    then show ?thesis using False by (auto simp: run error_reply_def)
  qed
qed

text \<open>The audit entry of a request names no principal: authentication comes after the
  middleware has looked for the user.\<close>

lemma audit_without_principal:
  assumes "arq_user req = None"
  shows "\<exists>entry. as_storage (snd (audit_middleware now ms uuid service req st)) =
      snd (log_audit_event entry (as_storage (snd (service req st)))) \<and> al_principal entry = None"
  using assms by (auto simp: audit_middleware_def admin_audit_entry_def Let_def split: prod.split)

text \<open>The target of a request is taken from the undecoded path, without its empty segments.\<close>

lemma target_of_encoded_path:
  "authorization_target DELETE ''/buckets/b/objects/%73ecret'' = (DeleteObject, resource_object ''b'' ''%73ecret'')"
  "authorization_target DELETE ''/buckets/b/objects/x//y'' = (DeleteObject, resource_object ''b'' ''x/y'')"
  by code_simp+

end
