(* ===== verification/Admin_Api.thy ===== *)
theory Admin_Api
  imports Admin_Auth
begin

text \<open>
  \<^verbatim>\<open>strix-admin/src/lib.rs\<close>: the error codes, requests and replies of the admin API, and the
  pages that the listings are cut into. A timestamp of a reply is the instant that the code
  renders as RFC 3339.

  A handler calls one of the stores and chooses the HTTP status by the error, for the object
  store by the error's text. The text of an IAM error is that of the value it carries.
\<close>

section \<open>Error texts\<close>

text \<open>\<^verbatim>\<open>Display\<close> of the storage errors.\<close>

fun strix_error_text :: "strix_error \<Rightarrow> string" where
  "strix_error_text (BucketNotFound b) = ''bucket not found: '' @ b"
| "strix_error_text (BucketAlreadyExists b) = ''bucket already exists: '' @ b"
| "strix_error_text (BucketNotEmpty b) = ''bucket not empty: '' @ b"
| "strix_error_text (InvalidBucketName m) = ''invalid bucket name: '' @ m"
| "strix_error_text (TenantNotFound t) = ''tenant not found: '' @ t"
| "strix_error_text (TenantAlreadyExists t) = ''tenant already exists: '' @ t"
| "strix_error_text (ObjectNotFound b k) = ''object not found: '' @ b @ ''/'' @ k"
| "strix_error_text (InvalidObjectKey m) = ''invalid object key: '' @ m"
| "strix_error_text (VersionNotFound b k v) = ''version not found: '' @ b @ ''/'' @ k @ ''?versionId='' @ v"
| "strix_error_text (InvalidVersionId v) = ''invalid version id: '' @ v"
| "strix_error_text (UploadNotFound u) = ''upload not found: '' @ u"
| "strix_error_text (InvalidPartNumber n) = ''invalid part number: '' @ show_nat (unat n)"
| "strix_error_text InvalidPartOrder = ''invalid part order''"
| "strix_error_text EntityTooSmall = ''entity too small''"
| "strix_error_text EntityTooLarge = ''entity too large''"
| "strix_error_text (NoSuchPart n) = ''no such part: '' @ show_nat (unat n)"
| "strix_error_text AccessDenied = ''access denied''"
| "strix_error_text InvalidCredentials = ''invalid credentials''"
| "strix_error_text SignatureMismatch = ''signature mismatch''"
| "strix_error_text ExpiredToken = ''expired token''"
| "strix_error_text IncompleteSignature = ''incomplete signature''"
| "strix_error_text PreconditionFailed = ''precondition failed''"
| "strix_error_text NotModified = ''not modified''"
| "strix_error_text (InvalidRange m) = ''invalid range: '' @ m"
| "strix_error_text ObjectLocked = ''object locked''"
| "strix_error_text InvalidObjectLockConfiguration = ''invalid object lock configuration''"
| "strix_error_text CorsNotConfigured = ''CORS not configured''"
| "strix_error_text NoSuchLifecycleConfiguration = ''no such lifecycle configuration''"
| "strix_error_text NoSuchNotificationConfiguration = ''no such notification configuration''"
| "strix_error_text (Io m) = ''storage I/O error: '' @ m"
| "strix_error_text (MetadataCorruption m) = ''metadata corruption: '' @ m"
| "strix_error_text ChecksumMismatch = ''checksum mismatch''"
| "strix_error_text (Serialization m) = ''serialization error: '' @ m"
| "strix_error_text (InvalidArgument m) = ''invalid argument: '' @ m"
| "strix_error_text (EncryptionError m) = ''encryption error: '' @ m"
| "strix_error_text InvalidEncryptionKey = ''invalid encryption key''"
| "strix_error_text MissingSecurityHeader = ''SSE-C key missing''"
| "strix_error_text RequestTimeout = ''request timeout''"
| "strix_error_text ServiceUnavailable = ''service unavailable''"
| "strix_error_text SlowDown = ''slow down: too many requests''"
| "strix_error_text (Internal m) = ''internal error: '' @ m"

section \<open>Error replies\<close>

datatype error_code =
    UserNotFoundCode | UserAlreadyExistsCode | GroupNotFoundCode | GroupAlreadyExistsCode
  | PolicyNotFoundCode | AccessKeyNotFoundCode | BucketNotFoundCode | BucketAlreadyExistsCode
  | InvalidRequestCode | UnauthorizedCode | ForbiddenCode | ConflictCode | RateLimitExceededCode
  | InternalErrorCode

datatype error_text = Plain string | OfIam iam_error

record error_response =
  er_code :: error_code
  er_error :: error_text
  er_message :: "string option"
  er_request_id :: "string option"

definition error_new :: "error_text \<Rightarrow> error_response" where
  "error_new e = \<lparr>er_code = InternalErrorCode, er_error = e, er_message = None, er_request_id = None\<rparr>"

definition error_with_code :: "error_code \<Rightarrow> error_text \<Rightarrow> error_response" where
  "error_with_code code e = \<lparr>er_code = code, er_error = e, er_message = None, er_request_id = None\<rparr>"

definition error_with_message :: "error_text \<Rightarrow> string \<Rightarrow> error_response" where
  "error_with_message e m = \<lparr>er_code = InternalErrorCode, er_error = e, er_message = Some m, er_request_id = None\<rparr>"

text \<open>A reply with a JSON body, with a status alone, or with an error.\<close>

datatype 'b api_reply =
    Reply u16 'b
  | StatusOnly u16
  | Failure u16 error_response

fun reply_status :: "'b api_reply \<Rightarrow> u16" where
  "reply_status (Reply n _) = n"
| "reply_status (StatusOnly n) = n"
| "reply_status (Failure n _) = n"

definition quoted :: "string \<Rightarrow> string" where
  "quoted s = CHR 0x27 # s @ [CHR 0x27]"

section \<open>Pages\<close>

record pagination_query =
  pq_limit :: u32
  pq_offset :: u32
  pq_marker :: "string option"

definition default_limit :: u32 where "default_limit = 100"

definition pagination_validate :: "pagination_query \<Rightarrow> pagination_query" where
  "pagination_validate p =
     (if pq_limit p = 0 then p\<lparr>pq_limit := 100\<rparr>
      else if pq_limit p > 1000 then p\<lparr>pq_limit := 1000\<rparr> else p)"

record 'a paginated_response =
  pr_items :: "'a list"
  pr_total :: "nat option"
  pr_count :: u32
  pr_offset :: u32
  pr_has_more :: bool
  pr_next_marker :: "string option"

text \<open>The steps every listing repeats: skip, take, convert, count.\<close>

definition paginate :: "pagination_query \<Rightarrow> ('a \<Rightarrow> 'b) \<Rightarrow> 'a list \<Rightarrow> 'b paginated_response" where
  "paginate query convert rows =
     (let pagination = pagination_validate query;
          total = length rows;
          offset = unat (pq_offset pagination);
          paginated = map convert (take (unat (pq_limit pagination)) (drop offset rows));
          count = word_of_nat (length paginated)
      in \<lparr>pr_items = paginated, pr_total = Some total, pr_count = count, pr_offset = pq_offset pagination,
          pr_has_more = (offset + unat count < total), pr_next_marker = None\<rparr>)"

section \<open>Calls of the stores\<close>

definition iam_call ::
  "(iam_store \<Rightarrow> 'a iam_result \<times> iam_store) \<Rightarrow> (iam_error \<Rightarrow> u16) \<Rightarrow> ('a \<Rightarrow> 'b api_reply) \<Rightarrow>
     admin_state \<Rightarrow> 'b api_reply \<times> admin_state" where
  "iam_call operation status answer st =
     (case operation (as_iam st) of
        (Inl e, s') \<Rightarrow> (Failure (status e) (error_new (OfIam e)), st\<lparr>as_iam := s'\<rparr>)
      | (Inr x, s') \<Rightarrow> (answer x, st\<lparr>as_iam := s'\<rparr>))"

definition iam_read ::
  "'a iam_result \<Rightarrow> (iam_error \<Rightarrow> u16) \<Rightarrow> ('a \<Rightarrow> 'b api_reply) \<Rightarrow> 'b api_reply" where
  "iam_read r status answer =
     (case r of Inl e \<Rightarrow> Failure (status e) (error_new (OfIam e)) | Inr x \<Rightarrow> answer x)"

definition store_failure :: "(string \<Rightarrow> u16) \<Rightarrow> strix_error \<Rightarrow> 'b api_reply" where
  "store_failure status e = (let text = strix_error_text e in Failure (status text) (error_new (Plain text)))"

definition store_call ::
  "(local_store \<Rightarrow> 'a store_result \<times> local_store) \<Rightarrow> (string \<Rightarrow> u16) \<Rightarrow> ('a \<Rightarrow> 'b api_reply) \<Rightarrow>
     admin_state \<Rightarrow> 'b api_reply \<times> admin_state" where
  "store_call operation status answer st =
     (case operation (as_storage st) of
        (Inl e, s') \<Rightarrow> (store_failure status e, st\<lparr>as_storage := s'\<rparr>)
      | (Inr x, s') \<Rightarrow> (answer x, st\<lparr>as_storage := s'\<rparr>))"

definition store_read ::
  "'a store_result \<Rightarrow> (string \<Rightarrow> u16) \<Rightarrow> ('a \<Rightarrow> 'b api_reply) \<Rightarrow> 'b api_reply" where
  "store_read r status answer = (case r of Inl e \<Rightarrow> store_failure status e | Inr x \<Rightarrow> answer x)"

text \<open>The status for a missing bucket, as most handlers of buckets choose it.\<close>

definition not_found_status :: "string \<Rightarrow> u16" where
  "not_found_status text =
     (if str_contains text ''not found'' \<or> str_contains text ''NoSuchBucket'' then 404 else 500)"

section \<open>What a page holds\<close>

lemma pagination_limit: "1 \<le> unat (pq_limit (pagination_validate q)) \<and> unat (pq_limit (pagination_validate q)) \<le> 1000"
proof -
  have "1 \<le> unat w" if "w \<noteq> 0" for w :: u32 using that by (simp add: unat_gt_0 Suc_leI)
  moreover have "unat w \<le> 1000" if "\<not> w > 1000" for w :: u32
    using that by (simp add: not_less word_le_nat_alt)
  ultimately show ?thesis by (simp add: pagination_validate_def)
qed

lemma paginate_items:
  defines "limit q \<equiv> unat (pq_limit (pagination_validate q))"
  shows "pr_items (paginate q f rows) = map f (take (limit q) (drop (unat (pq_offset q)) rows))"
    and "unat (pr_count (paginate q f rows)) = length (pr_items (paginate q f rows))"
    and "pr_has_more (paginate q f rows) \<longleftrightarrow> unat (pq_offset q) + limit q < length rows"
proof -
  let ?page = "map f (take (limit q) (drop (unat (pq_offset q)) rows))"
  have off: "pq_offset (pagination_validate q) = pq_offset q" by (simp add: pagination_validate_def)
  show items: "pr_items (paginate q f rows) = ?page" by (simp add: paginate_def off limit_def Let_def)
  have "length ?page \<le> 1000" using pagination_limit [of q] by (simp add: limit_def min.coboundedI2)
  then have count: "unat (word_of_nat (length ?page) :: u32) = length ?page"
    by (simp add: unat_of_nat take_bit_nat_eq_self)
  then show "unat (pr_count (paginate q f rows)) = length (pr_items (paginate q f rows))"
    by (simp add: paginate_def off limit_def Let_def)
  show "pr_has_more (paginate q f rows) \<longleftrightarrow> unat (pq_offset q) + limit q < length rows"
    using count pagination_limit [of q] by (auto simp: paginate_def off limit_def Let_def)
qed

text \<open>A client that goes on at the end of each page as long as there is more.\<close>

fun all_pages :: "nat \<Rightarrow> pagination_query \<Rightarrow> ('a \<Rightarrow> 'b) \<Rightarrow> 'a list \<Rightarrow> 'b list" where
  "all_pages 0 q f rows = []"
| "all_pages (Suc n) q f rows =
     (let page = paginate q f rows
      in pr_items page @ (if pr_has_more page then all_pages n (q\<lparr>pq_offset := pq_offset q + pr_count page\<rparr>) f rows else []))"

lemma all_pages_from:
  assumes "length rows < 2 ^ 32" "length rows \<le> unat (pq_offset q) + n" "unat (pq_offset q) \<le> length rows"
  shows "all_pages (Suc n) q f rows = map f (drop (unat (pq_offset q)) rows)"
  using assms(2,3)
proof (induction n arbitrary: q)
  case 0
  then have "\<not> pr_has_more (paginate q f rows)" by (simp add: paginate_items)
  then show ?case using 0 by (simp add: paginate_items Let_def)
next
  case (Suc n)
  let ?page = "paginate q f rows" and ?limit = "unat (pq_limit (pagination_validate q))"
  show ?case
  proof (cases "pr_has_more ?page")
    case False
    then have "length (drop (unat (pq_offset q)) rows) \<le> ?limit" by (simp add: paginate_items)
    then show ?thesis using False by (simp add: paginate_items Let_def)
  next
    case True
    let ?q = "q\<lparr>pq_offset := pq_offset q + pr_count ?page\<rparr>"
    have more: "unat (pq_offset q) + ?limit < length rows" using True by (simp add: paginate_items)
    then have count: "unat (pr_count ?page) = ?limit" by (simp add: paginate_items)
    have off: "unat (pq_offset ?q) = unat (pq_offset q) + ?limit"
      using count more assms(1) by (simp add: unat_word_ariths(1))
    have "all_pages (Suc n) ?q f rows = map f (drop (unat (pq_offset ?q)) rows)"
      using Suc pagination_limit [of q] more off by (intro Suc.IH) simp_all
    moreover have "all_pages (Suc (Suc n)) q f rows = pr_items ?page @ all_pages (Suc n) ?q f rows"
      by (subst all_pages.simps(2)) (simp only: Let_def True if_True)
    ultimately have "all_pages (Suc (Suc n)) q f rows =
        map f (take ?limit (drop (unat (pq_offset q)) rows)) @ map f (drop (unat (pq_offset q) + ?limit) rows)"
      by (simp only: off paginate_items)
    then show ?thesis by (metis append_take_drop_id drop_drop add.commute map_append)
  qed
qed

lemma all_pages_complete:
  "length rows < 2 ^ 32 \<Longrightarrow> pq_offset q = 0 \<Longrightarrow> all_pages (Suc (length rows)) q f rows = map f rows"
  using all_pages_from [of rows q "length rows" f] by simp

end
