(* ===== verification/Admin_Users.thy ===== *)
theory Admin_Users
  imports Admin_Api S3_Auth
begin

text \<open>
  \<^verbatim>\<open>strix-admin/src/handlers.rs\<close>: the handlers of users, their access keys and their
  policies. Names begin with \<open>admin_\<close> where the IAM store has an operation of the same name.
\<close>

section \<open>Users\<close>

record create_user_response =
  cur_user :: user
  cur_access_key :: "access_key option"

record user_info =
  ui_username :: string
  ui_arn :: string
  ui_created_at :: instant
  ui_status :: string
  ui_policies :: "string list"

definition user_info_from :: "user \<Rightarrow> user_info" where
  "user_info_from u = \<lparr>ui_username = u_username u, ui_arn = u_arn u, ui_created_at = u_created_at u,
     ui_status = user_status_as_str (u_status u), ui_policies = []\<rparr>"

definition admin_list_users :: "pagination_query \<Rightarrow> admin_state \<Rightarrow> user_info paginated_response api_reply" where
  "admin_list_users pagination st =
     (case list_users (as_iam st) of
        Inr users \<Rightarrow> Reply 200 (paginate pagination user_info_from users)
      | Inl e \<Rightarrow> Failure 500 (error_with_code InternalErrorCode (OfIam e)))"

text \<open>The new user gets a first access key; if that fails the reply has none.\<close>

definition admin_create_user ::
  "'f iam_ext \<Rightarrow> instant \<Rightarrow> bytes \<Rightarrow> string \<Rightarrow> string \<Rightarrow> string \<Rightarrow> admin_state \<Rightarrow>
     create_user_response api_reply \<times> admin_state" where
  "admin_create_user ix now nonce secret key_id username =
     iam_call
       (\<lambda>s. case create_user now username s of
          (Inl e, s') \<Rightarrow> (Inl e, s')
        | (Inr user, s') \<Rightarrow>
            let (key, s'') = create_access_key ix now nonce secret key_id username s'
            in (Inr (user, case key of Inr k \<Rightarrow> Some k | Inl _ \<Rightarrow> None), s''))
       (\<lambda>e. case e of UserExists _ \<Rightarrow> 409 | _ \<Rightarrow> 500)
       (\<lambda>(user, key). Reply 201 \<lparr>cur_user = user, cur_access_key = key\<rparr>)"

definition admin_get_user ::
  "'f iam_ext \<Rightarrow> instant \<Rightarrow> string \<Rightarrow> admin_state \<Rightarrow> user_info api_reply" where
  "admin_get_user ix now username st =
     iam_read (get_user now username (as_iam st))
       (\<lambda>e. case e of UserNotFound _ \<Rightarrow> 404 | _ \<Rightarrow> 500)
       (\<lambda>user. let policies = (case list_user_policies ix username (as_iam st) of Inr ps \<Rightarrow> ps | Inl _ \<Rightarrow> [])
          in Reply 200 ((user_info_from user)\<lparr>ui_policies := map pol_name policies\<rparr>))"

definition admin_delete_user :: "string \<Rightarrow> admin_state \<Rightarrow> unit api_reply \<times> admin_state" where
  "admin_delete_user username =
     iam_call (delete_user username)
       (\<lambda>e. case e of UserNotFound _ \<Rightarrow> 404 | CannotDeleteRoot \<Rightarrow> 403 | _ \<Rightarrow> 500) (\<lambda>_. StatusOnly 204)"

definition invalid_status :: "string \<Rightarrow> 'b api_reply" where
  "invalid_status e = Failure 400 (error_new (Plain (''Invalid status: '' @ e)))"

definition admin_update_user_status ::
  "string \<Rightarrow> string \<Rightarrow> admin_state \<Rightarrow> unit api_reply \<times> admin_state" where
  "admin_update_user_status username requested st =
     (case user_status_from_str requested of
        Inl e \<Rightarrow> (invalid_status e, st)
      | Inr status \<Rightarrow>
          iam_call (update_user_status username status)
            (\<lambda>e. case e of UserNotFound _ \<Rightarrow> 404 | _ \<Rightarrow> 500) (\<lambda>_. StatusOnly 204) st)"

section \<open>Access keys\<close>

record access_key_info =
  aki_access_key_id :: string
  aki_username :: string
  aki_created_at :: instant
  aki_status :: string

definition access_key_info_from :: "access_key \<Rightarrow> access_key_info" where
  "access_key_info_from k = \<lparr>aki_access_key_id = ak_access_key_id k, aki_username = ak_username k,
     aki_created_at = ak_created_at k, aki_status = access_key_status_as_str (ak_status k)\<rparr>"

record create_access_key_response =
  cak_access_key_id :: string
  cak_secret_access_key :: string
  cak_username :: string
  cak_created_at :: instant
  cak_status :: string

definition create_access_key_response_from :: "access_key \<Rightarrow> create_access_key_response" where
  "create_access_key_response_from k = \<lparr>cak_access_key_id = ak_access_key_id k,
     cak_secret_access_key = (case ak_secret_access_key k of Some s \<Rightarrow> s | None \<Rightarrow> []),
     cak_username = ak_username k, cak_created_at = ak_created_at k,
     cak_status = access_key_status_as_str (ak_status k)\<rparr>"

definition admin_list_access_keys ::
  "instant \<Rightarrow> string \<Rightarrow> pagination_query \<Rightarrow> admin_state \<Rightarrow> access_key_info paginated_response api_reply" where
  "admin_list_access_keys now username pagination st =
     iam_read (list_access_keys now username (as_iam st)) (\<lambda>_. 500)
       (\<lambda>keys. Reply 200 (paginate pagination access_key_info_from keys))"

definition admin_create_access_key ::
  "'f iam_ext \<Rightarrow> instant \<Rightarrow> bytes \<Rightarrow> string \<Rightarrow> string \<Rightarrow> string \<Rightarrow> admin_state \<Rightarrow>
     create_access_key_response api_reply \<times> admin_state" where
  "admin_create_access_key ix now nonce secret key_id username =
     iam_call (create_access_key ix now nonce secret key_id username)
       (\<lambda>e. case e of UserNotFound _ \<Rightarrow> 404 | MaxAccessKeysExceeded \<Rightarrow> 409 | CannotModifyRootKeys \<Rightarrow> 403 | _ \<Rightarrow> 500)
       (\<lambda>key. Reply 201 (create_access_key_response_from key))"

definition admin_delete_access_key :: "string \<Rightarrow> admin_state \<Rightarrow> unit api_reply \<times> admin_state" where
  "admin_delete_access_key key_id =
     iam_call (delete_access_key key_id)
       (\<lambda>e. case e of AccessKeyNotFound _ \<Rightarrow> 404 | CannotModifyRootKeys \<Rightarrow> 403 | _ \<Rightarrow> 500) (\<lambda>_. StatusOnly 204)"

definition admin_update_access_key ::
  "string \<Rightarrow> string \<Rightarrow> admin_state \<Rightarrow> unit api_reply \<times> admin_state" where
  "admin_update_access_key key_id requested st =
     (case access_key_status_from_str requested of
        Inl e \<Rightarrow> (invalid_status e, st)
      | Inr status \<Rightarrow>
          iam_call (update_access_key_status key_id status)
            (\<lambda>e. case e of AccessKeyNotFound _ \<Rightarrow> 404 | CannotModifyRootKeys \<Rightarrow> 403 | _ \<Rightarrow> 500)
            (\<lambda>_. StatusOnly 204) st)"

section \<open>Policies of a user\<close>

definition admin_list_user_policies ::
  "'f iam_ext \<Rightarrow> string \<Rightarrow> pagination_query \<Rightarrow> admin_state \<Rightarrow> policy paginated_response api_reply" where
  "admin_list_user_policies ix username pagination st =
     iam_read (list_user_policies ix username (as_iam st)) (\<lambda>_. 500)
       (\<lambda>policies. Reply 200 (paginate pagination (\<lambda>p. p) policies))"

definition admin_attach_user_policy ::
  "'f iam_ext \<Rightarrow> instant \<Rightarrow> string \<Rightarrow> policy \<Rightarrow> admin_state \<Rightarrow> unit api_reply \<times> admin_state" where
  "admin_attach_user_policy ix now username policy =
     iam_call (attach_user_policy ix now username policy)
       (\<lambda>e. case e of UserNotFound _ \<Rightarrow> 404 | InvalidPolicy _ \<Rightarrow> 400 | _ \<Rightarrow> 500) (\<lambda>_. StatusOnly 201)"

definition admin_detach_user_policy ::
  "string \<Rightarrow> string \<Rightarrow> admin_state \<Rightarrow> unit api_reply \<times> admin_state" where
  "admin_detach_user_policy username policy_name =
     iam_call (detach_user_policy username policy_name)
       (\<lambda>e. case e of PolicyNotFound _ \<Rightarrow> 404 | _ \<Rightarrow> 500) (\<lambda>_. StatusOnly 204)"

end
