(* ===== verification/Admin_Groups.thy ===== *)
theory Admin_Groups
  imports Admin_Users
begin

text \<open>
  \<^verbatim>\<open>strix-admin/src/handlers.rs\<close>: the handlers of groups, of managed and of bucket policies,
  the policy simulator and the issue of temporary credentials.
\<close>

section \<open>Bucket policies\<close>

definition admin_get_bucket_policy ::
  "'f iam_ext \<Rightarrow> string \<Rightarrow> admin_state \<Rightarrow> 'f bucket_policy api_reply" where
  "admin_get_bucket_policy ix bucket st =
     iam_read (get_bucket_policy ix bucket (as_iam st)) (\<lambda>_. 500)
       (\<lambda>p. case p of
          Some policy \<Rightarrow> Reply 200 policy
        | None \<Rightarrow> Failure 404 (error_new (Plain (''No policy for bucket '' @ quoted bucket))))"

definition admin_set_bucket_policy ::
  "'f iam_ext \<Rightarrow> instant \<Rightarrow> string \<Rightarrow> 'f bucket_policy \<Rightarrow> admin_state \<Rightarrow> unit api_reply \<times> admin_state" where
  "admin_set_bucket_policy ix now bucket policy =
     iam_call (set_bucket_policy ix now bucket policy)
       (\<lambda>e. case e of InvalidPolicy _ \<Rightarrow> 400 | _ \<Rightarrow> 500) (\<lambda>_. StatusOnly 200)"

definition admin_delete_bucket_policy :: "string \<Rightarrow> admin_state \<Rightarrow> unit api_reply \<times> admin_state" where
  "admin_delete_bucket_policy bucket =
     iam_call (delete_bucket_policy bucket)
       (\<lambda>e. case e of PolicyNotFound _ \<Rightarrow> 404 | _ \<Rightarrow> 500) (\<lambda>_. StatusOnly 204)"

section \<open>Groups\<close>

record group_info =
  gi_name :: string
  gi_arn :: string
  gi_created_at :: instant
  gi_members :: "string list"
  gi_policies :: "string list"

definition group_info_from :: "group \<Rightarrow> group_info" where
  "group_info_from g = \<lparr>gi_name = g_name g, gi_arn = g_arn g, gi_created_at = g_created_at g,
     gi_members = g_members g, gi_policies = g_policies g\<rparr>"

definition admin_list_groups :: "pagination_query \<Rightarrow> admin_state \<Rightarrow> group_info paginated_response api_reply" where
  "admin_list_groups pagination st =
     (case list_groups (as_iam st) of
        Inr groups \<Rightarrow> Reply 200 (paginate pagination group_info_from groups)
      | Inl e \<Rightarrow> Failure 500 (error_with_code InternalErrorCode (OfIam e)))"

definition admin_create_group :: "instant \<Rightarrow> string \<Rightarrow> admin_state \<Rightarrow> group_info api_reply \<times> admin_state" where
  "admin_create_group now name =
     iam_call (create_group now name) (\<lambda>e. case e of GroupExists _ \<Rightarrow> 409 | _ \<Rightarrow> 500)
       (\<lambda>group. Reply 201 (group_info_from group))"

definition admin_get_group :: "string \<Rightarrow> admin_state \<Rightarrow> group_info api_reply" where
  "admin_get_group name st =
     iam_read (get_group name (as_iam st)) (\<lambda>e. case e of GroupNotFound _ \<Rightarrow> 404 | _ \<Rightarrow> 500)
       (\<lambda>group. Reply 200 (group_info_from group))"

definition admin_delete_group :: "string \<Rightarrow> admin_state \<Rightarrow> unit api_reply \<times> admin_state" where
  "admin_delete_group name =
     iam_call (delete_group name) (\<lambda>e. case e of GroupNotFound _ \<Rightarrow> 404 | _ \<Rightarrow> 500) (\<lambda>_. StatusOnly 204)"

definition admin_add_user_to_group ::
  "instant \<Rightarrow> string \<Rightarrow> string \<Rightarrow> admin_state \<Rightarrow> unit api_reply \<times> admin_state" where
  "admin_add_user_to_group now group_name username =
     iam_call (add_user_to_group now group_name username)
       (\<lambda>e. case e of GroupNotFound _ \<Rightarrow> 404 | UserNotFound _ \<Rightarrow> 404 | _ \<Rightarrow> 500) (\<lambda>_. StatusOnly 201)"

definition admin_remove_user_from_group ::
  "string \<Rightarrow> string \<Rightarrow> admin_state \<Rightarrow> unit api_reply \<times> admin_state" where
  "admin_remove_user_from_group group_name username =
     iam_call (remove_user_from_group group_name username)
       (\<lambda>e. case e of GroupNotFound _ \<Rightarrow> 404 | _ \<Rightarrow> 500) (\<lambda>_. StatusOnly 204)"

definition admin_list_group_policies ::
  "'f iam_ext \<Rightarrow> string \<Rightarrow> pagination_query \<Rightarrow> admin_state \<Rightarrow> policy paginated_response api_reply" where
  "admin_list_group_policies ix group_name pagination st =
     iam_read (list_group_policies ix group_name (as_iam st))
       (\<lambda>e. case e of GroupNotFound _ \<Rightarrow> 404 | _ \<Rightarrow> 500)
       (\<lambda>policies. Reply 200 (paginate pagination (\<lambda>p. p) policies))"

definition admin_attach_group_policy ::
  "'f iam_ext \<Rightarrow> string \<Rightarrow> policy \<Rightarrow> admin_state \<Rightarrow> unit api_reply \<times> admin_state" where
  "admin_attach_group_policy ix group_name policy =
     iam_call (attach_group_policy ix group_name policy)
       (\<lambda>e. case e of GroupNotFound _ \<Rightarrow> 404 | InvalidPolicy _ \<Rightarrow> 400 | _ \<Rightarrow> 500) (\<lambda>_. StatusOnly 201)"

definition admin_detach_group_policy ::
  "string \<Rightarrow> string \<Rightarrow> admin_state \<Rightarrow> unit api_reply \<times> admin_state" where
  "admin_detach_group_policy group_name policy_name =
     iam_call (detach_group_policy group_name policy_name)
       (\<lambda>e. case e of GroupNotFound _ \<Rightarrow> 404 | PolicyNotFound _ \<Rightarrow> 404 | _ \<Rightarrow> 500) (\<lambda>_. StatusOnly 204)"

definition admin_list_user_groups ::
  "string \<Rightarrow> pagination_query \<Rightarrow> admin_state \<Rightarrow> group_info paginated_response api_reply" where
  "admin_list_user_groups username pagination st =
     iam_read (list_user_groups username (as_iam st)) (\<lambda>e. case e of UserNotFound _ \<Rightarrow> 404 | _ \<Rightarrow> 500)
       (\<lambda>groups. Reply 200 (paginate pagination group_info_from groups))"

section \<open>Managed policies\<close>

record policy_info =
  pi_name :: string
  pi_version :: string
  pi_statements :: "policy_statement list"
  pi_description :: "string option"

definition policy_info_of :: "policy \<Rightarrow> string option \<Rightarrow> policy_info" where
  "policy_info_of p description = \<lparr>pi_name = pol_name p, pi_version = pol_version p,
     pi_statements = pol_statements p, pi_description = description\<rparr>"

definition list_managed_policies ::
  "'f iam_ext \<Rightarrow> pagination_query \<Rightarrow> admin_state \<Rightarrow> policy_info paginated_response api_reply" where
  "list_managed_policies ix pagination st =
     (case list_policies ix (as_iam st) of
        Inr policies \<Rightarrow> Reply 200 (paginate pagination (\<lambda>(p, desc). policy_info_of p desc) policies)
      | Inl e \<Rightarrow> Failure 500 (error_with_code InternalErrorCode (OfIam e)))"

definition create_managed_policy ::
  "'f iam_ext \<Rightarrow> instant \<Rightarrow> policy \<Rightarrow> string option \<Rightarrow> admin_state \<Rightarrow> policy_info api_reply \<times> admin_state" where
  "create_managed_policy ix now policy description =
     iam_call (create_policy ix now policy description)
       (\<lambda>e. case e of InvalidPolicy _ \<Rightarrow> 400 | _ \<Rightarrow> 500)
       (\<lambda>_. Reply 201 (policy_info_of policy description))"

definition get_managed_policy :: "'f iam_ext \<Rightarrow> string \<Rightarrow> admin_state \<Rightarrow> policy_info api_reply" where
  "get_managed_policy ix name st =
     iam_read (get_policy ix name (as_iam st)) (\<lambda>e. case e of PolicyNotFound _ \<Rightarrow> 404 | _ \<Rightarrow> 500)
       (\<lambda>policy. Reply 200 (policy_info_of policy None))"

definition delete_managed_policy :: "string \<Rightarrow> admin_state \<Rightarrow> unit api_reply \<times> admin_state" where
  "delete_managed_policy name =
     iam_call (delete_policy name) (\<lambda>e. case e of PolicyNotFound _ \<Rightarrow> 404 | _ \<Rightarrow> 500) (\<lambda>_. StatusOnly 204)"

section \<open>The policy simulator\<close>

record simulate_policy_request =
  sim_username :: string
  sim_action :: string
  sim_bucket :: "string option"
  sim_key :: "string option"

record simulate_policy_response =
  spr_allowed :: bool
  spr_effect :: string
  spr_matched_policy :: "string option"
  spr_policy_source :: "string option"
  spr_explanation :: string

fun effect_str :: "authorization_effect \<Rightarrow> string" where
  "effect_str ExplicitAllow = ''ExplicitAllow''"
| "effect_str ExplicitDeny = ''ExplicitDeny''"
| "effect_str ImplicitDeny = ''ImplicitDeny''"
| "effect_str RootAccess = ''RootAccess''"

fun source_str :: "policy_source \<Rightarrow> string" where
  "source_str (UserSource u) = ''user:'' @ u"
| "source_str (GroupSource g) = ''group:'' @ g"
| "source_str (BucketSource b) = ''bucket:'' @ b"

definition explanation :: "authorization_effect \<Rightarrow> string option \<Rightarrow> string option \<Rightarrow> string" where
  "explanation eff matched source =
     (let policy = (case matched of Some p \<Rightarrow> p | None \<Rightarrow> ''unknown'');
          origin = (case source of Some s \<Rightarrow> s | None \<Rightarrow> ''unknown source'')
      in case eff of
           ExplicitAllow \<Rightarrow> ''Request is ALLOWED by policy '' @ quoted policy @ '' from '' @ origin
         | ExplicitDeny \<Rightarrow> ''Request is DENIED by explicit deny in policy '' @ quoted policy @ '' from '' @ origin
         | ImplicitDeny \<Rightarrow> ''Request is DENIED because no policy explicitly allows this action''
         | RootAccess \<Rightarrow> ''Request is ALLOWED because root user has full access'')"

definition simulate_policy ::
  "'f iam_ext \<Rightarrow> simulate_policy_request \<Rightarrow> admin_state \<Rightarrow> simulate_policy_response api_reply" where
  "simulate_policy ix req st =
     (case from_operation (sim_action req) of
        None \<Rightarrow> Failure 400 (error_new (Plain (''Invalid action: '' @ sim_action req)))
      | Some act \<Rightarrow>
          iam_read (is_authorized_detailed ix (sim_username req) act
              \<lparr>res_bucket = sim_bucket req, res_key = sim_key req\<rparr> (as_iam st))
            (\<lambda>e. case e of UserNotFound _ \<Rightarrow> 404 | _ \<Rightarrow> 500)
            (\<lambda>result.
              let source = map_option source_str (ar_policy_source result)
              in Reply 200 \<lparr>spr_allowed = ar_allowed result, spr_effect = effect_str (ar_effect result),
                   spr_matched_policy = ar_matched_policy result, spr_policy_source = source,
                   spr_explanation = explanation (ar_effect result) (ar_matched_policy result) source\<rparr>))"

section \<open>Temporary credentials\<close>

record assume_role_response =
  arp_access_key_id :: string
  arp_secret_access_key :: string
  arp_session_token :: string
  arp_expiration :: instant

definition admin_assume_role ::
  "'f iam_ext \<Rightarrow> instant \<Rightarrow> bytes \<Rightarrow> string \<Rightarrow> string \<Rightarrow> string \<Rightarrow> assume_role_request \<Rightarrow> admin_state \<Rightarrow>
     assume_role_response api_reply \<times> admin_state" where
  "admin_assume_role ix now nonce key_id secret token req =
     iam_call (assume_role ix now nonce key_id secret token req)
       (\<lambda>e. case e of UserNotFound _ \<Rightarrow> 404 | IamInvalidCredentials \<Rightarrow> 403 | _ \<Rightarrow> 500)
       (\<lambda>cred. Reply 200 \<lparr>arp_access_key_id = tc_access_key_id cred,
          arp_secret_access_key = (case tc_secret_access_key cred of Some s \<Rightarrow> s | None \<Rightarrow> []),
          arp_session_token = tc_session_token cred, arp_expiration = tc_expiration cred\<rparr>)"

end
