(* ===== verification/Admin_Buckets.thy ===== *)
theory Admin_Buckets
  imports Admin_Api Listing Bucket_Config
begin

text \<open>
  \<^verbatim>\<open>strix-admin/src/handlers.rs\<close>: the handlers of buckets, tenants and objects. A request may
  carry the slug of a tenant; the handlers that take one refuse buckets of other tenants.
\<close>

section \<open>Tenant scope\<close>

definition bucket_visible_for_tenant :: "string option \<Rightarrow> string option \<Rightarrow> bool" where
  "bucket_visible_for_tenant bucket_tenant_slug filter_tenant_slug =
     (case filter_tenant_slug of Some f \<Rightarrow> bucket_tenant_slug = Some f | None \<Rightarrow> True)"

definition outside_scope :: "'b api_reply" where
  "outside_scope = Failure 403 (error_new (Plain ''Bucket is outside requested tenant scope''))"

text \<open>The reply that ends the request, if there is one.\<close>

definition ensure_bucket_belongs_to_tenant ::
  "string \<Rightarrow> string option \<Rightarrow> admin_state \<Rightarrow> 'b api_reply option" where
  "ensure_bucket_belongs_to_tenant bucket tenant_slug st =
     (if tenant_slug = None then None
      else (case head_bucket bucket (as_storage st) of
        Inl e \<Rightarrow> Some (store_failure not_found_status e)
      | Inr info \<Rightarrow>
          if \<not> bucket_visible_for_tenant (bi_tenant_slug info) tenant_slug then Some outside_scope
          else None))"

definition scoped ::
  "string \<Rightarrow> string option \<Rightarrow> (admin_state \<Rightarrow> 'b api_reply \<times> admin_state) \<Rightarrow> admin_state \<Rightarrow>
     'b api_reply \<times> admin_state" where
  "scoped bucket tenant_slug body st =
     (case ensure_bucket_belongs_to_tenant bucket tenant_slug st of
        Some reply \<Rightarrow> (reply, st) | None \<Rightarrow> body st)"

section \<open>Storage usage\<close>

record bucket_usage =
  bu_name :: string
  bu_created_at :: instant
  bu_object_count :: nat
  bu_total_size :: nat

record storage_usage_response =
  sur_buckets :: "bucket_usage list"
  sur_total_buckets :: nat
  sur_total_objects :: nat
  sur_total_size :: nat

text \<open>The loop over the buckets with the sums so far.\<close>

fun usage_loop ::
  "string option \<Rightarrow> local_store \<Rightarrow> bucket_info list \<Rightarrow> bucket_usage list \<Rightarrow> nat \<Rightarrow> nat \<Rightarrow>
     bucket_usage list \<times> nat \<times> nat" where
  "usage_loop tenant s [] usages total_objects total_size = (usages, total_objects, total_size)"
| "usage_loop tenant s (b # bs) usages total_objects total_size =
     (if \<not> bucket_visible_for_tenant (bi_tenant_slug b) tenant
      then usage_loop tenant s bs usages total_objects total_size
      else
        let (count, sz) = get_bucket_usage (bi_name b) s
        in usage_loop tenant s bs
             (usages @ [\<lparr>bu_name = bi_name b, bu_created_at = bi_created_at b, bu_object_count = count,
                bu_total_size = sz\<rparr>])
             (total_objects + count) (total_size + sz))"

definition get_storage_usage :: "string option \<Rightarrow> admin_state \<Rightarrow> storage_usage_response api_reply" where
  "get_storage_usage tenant_slug st =
     (let s = as_storage st; buckets = list_buckets s;
          (usages, total_objects, total_size) = usage_loop tenant_slug s buckets [] 0 0
      in Reply 200 \<lparr>sur_buckets = usages, sur_total_buckets = length buckets,
           sur_total_objects = total_objects, sur_total_size = total_size\<rparr>)"

section \<open>Buckets\<close>

record api_bucket_info =
  abi_name :: string
  abi_tenant_slug :: "string option"
  abi_created_at :: instant

definition admin_list_buckets ::
  "string option \<Rightarrow> pagination_query \<Rightarrow> admin_state \<Rightarrow> api_bucket_info paginated_response api_reply" where
  "admin_list_buckets tenant_slug pagination st =
     (let buckets = filter (\<lambda>b. bucket_visible_for_tenant (bi_tenant_slug b) tenant_slug) (list_buckets (as_storage st))
      in Reply 200 (paginate pagination (\<lambda>b. \<lparr>abi_name = bi_name b, abi_tenant_slug = bi_tenant_slug b,
           abi_created_at = bi_created_at b\<rparr>) buckets))"

record create_bucket_request =
  cbr_name :: string
  cbr_tenant_slug :: "string option"
  cbr_versioning :: bool
  cbr_object_locking :: bool

text \<open>The failures of the two later calls are only logged.\<close>

definition admin_create_bucket ::
  "store_ext \<Rightarrow> instant \<Rightarrow> create_bucket_request \<Rightarrow> admin_state \<Rightarrow> api_bucket_info api_reply \<times> admin_state" where
  "admin_create_bucket ix now req st =
     (case create_bucket now (cbr_name req) \<lparr>cb_region = None, cb_tenant_slug = cbr_tenant_slug req\<rparr> (as_storage st) of
        (Inl e, s) \<Rightarrow>
          (store_failure (\<lambda>text. if str_contains text ''already exists'' then 409 else 500) e, st\<lparr>as_storage := s\<rparr>)
      | (Inr _, s) \<Rightarrow>
          let s1 = (if cbr_versioning req \<or> cbr_object_locking req
                then snd (set_bucket_versioning (cbr_name req) True s) else s);
              s2 = (if cbr_object_locking req
                then snd (put_object_lock_configuration ix (cbr_name req) \<lparr>olc_enabled = True, olc_rule = None\<rparr> s1)
                else s1)
          in (Reply 201 \<lparr>abi_name = cbr_name req, abi_tenant_slug = cbr_tenant_slug req, abi_created_at = now\<rparr>,
              st\<lparr>as_storage := s2\<rparr>))"

definition admin_delete_bucket :: "string \<Rightarrow> string option \<Rightarrow> admin_state \<Rightarrow> unit api_reply \<times> admin_state" where
  "admin_delete_bucket name tenant_slug =
     scoped name tenant_slug
       (store_call (delete_bucket name)
         (\<lambda>text. if str_contains text ''not found'' \<or> str_contains text ''NoSuchBucket'' then 404
            else if str_contains text ''not empty'' then 409 else 500)
         (\<lambda>_. StatusOnly 204))"

record bucket_detail_info =
  bdi_name :: string
  bdi_created_at :: instant
  bdi_versioning_enabled :: "bool option"
  bdi_object_locking_enabled :: bool

definition admin_get_bucket :: "string \<Rightarrow> string option \<Rightarrow> admin_state \<Rightarrow> bucket_detail_info api_reply" where
  "admin_get_bucket name tenant_slug st =
     store_read (head_bucket name (as_storage st)) not_found_status
       (\<lambda>info.
          if \<not> bucket_visible_for_tenant (bi_tenant_slug info) tenant_slug then outside_scope
          else Reply 200 \<lparr>bdi_name = bi_name info, bdi_created_at = bi_created_at info,
            bdi_versioning_enabled = bi_versioning_enabled info,
            bdi_object_locking_enabled = bi_object_locking_enabled info\<rparr>)"

definition admin_get_bucket_versioning :: "string \<Rightarrow> admin_state \<Rightarrow> string option api_reply" where
  "admin_get_bucket_versioning name st =
     store_read (get_bucket_versioning name (as_storage st)) not_found_status
       (\<lambda>status. Reply 200 (case status of
          Some True \<Rightarrow> Some ''Enabled'' | Some False \<Rightarrow> Some ''Suspended'' | None \<Rightarrow> None))"

definition admin_set_bucket_versioning :: "string \<Rightarrow> bool \<Rightarrow> admin_state \<Rightarrow> unit api_reply \<times> admin_state" where
  "admin_set_bucket_versioning name enabled =
     store_call (set_bucket_versioning name enabled) not_found_status (\<lambda>_. StatusOnly 204)"

section \<open>Tenants\<close>

definition admin_list_tenants :: "admin_state \<Rightarrow> tenant_info paginated_response api_reply" where
  "admin_list_tenants st =
     (let out = list_tenants (as_storage st)
      in Reply 200 \<lparr>pr_items = out, pr_total = Some (length out), pr_count = word_of_nat (length out),
           pr_offset = 0, pr_has_more = False, pr_next_marker = None\<rparr>)"

definition admin_create_tenant ::
  "instant \<Rightarrow> string \<Rightarrow> string \<Rightarrow> string \<Rightarrow> string \<Rightarrow> string option \<Rightarrow> admin_state \<Rightarrow>
     tenant_info api_reply \<times> admin_state" where
  "admin_create_tenant now tid name slug owner notes st =
     (case create_tenant now tid name slug owner notes (as_storage st) of
        (Inr t, s) \<Rightarrow> (Reply 201 t, st\<lparr>as_storage := s\<rparr>)
      | (Inl e, s) \<Rightarrow>
          (Failure (case e of TenantAlreadyExists _ \<Rightarrow> 409 | _ \<Rightarrow> 500) (error_new (Plain (strix_error_text e))),
           st\<lparr>as_storage := s\<rparr>))"

definition admin_delete_tenant :: "string \<Rightarrow> admin_state \<Rightarrow> unit api_reply \<times> admin_state" where
  "admin_delete_tenant slug st =
     (case delete_tenant slug (as_storage st) of
        (Inr _, s) \<Rightarrow> (StatusOnly 204, st\<lparr>as_storage := s\<rparr>)
      | (Inl e, s) \<Rightarrow>
          (Failure (case e of TenantNotFound _ \<Rightarrow> 404 | InvalidArgument _ \<Rightarrow> 409 | _ \<Rightarrow> 500)
             (error_new (Plain (strix_error_text e))),
           st\<lparr>as_storage := s\<rparr>))"

section \<open>Objects\<close>

text \<open>The query's \<^verbatim>\<open>i32\<close> is cast to \<^verbatim>\<open>u32\<close>, which keeps the bits: it is a word here.\<close>

record list_objects_query =
  loq_prefix :: "string option"
  loq_delimiter :: "string option"
  loq_max_keys :: "u32 option"
  loq_continuation_token :: "string option"

record api_object_info =
  aoi_key :: string
  aoi_size :: nat
  aoi_last_modified :: instant
  aoi_etag :: "string option"

record api_list_objects_response =
  alr_objects :: "api_object_info list"
  alr_prefixes :: "string list"
  alr_is_truncated :: bool
  alr_next_continuation_token :: "string option"

definition admin_list_objects ::
  "store_ext \<Rightarrow> string \<Rightarrow> string option \<Rightarrow> list_objects_query \<Rightarrow> admin_state \<Rightarrow>
     api_list_objects_response api_reply" where
  "admin_list_objects ix bucket tenant_slug query st =
     (case ensure_bucket_belongs_to_tenant bucket tenant_slug st of
        Some reply \<Rightarrow> reply
      | None \<Rightarrow>
          store_read (list_objects ix bucket
              \<lparr>lo_prefix = loq_prefix query, lo_delimiter = loq_delimiter query, lo_max_keys = loq_max_keys query,
               lo_continuation_token = loq_continuation_token query, lo_start_after = None\<rparr> (as_storage st))
            (\<lambda>text. if str_contains text ''NoSuchBucket'' then 404 else 500)
            (\<lambda>response. Reply 200
               \<lparr>alr_objects = map (\<lambda>x. \<lparr>aoi_key = oi_key x, aoi_size = oi_size x,
                  aoi_last_modified = oi_last_modified x, aoi_etag = Some (oi_etag x)\<rparr>) (lor_objects response),
                alr_prefixes = lor_common_prefixes response, alr_is_truncated = lor_is_truncated response,
                alr_next_continuation_token = lor_next_continuation_token response\<rparr>))"

text \<open>The key of the path, which the router has decoded, is decoded once more by
  \<^verbatim>\<open>urlencoding\<close>, the first argument; it fails on bytes that are no UTF-8.\<close>

definition admin_delete_object ::
  "(string \<Rightarrow> string option) \<Rightarrow> instant \<Rightarrow> string \<Rightarrow> string \<Rightarrow> string \<Rightarrow> string option \<Rightarrow> admin_state \<Rightarrow>
     unit api_reply \<times> admin_state" where
  "admin_delete_object url_decode now marker_id bucket key tenant_slug =
     scoped bucket tenant_slug
       (let key = (case url_decode key of Some k \<Rightarrow> k | None \<Rightarrow> key)
        in store_call (delete_object now marker_id bucket key)
             (\<lambda>text. if str_contains text ''NoSuchBucket'' \<or> str_contains text ''NoSuchKey'' then 404 else 500)
             (\<lambda>_. StatusOnly 204))"

text \<open>The errors are collected; \<open>ids n\<close> is the id for the marker of the key number \<open>n\<close>.\<close>

fun delete_each ::
  "instant \<Rightarrow> (nat \<Rightarrow> string) \<Rightarrow> string \<Rightarrow> nat \<Rightarrow> string list \<Rightarrow> string list \<Rightarrow> local_store \<Rightarrow>
     string list \<times> local_store" where
  "delete_each now ids bucket n [] errors s = (errors, s)"
| "delete_each now ids bucket n (k # ks) errors s =
     (case delete_object now (ids n) bucket k s of
        (Inl e, s') \<Rightarrow> delete_each now ids bucket (Suc n) ks (errors @ [k @ '': '' @ strix_error_text e]) s'
      | (Inr _, s') \<Rightarrow> delete_each now ids bucket (Suc n) ks errors s')"

definition admin_delete_objects ::
  "instant \<Rightarrow> (nat \<Rightarrow> string) \<Rightarrow> string \<Rightarrow> string list \<Rightarrow> string option \<Rightarrow> admin_state \<Rightarrow>
     unit api_reply \<times> admin_state" where
  "admin_delete_objects now ids bucket keys tenant_slug =
     scoped bucket tenant_slug
       (\<lambda>st. let (errors, s) = delete_each now ids bucket 0 keys [] (as_storage st)
          in (if errors = [] then StatusOnly 204
              else Failure 207 (error_with_message (Plain ''Some objects failed to delete'') (str_join ''; '' errors)),
              st\<lparr>as_storage := s\<rparr>))"

end
