(* ===== verification/Admin_Login.thy ===== *)
theory Admin_Login
  imports Admin_Auth Iam_Invariant
begin

text \<open>
  \<^verbatim>\<open>strix-admin/src/handlers.rs\<close>: logging in to the admin API with an access key or with a
  password, throttled by the persistent limiter. The JSON reply is a value of
  \<open>login_reply\<close>; the text of an internal error is that of the error it carries.
\<close>

section \<open>The handlers\<close>

record login_response =
  lr_token :: string
  lr_expires_at :: instant
  lr_username :: string

datatype login_reply =
    LoggedIn login_response
  | RateLimited u64
  | LoginRefused string
  | SessionFailed string
  | AuthenticationError iam_error

fun login_status :: "login_reply \<Rightarrow> u16" where
  "login_status (LoggedIn _) = 200"
| "login_status (RateLimited _) = 429"
| "login_status (LoginRefused _) = 401"
| "login_status (SessionFailed _) = 500"
| "login_status (AuthenticationError _) = 500"

definition login_key :: "string \<Rightarrow> string" where
  "login_key ip = ''login:'' @ ip"

definition login_failure ::
  "rate_limit_config \<Rightarrow> instant \<Rightarrow> string \<Rightarrow> admin_state \<Rightarrow> admin_state" where
  "login_failure cfg now ip st =
     st\<lparr>as_limits := snd (record_login_failure cfg now (login_key ip) (as_limits st))\<rparr>"

definition start_session ::
  "web_ext \<Rightarrow> session_config \<Rightarrow> instant \<Rightarrow> string \<Rightarrow> string \<Rightarrow> bool \<Rightarrow> login_reply" where
  "start_session wx sc now username access_key_id is_root =
     (case create_token wx sc now username access_key_id is_root of
        Inl e \<Rightarrow> SessionFailed e
      | Inr token \<Rightarrow> LoggedIn \<lparr>lr_token = token, lr_expires_at = now + seconds_of (sc_expiry_secs sc),
          lr_username = username\<rparr>)"

text \<open>The answer to a locked address, if it is locked.\<close>

definition throttle :: "rate_limit_config \<Rightarrow> instant \<Rightarrow> string \<Rightarrow> admin_state \<Rightarrow> login_reply option" where
  "throttle cfg now ip st =
     (let status = is_rate_limited cfg now (login_key ip) (as_limits st)
      in if rls_is_locked status then
           Some (RateLimited (case rls_lockout_remaining_secs status of Some s \<Rightarrow> s | None \<Rightarrow> 60))
         else None)"

definition login ::
  "'f iam_ext \<Rightarrow> web_ext \<Rightarrow> session_config \<Rightarrow> rate_limit_config \<Rightarrow> instant \<Rightarrow> string \<Rightarrow> string \<Rightarrow> string \<Rightarrow>
     admin_state \<Rightarrow> login_reply \<times> admin_state" where
  "login ix wx sc cfg now ip access_key_id secret st =
     (case throttle cfg now ip st of
        Some reply \<Rightarrow> (reply, st)
      | None \<Rightarrow>
          (case get_credentials ix now access_key_id (as_iam st) of
             Inr (Some (key, user)) \<Rightarrow>
               if ak_secret_access_key key = Some secret then
                 (start_session wx sc now (u_username user) (ak_access_key_id key) (u_is_root user),
                  st\<lparr>as_limits := clear_login_attempts (login_key ip) (as_limits st),
                     as_iam := snd (update_access_key_last_used now access_key_id (as_iam st))\<rparr>)
               else (LoginRefused ''Invalid credentials'', login_failure cfg now ip st)
           | Inr None \<Rightarrow> (LoginRefused ''Invalid credentials'', login_failure cfg now ip st)
           | Inl e \<Rightarrow> (AuthenticationError e, st)))"

definition login_with_password ::
  "'f iam_ext \<Rightarrow> web_ext \<Rightarrow> session_config \<Rightarrow> rate_limit_config \<Rightarrow> instant \<Rightarrow> string \<Rightarrow> string \<Rightarrow> string \<Rightarrow>
     admin_state \<Rightarrow> login_reply \<times> admin_state" where
  "login_with_password ix wx sc cfg now ip username password st =
     (case throttle cfg now ip st of
        Some reply \<Rightarrow> (reply, st)
      | None \<Rightarrow>
          (case verify_user_password ix now username password (as_iam st) of
             Inr True \<Rightarrow>
               (case get_user now username (as_iam st) of
                  Inr user \<Rightarrow>
                    if u_status user \<noteq> UserActive then (LoginRefused ''User account is not active'', st)
                    else (start_session wx sc now (u_username user) ''password-auth'' (u_is_root user),
                      st\<lparr>as_limits := clear_login_attempts (login_key ip) (as_limits st)\<rparr>)
                | Inl _ \<Rightarrow> (LoginRefused ''Invalid credentials'', login_failure cfg now ip st))
           | Inr False \<Rightarrow> (LoginRefused ''Invalid credentials'', login_failure cfg now ip st)
           | Inl e \<Rightarrow> (AuthenticationError e, st)))"

section \<open>Lockout\<close>

datatype credentials = WithKey string string | WithPassword string string

fun attempt ::
  "'f iam_ext \<Rightarrow> web_ext \<Rightarrow> session_config \<Rightarrow> rate_limit_config \<Rightarrow> string \<Rightarrow> instant \<times> credentials \<Rightarrow>
     admin_state \<Rightarrow> login_reply \<times> admin_state" where
  "attempt ix wx sc cfg ip (now, WithKey key secret) st = login ix wx sc cfg now ip key secret st"
| "attempt ix wx sc cfg ip (now, WithPassword name password) st =
     login_with_password ix wx sc cfg now ip name password st"

text \<open>Credentials that the IAM store knows to be wrong.\<close>

fun wrong :: "'f iam_ext \<Rightarrow> iam_store \<Rightarrow> instant \<times> credentials \<Rightarrow> bool" where
  "wrong ix s (now, WithKey key secret) \<longleftrightarrow>
     (case get_credentials ix now key s of
        Inr None \<Rightarrow> True
      | Inr (Some (k, _)) \<Rightarrow> ak_secret_access_key k \<noteq> Some secret
      | Inl _ \<Rightarrow> False)"
| "wrong ix s (now, WithPassword name password) \<longleftrightarrow> verify_user_password ix now name password s = Inr False"

definition attempts ::
  "'f iam_ext \<Rightarrow> web_ext \<Rightarrow> session_config \<Rightarrow> rate_limit_config \<Rightarrow> string \<Rightarrow> (instant \<times> credentials) list \<Rightarrow>
     admin_state \<Rightarrow> admin_state" where
  "attempts ix wx sc cfg ip as st = fold (\<lambda>a st. snd (attempt ix wx sc cfg ip a st)) as st"

text \<open>A locked address is not recorded again: the two ways to see a failure agree.\<close>

lemma locked_failure_recorded:
  assumes "find_limit key t = Some r" "locked_status now r \<noteq> None"
  shows "snd (record_login_failure cfg now key t) = t"
  using assms by (auto simp: record_login_failure_def Let_def)

lemma start_session_status: "login_status (start_session wx sc now name key root) \<noteq> 429"
  by (simp add: start_session_def split: sum.split)

lemma throttle_iff:
  "throttle cfg now ip st = None \<longleftrightarrow> \<not> rls_is_locked (is_rate_limited cfg now (login_key ip) (as_limits st))"
  by (simp add: throttle_def Let_def)

lemma throttle_reply: "throttle cfg now ip st = Some reply \<Longrightarrow> login_status reply = 429"
  by (auto simp: throttle_def Let_def split: if_splits)

lemma attempt_throttled:
  "login_status (fst (attempt ix wx sc cfg ip (now, c) st)) = 429 \<longleftrightarrow>
     rls_is_locked (is_rate_limited cfg now (login_key ip) (as_limits st))"
proof (cases "throttle cfg now ip st")
  case None
  then have "login_status (fst (attempt ix wx sc cfg ip (now, c) st)) \<noteq> 429"
    by (cases c) (auto simp: login_def login_with_password_def start_session_status
        split: sum.split option.split prod.split bool.split)
  then show ?thesis using None throttle_iff by blast
next
  case (Some reply)
  then have "fst (attempt ix wx sc cfg ip (now, c) st) = reply"
    by (cases c) (simp_all add: login_def login_with_password_def)
  then show ?thesis using Some throttle_reply [OF Some] throttle_iff [of cfg now ip st] by auto
qed

lemma attempt_wrong:
  assumes "wrong ix (as_iam st) (now, c)"
  shows "snd (attempt ix wx sc cfg ip (now, c) st) =
    (if rls_is_locked (is_rate_limited cfg now (login_key ip) (as_limits st)) then st else login_failure cfg now ip st)"
  using assms throttle_iff [of cfg now ip st]
  by (cases c; cases "throttle cfg now ip st")
    (auto simp: login_def login_with_password_def split: sum.splits option.splits prod.splits)

text \<open>Wrong attempts within one window are recorded as the limiter's failures.\<close>

lemma attempts_recorded:
  fixes cfg :: rate_limit_config
  defines "n \<equiv> nat (sint (rlc_max_attempts cfg))"
  assumes n: "2 \<le> n" and key: "find_limit (login_key ip) (as_limits st) = None"
    and longer: "seconds_of (rlc_window_secs cfg) < seconds_of (rlc_lockout_secs cfg)"
    and "sorted (map fst (a # as))" "\<forall>b \<in> set as. fst b \<le> fst a + seconds_of (rlc_window_secs cfg)"
    and "\<forall>b \<in> set (a # as). wrong ix (as_iam st) b"
  shows "attempts ix wx sc cfg ip (a # as) st =
    st\<lparr>as_limits := record_failures cfg (login_key ip) (map fst (a # as)) (as_limits st)\<rparr>"
  using assms(5,6,7)
proof (induction as rule: rev_induct)
  case Nil
  obtain u c where a: "a = (u, c)" by fastforce
  have "\<not> rls_is_locked (is_rate_limited cfg u (login_key ip) (as_limits st))"
    by (simp add: is_rate_limited_def key)
  then show ?case
    using attempt_wrong [of ix st u c wx sc cfg ip] Nil.prems(3)
    by (simp add: a attempts_def login_failure_def record_failures_def)
next
  case (snoc b as)
  obtain u c where b: "b = (u, c)" by fastforce
  let ?t = "record_failures cfg (login_key ip) (map fst (a # as)) (as_limits st)"
  let ?st = "st\<lparr>as_limits := ?t\<rparr>"
  have sorted: "sorted (map fst (a # as))" using snoc.prems(1) by (simp add: sorted_append)
  have window: "\<forall>v \<in> set (map fst as). v \<le> fst a + seconds_of (rlc_window_secs cfg)"
    using snoc.prems(2) by simp
  have st: "attempts ix wx sc cfg ip (a # as) st = ?st" using snoc sorted by simp
  have wrong: "wrong ix (as_iam ?st) (u, c)" using snoc.prems(3) by (simp add: b)
  have "snd (attempt ix wx sc cfg ip (u, c) ?st) =
      ?st\<lparr>as_limits := snd (record_login_failure cfg u (login_key ip) ?t)\<rparr>"
  proof (cases "rls_is_locked (is_rate_limited cfg u (login_key ip) ?t)")
    case True
    let ?r = "limit_row cfg (login_key ip) (fst a) (map fst as)"
    have "?t = as_limits st @ [?r]"
      using record_failures_row [of cfg "login_key ip" "as_limits st" "fst a" "map fst as"] n key longer sorted window
      by (simp add: n_def)
    moreover have "rl_key ?r = login_key ip" by (simp add: limit_row_def Let_def)
    ultimately have found: "find_limit (login_key ip) ?t = Some ?r" using find_limit_append [OF key] by simp
    have "n \<le> Suc (length as)" "u < (fst a # map fst as) ! (n - 1) + seconds_of (rlc_lockout_secs cfg)"
      using True lockout_iff [of cfg "login_key ip" "as_limits st" "fst a" "map fst as" u] n key longer sorted window
      by (simp_all add: n_def)
    moreover have "n - Suc 0 = Suc (n - 2)" using n by simp
    ultimately have "locked_status u ?r \<noteq> None"
      by (simp add: locked_status_def limit_row_def Let_def n_def [symmetric])
    then show ?thesis
      using True attempt_wrong [OF wrong, of wx sc cfg ip] locked_failure_recorded [OF found] by simp
  next
    case False
    then show ?thesis using attempt_wrong [OF wrong, of wx sc cfg ip] by (simp add: login_failure_def)
  qed
  then show ?case using st by (simp add: attempts_def b record_failures_def)
qed

text \<open>C35: when an address without failures on record has tried to log in \<open>as\<close> times with wrong
  keys or passwords, all within one window, then every further attempt, with right or wrong
  credentials, is answered with 429 exactly from the \<open>n\<close>-th failure on until the lockout after
  that failure has passed. Here \<open>n \<ge> 2\<close> attempts are allowed and the lockout is longer than
  the window, as in the default configuration.\<close>

theorem login_lockout:
  fixes cfg :: rate_limit_config
  defines "n \<equiv> nat (sint (rlc_max_attempts cfg))"
  assumes "2 \<le> n" and "seconds_of (rlc_window_secs cfg) < seconds_of (rlc_lockout_secs cfg)"
    and "find_limit (login_key ip) (as_limits st) = None" and "as \<noteq> []"
    and "sorted (map fst as)" "\<forall>b \<in> set as. fst b \<le> fst (hd as) + seconds_of (rlc_window_secs cfg)"
    and "\<forall>b \<in> set as. wrong ix (as_iam st) b"
  shows "login_status (fst (attempt ix wx sc cfg ip (now, c) (attempts ix wx sc cfg ip as st))) = 429 \<longleftrightarrow>
    n \<le> length as \<and> now < fst (as ! (n - 1)) + seconds_of (rlc_lockout_secs cfg)"
proof -
  obtain a rest where as: "as = a # rest" using assms(5) by (cases as) auto
  have window: "\<forall>v \<in> set (map fst rest). v \<le> fst a + seconds_of (rlc_window_secs cfg)"
    using assms(7) by (simp add: as)
  have "attempts ix wx sc cfg ip as st =
      st\<lparr>as_limits := record_failures cfg (login_key ip) (map fst as) (as_limits st)\<rparr>"
    using attempts_recorded [of cfg ip st a rest ix wx sc] assms by (simp add: as n_def)
  then have "login_status (fst (attempt ix wx sc cfg ip (now, c) (attempts ix wx sc cfg ip as st))) = 429 \<longleftrightarrow>
      n \<le> length as \<and> now < (map fst as) ! (n - 1) + seconds_of (rlc_lockout_secs cfg)"
    using lockout_iff [of cfg "login_key ip" "as_limits st" "fst a" "map fst rest" now] assms(2-4,6) window
    by (simp add: attempt_throttled as n_def)
  moreover have "(map fst as) ! (n - 1) = fst (as ! (n - 1))" if "n \<le> length as" using that assms(2) by simp
  ultimately show ?thesis by auto
qed

definition toy_web :: web_ext where
  "toy_web = \<lparr>jwt_encode = (\<lambda>_ c. Inr (cl_sub c)),
     jwt_decode = (\<lambda>_ _ t. if t = ''t0'' then Inr \<lparr>cl_sub = ''alice'', cl_access_key_id = ''AKIA1'',
       cl_is_root = False, cl_iat = 0, cl_exp = 3600\<rparr> else Inl ''InvalidToken''),
     url_parse = (\<lambda>_. None)\<rparr>"

definition toy_session_config :: session_config where
  "toy_session_config = \<lparr>sc_secret = replicate 32 1, sc_expiry_secs = 3600\<rparr>"

definition toy_admin :: admin_state where
  "toy_admin = \<lparr>as_iam = iam_store_new toy_crypto ''admin'' ''pw'', as_limits = [],
     as_storage = store_empty (replicate 32 1)\<rparr>"

definition toy_guesses :: "(instant \<times> credentials) list" where
  "toy_guesses = [(0, WithKey ''admin'' ''a''), (nanos_per_sec, WithKey ''admin'' ''b''),
     (2 * nanos_per_sec, WithKey ''admin'' ''c''), (3 * nanos_per_sec, WithKey ''admin'' ''d''),
     (4 * nanos_per_sec, WithKey ''admin'' ''e'')]"

text \<open>Five wrong secrets lock the address out; ten minutes later the right one is refused too.\<close>

theorem login_lockout_witness:
  "login_status (fst (attempt toy_iam toy_web toy_session_config rate_limit_config_default ''10.0.0.1''
     (600 * nanos_per_sec, WithKey ''admin'' ''pw'')
     (attempts toy_iam toy_web toy_session_config rate_limit_config_default ''10.0.0.1'' toy_guesses toy_admin))) = 429"
proof -
  have cfg: "nat (sint (rlc_max_attempts rate_limit_config_default)) = 5"
    "seconds_of (rlc_window_secs rate_limit_config_default) = 60 * nanos_per_sec"
    "seconds_of (rlc_lockout_secs rate_limit_config_default) = 900 * nanos_per_sec"
    by (simp_all add: rate_limit_config_default_def seconds_of_def)
  have "\<forall>b \<in> set toy_guesses. wrong toy_iam (as_iam toy_admin) b"
    by (simp add: toy_guesses_def toy_admin_def get_credentials_def iam_store_new_def)
  moreover have "find_limit (login_key ''10.0.0.1'') (as_limits toy_admin) = None"
    by (simp add: toy_admin_def find_limit_def sql_query_row_def)
  moreover have "sorted (map fst toy_guesses)" "toy_guesses \<noteq> []" "length toy_guesses = 5"
    "\<forall>b \<in> set toy_guesses. fst b \<le> fst (hd toy_guesses) + 60 * nanos_per_sec"
    "fst (toy_guesses ! 4) = 4 * nanos_per_sec"
    by (simp_all add: toy_guesses_def nanos_per_sec_def)
  ultimately show ?thesis
    using login_lockout [where cfg = rate_limit_config_default and ip = "''10.0.0.1''" and st = toy_admin
        and as = toy_guesses and ix = toy_iam and now = "600 * nanos_per_sec"
        and c = "WithKey ''admin'' ''pw''" and wx = toy_web and sc = toy_session_config]
    by (simp add: cfg nanos_per_sec_def del: attempt.simps)
qed

end
