(* ===== verification/Admin_Behaviour.thy ===== *)
theory Admin_Behaviour
  imports Admin_Groups Admin_Buckets Admin_Login
begin

text \<open>
  What administrators observe: a new user can sign requests and no policy authorizes it, a request
  in the scope of a tenant cannot touch the buckets of another, asking for object locking has
  no effect, and how a missing bucket is reported.
\<close>

section \<open>New users\<close>

lemma policies_in_force_unknown:
  assumes "iam_inv s" "u \<notin> users_of s"
  shows "policies_in_force ix s u = {}"
  using assms by (force simp: policies_in_force_def user_granted_def group_granted_def iam_inv_def iam_refs_ok_def)

lemma create_user_result:
  assumes "create_user now u s = (Inr x, s')"
  shows "u \<notin> users_of s" "\<not> is_root_name s u" "user_active s' u"
    "root_access_key s' = root_access_key s"
  using assms
  by (auto simp: create_user_def Let_def sql_insert_Some_iff users_of_def user_new_def user_active_def
      sql_exists_iff split: if_splits option.splits)

lemma create_user_policies:
  assumes "create_user now u s = (Inr x, s')"
  shows "policies_in_force ix s' v = policies_in_force ix s v"
proof -
  have "iam_user_policies s' = iam_user_policies s" "iam_groups s' = iam_groups s"
    "iam_group_members s' = iam_group_members s" "iam_group_policies s' = iam_group_policies s"
    using assms by (auto simp: create_user_def Let_def split: if_splits option.splits)
  then show ?thesis by (simp add: policies_in_force_def user_granted_def group_granted_def)
qed

lemma create_access_key_policies:
  assumes "create_access_key ix now nonce secret kid u s = (res, s')"
  shows "policies_in_force ix s' u = policies_in_force ix s u" "root_access_key s' = root_access_key s"
  using assms
  by (cases rule: create_access_key_cases; simp add: policies_in_force_def user_granted_def group_granted_def)+

text \<open>C36: after the admin API has created a user, no identity policy is in force for it, and
  its identity grants nothing: every question of the admin API or of the S3 service whether its
  policies authorize an action is answered with no, and a request it makes to the S3 service
  is granted only when the policy of the bucket allows it. The access key of the reply, if it
  has one, is usable at once, unless its id begins like those of temporary credentials:
  requests signed with the secret of the reply pass the check of their signature.\<close>

theorem created_user_has_no_rights:
  assumes "iam_reachable ix (as_iam st)" "gcm_correct (ix_crypto ix)" "encodings_correct (ix_crypto ix)"
    and "length nonce = NONCE_SIZE" "utf8_valid (as_bytes secret)"
    and "kid \<noteq> root_access_key (as_iam st)" "\<not> starts_with kid ''ASIA''"
    and created: "admin_create_user ix now nonce secret kid u st = (Reply 201 resp, st')"
  shows "is_authorized ix u act res (as_iam st') = Inr False
    \<and> (\<forall>svc. svc_iam svc = Some (as_iam st') \<longrightarrow> get_username ix later svc creds = Inr u \<longrightarrow>
        fst (check_authorization ix later svc creds headers operation bucket key) = Inr () \<longrightarrow>
        (\<exists>b target. bucket = Some b \<and> request_resource bucket key = Some target
          \<and> is_authorized_by_bucket_policy ix b (request_principal u)
              (case from_operation operation of Some a \<Rightarrow> a | None \<Rightarrow> AllActions) target (as_iam st') = Inr (Some Allow)))
    \<and> (\<forall>key. cur_access_key resp = Some key \<longrightarrow> ak_secret_access_key key = Some secret
        \<and> fst (get_secret_key ix later kid (as_iam st')) = Inr secret)"
proof -
  obtain x s1 where user: "create_user now u (as_iam st) = (Inr x, s1)"
    using created by (auto simp: admin_create_user_def iam_call_def split: prod.splits sum.splits)
  obtain k s2 where key: "create_access_key ix now nonce secret kid u s1 = (k, s2)" by fastforce
  have st': "as_iam st' = s2" and resp: "cur_access_key resp = (case k of Inr k \<Rightarrow> Some k | Inl _ \<Rightarrow> None)"
    using created by (auto simp: admin_create_user_def iam_call_def user key split: sum.splits)
  have inv: "iam_inv (as_iam st)" using iam_reachable_inv assms(1) by blast
  note new = create_user_result [OF user]
  have "policies_in_force ix s2 u = {}"
    by (simp only: create_access_key_policies(1) [OF key] create_user_policies [OF user]
        policies_in_force_unknown [OF inv new(1)])
  moreover have root: "\<not> is_root_name s2 u"
    using new(2,4) create_access_key_policies(2) [OF key] by (simp add: is_root_name_def)
  ultimately have no: "is_authorized ix u a r (as_iam st') = Inr False" for a r
    by (simp add: st' is_authorized_eq)
  have "\<exists>b target. bucket = Some b \<and> request_resource bucket key = Some target
      \<and> is_authorized_by_bucket_policy ix b (request_principal u)
          (case from_operation operation of Some a \<Rightarrow> a | None \<Rightarrow> AllActions) target (as_iam st') = Inr (Some Allow)"
    if "svc_iam svc = Some (as_iam st')" "get_username ix later svc creds = Inr u"
      "fst (check_authorization ix later svc creds headers operation bucket key) = Inr ()" for svc key
    using that root no
    by (auto simp: check_authorization_def is_root_name_def Let_def split: sum.splits option.splits effect.splits)
  moreover have "ak_secret_access_key y = Some secret \<and> fst (get_secret_key ix later kid (as_iam st')) = Inr secret"
    if "k = Inr y" for y
  proof -
    have "iam_reachable ix s1" using reach_step [OF assms(1) step_create_user, of now u] user by simp
    then show ?thesis
      using created_key_authenticates [OF _ assms(2-5) key [unfolded that], of later] new(3,4) assms(6,7) by (simp add: st')
  qed
  ultimately show ?thesis using no by (auto simp: resp split: sum.splits)
qed

theorem created_user_has_no_rights_witness:
  "is_authorized toy_iam ''alice'' AllActions resource_all
     (as_iam (snd (admin_create_user toy_iam 10 (replicate 12 0) ''s3cret'' ''AKIA1'' ''alice'' toy_admin))) = Inr False"
proof -
  have reach: "iam_reachable toy_iam (as_iam toy_admin)"
    using reach_new [of toy_iam "''admin''" "''pw''"] by (simp add: toy_admin_def toy_iam_def)
  have lib: "gcm_correct (ix_crypto toy_iam)" "encodings_correct (ix_crypto toy_iam)" by (simp_all add: toy_iam_def)
  have kid: "''AKIA1'' \<noteq> root_access_key (as_iam toy_admin)" by (simp add: toy_admin_def iam_store_new_def)
  have texts: "utf8_valid (as_bytes ''s3cret'')" "\<not> starts_with ''AKIA1'' ''ASIA''" by code_simp+
  have nonce: "length (replicate 12 0 :: bytes) = NONCE_SIZE" by (simp add: NONCE_SIZE_def)
  have "\<exists>resp. fst (admin_create_user toy_iam 10 (replicate 12 0) ''s3cret'' ''AKIA1'' ''alice'' toy_admin) = Reply 201 resp"
    by (simp add: admin_create_user_def iam_call_def toy_admin_def create_user_def iam_store_new_def is_root_name_def
        sql_insert_def Let_def split: prod.split)
  then obtain resp st' where created:
    "admin_create_user toy_iam 10 (replicate 12 0) ''s3cret'' ''AKIA1'' ''alice'' toy_admin = (Reply 201 resp, st')"
    by (metis prod.collapse)
  show ?thesis
    using created_user_has_no_rights [OF reach lib nonce texts(1) kid texts(2) created] by (simp add: created)
qed

section \<open>Tenants\<close>

lemma head_bucket_found: "find_bucket b s = Some br \<Longrightarrow> head_bucket b s = Inr (bucket_info_of_row br)"
  by (simp add: head_bucket_def)

lemma scope_refused:
  assumes "find_bucket b (as_storage st) = Some br" "br_tenant_slug br \<noteq> Some slug"
  shows "ensure_bucket_belongs_to_tenant b (Some slug) st = Some outside_scope"
  using assms
  by (simp add: ensure_bucket_belongs_to_tenant_def head_bucket_found bucket_visible_for_tenant_def bucket_info_of_row_def)

lemma scope_admitted:
  "find_bucket b (as_storage st) = Some br \<Longrightarrow> br_tenant_slug br = Some slug \<Longrightarrow>
     ensure_bucket_belongs_to_tenant b (Some slug) st = None"
  by (simp add: ensure_bucket_belongs_to_tenant_def head_bucket_found bucket_visible_for_tenant_def bucket_info_of_row_def)

text \<open>C37: a request in the scope of a tenant never reaches a bucket of another tenant, or of
  none: reading its details and listing its objects, deleting it or objects of it are all
  answered with 403 and change nothing; on a bucket of the tenant the scope makes no
  difference.\<close>

theorem tenant_scope_respected:
  assumes "find_bucket b (as_storage st) = Some br"
  shows "if br_tenant_slug br = Some slug then
      admin_get_bucket b (Some slug) st = admin_get_bucket b None st
      \<and> admin_list_objects ix b (Some slug) query st = admin_list_objects ix b None query st
      \<and> admin_delete_bucket b (Some slug) st = admin_delete_bucket b None st
      \<and> admin_delete_object url_decode now i b k (Some slug) st = admin_delete_object url_decode now i b k None st
      \<and> admin_delete_objects now ids b ks (Some slug) st = admin_delete_objects now ids b ks None st
    else reply_status (admin_get_bucket b (Some slug) st) = 403
      \<and> reply_status (admin_list_objects ix b (Some slug) query st) = 403
      \<and> admin_delete_bucket b (Some slug) st = (outside_scope, st)
      \<and> admin_delete_object url_decode now i b k (Some slug) st = (outside_scope, st)
      \<and> admin_delete_objects now ids b ks (Some slug) st = (outside_scope, st)"
proof -
  have none: "ensure_bucket_belongs_to_tenant b None st = None"
    by (simp add: ensure_bucket_belongs_to_tenant_def)
  note handlers = admin_get_bucket_def admin_list_objects_def admin_delete_bucket_def admin_delete_object_def
    admin_delete_objects_def scoped_def none head_bucket_found [OF assms]
  show ?thesis
  proof (cases "br_tenant_slug br = Some slug")
    case True
    then show ?thesis
      by (simp add: handlers scope_admitted [OF assms True] store_read_def bucket_visible_for_tenant_def
          bucket_info_of_row_def)
  next
    case False
    then show ?thesis
      by (simp add: handlers scope_refused [OF assms False] store_read_def bucket_visible_for_tenant_def
          bucket_info_of_row_def outside_scope_def)
  qed
qed

definition toy_bucket_admin :: admin_state where
  "toy_bucket_admin = toy_admin\<lparr>as_storage := toy_bucket_store\<rparr>"

theorem tenant_scope_respected_witness:
  "admin_delete_bucket ''logs'' (Some ''acme'') toy_bucket_admin = (outside_scope, toy_bucket_admin)"
proof -
  have br: "find_bucket ''logs'' (as_storage toy_bucket_admin) = Some \<lparr>br_name = ''logs'', br_tenant_slug = None,
      br_region = None, br_versioning_status = ''Unversioned'', br_object_lock_enabled = False, br_created_at = 0\<rparr>"
    by code_simp
  show ?thesis using tenant_scope_respected [OF br, of "''acme''"] by simp
qed

section \<open>Object locking\<close>

lemma find_bucket_created:
  assumes "create_bucket now b opts s = (Inr x, s')"
  shows "\<exists>br. find_bucket b s' = Some br \<and> \<not> br_object_lock_enabled br \<and> br_name br = b
    \<and> bucket_object_lock s' = bucket_object_lock s \<and> find_bucket b s = None"
proof -
  have none: "find_bucket b s = None"
    using assms by (auto simp: create_bucket_def find_bucket_def sql_insert_Some_iff sql_query_row_None
        Let_def split: sum.splits option.splits)
  then show ?thesis
    using assms by (auto simp: create_bucket_def find_bucket_def sql_insert_Some_iff sql_query_row_append
        sql_query_row_Cons Let_def split: sum.splits option.splits)
qed

lemma set_versioning_found:
  assumes "find_bucket b s = Some br" "br_name br = b"
  shows "\<exists>br'. find_bucket b (snd (set_bucket_versioning b True s)) = Some br'
    \<and> br_object_lock_enabled br' = br_object_lock_enabled br \<and> br_versioning_status br' = ''Enabled''
    \<and> bucket_object_lock (snd (set_bucket_versioning b True s)) = bucket_object_lock s"
proof -
  have "sql_count (\<lambda>r. br_name r = b) (buckets s) \<noteq> 0"
    using sql_query_row_SomeD [OF assms(1) [unfolded find_bucket_def]] by (auto simp: sql_count_0)
  then show ?thesis
    using assms by (simp add: set_bucket_versioning_def find_bucket_def sql_query_row_update Let_def)
qed

text \<open>C38: a bucket that is created with object locking through the admin API is reported as
  created, and has versioning, but no lock: its column says so, and no lock configuration
  is stored, since storing one is refused for a bucket whose column is not set.\<close>

theorem object_locking_request_ignored:
  assumes "admin_create_bucket ix now req st = (Reply 201 info, st')" "cbr_object_locking req"
  shows "\<exists>br. find_bucket (cbr_name req) (as_storage st') = Some br \<and> br_versioning_status br = ''Enabled''
    \<and> \<not> br_object_lock_enabled br \<and> bucket_object_lock (as_storage st') = bucket_object_lock (as_storage st)"
proof -
  let ?b = "cbr_name req"
  obtain x s where create: "create_bucket now ?b \<lparr>cb_region = None, cb_tenant_slug = cbr_tenant_slug req\<rparr> (as_storage st) = (Inr x, s)"
    using assms(1) by (auto simp: admin_create_bucket_def store_failure_def Let_def split: prod.splits sum.splits)
  define s1 where "s1 = snd (set_bucket_versioning ?b True s)"
  have st': "as_storage st' = snd (put_object_lock_configuration ix ?b \<lparr>olc_enabled = True, olc_rule = None\<rparr> s1)"
    using assms by (auto simp: admin_create_bucket_def create s1_def Let_def)
  obtain br where br: "find_bucket ?b s = Some br" "\<not> br_object_lock_enabled br" "br_name br = ?b"
    "bucket_object_lock s = bucket_object_lock (as_storage st)"
    using find_bucket_created [OF create] by blast
  obtain br' where br': "find_bucket ?b s1 = Some br'" "\<not> br_object_lock_enabled br'"
    "br_versioning_status br' = ''Enabled''" "bucket_object_lock s1 = bucket_object_lock (as_storage st)"
    using set_versioning_found [OF br(1,3)] br(2,4) by (auto simp: s1_def)
  have "lock_error ?b \<lparr>olc_enabled = True, olc_rule = None\<rparr> s1 \<noteq> None"
    using br' by (simp add: lock_error_def)
  then have "snd (put_object_lock_configuration ix ?b \<lparr>olc_enabled = True, olc_rule = None\<rparr> s1) = s1"
    by (auto simp: put_object_lock_configuration_def put_config_def)
  then show ?thesis using br' by (simp add: st')
qed

definition toy_lock_request :: create_bucket_request where
  "toy_lock_request = \<lparr>cbr_name = ''archive'', cbr_tenant_slug = None, cbr_versioning = False, cbr_object_locking = True\<rparr>"

theorem object_locking_request_ignored_witness:
  "bucket_object_lock (as_storage (snd (admin_create_bucket toy_configs 0 toy_lock_request toy_bucket_admin))) = []"
proof -
  have "isl (fst (create_bucket 0 ''archive'' \<lparr>cb_region = None, cb_tenant_slug = None\<rparr> (as_storage toy_bucket_admin))) = False"
    by code_simp
  then obtain x s where "create_bucket 0 ''archive'' \<lparr>cb_region = None, cb_tenant_slug = None\<rparr> (as_storage toy_bucket_admin) = (Inr x, s)"
    by (metis isl_def obj_sumE prod.collapse)
  then obtain info st' where created: "admin_create_bucket toy_configs 0 toy_lock_request toy_bucket_admin = (Reply 201 info, st')"
    by (simp add: admin_create_bucket_def toy_lock_request_def Let_def)
  have "bucket_object_lock (as_storage toy_bucket_admin) = []" by code_simp
  then show ?thesis
    using object_locking_request_ignored [OF created] unfolding created by (auto simp: toy_lock_request_def)
qed

section \<open>Missing buckets\<close>

lemma missing_bucket_text:
  "str_contains (strix_error_text (BucketNotFound b)) ''not found''"
  "str_contains (strix_error_text (BucketNotFound b)) ''NoSuchBucket'' = str_contains b ''NoSuchBucket''"
  "str_contains (strix_error_text (BucketNotFound b)) ''NoSuchKey'' = str_contains b ''NoSuchKey''"
  by (simp_all add: str_contains_def starts_with_def)

text \<open>Most handlers answer 404 for a missing bucket; listing and deleting objects look for the S3
  code in the text of the error, where it is not, and answer 500.\<close>

lemma missing_bucket_status:
  assumes "\<not> bucket_exists b (as_storage st)" "\<not> str_contains b ''NoSuchBucket''" "\<not> str_contains b ''NoSuchKey''"
  shows "reply_status (admin_get_bucket b None st) = 404" "reply_status (fst (admin_delete_bucket b None st)) = 404"
    "reply_status (admin_list_objects ix b None query st) = 500"
    "reply_status (fst (admin_delete_object url_decode now i b k None st)) = 500"
proof -
  have none: "find_bucket b (as_storage st) = None" using assms(1) by (simp add: bucket_exists_def)
  note texts = missing_bucket_text [of b] assms(2,3)
  show "reply_status (admin_get_bucket b None st) = 404"
    by (simp add: admin_get_bucket_def head_bucket_def none store_read_def store_failure_def not_found_status_def
        texts Let_def del: strix_error_text.simps)
  show "reply_status (fst (admin_delete_bucket b None st)) = 404"
    using assms(1) by (simp add: admin_delete_bucket_def scoped_def ensure_bucket_belongs_to_tenant_def store_call_def
        delete_bucket_def store_failure_def texts Let_def del: strix_error_text.simps)
  show "reply_status (admin_list_objects ix b None query st) = 500"
    using assms(1) by (simp add: admin_list_objects_def ensure_bucket_belongs_to_tenant_def store_read_def
        list_objects_def store_failure_def texts Let_def del: strix_error_text.simps)
  show "reply_status (fst (admin_delete_object url_decode now i b k None st)) = 500"
    by (simp add: admin_delete_object_def scoped_def ensure_bucket_belongs_to_tenant_def store_call_def
        delete_object_def delete_object_version_def none store_failure_def texts Let_def del: strix_error_text.simps)
qed

section \<open>The audit log\<close>

text \<open>The id of an audit entry is the request id that the client may choose, and the log refuses
  an id that it has: a request that repeats an earlier id leaves no trace.\<close>

lemma repeated_request_id_unlogged:
  assumes "arq_headers req ''x-request-id'' = Some i" "service req st = (reply, st')"
    and "i \<in> al_id ` set (audit_log (as_storage st'))"
  shows "snd (audit_middleware now ms uuid service req st) = st'"
  using assms
  by (simp add: audit_middleware_def admin_request_id_def admin_audit_entry_def log_audit_event_def sql_insert_def Let_def)

end
