(* ===== verification/Admin_Logs.thy ===== *)
theory Admin_Logs
  imports Admin_Api Bucket_Config
begin

text \<open>
  \<^verbatim>\<open>strix-admin/src/handlers.rs\<close>: the queries of the audit and the delivery log, and the
  notification rules of a bucket. Parsing an RFC 3339 time is the first argument of the
  audit query.
\<close>

section \<open>Audit log\<close>

record audit_log_query =
  alq_bucket :: "string option"
  alq_operation :: "string option"
  alq_principal :: "string option"
  alq_status :: "string option"
  alq_start_time :: "string option"
  alq_end_time :: "string option"
  alq_limit :: "u32 option"
  alq_offset :: "u32 option"

record list_audit_log_response =
  lal_entries :: "audit_log_entry list"
  lal_total :: nat
  lal_limit :: u32
  lal_offset :: u32

text \<open>A reply entry has the fields of the log entry.\<close>

definition admin_query_audit_log ::
  "(string \<Rightarrow> instant option) \<Rightarrow> audit_log_query \<Rightarrow> admin_state \<Rightarrow> list_audit_log_response api_reply" where
  "admin_query_audit_log parse_time query st =
     (let start_time = Option.bind (alq_start_time query) parse_time;
          end_time = Option.bind (alq_end_time query) parse_time;
          limit = (case alq_limit query of Some n \<Rightarrow> n | None \<Rightarrow> 100);
          offset = (case alq_offset query of Some n \<Rightarrow> n | None \<Rightarrow> 0);
          entries = query_audit_log \<lparr>aq_bucket = alq_bucket query, aq_key_prefix = None,
            aq_operation = alq_operation query, aq_principal = alq_principal query, aq_start_time = start_time,
            aq_end_time = end_time, aq_limit = Some limit, aq_offset = Some offset\<rparr> (as_storage st)
      in Reply 200 \<lparr>lal_entries = entries, lal_total = length entries, lal_limit = limit, lal_offset = offset\<rparr>)"

section \<open>Delivery log\<close>

record delivery_log_query =
  dlq_bucket :: "string option"
  dlq_rule_id :: "string option"
  dlq_status :: "string option"
  dlq_limit :: "u32 option"
  dlq_offset :: "u32 option"

record delivery_attempt_response =
  dar_attempt :: notification_delivery_attempt
  dar_status :: string

record list_deliveries_response =
  ldr_entries :: "delivery_attempt_response list"
  ldr_total :: nat
  ldr_limit :: u32
  ldr_offset :: u32

definition admin_query_notification_deliveries ::
  "delivery_log_query \<Rightarrow> admin_state \<Rightarrow> list_deliveries_response api_reply" where
  "admin_query_notification_deliveries query st =
     (let limit = (case dlq_limit query of Some n \<Rightarrow> n | None \<Rightarrow> 100);
          offset = (case dlq_offset query of Some n \<Rightarrow> n | None \<Rightarrow> 0);
          status = Option.bind (dlq_status query)
            (\<lambda>s. case delivery_status_from_str s of Inr x \<Rightarrow> Some x | Inl _ \<Rightarrow> None);
          entries = map (\<lambda>a. \<lparr>dar_attempt = a, dar_status = delivery_status_to_string (nd_status a)\<rparr>)
            (query_notification_deliveries \<lparr>dq_bucket = dlq_bucket query, dq_rule_id = dlq_rule_id query,
               dq_status = status, dq_limit = Some limit, dq_offset = Some offset\<rparr> (as_storage st))
      in Reply 200 \<lparr>ldr_entries = entries, ldr_total = length entries, ldr_limit = limit, ldr_offset = offset\<rparr>)"

section \<open>Notification rules\<close>

record notification_rule_info =
  nri_id :: string
  nri_events :: "string list"
  nri_prefix :: "string option"
  nri_suffix :: "string option"
  nri_destination_type :: string
  nri_destination_url :: string

fun destination_info :: "notification_destination \<Rightarrow> string \<times> string" where
  "destination_info (Webhook url) = (''webhook'', url)"
| "destination_info (Amqp url _ _) = (''amqp'', url)"
| "destination_info (Kafka brokers topic) = (''kafka'', str_join '','' brokers @ '':'' @ topic)"
| "destination_info (Redis url _) = (''redis'', url)"

definition rule_info :: "notification_rule \<Rightarrow> notification_rule_info" where
  "rule_info r =
     (let (dest_type, dest_url) = destination_info (nr_destination r)
      in \<lparr>nri_id = nr_id r, nri_events = map s3_event_type_to_string (nr_events r),
          nri_prefix = nf_prefix (nr_filter r), nri_suffix = nf_suffix (nr_filter r),
          nri_destination_type = dest_type, nri_destination_url = dest_url\<rparr>)"

definition rule_status :: "string \<Rightarrow> u16" where
  "rule_status text = (if str_contains text ''not found'' then 404 else 500)"

definition get_bucket_notifications ::
  "store_ext \<Rightarrow> string \<Rightarrow> admin_state \<Rightarrow> notification_rule_info list api_reply" where
  "get_bucket_notifications ix bucket st =
     store_read (get_bucket_notification ix bucket (as_storage st)) rule_status
       (\<lambda>config. case config of
          Some c \<Rightarrow> Reply 200 (map rule_info (notification_rules c)) | None \<Rightarrow> Reply 200 [])"

definition parse_event :: "string \<Rightarrow> s3_event_type option" where
  "parse_event e =
     (if e = ''s3:ObjectCreated:*'' then Some ObjectCreatedAll
      else if e = ''s3:ObjectCreated:Put'' then Some ObjectCreatedPut
      else if e = ''s3:ObjectCreated:Post'' then Some ObjectCreatedPost
      else if e = ''s3:ObjectCreated:Copy'' then Some ObjectCreatedCopy
      else if e = ''s3:ObjectCreated:CompleteMultipartUpload'' then Some ObjectCreatedCompleteMultipartUpload
      else if e = ''s3:ObjectRemoved:*'' then Some ObjectRemovedAll
      else if e = ''s3:ObjectRemoved:Delete'' then Some ObjectRemovedDelete
      else if e = ''s3:ObjectRemoved:DeleteMarkerCreated'' then Some ObjectRemovedDeleteMarkerCreated
      else None)"

text \<open>\<^verbatim>\<open>split(c)\<close>: the pieces between the separators, at least one.\<close>

fun split_char :: "char \<Rightarrow> string \<Rightarrow> string list" where
  "split_char c [] = [[]]"
| "split_char c (x # s) =
     (if x = c then [] # split_char c s
      else case split_char c s of [] \<Rightarrow> [[x]] | p # ps \<Rightarrow> (x # p) # ps)"

definition parse_destination :: "string \<Rightarrow> string \<Rightarrow> (notification_destination, string) result" where
  "parse_destination dest_type url =
     (if dest_type = ''webhook'' then Inr (Webhook url)
      else if dest_type = ''amqp'' then Inr (Amqp url ''strix'' ''events'')
      else if dest_type = ''kafka'' then
        let parts = split_char (CHR '':'') url
        in if length parts < 2 then Inl (''Kafka destination should be '' @ quoted ''brokers:topic'')
           else Inr (Kafka (split_char (CHR '','') (str_join '':'' (butlast parts))) (last parts))
      else if dest_type = ''redis'' then Inr (Redis url ''strix:events'')
      else Inl (''Invalid destination type. Use '' @ str_join '', '' (map quoted [''webhook'', ''amqp'', ''kafka''])
        @ '', or '' @ quoted ''redis''))"

record create_rule_request =
  crq_id :: "string option"
  crq_events :: "string list"
  crq_prefix :: "string option"
  crq_suffix :: "string option"
  crq_destination_type :: string
  crq_destination_url :: string

definition create_bucket_notification ::
  "store_ext \<Rightarrow> string \<Rightarrow> string \<Rightarrow> create_rule_request \<Rightarrow> admin_state \<Rightarrow>
     notification_rule_info api_reply \<times> admin_state" where
  "create_bucket_notification ix ulid bucket req st =
     (let events = List.map_filter parse_event (crq_events req) in
      if events = [] then (Failure 400 (error_new (Plain ''No valid events specified'')), st)
      else (case parse_destination (crq_destination_type req) (crq_destination_url req) of
        Inl e \<Rightarrow> (Failure 400 (error_new (Plain e)), st)
      | Inr destination \<Rightarrow>
          let rule_id = (case crq_id req of Some i \<Rightarrow> i | None \<Rightarrow> ulid);
              new_rule = \<lparr>nr_id = rule_id, nr_events = events,
                nr_filter = \<lparr>nf_prefix = crq_prefix req, nf_suffix = crq_suffix req\<rparr>, nr_destination = destination\<rparr>;
              existing = (case get_bucket_notification ix bucket (as_storage st) of
                Inr (Some c) \<Rightarrow> notification_rules c | _ \<Rightarrow> [])
          in store_call (put_bucket_notification ix bucket \<lparr>notification_rules = existing @ [new_rule]\<rparr>) rule_status
               (\<lambda>_. Reply 201 \<lparr>nri_id = rule_id, nri_events = crq_events req, nri_prefix = crq_prefix req,
                  nri_suffix = crq_suffix req, nri_destination_type = crq_destination_type req,
                  nri_destination_url = crq_destination_url req\<rparr>) st))"

definition delete_bucket_notification ::
  "store_ext \<Rightarrow> string \<Rightarrow> string \<Rightarrow> admin_state \<Rightarrow> unit api_reply \<times> admin_state" where
  "delete_bucket_notification ix bucket rule_id st =
     (case get_bucket_notification ix bucket (as_storage st) of
        Inl e \<Rightarrow> (store_failure (\<lambda>_. 500) e, st)
      | Inr None \<Rightarrow> (Failure 404 (error_new (Plain ''No notification rules configured'')), st)
      | Inr (Some config) \<Rightarrow>
          let rules = filter (\<lambda>r. nr_id r \<noteq> rule_id) (notification_rules config)
          in if length rules = length (notification_rules config) then
               (Failure 404 (error_new (Plain (''Rule '' @ quoted rule_id @ '' not found''))), st)
             else
               store_call (put_bucket_notification ix bucket \<lparr>notification_rules = rules\<rparr>) (\<lambda>_. 500)
                 (\<lambda>_. StatusOnly 204) st)"

end
