(* ===== verification/Presign.thy ===== *)
theory Presign
  imports Admin_Api
begin

text \<open>
  \<^verbatim>\<open>strix-s3/src/presign.rs\<close> and its handler in \<^verbatim>\<open>strix-admin/src/handlers.rs\<close>: pre-signed URLs
  (AWS Signature Version 4 in the query). The hashes are those of \<open>crypto_lib\<close>; the formats of
  \<^verbatim>\<open>chrono\<close> and the encoding of \<^verbatim>\<open>urlencoding\<close> are fields of \<open>presign_ext\<close>.
\<close>

section \<open>Generating a URL\<close>

datatype presign_method = PresignGet | PresignPut | PresignDelete

fun presign_method_as_str :: "presign_method \<Rightarrow> string" where
  "presign_method_as_str PresignGet = ''GET''"
| "presign_method_as_str PresignPut = ''PUT''"
| "presign_method_as_str PresignDelete = ''DELETE''"

record presign_options =
  pso_method :: presign_method
  pso_bucket :: string
  pso_key :: string
  pso_expires_in :: u32
  pso_content_type :: "string option"
  pso_region :: "string option"

record presign_generator =
  psg_access_key :: string
  psg_secret_key :: string
  psg_endpoint :: string
  psg_region :: string

record presign_ext =
  px_crypto :: crypto_lib
  amz_date :: "instant \<Rightarrow> string"
  date_stamp :: "instant \<Rightarrow> string"
  url_encode :: "string \<Rightarrow> string"

definition trim_end_matches :: "char \<Rightarrow> string \<Rightarrow> string" where
  "trim_end_matches c s = rev (dropWhile (\<lambda>x. x = c) (rev s))"

definition presign_new :: "string \<Rightarrow> string \<Rightarrow> string \<Rightarrow> string option \<Rightarrow> presign_generator" where
  "presign_new access_key secret_key endpoint region =
     \<lparr>psg_access_key = access_key, psg_secret_key = secret_key,
      psg_endpoint = trim_end_matches (CHR ''/'') endpoint,
      psg_region = (case region of Some r \<Rightarrow> r | None \<Rightarrow> ''us-east-1'')\<rparr>"

text \<open>\<^verbatim>\<open>String::replace\<close> with a nonempty pattern: the occurrences from left to right.\<close>

fun str_replace :: "string \<Rightarrow> string \<Rightarrow> string \<Rightarrow> string" where
  "str_replace p q [] = []"
| "str_replace p q (c # s) =
     (if starts_with (c # s) p then q @ str_replace p q (drop (length p - 1) s)
      else c # str_replace p q s)"

definition presign_hmac :: "presign_ext \<Rightarrow> bytes \<Rightarrow> string \<Rightarrow> bytes" where
  "presign_hmac px key data = hmac_raw (px_crypto px) key (as_bytes data)"

definition get_signing_key :: "presign_ext \<Rightarrow> presign_generator \<Rightarrow> string \<Rightarrow> string \<Rightarrow> bytes" where
  "get_signing_key px g stamp region =
     (let k_date = presign_hmac px (as_bytes (''AWS4'' @ psg_secret_key g)) stamp;
          k_region = presign_hmac px k_date region;
          k_service = presign_hmac px k_region ''s3''
      in presign_hmac px k_service ''aws4_request'')"

text \<open>The parameters in the order of their names, as the \<^verbatim>\<open>BTreeMap\<close> iterates.\<close>

definition presign_params :: "string \<Rightarrow> string \<Rightarrow> u32 \<Rightarrow> (string \<times> string) list" where
  "presign_params credential date expires_in =
     [(''X-Amz-Algorithm'', ''AWS4-HMAC-SHA256''), (''X-Amz-Credential'', credential), (''X-Amz-Date'', date),
      (''X-Amz-Expires'', show_nat (unat expires_in)), (''X-Amz-SignedHeaders'', ''host'')]"

definition line_feed :: string where "line_feed = [CHR 0x0A]"

definition presign_generate :: "presign_ext \<Rightarrow> presign_generator \<Rightarrow> instant \<Rightarrow> presign_options \<Rightarrow> string" where
  "presign_generate px g now opts =
     (let region = (case pso_region opts of Some r \<Rightarrow> r | None \<Rightarrow> psg_region g);
          stamp = date_stamp px now; date = amz_date px now;
          scope = stamp @ ''/'' @ region @ ''/s3/aws4_request'';
          uri_path = ''/'' @ pso_bucket opts @ ''/'' @ url_encode px (pso_key opts);
          params = presign_params (psg_access_key g @ ''/'' @ scope) date (pso_expires_in opts);
          canonical_qs = str_join ''&'' (map (\<lambda>(k, v). url_encode px k @ ''='' @ url_encode px v) params);
          host = str_replace ''https://'' [] (str_replace ''http://'' [] (psg_endpoint g));
          canonical_request = presign_method_as_str (pso_method opts) @ line_feed @ uri_path @ line_feed
            @ canonical_qs @ line_feed @ (''host:'' @ host @ line_feed) @ line_feed @ ''host'' @ line_feed
            @ ''UNSIGNED-PAYLOAD'';
          request_hash = hex_encode (px_crypto px) (sha256_raw (px_crypto px) (as_bytes canonical_request));
          string_to_sign = ''AWS4-HMAC-SHA256'' @ line_feed @ date @ line_feed @ scope @ line_feed @ request_hash;
          signature = presign_hmac px (get_signing_key px g stamp region) string_to_sign
      in psg_endpoint g @ uri_path @ ''?'' @ canonical_qs @ ''&X-Amz-Signature='' @ hex_encode (px_crypto px) signature)"

section \<open>The handler\<close>

record presign_config =
  psc_access_key :: string
  psc_secret_key :: string
  psc_endpoint :: string
  psc_region :: string

record presign_request =
  psr_bucket :: string
  psr_key :: string
  psr_method :: string
  psr_expires_in :: u32

record presign_response =
  psp_url :: string
  psp_expires_in :: u32
  psp_method :: string

definition generate_presign_url ::
  "presign_ext \<Rightarrow> presign_config option \<Rightarrow> instant \<Rightarrow> presign_request \<Rightarrow> presign_response api_reply" where
  "generate_presign_url px config now req =
     (case config of
        None \<Rightarrow> Failure 503 (error_new (Plain ''Pre-signed URLs not configured''))
      | Some c \<Rightarrow>
          let upper = to_uppercase (psr_method req);
              method = (if upper = ''GET'' then Some PresignGet else if upper = ''PUT'' then Some PresignPut
                else if upper = ''DELETE'' then Some PresignDelete else None)
          in (case method of
                None \<Rightarrow> Failure 400 (error_new (Plain ''Invalid method. Use GET, PUT, or DELETE''))
              | Some m \<Rightarrow>
                  let expires_in = min (psr_expires_in req) 604800;
                      generator = presign_new (psc_access_key c) (psc_secret_key c) (psc_endpoint c) (Some (psc_region c));
                      url = presign_generate px generator now
                        \<lparr>pso_method = m, pso_bucket = psr_bucket req, pso_key = psr_key req,
                         pso_expires_in = expires_in, pso_content_type = None, pso_region = Some (psc_region c)\<rparr>
                  in Reply 200 \<lparr>psp_url = url, psp_expires_in = expires_in, psp_method = upper\<rparr>))"

end
