(* ===== verification/Auth_Provider.thy ===== *)
theory Auth_Provider
  imports Strix_Prelude
begin

text \<open>
  \<^verbatim>\<open>strix-s3/src/auth.rs\<close>: the provider that keeps access keys with their secrets in memory.
\<close>

record key_credentials =
  kc_access_key :: string
  kc_secret_key :: string
  kc_is_root :: bool

type_synonym simple_auth_provider = "string \<rightharpoonup> key_credentials"

definition simple_provider_new :: "string \<Rightarrow> string \<Rightarrow> simple_auth_provider" where
  "simple_provider_new root_access_key root_secret_key =
     [root_access_key \<mapsto> \<lparr>kc_access_key = root_access_key, kc_secret_key = root_secret_key, kc_is_root = True\<rparr>]"

definition add_credentials :: "string \<Rightarrow> string \<Rightarrow> bool \<Rightarrow> simple_auth_provider \<Rightarrow> simple_auth_provider" where
  "add_credentials access_key secret_key is_root p =
     p(access_key \<mapsto> \<lparr>kc_access_key = access_key, kc_secret_key = secret_key, kc_is_root = is_root\<rparr>)"

definition provider_credentials :: "simple_auth_provider \<Rightarrow> string \<Rightarrow> key_credentials option" where
  "provider_credentials p access_key = p access_key"

text \<open>Every entry is kept under its own key.\<close>

lemma provider_key:
  assumes "\<And>k c. provider_credentials p k = Some c \<Longrightarrow> kc_access_key c = k"
    and "provider_credentials (add_credentials a s r p) k = Some c"
  shows "kc_access_key c = k"
  using assms by (auto simp: add_credentials_def provider_credentials_def split: if_splits)

end
