(* ===== verification/Idp_Store.thy ===== *)
theory Idp_Store
  imports Iam_Authz Rust_Text
begin

text \<open>
  \<^verbatim>\<open>strix-iam/src/idp.rs\<close>, \<^verbatim>\<open>smtp.rs\<close> and the last part of \<^verbatim>\<open>store.rs\<close>: the identity providers
  and the mail relay, their two tables in the IAM database, and the secrets that are
  encrypted in them. A password or client secret that comes in empty leaves the stored one
  as it is.

  The encryption key is that of the IAM store. \<^verbatim>\<open>serde_json\<close> on the mappings and recipients, and
  \<^verbatim>\<open>urlencoding\<close>, are parameters.
\<close>

section \<open>Identity providers\<close>

datatype identity_provider_type = LocalProvider | OidcProvider

type_synonym group_mappings = "string \<rightharpoonup> string"

record oidc_config =
  oc_id :: string
  oc_name :: string
  oc_enabled :: bool
  oc_issuer_url :: string
  oc_client_id :: string
  oc_client_secret :: string
  oc_redirect_uri :: string
  oc_scopes :: "string list"
  oc_username_claim :: string
  oc_groups_claim :: "string option"
  oc_auto_create_users :: bool
  oc_default_policy :: "string option"
  oc_group_policy_mappings :: group_mappings

definition default_scopes :: "string list" where
  "default_scopes = [''openid'', ''email'', ''profile'']"

definition default_username_claim :: string where
  "default_username_claim = ''preferred_username''"

definition azure_ad :: "string \<Rightarrow> string \<Rightarrow> string \<Rightarrow> string \<Rightarrow> string \<Rightarrow> oidc_config" where
  "azure_ad provider_id tenant_id client_id client_secret redirect_uri =
     \<lparr>oc_id = provider_id, oc_name = ''Azure AD'', oc_enabled = True,
      oc_issuer_url = ''https://login.microsoftonline.com/'' @ tenant_id @ ''/v2.0'',
      oc_client_id = client_id, oc_client_secret = client_secret, oc_redirect_uri = redirect_uri,
      oc_scopes = [''openid'', ''email'', ''profile''], oc_username_claim = ''preferred_username'',
      oc_groups_claim = Some ''groups'', oc_auto_create_users = True, oc_default_policy = None,
      oc_group_policy_mappings = Map.empty\<rparr>"

definition google :: "string \<Rightarrow> string \<Rightarrow> string \<Rightarrow> string \<Rightarrow> oidc_config" where
  "google provider_id client_id client_secret redirect_uri =
     \<lparr>oc_id = provider_id, oc_name = ''Google'', oc_enabled = True,
      oc_issuer_url = ''https://accounts.google.com'',
      oc_client_id = client_id, oc_client_secret = client_secret, oc_redirect_uri = redirect_uri,
      oc_scopes = [''openid'', ''email'', ''profile''], oc_username_claim = ''email'',
      oc_groups_claim = None, oc_auto_create_users = True, oc_default_policy = None,
      oc_group_policy_mappings = Map.empty\<rparr>"

text \<open>\<^verbatim>\<open>trim_end_matches\<close> with a text removes it from the end as often as it stands there.\<close>

function drop_prefixes :: "string \<Rightarrow> string \<Rightarrow> string" where
  "drop_prefixes p s = (if p \<noteq> [] \<and> starts_with s p then drop_prefixes p (drop (length p) s) else s)"
  by pat_completeness auto
termination
  by (relation "measure (\<lambda>(p, s). length s)") (auto simp: starts_with_def intro: diff_less)

declare drop_prefixes.simps [simp del]

definition trim_end_text :: "string \<Rightarrow> string \<Rightarrow> string" where
  "trim_end_text p s = rev (drop_prefixes (rev p) (rev s))"

definition authorization_query :: "(string \<Rightarrow> string) \<Rightarrow> oidc_config \<Rightarrow> string \<Rightarrow> string \<Rightarrow> string" where
  "authorization_query url_encode cfg state nonce =
     ''?client_id='' @ url_encode (oc_client_id cfg) @ ''&response_type=code&redirect_uri=''
       @ url_encode (oc_redirect_uri cfg) @ ''&scope='' @ url_encode (str_join '' '' (oc_scopes cfg))
       @ ''&state='' @ url_encode state @ ''&nonce='' @ url_encode nonce"

definition config_authorization_url :: "(string \<Rightarrow> string) \<Rightarrow> oidc_config \<Rightarrow> string \<Rightarrow> string \<Rightarrow> string" where
  "config_authorization_url url_encode cfg state nonce =
     trim_end_text ''/v2.0'' (oc_issuer_url cfg) @ ''/authorize'' @ authorization_query url_encode cfg state nonce"

definition token_url :: "oidc_config \<Rightarrow> string" where
  "token_url cfg = trim_end_text ''/v2.0'' (oc_issuer_url cfg) @ ''/token''"

record oidc_token_response =
  tr_access_token :: string
  tr_token_type :: string
  tr_expires_in :: "u64 option"
  tr_refresh_token :: "string option"
  tr_id_token :: "string option"
  tr_scope :: "string option"

record oidc_claims =
  ocl_sub :: string
  ocl_iss :: string
  ocl_aud :: string
  ocl_exp :: u64
  ocl_iat :: u64
  ocl_email :: "string option"
  ocl_email_verified :: "bool option"
  ocl_name :: "string option"
  ocl_given_name :: "string option"
  ocl_family_name :: "string option"
  ocl_preferred_username :: "string option"
  ocl_picture :: "string option"
  ocl_nonce :: "string option"
  ocl_groups :: "string list option"

definition claimed_username :: "string \<Rightarrow> oidc_claims \<Rightarrow> string option" where
  "claimed_username claim c =
     (if claim = ''email'' then ocl_email c
      else if claim = ''preferred_username'' then
        (case ocl_preferred_username c of Some u \<Rightarrow> Some u | None \<Rightarrow> ocl_email c)
      else if claim = ''sub'' then Some (ocl_sub c)
      else if claim = ''name'' then ocl_name c
      else None)"

record oidc_auth_result =
  oar_username :: string
  oar_claims :: oidc_claims
  oar_access_token :: string
  oar_refresh_token :: "string option"
  oar_expires_at :: "instant option"

record identity_provider_config =
  ipc_local_enabled :: bool
  ipc_oidc_providers :: "oidc_config list"

definition local_only :: identity_provider_config where
  "local_only = \<lparr>ipc_local_enabled = True, ipc_oidc_providers = []\<rparr>"

definition add_oidc_provider :: "oidc_config \<Rightarrow> identity_provider_config \<Rightarrow> identity_provider_config" where
  "add_oidc_provider cfg ipc = ipc\<lparr>ipc_oidc_providers := ipc_oidc_providers ipc @ [cfg]\<rparr>"

definition get_provider :: "string \<Rightarrow> identity_provider_config \<Rightarrow> oidc_config option" where
  "get_provider provider_id ipc = List.find (\<lambda>p. oc_id p = provider_id \<and> oc_enabled p) (ipc_oidc_providers ipc)"

definition enabled_providers :: "identity_provider_config \<Rightarrow> oidc_config list" where
  "enabled_providers ipc = filter oc_enabled (ipc_oidc_providers ipc)"

section \<open>Sessions\<close>

text \<open>Adding seconds to a time in \<^verbatim>\<open>chrono\<close>: a duration of more than the largest signed 64-bit
  number of milliseconds, or a date after the year 262142, is a panic, here \<^const>\<open>None\<close>.\<close>

definition chrono_add_seconds :: "instant \<Rightarrow> int \<Rightarrow> instant option" where
  "chrono_add_seconds t secs =
     (let later = t + of_sql_datetime secs
      in if \<bar>secs\<bar> > (2 ^ 63 - 1) div 1000 then None
         else if later < of_sql_datetime (-8334601228800) \<or> later \<ge> of_sql_datetime 8210266876800 then None
         else Some later)"

datatype login_method = LocalLogin string | OidcLogin string string | AccessKeyLogin string

record session =
  ses_id :: string
  ses_username :: string
  ses_login_method :: login_method
  ses_created_at :: instant
  ses_expires_at :: instant
  ses_oidc_claims :: "oidc_claims option"

definition session_new_local :: "instant \<Rightarrow> string \<Rightarrow> string \<Rightarrow> u64 \<Rightarrow> session option" where
  "session_new_local now ulid username duration_hours =
     map_option (\<lambda>expires. \<lparr>ses_id = ulid, ses_username = username, ses_login_method = LocalLogin [],
         ses_created_at = now, ses_expires_at = expires, ses_oidc_claims = None\<rparr>)
       (chrono_add_seconds now (3600 * sint duration_hours))"

text \<open>\<^verbatim>\<open>unwrap_or\<close> computes its argument even where it is not needed.\<close>

definition session_new_oidc :: "instant \<Rightarrow> string \<Rightarrow> string \<Rightarrow> oidc_auth_result \<Rightarrow> u64 \<Rightarrow> session option" where
  "session_new_oidc now ulid provider_id auth duration_hours =
     map_option (\<lambda>expires. \<lparr>ses_id = ulid, ses_username = oar_username auth,
         ses_login_method = OidcLogin provider_id (ocl_sub (oar_claims auth)),
         ses_created_at = now,
         ses_expires_at = (case oar_expires_at auth of Some t \<Rightarrow> t | None \<Rightarrow> expires),
         ses_oidc_claims = Some (oar_claims auth)\<rparr>)
       (chrono_add_seconds now (3600 * sint duration_hours))"

definition session_is_expired :: "instant \<Rightarrow> session \<Rightarrow> bool" where
  "session_is_expired now s = (now \<ge> ses_expires_at s)"

section \<open>The mail relay\<close>

datatype usage_report_schedule = Daily | Weekly

fun schedule_interval :: "usage_report_schedule \<Rightarrow> int" where
  "schedule_interval Daily = 24 * 60 * 60"
| "schedule_interval Weekly = 7 * 24 * 60 * 60"

fun schedule_as_str :: "usage_report_schedule \<Rightarrow> string" where
  "schedule_as_str Daily = ''daily''"
| "schedule_as_str Weekly = ''weekly''"

definition schedule_from_str :: "string \<Rightarrow> usage_report_schedule option" where
  "schedule_from_str s =
     (let t = map ascii_lower s
      in if t = ''daily'' then Some Daily else if t = ''weekly'' then Some Weekly else None)"

text \<open>The default of the type is \<^const>\<open>Weekly\<close>.\<close>

definition schedule_or_default :: "string \<Rightarrow> usage_report_schedule" where
  "schedule_or_default s = (case schedule_from_str s of Some x \<Rightarrow> x | None \<Rightarrow> Weekly)"

record smtp_config =
  sm_enabled :: bool
  sm_host :: string
  sm_port :: u16
  sm_username :: string
  sm_password :: string
  sm_from_address :: string
  sm_from_name :: "string option"
  sm_use_starttls :: bool
  sm_alert_on_delivery_failure :: bool
  sm_send_usage_reports :: bool
  sm_usage_report_schedule :: usage_report_schedule
  sm_alert_on_audit_events :: bool
  sm_alert_recipients :: "string list"

definition smtp_default :: smtp_config where
  "smtp_default = \<lparr>sm_enabled = False, sm_host = [], sm_port = 587, sm_username = [], sm_password = [],
     sm_from_address = [], sm_from_name = Some ''Strix'', sm_use_starttls = True,
     sm_alert_on_delivery_failure = False, sm_send_usage_reports = False, sm_usage_report_schedule = Weekly,
     sm_alert_on_audit_events = False, sm_alert_recipients = []\<rparr>"

definition smtp2go :: "string \<Rightarrow> string \<Rightarrow> string \<Rightarrow> smtp_config" where
  "smtp2go username password from_address =
     smtp_default\<lparr>sm_enabled := True, sm_host := ''mail.smtp2go.com'', sm_port := 587, sm_username := username,
       sm_password := password, sm_from_address := from_address, sm_use_starttls := True\<rparr>"

section \<open>The tables\<close>

record oidc_provider_raw =
  opr_id :: string
  opr_name :: string
  opr_enabled :: bool
  opr_issuer_url :: string
  opr_client_id :: string
  opr_client_secret_enc :: string
  opr_redirect_uri :: string
  opr_scopes :: string
  opr_username_claim :: string
  opr_groups_claim :: "string option"
  opr_auto_create_users :: bool
  opr_default_policy :: "string option"
  opr_group_policy_mappings :: string

record smtp_config_raw =
  smr_enabled :: bool
  smr_host :: string
  smr_port :: u16
  smr_username :: string
  smr_password_enc :: string
  smr_from_address :: string
  smr_from_name :: "string option"
  smr_use_starttls :: bool
  smr_alert_on_delivery_failure :: bool
  smr_send_usage_reports :: bool
  smr_usage_report_schedule :: string
  smr_alert_on_audit_events :: bool
  smr_alert_recipients :: string

text \<open>The two tables of the IAM database. \<open>smtp_config\<close> has at most the row with id 1. The time
  stamps of the rows are written and never read, and are left out.\<close>

record settings =
  oidc_providers :: "oidc_provider_raw list"
  smtp_row :: "smtp_config_raw option"

definition settings_new :: settings where
  "settings_new = \<lparr>oidc_providers = [], smtp_row = None\<rparr>"

record settings_ext =
  mappings_json :: "(group_mappings \<Rightarrow> string option) \<times> (string \<Rightarrow> group_mappings option)"
  recipients_json :: "(string list \<Rightarrow> string option) \<times> (string \<Rightarrow> string list option)"

text \<open>An empty secret is stored as the empty text.\<close>

definition encrypt_nonempty :: "'f iam_ext \<Rightarrow> iam_store \<Rightarrow> bytes \<Rightarrow> string \<Rightarrow> string iam_result" where
  "encrypt_nonempty ix s nonce secret = (if secret = [] then Inr [] else store_encrypt_secret ix s nonce secret)"

definition decrypt_nonempty :: "'f iam_ext \<Rightarrow> iam_store \<Rightarrow> string \<Rightarrow> string iam_result" where
  "decrypt_nonempty ix s enc = (if enc = [] then Inr [] else store_decrypt_secret ix s enc)"

definition oidc_config_to_raw ::
  "'f iam_ext \<Rightarrow> settings_ext \<Rightarrow> iam_store \<Rightarrow> bytes \<Rightarrow> oidc_config \<Rightarrow> oidc_provider_raw iam_result" where
  "oidc_config_to_raw ix sx s nonce cfg =
     (case encrypt_nonempty ix s nonce (oc_client_secret cfg) of
        Inl e \<Rightarrow> Inl e
      | Inr enc \<Rightarrow>
          (case fst (mappings_json sx) (oc_group_policy_mappings cfg) of
             None \<Rightarrow> Inl (Oidc ''failed to serialize group mappings'')
           | Some json \<Rightarrow> Inr
               \<lparr>opr_id = oc_id cfg, opr_name = oc_name cfg, opr_enabled = oc_enabled cfg,
                opr_issuer_url = oc_issuer_url cfg, opr_client_id = oc_client_id cfg,
                opr_client_secret_enc = enc, opr_redirect_uri = oc_redirect_uri cfg,
                opr_scopes = str_join '' '' (oc_scopes cfg), opr_username_claim = oc_username_claim cfg,
                opr_groups_claim = oc_groups_claim cfg, opr_auto_create_users = oc_auto_create_users cfg,
                opr_default_policy = oc_default_policy cfg, opr_group_policy_mappings = json\<rparr>))"

definition raw_to_oidc_config ::
  "'f iam_ext \<Rightarrow> settings_ext \<Rightarrow> iam_store \<Rightarrow> oidc_provider_raw \<Rightarrow> oidc_config iam_result" where
  "raw_to_oidc_config ix sx s r =
     (case decrypt_nonempty ix s (opr_client_secret_enc r) of
        Inl e \<Rightarrow> Inl e
      | Inr secret \<Rightarrow> Inr
          \<lparr>oc_id = opr_id r, oc_name = opr_name r, oc_enabled = opr_enabled r,
           oc_issuer_url = opr_issuer_url r, oc_client_id = opr_client_id r, oc_client_secret = secret,
           oc_redirect_uri = opr_redirect_uri r, oc_scopes = split_whitespace (opr_scopes r),
           oc_username_claim = opr_username_claim r, oc_groups_claim = opr_groups_claim r,
           oc_auto_create_users = opr_auto_create_users r, oc_default_policy = opr_default_policy r,
           oc_group_policy_mappings =
             (case snd (mappings_json sx) (opr_group_policy_mappings r) of Some m \<Rightarrow> m | None \<Rightarrow> Map.empty)\<rparr>)"

section \<open>Operations on providers\<close>

definition count_oidc_providers :: "settings \<Rightarrow> nat" where
  "count_oidc_providers t = length (oidc_providers t)"

text \<open>\<^verbatim>\<open>collect\<close> into a \<^verbatim>\<open>Result\<close>: the first row that cannot be read is the result.\<close>

fun collect_results :: "'a iam_result list \<Rightarrow> 'a list iam_result" where
  "collect_results [] = Inr []"
| "collect_results (Inl e # rs) = Inl e"
| "collect_results (Inr x # rs) = (case collect_results rs of Inl e \<Rightarrow> Inl e | Inr xs \<Rightarrow> Inr (x # xs))"

definition list_oidc_providers ::
  "'f iam_ext \<Rightarrow> settings_ext \<Rightarrow> iam_store \<Rightarrow> settings \<Rightarrow> oidc_config list iam_result" where
  "list_oidc_providers ix sx s t = collect_results (map (raw_to_oidc_config ix sx s) (oidc_providers t))"

definition get_oidc_provider ::
  "'f iam_ext \<Rightarrow> settings_ext \<Rightarrow> string \<Rightarrow> iam_store \<Rightarrow> settings \<Rightarrow> oidc_config option iam_result" where
  "get_oidc_provider ix sx provider_id s t =
     (case sql_query_row (\<lambda>r. opr_id r = provider_id) (oidc_providers t) of
        None \<Rightarrow> Inr None
      | Some r \<Rightarrow> (case raw_to_oidc_config ix sx s r of Inl e \<Rightarrow> Inl e | Inr cfg \<Rightarrow> Inr (Some cfg)))"

definition provider_error :: "string \<Rightarrow> string \<Rightarrow> iam_error" where
  "provider_error provider_id what = Oidc (''provider '' @ [CHR 0x27] @ provider_id @ [CHR 0x27] @ what)"

definition create_oidc_provider ::
  "'f iam_ext \<Rightarrow> settings_ext \<Rightarrow> bytes \<Rightarrow> oidc_config \<Rightarrow> iam_store \<Rightarrow> settings \<Rightarrow> unit iam_result \<times> settings" where
  "create_oidc_provider ix sx nonce cfg s t =
     (case oidc_config_to_raw ix sx s nonce cfg of
        Inl e \<Rightarrow> (Inl e, t)
      | Inr raw \<Rightarrow>
          (case sql_insert opr_id raw (oidc_providers t) of
             None \<Rightarrow> (Inl (provider_error (oc_id cfg) '' already exists''), t)
           | Some rows \<Rightarrow> (Inr (), t\<lparr>oidc_providers := rows\<rparr>)))"

definition update_oidc_provider ::
  "'f iam_ext \<Rightarrow> settings_ext \<Rightarrow> bytes \<Rightarrow> oidc_config \<Rightarrow> iam_store \<Rightarrow> settings \<Rightarrow> unit iam_result \<times> settings" where
  "update_oidc_provider ix sx nonce cfg s t =
     (case oidc_config_to_raw ix sx s nonce cfg of
        Inl e \<Rightarrow> (Inl e, t)
      | Inr raw \<Rightarrow>
          let matches = (\<lambda>r. opr_id r = opr_id raw);
              assign = (\<lambda>r. if oc_client_secret cfg \<noteq> [] then raw
                         else raw\<lparr>opr_client_secret_enc := opr_client_secret_enc r\<rparr>)
          in if sql_count matches (oidc_providers t) = 0 then (Inl (provider_error (oc_id cfg) '' not found''), t)
             else (Inr (), t\<lparr>oidc_providers := sql_update matches assign (oidc_providers t)\<rparr>))"

definition delete_oidc_provider :: "string \<Rightarrow> settings \<Rightarrow> unit iam_result \<times> settings" where
  "delete_oidc_provider provider_id t =
     (let matches = (\<lambda>r. opr_id r = provider_id)
      in if sql_count matches (oidc_providers t) = 0 then (Inl (provider_error provider_id '' not found''), t)
         else (Inr (), t\<lparr>oidc_providers := sql_delete matches (oidc_providers t)\<rparr>))"

section \<open>Operations on the mail relay\<close>

definition into_config_without_secret :: "settings_ext \<Rightarrow> smtp_config_raw \<Rightarrow> smtp_config" where
  "into_config_without_secret sx r =
     \<lparr>sm_enabled = smr_enabled r, sm_host = smr_host r, sm_port = smr_port r, sm_username = smr_username r,
      sm_password = [], sm_from_address = smr_from_address r, sm_from_name = smr_from_name r,
      sm_use_starttls = smr_use_starttls r, sm_alert_on_delivery_failure = smr_alert_on_delivery_failure r,
      sm_send_usage_reports = smr_send_usage_reports r,
      sm_usage_report_schedule = schedule_or_default (smr_usage_report_schedule r),
      sm_alert_on_audit_events = smr_alert_on_audit_events r,
      sm_alert_recipients = (case snd (recipients_json sx) (smr_alert_recipients r) of Some l \<Rightarrow> l | None \<Rightarrow> [])\<rparr>"

definition get_smtp_config :: "settings_ext \<Rightarrow> settings \<Rightarrow> smtp_config option" where
  "get_smtp_config sx t = map_option (into_config_without_secret sx) (smtp_row t)"

definition get_smtp_config_with_secret ::
  "'f iam_ext \<Rightarrow> settings_ext \<Rightarrow> iam_store \<Rightarrow> settings \<Rightarrow> smtp_config option iam_result" where
  "get_smtp_config_with_secret ix sx s t =
     (case smtp_row t of
        None \<Rightarrow> Inr None
      | Some r \<Rightarrow>
          (case decrypt_nonempty ix s (smr_password_enc r) of
             Inl e \<Rightarrow> Inl e
           | Inr password \<Rightarrow> Inr (Some ((into_config_without_secret sx r)\<lparr>sm_password := password\<rparr>))))"

definition set_smtp_config ::
  "'f iam_ext \<Rightarrow> settings_ext \<Rightarrow> bytes \<Rightarrow> smtp_config \<Rightarrow> iam_store \<Rightarrow> settings \<Rightarrow> unit iam_result \<times> settings" where
  "set_smtp_config ix sx nonce cfg s t =
     (case encrypt_nonempty ix s nonce (sm_password cfg) of
        Inl e \<Rightarrow> (Inl e, t)
      | Inr enc \<Rightarrow>
          (case fst (recipients_json sx) (sm_alert_recipients cfg) of
             None \<Rightarrow> (Inl (Smtp ''failed to serialize recipients''), t)
           | Some recipients \<Rightarrow>
               let stored = (if sm_password cfg \<noteq> [] then enc
                     else (case smtp_row t of Some r \<Rightarrow> smr_password_enc r | None \<Rightarrow> []))
               in (Inr (), t\<lparr>smtp_row := Some
                 \<lparr>smr_enabled = sm_enabled cfg, smr_host = sm_host cfg, smr_port = sm_port cfg,
                  smr_username = sm_username cfg, smr_password_enc = stored,
                  smr_from_address = sm_from_address cfg, smr_from_name = sm_from_name cfg,
                  smr_use_starttls = sm_use_starttls cfg,
                  smr_alert_on_delivery_failure = sm_alert_on_delivery_failure cfg,
                  smr_send_usage_reports = sm_send_usage_reports cfg,
                  smr_usage_report_schedule = schedule_as_str (sm_usage_report_schedule cfg),
                  smr_alert_on_audit_events = sm_alert_on_audit_events cfg,
                  smr_alert_recipients = recipients\<rparr>\<rparr>)))"

end
