(* ===== verification/Oidc_Login.thy ===== *)
theory Oidc_Login
  imports Idp_Store Admin_Api
begin

text \<open>
  \<^verbatim>\<open>strix-iam/src/oidc_client.rs\<close>, \<^verbatim>\<open>strix-admin/src/oidc.rs\<close> and \<^verbatim>\<open>smtp.rs\<close>: signing in through
  an identity provider (the authorization code flow with discovery, code exchange and the
  verification of the ID token), and the root user's settings of providers and mail relay.

  The replies of the provider, the JWT library, the URL encoding and the clock are
  parameters; the clock stands still during one request. The text of an error leaves out what
  a library reports.
\<close>

section \<open>The client\<close>

record oidc_discovery =
  od_issuer :: string
  od_authorization_endpoint :: string
  od_token_endpoint :: string
  od_jwks_uri :: string

record jwk =
  jwk_kid :: "string option"
  jwk_kty :: "string option"
  jwk_alg :: "string option"
  jwk_n :: "string option"
  jwk_e :: "string option"

datatype 'a http_result = RequestFailed | BadStatus u16 | BadBody | Body 'a

datatype rsa_algorithm = RS256 | RS384 | RS512

text \<open>\<open>decode_header\<close> yields the key id of the header, if the token has a header;
  \<open>decode_claims\<close> checks signature, audience, issuer and expiry.\<close>

record 'k oidc_ext =
  fetch_discovery :: "string \<Rightarrow> oidc_discovery http_result"
  post_token :: "string \<Rightarrow> (string \<times> string) list \<Rightarrow> oidc_token_response http_result"
  fetch_jwks :: "string \<Rightarrow> jwk list http_result"
  decode_header :: "string \<Rightarrow> string option option"
  from_rsa_components :: "string \<Rightarrow> string \<Rightarrow> 'k option"
  decode_claims :: "'k \<Rightarrow> rsa_algorithm \<Rightarrow> string \<Rightarrow> string \<Rightarrow> instant \<Rightarrow> string \<Rightarrow> oidc_claims option"
  encode_url :: "string \<Rightarrow> string"

text \<open>The messages of a failed request, of a bad status and of a bad document.\<close>

fun http_body :: "string \<Rightarrow> string \<Rightarrow> string \<Rightarrow> 'a http_result \<Rightarrow> 'a iam_result" where
  "http_body failed bad_status bad_body (Body x) = Inr x"
| "http_body failed bad_status bad_body RequestFailed = Inl (Oidc failed)"
| "http_body failed bad_status bad_body (BadStatus n) = Inl (Oidc bad_status)"
| "http_body failed bad_status bad_body BadBody = Inl (Oidc bad_body)"

definition discovery_url :: "string \<Rightarrow> string" where
  "discovery_url issuer = rev (dropWhile (\<lambda>c. c = CHR ''/'') (rev issuer)) @ ''/.well-known/openid-configuration''"

definition discover :: "'k oidc_ext \<Rightarrow> string \<Rightarrow> oidc_discovery iam_result" where
  "discover ox issuer = http_body ''discovery request failed'' ''discovery returned status'' ''invalid discovery document''
       (fetch_discovery ox (discovery_url issuer))"

definition authorization_url :: "'k oidc_ext \<Rightarrow> oidc_discovery \<Rightarrow> oidc_config \<Rightarrow> string \<Rightarrow> string \<Rightarrow> string" where
  "authorization_url ox disc cfg state nonce =
     od_authorization_endpoint disc @ authorization_query (encode_url ox) cfg state nonce"

text \<open>The key of the header's id, or the only RSA key.\<close>

definition select_jwk :: "string option \<Rightarrow> jwk list \<Rightarrow> jwk iam_result" where
  "select_jwk kid keys =
     (case kid of
        Some k \<Rightarrow> (case List.find (\<lambda>j. jwk_kid j = Some k) keys of
            Some j \<Rightarrow> Inr j | None \<Rightarrow> Inl (Oidc (''no JWKS key matches kid '' @ quoted k)))
      | None \<Rightarrow> (case filter (\<lambda>j. jwk_kty j = Some ''RSA'') keys of
            [] \<Rightarrow> Inl (Oidc ''JWKS contains no RSA keys'')
          | [j] \<Rightarrow> Inr j
          | _ \<Rightarrow> Inl (Oidc ''id_token header missing kid and JWKS has multiple keys'')))"

definition jwk_algorithm :: "jwk \<Rightarrow> rsa_algorithm" where
  "jwk_algorithm j =
     (if jwk_alg j = Some ''RS384'' then RS384 else if jwk_alg j = Some ''RS512'' then RS512 else RS256)"

definition verify_id_token_with_jwks ::
  "'k oidc_ext \<Rightarrow> instant \<Rightarrow> string \<Rightarrow> string \<Rightarrow> string \<Rightarrow> jwk list \<Rightarrow> oidc_claims iam_result" where
  "verify_id_token_with_jwks ox now id_token client_id issuer keys =
     (case decode_header ox id_token of
        None \<Rightarrow> Inl (Oidc ''malformed id_token header'')
      | Some kid \<Rightarrow>
          (case select_jwk kid keys of
             Inl e \<Rightarrow> Inl e
           | Inr j \<Rightarrow>
               if jwk_kty j \<noteq> None \<and> jwk_kty j \<noteq> Some ''RSA'' then
                 Inl (Oidc (''unsupported JWK key type '' @ quoted (the (jwk_kty j))))
               else (case jwk_n j of
                  None \<Rightarrow> Inl (Oidc (''JWK missing modulus '' @ quoted ''n''))
                | Some n \<Rightarrow>
                    (case jwk_e j of
                       None \<Rightarrow> Inl (Oidc (''JWK missing exponent '' @ quoted ''e''))
                     | Some e \<Rightarrow>
                         (case from_rsa_components ox n e of
                            None \<Rightarrow> Inl (Oidc ''invalid RSA JWK components'')
                          | Some key \<Rightarrow>
                              (case decode_claims ox key (jwk_algorithm j) client_id issuer now id_token of
                                 None \<Rightarrow> Inl (Oidc ''id_token verification failed'')
                               | Some claims \<Rightarrow> Inr claims))))))"

definition verify_id_token ::
  "'k oidc_ext \<Rightarrow> instant \<Rightarrow> string \<Rightarrow> oidc_config \<Rightarrow> oidc_discovery \<Rightarrow> oidc_claims iam_result" where
  "verify_id_token ox now id_token cfg disc =
     (case http_body ''JWKS request failed'' ''JWKS returned status'' ''invalid JWKS document'' (fetch_jwks ox (od_jwks_uri disc)) of
        Inl e \<Rightarrow> Inl e
      | Inr keys \<Rightarrow> verify_id_token_with_jwks ox now id_token (oc_client_id cfg) (od_issuer disc) keys)"

text \<open>\<^const>\<open>None\<close> when the lifetime that the provider names is beyond the calendar, where the
  handler panics.\<close>

definition exchange_and_verify ::
  "'k oidc_ext \<Rightarrow> instant \<Rightarrow> oidc_config \<Rightarrow> oidc_discovery \<Rightarrow> string \<Rightarrow> string \<Rightarrow> oidc_auth_result iam_result option" where
  "exchange_and_verify ox now cfg disc code expected_nonce =
     (case http_body ''token request failed'' ''token endpoint returned'' ''invalid token response'' (post_token ox (od_token_endpoint disc)
         [(''grant_type'', ''authorization_code''), (''code'', code), (''redirect_uri'', oc_redirect_uri cfg),
          (''client_id'', oc_client_id cfg), (''client_secret'', oc_client_secret cfg)]) of
        Inl e \<Rightarrow> Some (Inl e)
      | Inr token \<Rightarrow>
          (case tr_id_token token of
             None \<Rightarrow> Some (Inl (Oidc ''token response missing id_token''))
           | Some id_token \<Rightarrow>
               (case verify_id_token ox now id_token cfg disc of
                  Inl e \<Rightarrow> Some (Inl e)
                | Inr claims \<Rightarrow>
                    (case ocl_nonce claims of
                       None \<Rightarrow> Some (Inl (Oidc ''id_token missing nonce''))
                     | Some n \<Rightarrow>
                         if n \<noteq> expected_nonce then Some (Inl (Oidc ''nonce mismatch''))
                         else (case claimed_username (oc_username_claim cfg) claims of
                            None \<Rightarrow> Some (Inl (Oidc (''claim '' @ quoted (oc_username_claim cfg) @ '' not present in id_token'')))
                          | Some username \<Rightarrow>
                              let answer = (\<lambda>t. Inr \<lparr>oar_username = username, oar_claims = claims,
                                    oar_access_token = tr_access_token token,
                                    oar_refresh_token = tr_refresh_token token, oar_expires_at = t\<rparr>)
                              in (case tr_expires_in token of
                                    None \<Rightarrow> Some (answer None)
                                  | Some secs \<Rightarrow>
                                      map_option (\<lambda>t. answer (Some t)) (chrono_add_seconds now (sint secs))))))))"

section \<open>Signing in\<close>

record flow_state =
  fl_nonce :: string
  fl_provider_id :: string
  fl_created :: instant

record sso_state =
  ss_admin :: admin_state
  ss_settings :: settings
  ss_flows :: "string \<rightharpoonup> flow_state"

definition FLOW_TTL :: int where "FLOW_TTL = 600 * nanos_per_sec"

definition sweep_expired :: "instant \<Rightarrow> (string \<rightharpoonup> flow_state) \<Rightarrow> (string \<rightharpoonup> flow_state)" where
  "sweep_expired now flows = (\<lambda>state. case flows state of
       Some f \<Rightarrow> if now - fl_created f < FLOW_TTL then Some f else None
     | None \<Rightarrow> None)"

text \<open>The browser is sent back to the console with an error or a token, or on to the
  provider.\<close>

datatype sso_reply = SsoError string | SsoLogin string string | SsoStart string

fun sso_location :: "'k oidc_ext \<Rightarrow> sso_reply \<Rightarrow> string" where
  "sso_location ox (SsoError message) = ''/login?sso_error='' @ encode_url ox message"
| "sso_location ox (SsoLogin token username) =
     ''/#token='' @ encode_url ox token @ ''&user='' @ encode_url ox username"
| "sso_location ox (SsoStart url) = url"

record auth_provider_info =
  api_id :: string
  api_name :: string
  api_provider_type :: string

definition list_auth_providers :: "'f iam_ext \<Rightarrow> settings_ext \<Rightarrow> sso_state \<Rightarrow> auth_provider_info list" where
  "list_auth_providers ix sx st =
     (case list_oidc_providers ix sx (as_iam (ss_admin st)) (ss_settings st) of
        Inl _ \<Rightarrow> []
      | Inr ps \<Rightarrow> map (\<lambda>p. \<lparr>api_id = oc_id p, api_name = oc_name p, api_provider_type = ''oidc''\<rparr>)
          (filter oc_enabled ps))"

definition enabled_provider :: "'f iam_ext \<Rightarrow> settings_ext \<Rightarrow> string \<Rightarrow> sso_state \<Rightarrow> oidc_config option" where
  "enabled_provider ix sx provider_id st =
     (case get_oidc_provider ix sx provider_id (as_iam (ss_admin st)) (ss_settings st) of
        Inr (Some p) \<Rightarrow> if oc_enabled p then Some p else None
      | _ \<Rightarrow> None)"

definition login_oidc ::
  "'f iam_ext \<Rightarrow> settings_ext \<Rightarrow> 'k oidc_ext \<Rightarrow> instant \<Rightarrow> string \<Rightarrow> string \<Rightarrow> string \<Rightarrow> sso_state \<Rightarrow>
     sso_reply \<times> sso_state" where
  "login_oidc ix sx ox now csrf_state nonce provider_id st0 =
     (let st = st0\<lparr>ss_flows := sweep_expired now (ss_flows st0)\<rparr>
      in case enabled_provider ix sx provider_id st of
           None \<Rightarrow> (SsoError ''Unknown or disabled SSO provider'', st)
         | Some cfg \<Rightarrow>
             (case discover ox (oc_issuer_url cfg) of
                Inl _ \<Rightarrow> (SsoError ''SSO provider discovery failed'', st)
              | Inr disc \<Rightarrow>
                  (SsoStart (authorization_url ox disc cfg csrf_state nonce),
                   st\<lparr>ss_flows := (ss_flows st)(csrf_state \<mapsto>
                     \<lparr>fl_nonce = nonce, fl_provider_id = provider_id, fl_created = now\<rparr>)\<rparr>)))"

record callback_query =
  cbq_code :: "string option"
  cbq_state :: "string option"
  cbq_error :: "string option"
  cbq_error_description :: "string option"

definition attach_default_policy ::
  "'f iam_ext \<Rightarrow> instant \<Rightarrow> string \<Rightarrow> string option \<Rightarrow> iam_store \<Rightarrow> iam_store" where
  "attach_default_policy ix now username default_policy s =
     (case default_policy of
        None \<Rightarrow> s
      | Some name \<Rightarrow> (case get_policy ix name s of
           Inl _ \<Rightarrow> s
         | Inr p \<Rightarrow> snd (attach_user_policy ix now username p s)))"

text \<open>Resolving or creating the user: the message when that fails, and the store.\<close>

definition provision_user ::
  "'f iam_ext \<Rightarrow> instant \<Rightarrow> oidc_config \<Rightarrow> string \<Rightarrow> iam_store \<Rightarrow> string option \<times> iam_store" where
  "provision_user ix now cfg username s =
     (case get_user now username s of
        Inr _ \<Rightarrow> (None, s)
      | Inl _ \<Rightarrow>
          if \<not> oc_auto_create_users cfg then (Some ''Your account is not provisioned for SSO'', s)
          else (case create_user now username s of
             (Inl _, s') \<Rightarrow> (Some ''Failed to provision SSO account'', s')
           | (Inr _, s') \<Rightarrow> (None, attach_default_policy ix now username (oc_default_policy cfg) s')))"

definition finish_login ::
  "'f iam_ext \<Rightarrow> web_ext \<Rightarrow> session_config \<Rightarrow> instant \<Rightarrow> oidc_config \<Rightarrow> string \<Rightarrow> sso_state \<Rightarrow> sso_reply \<times> sso_state" where
  "finish_login ix wx sc now cfg username st =
     (case provision_user ix now cfg username (as_iam (ss_admin st)) of
        (refused, s') \<Rightarrow>
          let st' = st\<lparr>ss_admin := (ss_admin st)\<lparr>as_iam := s'\<rparr>\<rparr>
          in (case refused of
               Some message \<Rightarrow> (SsoError message, st')
             | None \<Rightarrow>
                 (case create_token wx sc now username ''oidc-auth'' False of
                    Inl _ \<Rightarrow> (SsoError ''Failed to establish session'', st')
                  | Inr token \<Rightarrow> (SsoLogin token username, st'))))"

definition auth_callback ::
  "'f iam_ext \<Rightarrow> settings_ext \<Rightarrow> 'k oidc_ext \<Rightarrow> web_ext \<Rightarrow> session_config \<Rightarrow> instant \<Rightarrow> callback_query \<Rightarrow> sso_state \<Rightarrow>
     sso_reply option \<times> sso_state" where
  "auth_callback ix sx ox wx sc now query st =
     (if cbq_error query \<noteq> None then (Some (SsoError ''SSO provider rejected the login''), st)
      else case (cbq_code query, cbq_state query) of
        (Some code, Some csrf_state) \<Rightarrow>
          (case ss_flows st csrf_state of
             None \<Rightarrow> (Some (SsoError ''Invalid or expired SSO state''), st)
           | Some flow \<Rightarrow>
               let st' = st\<lparr>ss_flows := (ss_flows st)(csrf_state := None)\<rparr>
               in if now - fl_created flow \<ge> FLOW_TTL then
                    (Some (SsoError ''SSO session expired, please retry''), st')
                  else (case enabled_provider ix sx (fl_provider_id flow) st' of
                    None \<Rightarrow> (Some (SsoError ''SSO provider is no longer available''), st')
                  | Some cfg \<Rightarrow>
                      (case discover ox (oc_issuer_url cfg) of
                         Inl _ \<Rightarrow> (Some (SsoError ''SSO provider discovery failed''), st')
                       | Inr disc \<Rightarrow>
                           (case exchange_and_verify ox now cfg disc code (fl_nonce flow) of
                              None \<Rightarrow> (None, st')
                            | Some (Inl _) \<Rightarrow> (Some (SsoError ''SSO token verification failed''), st')
                            | Some (Inr auth) \<Rightarrow>
                                (case finish_login ix wx sc now cfg (oar_username auth) st' of
                                   (reply, st'') \<Rightarrow> (Some reply, st''))))))
      | _ \<Rightarrow> (Some (SsoError ''Malformed SSO callback''), st))"

section \<open>Providers as the root user manages them\<close>

record oidc_provider_response =
  ors_id :: string
  ors_name :: string
  ors_enabled :: bool
  ors_issuer_url :: string
  ors_client_id :: string
  ors_has_client_secret :: bool
  ors_redirect_uri :: string
  ors_scopes :: "string list"
  ors_username_claim :: string
  ors_groups_claim :: "string option"
  ors_auto_create_users :: bool
  ors_default_policy :: "string option"

definition oidc_provider_response_from :: "oidc_config \<Rightarrow> oidc_provider_response" where
  "oidc_provider_response_from c =
     \<lparr>ors_id = oc_id c, ors_name = oc_name c, ors_enabled = oc_enabled c, ors_issuer_url = oc_issuer_url c,
      ors_client_id = oc_client_id c, ors_has_client_secret = (oc_client_secret c \<noteq> []),
      ors_redirect_uri = oc_redirect_uri c, ors_scopes = oc_scopes c, ors_username_claim = oc_username_claim c,
      ors_groups_claim = oc_groups_claim c, ors_auto_create_users = oc_auto_create_users c,
      ors_default_policy = oc_default_policy c\<rparr>"

record oidc_provider_request =
  orq_name :: string
  orq_enabled :: bool
  orq_issuer_url :: string
  orq_client_id :: string
  orq_client_secret :: "string option"
  orq_redirect_uri :: string
  orq_scopes :: "string list"
  orq_username_claim :: string
  orq_groups_claim :: "string option"
  orq_auto_create_users :: bool
  orq_default_policy :: "string option"

definition into_config :: "string \<Rightarrow> oidc_provider_request \<Rightarrow> oidc_config" where
  "into_config provider_id r =
     \<lparr>oc_id = provider_id, oc_name = orq_name r, oc_enabled = orq_enabled r, oc_issuer_url = orq_issuer_url r,
      oc_client_id = orq_client_id r,
      oc_client_secret = (case orq_client_secret r of Some s \<Rightarrow> s | None \<Rightarrow> []),
      oc_redirect_uri = orq_redirect_uri r, oc_scopes = orq_scopes r, oc_username_claim = orq_username_claim r,
      oc_groups_claim = orq_groups_claim r, oc_auto_create_users = orq_auto_create_users r,
      oc_default_policy = orq_default_policy r, oc_group_policy_mappings = Map.empty\<rparr>"

record create_oidc_provider_request =
  copr_id :: string
  copr_config :: oidc_provider_request

definition root_required :: "'b api_reply" where
  "root_required = Failure 403 (error_new (Plain ''Root privileges required''))"

definition sso_bad_request :: "error_text \<Rightarrow> 'b api_reply" where
  "sso_bad_request e = Failure 400 (error_new e)"

definition list_oidc_providers_admin ::
  "'f iam_ext \<Rightarrow> settings_ext \<Rightarrow> authenticated_user \<Rightarrow> sso_state \<Rightarrow> oidc_provider_response list api_reply" where
  "list_oidc_providers_admin ix sx user st =
     (if \<not> au_is_root user then root_required
      else iam_read (list_oidc_providers ix sx (as_iam (ss_admin st)) (ss_settings st)) (\<lambda>_. 500)
        (\<lambda>ps. Reply 200 (map oidc_provider_response_from ps)))"

definition get_oidc_provider_admin ::
  "'f iam_ext \<Rightarrow> settings_ext \<Rightarrow> authenticated_user \<Rightarrow> string \<Rightarrow> sso_state \<Rightarrow> oidc_provider_response api_reply" where
  "get_oidc_provider_admin ix sx user provider_id st =
     (if \<not> au_is_root user then root_required
      else iam_read (get_oidc_provider ix sx provider_id (as_iam (ss_admin st)) (ss_settings st)) (\<lambda>_. 500)
        (\<lambda>p. case p of
            Some cfg \<Rightarrow> Reply 200 (oidc_provider_response_from cfg)
          | None \<Rightarrow> Failure 404 (error_new (Plain ''Provider not found''))))"

text \<open>The answer of an operation on the settings.\<close>

definition settings_call ::
  "(settings \<Rightarrow> unit iam_result \<times> settings) \<Rightarrow> (iam_error \<Rightarrow> 'b api_reply) \<Rightarrow> 'b api_reply \<Rightarrow>
     sso_state \<Rightarrow> 'b api_reply \<times> sso_state" where
  "settings_call operation failure success st =
     (case operation (ss_settings st) of
        (Inl e, t) \<Rightarrow> (failure e, st\<lparr>ss_settings := t\<rparr>)
      | (Inr _, t) \<Rightarrow> (success, st\<lparr>ss_settings := t\<rparr>))"

definition create_oidc_provider_admin ::
  "'f iam_ext \<Rightarrow> settings_ext \<Rightarrow> bytes \<Rightarrow> authenticated_user \<Rightarrow> create_oidc_provider_request \<Rightarrow> sso_state \<Rightarrow>
     oidc_provider_response api_reply \<times> sso_state" where
  "create_oidc_provider_admin ix sx nonce user req st =
     (if \<not> au_is_root user then (root_required, st)
      else if str_trim (copr_id req) = [] then (sso_bad_request (Plain ''Provider id is required''), st)
      else if orq_client_secret (copr_config req) \<in> {None, Some []} then
        (sso_bad_request (Plain ''Client secret is required when creating a provider''), st)
      else
        let cfg = into_config (copr_id req) (copr_config req)
        in settings_call (create_oidc_provider ix sx nonce cfg (as_iam (ss_admin st)))
             (\<lambda>e. sso_bad_request (OfIam e)) (Reply 201 (oidc_provider_response_from cfg)) st)"

definition update_oidc_provider_admin ::
  "'f iam_ext \<Rightarrow> settings_ext \<Rightarrow> bytes \<Rightarrow> authenticated_user \<Rightarrow> string \<Rightarrow> oidc_provider_request \<Rightarrow> sso_state \<Rightarrow>
     oidc_provider_response api_reply \<times> sso_state" where
  "update_oidc_provider_admin ix sx nonce user provider_id req st =
     (if \<not> au_is_root user then (root_required, st)
      else
        let cfg = into_config provider_id req
        in settings_call (update_oidc_provider ix sx nonce cfg (as_iam (ss_admin st)))
             (\<lambda>e. sso_bad_request (OfIam e)) (Reply 200 (oidc_provider_response_from cfg)) st)"

definition delete_oidc_provider_admin ::
  "authenticated_user \<Rightarrow> string \<Rightarrow> sso_state \<Rightarrow> unit api_reply \<times> sso_state" where
  "delete_oidc_provider_admin user provider_id st =
     (if \<not> au_is_root user then (root_required, st)
      else settings_call (delete_oidc_provider provider_id)
        (\<lambda>e. Failure 404 (error_new (OfIam e))) (StatusOnly 204) st)"

section \<open>The mail relay as the root user manages it\<close>

record smtp_config_response =
  smp_enabled :: bool
  smp_host :: string
  smp_port :: u16
  smp_username :: string
  smp_has_password :: bool
  smp_from_address :: string
  smp_from_name :: "string option"
  smp_use_starttls :: bool
  smp_alert_on_delivery_failure :: bool
  smp_send_usage_reports :: bool
  smp_usage_report_schedule :: string
  smp_alert_on_audit_events :: bool
  smp_alert_recipients :: "string list"

definition config_to_response :: "smtp_config \<Rightarrow> smtp_config_response" where
  "config_to_response c =
     \<lparr>smp_enabled = sm_enabled c, smp_host = sm_host c, smp_port = sm_port c, smp_username = sm_username c,
      smp_has_password = (sm_password c \<noteq> []), smp_from_address = sm_from_address c,
      smp_from_name = sm_from_name c, smp_use_starttls = sm_use_starttls c,
      smp_alert_on_delivery_failure = sm_alert_on_delivery_failure c,
      smp_send_usage_reports = sm_send_usage_reports c,
      smp_usage_report_schedule = schedule_as_str (sm_usage_report_schedule c),
      smp_alert_on_audit_events = sm_alert_on_audit_events c, smp_alert_recipients = sm_alert_recipients c\<rparr>"

record smtp_config_request =
  smq_enabled :: bool
  smq_host :: string
  smq_port :: u16
  smq_username :: string
  smq_password :: string
  smq_from_address :: string
  smq_from_name :: "string option"
  smq_use_starttls :: bool
  smq_alert_on_delivery_failure :: bool
  smq_send_usage_reports :: bool
  smq_usage_report_schedule :: string
  smq_alert_on_audit_events :: bool
  smq_alert_recipients :: "string list"

definition smtp_config_of_request :: "smtp_config_request \<Rightarrow> smtp_config" where
  "smtp_config_of_request r =
     \<lparr>sm_enabled = smq_enabled r, sm_host = smq_host r, sm_port = smq_port r, sm_username = smq_username r,
      sm_password = smq_password r, sm_from_address = smq_from_address r, sm_from_name = smq_from_name r,
      sm_use_starttls = smq_use_starttls r, sm_alert_on_delivery_failure = smq_alert_on_delivery_failure r,
      sm_send_usage_reports = smq_send_usage_reports r,
      sm_usage_report_schedule = schedule_or_default (smq_usage_report_schedule r),
      sm_alert_on_audit_events = smq_alert_on_audit_events r, sm_alert_recipients = smq_alert_recipients r\<rparr>"

definition get_smtp_config_admin ::
  "'f iam_ext \<Rightarrow> settings_ext \<Rightarrow> authenticated_user \<Rightarrow> sso_state \<Rightarrow> smtp_config_response api_reply" where
  "get_smtp_config_admin ix sx user st =
     (if \<not> au_is_root user then root_required
      else iam_read (get_smtp_config_with_secret ix sx (as_iam (ss_admin st)) (ss_settings st)) (\<lambda>_. 500)
        (\<lambda>c. Reply 200 (config_to_response (case c of Some cfg \<Rightarrow> cfg | None \<Rightarrow> smtp_default))))"

definition set_smtp_config_admin ::
  "'f iam_ext \<Rightarrow> settings_ext \<Rightarrow> bytes \<Rightarrow> authenticated_user \<Rightarrow> smtp_config_request \<Rightarrow> sso_state \<Rightarrow>
     unit api_reply \<times> sso_state" where
  "set_smtp_config_admin ix sx nonce user req st =
     (if \<not> au_is_root user then (root_required, st)
      else settings_call (set_smtp_config ix sx nonce (smtp_config_of_request req) (as_iam (ss_admin st)))
        (\<lambda>e. Failure 500 (error_new (OfIam e))) (StatusOnly 204) st)"

end
