(* ===== verification/Sso_Behaviour.thy ===== *)
theory Sso_Behaviour
  imports Oidc_Login Admin_Login
begin

text \<open>
  What holds of signing in through an identity provider and of the settings: a token is issued
  only for a verified ID token, once per authorization request; accounts that the password
  login refuses are let in; secrets are kept when they come in empty, and the group mappings
  of a provider are not.
\<close>

section \<open>Signing in\<close>

lemma verify_id_token_iff:
  "verify_id_token_with_jwks ox now id_token client_id issuer keys = Inr claims \<longleftrightarrow>
     (\<exists>kid j n e key. decode_header ox id_token = Some kid \<and> select_jwk kid keys = Inr j
        \<and> (jwk_kty j = None \<or> jwk_kty j = Some ''RSA'') \<and> jwk_n j = Some n \<and> jwk_e j = Some e
        \<and> from_rsa_components ox n e = Some key
        \<and> decode_claims ox key (jwk_algorithm j) client_id issuer now id_token = Some claims)"
  by (auto simp: verify_id_token_with_jwks_def split: option.splits sum.splits)

lemma select_jwk_mem: "select_jwk kid keys = Inr j \<Longrightarrow> j \<in> set keys"
  by (auto simp: select_jwk_def find_Some_iff filter_eq_Cons_iff split: option.splits list.splits)

lemma http_body_Inr: "http_body a b c r = Inr x \<longleftrightarrow> r = Body x"
  by (cases r) auto

text \<open>An ID token of the provider: some published RSA key verifies its signature, audience,
  issuer and expiry.\<close>

definition id_token_verified ::
  "'k oidc_ext \<Rightarrow> instant \<Rightarrow> oidc_config \<Rightarrow> oidc_discovery \<Rightarrow> string \<Rightarrow> oidc_claims \<Rightarrow> bool" where
  "id_token_verified ox now cfg disc id_token claims \<longleftrightarrow>
     (\<exists>keys j n e key. fetch_jwks ox (od_jwks_uri disc) = Body keys \<and> j \<in> set keys
        \<and> jwk_kty j \<in> {None, Some ''RSA''} \<and> jwk_n j = Some n \<and> jwk_e j = Some e
        \<and> from_rsa_components ox n e = Some key
        \<and> decode_claims ox key (jwk_algorithm j) (oc_client_id cfg) (od_issuer disc) now id_token = Some claims)"

lemma exchange_verified:
  assumes "exchange_and_verify ox now cfg disc code expected = Some (Inr auth)"
  shows "\<exists>id_token claims. id_token_verified ox now cfg disc id_token claims
    \<and> ocl_nonce claims = Some expected \<and> claimed_username (oc_username_claim cfg) claims = Some (oar_username auth)"
proof -
  obtain id_token claims where id_token: "verify_id_token ox now id_token cfg disc = Inr claims"
    and claims: "ocl_nonce claims = Some expected" "claimed_username (oc_username_claim cfg) claims = Some (oar_username auth)"
    using assms
    by (auto simp: exchange_and_verify_def Let_def split: option.splits sum.splits if_splits)
  have "id_token_verified ox now cfg disc id_token claims"
    using id_token select_jwk_mem
    by (fastforce simp: verify_id_token_def id_token_verified_def verify_id_token_iff http_body_Inr split: sum.splits)
  then show ?thesis using claims by blast
qed

lemma finish_login_token:
  assumes "finish_login ix wx sc now cfg u st = (SsoLogin token username, st')"
  shows "username = u" "create_token wx sc now u ''oidc-auth'' False = Inr token" "ss_flows st' = ss_flows st"
  using assms by (auto simp: finish_login_def Let_def split: prod.splits option.splits sum.splits)

text \<open>C39: the callback of an identity provider signs a user in only when the browser brings back
  the state of an authorization request that was started less than ten minutes ago and has not
  come back before, the provider of that request is still enabled, and the ID token of the code
  is verified by a key of the provider, carries the nonce of the request, and names the user
  in the configured claim. The session is never one of the root user, and the request is
  used up: the same state signs nobody in again.\<close>

theorem sso_login_verified:
  assumes "auth_callback ix sx ox wx sc now query st = (Some (SsoLogin token username), st')"
  shows "\<exists>state flow cfg disc id_token claims.
    cbq_state query = Some state \<and> ss_flows st state = Some flow \<and> now - fl_created flow < FLOW_TTL
    \<and> enabled_provider ix sx (fl_provider_id flow) st = Some cfg \<and> discover ox (oc_issuer_url cfg) = Inr disc
    \<and> id_token_verified ox now cfg disc id_token claims \<and> ocl_nonce claims = Some (fl_nonce flow)
    \<and> claimed_username (oc_username_claim cfg) claims = Some username
    \<and> create_token wx sc now username ''oidc-auth'' False = Inr token
    \<and> (\<forall>query' now'. cbq_state query' = Some state \<longrightarrow>
         (\<exists>m. fst (auth_callback ix sx ox wx sc now' query' st') = Some (SsoError m)))"
proof -
  obtain code state where code: "cbq_error query = None" "cbq_code query = Some code" "cbq_state query = Some state"
    using assms by (auto simp: auth_callback_def split: if_splits option.splits)
  obtain flow where flow: "ss_flows st state = Some flow"
    using assms code by (auto simp: auth_callback_def split: option.splits)
  define st1 where "st1 = st\<lparr>ss_flows := (ss_flows st)(state := None)\<rparr>"
  have provider: "enabled_provider ix sx p st1 = enabled_provider ix sx p st" for p
    by (simp add: enabled_provider_def st1_def)
  obtain cfg disc auth where cfg: "now - fl_created flow < FLOW_TTL"
      "enabled_provider ix sx (fl_provider_id flow) st1 = Some cfg" "discover ox (oc_issuer_url cfg) = Inr disc"
      "exchange_and_verify ox now cfg disc code (fl_nonce flow) = Some (Inr auth)"
    and finish: "finish_login ix wx sc now cfg (oar_username auth) st1 = (SsoLogin token username, st')"
    using assms code flow
    by (auto simp: auth_callback_def st1_def Let_def not_le split: if_splits option.splits sum.splits prod.splits)
  obtain id_token claims where claims: "id_token_verified ox now cfg disc id_token claims"
    "ocl_nonce claims = Some (fl_nonce flow)" "claimed_username (oc_username_claim cfg) claims = Some (oar_username auth)"
    using exchange_verified [OF cfg(4)] by blast
  have "ss_flows st' state = None" using finish_login_token(3) [OF finish] by (simp add: st1_def)
  then have "\<forall>query' now'. cbq_state query' = Some state \<longrightarrow>
      (\<exists>m. fst (auth_callback ix sx ox wx sc now' query' st') = Some (SsoError m))"
    by (auto simp: auth_callback_def split: option.split)
  then show ?thesis
    using code(3) flow cfg(1-3) claims finish_login_token(1,2) [OF finish] unfolding provider by blast
qed

text \<open>A provider that issues one token for the code \<open>c0\<close>.\<close>

definition toy_claims :: oidc_claims where
  "toy_claims = \<lparr>ocl_sub = ''u1'', ocl_iss = ''https://idp'', ocl_aud = ''strix'', ocl_exp = 3600, ocl_iat = 0,
     ocl_email = None, ocl_email_verified = None, ocl_name = None, ocl_given_name = None, ocl_family_name = None,
     ocl_preferred_username = Some ''alice'', ocl_picture = None, ocl_nonce = Some ''n0'', ocl_groups = None\<rparr>"

definition toy_idp :: "unit oidc_ext" where
  "toy_idp = \<lparr>fetch_discovery = (\<lambda>_. Body \<lparr>od_issuer = ''https://idp'', od_authorization_endpoint = ''https://idp/a'',
       od_token_endpoint = ''https://idp/t'', od_jwks_uri = ''https://idp/k''\<rparr>),
     post_token = (\<lambda>_ ps. if (''code'', ''c0'') \<in> set ps then Body \<lparr>tr_access_token = ''a'', tr_token_type = ''Bearer'',
         tr_expires_in = None, tr_refresh_token = None, tr_id_token = Some ''jwt0'', tr_scope = None\<rparr> else BadStatus 400),
     fetch_jwks = (\<lambda>_. Body [\<lparr>jwk_kid = Some ''k1'', jwk_kty = Some ''RSA'', jwk_alg = None, jwk_n = Some ''n'',
         jwk_e = Some ''e''\<rparr>]),
     decode_header = (\<lambda>_. Some (Some ''k1'')), from_rsa_components = (\<lambda>_ _. Some ()),
     decode_claims = (\<lambda>_ _ aud iss _ token. if token = ''jwt0'' \<and> aud = ''strix'' \<and> iss = ''https://idp''
         then Some toy_claims else None),
     encode_url = (\<lambda>s. s)\<rparr>"

definition toy_settings :: settings_ext where
  "toy_settings = \<lparr>mappings_json = (\<lambda>_. Some ''{}'', \<lambda>_. Some Map.empty),
     recipients_json = (\<lambda>l. Some (concat l), \<lambda>j. Some (if j = [] then [] else [j]))\<rparr>"

definition toy_sso :: sso_state where
  "toy_sso = \<lparr>ss_admin = toy_admin, ss_settings = \<lparr>oidc_providers = [\<lparr>opr_id = ''idp'', opr_name = ''IdP'', opr_enabled = True,
       opr_issuer_url = ''https://idp'', opr_client_id = ''strix'', opr_client_secret_enc = [],
       opr_redirect_uri = ''https://strix/cb'', opr_scopes = ''openid'', opr_username_claim = ''preferred_username'',
       opr_groups_claim = None, opr_auto_create_users = True, opr_default_policy = None,
       opr_group_policy_mappings = ''{}''\<rparr>], smtp_row = None\<rparr>,
     ss_flows = [''s0'' \<mapsto> \<lparr>fl_nonce = ''n0'', fl_provider_id = ''idp'', fl_created = 0\<rparr>]\<rparr>"

definition toy_callback :: callback_query where
  "toy_callback = \<lparr>cbq_code = Some ''c0'', cbq_state = Some ''s0'', cbq_error = None, cbq_error_description = None\<rparr>"

text \<open>The first callback signs \<open>alice\<close> in, the second does not.\<close>

theorem sso_login_verified_witness:
  "\<exists>m. fst (auth_callback toy_iam toy_settings toy_idp toy_web toy_session_config 1 toy_callback
     (snd (auth_callback toy_iam toy_settings toy_idp toy_web toy_session_config 0 toy_callback toy_sso))) = Some (SsoError m)"
proof -
  obtain cfg where cfg: "enabled_provider toy_iam toy_settings ''idp'' (toy_sso\<lparr>ss_flows := f\<rparr>) = Some cfg"
    "oc_client_id cfg = ''strix''" "oc_username_claim cfg = ''preferred_username''" "oc_auto_create_users cfg"
    "oc_default_policy cfg = None" for f
    by (simp add: enabled_provider_def toy_sso_def get_oidc_provider_def sql_query_row_def raw_to_oidc_config_def
        decrypt_nonempty_def toy_settings_def)
  have "\<exists>auth. exchange_and_verify toy_idp 0 cfg \<lparr>od_issuer = ''https://idp'', od_authorization_endpoint = ''https://idp/a'',
       od_token_endpoint = ''https://idp/t'', od_jwks_uri = ''https://idp/k''\<rparr> ''c0'' ''n0'' = Some (Inr auth)
      \<and> oar_username auth = ''alice''"
    by (simp add: exchange_and_verify_def toy_idp_def verify_id_token_def verify_id_token_with_jwks_def select_jwk_def
        cfg toy_claims_def claimed_username_def)
  moreover have flow: "ss_flows toy_sso ''s0'' = Some \<lparr>fl_nonce = ''n0'', fl_provider_id = ''idp'', fl_created = 0\<rparr>"
    by (simp add: toy_sso_def)
  moreover have disc: "discover toy_idp u = Inr \<lparr>od_issuer = ''https://idp'', od_authorization_endpoint = ''https://idp/a'',
       od_token_endpoint = ''https://idp/t'', od_jwks_uri = ''https://idp/k''\<rparr>" for u
    by (simp add: discover_def toy_idp_def)
  moreover have "fst (finish_login toy_iam toy_web toy_session_config 0 cfg ''alice'' (toy_sso\<lparr>ss_flows := f\<rparr>)) =
      SsoLogin ''alice'' ''alice''" for f
    by (simp add: finish_login_def provision_user_def get_user_def create_user_def toy_sso_def toy_admin_def
        iam_store_new_def is_root_name_def sql_query_row_def sql_insert_def cfg attach_default_policy_def create_token_def
        toy_web_def Let_def)
  ultimately have "fst (auth_callback toy_iam toy_settings toy_idp toy_web toy_session_config 0 toy_callback toy_sso) =
      Some (SsoLogin ''alice'' ''alice'')"
    using cfg(1) [of "(ss_flows toy_sso)(''s0'' := None)"]
    by (auto simp: auth_callback_def toy_callback_def flow disc FLOW_TTL_def nanos_per_sec_def Let_def case_prod_beta)
  then have call: "auth_callback toy_iam toy_settings toy_idp toy_web toy_session_config 0 toy_callback toy_sso =
      (Some (SsoLogin ''alice'' ''alice''),
       snd (auth_callback toy_iam toy_settings toy_idp toy_web toy_session_config 0 toy_callback toy_sso))"
    by (metis prod.collapse)
  have "cbq_state toy_callback = Some ''s0''" by (simp add: toy_callback_def)
  then show ?thesis using sso_login_verified [OF call] by auto
qed

text \<open>The status of the account is not asked for: a user that an administrator has made inactive,
  and to whom the password login answers that the account is not active, is signed in. A
  subject with the name of the root user gets a session that every authorization admits.\<close>

lemma inactive_user_signs_in:
  assumes "get_user now u (as_iam (ss_admin st)) = Inr user" "create_token wx sc now u ''oidc-auth'' False = Inr token"
  shows "fst (finish_login ix wx sc now cfg u st) = SsoLogin token u"
  using assms by (simp add: finish_login_def provision_user_def)

lemma root_name_signs_in:
  assumes "is_root_name (as_iam (ss_admin st)) u" "create_token wx sc now u ''oidc-auth'' False = Inr token"
  shows "fst (finish_login ix wx sc now cfg u st) = SsoLogin token u"
    and "is_authorized ix u act res (as_iam (ss_admin (snd (finish_login ix wx sc now cfg u st)))) = Inr True"
  using assms
  by (simp_all add: finish_login_def provision_user_def get_user_def is_authorized_def)

section \<open>Secrets of the settings\<close>

lemma decrypt_setting:
  assumes "gcm_correct (ix_crypto ix)" "encodings_correct (ix_crypto ix)" "length nonce = NONCE_SIZE"
    and "base64_decode (ix_crypto ix) [] = Some []" "utf8_valid (as_bytes secret)"
    and "encrypt_nonempty ix s nonce secret = Inr enc"
  shows "decrypt_nonempty ix s enc = Inr secret"
proof (cases "secret = []")
  case False
  then have enc: "encrypt_secret (ix_crypto ix) nonce secret (encryption_key s) = Inr enc"
    using assms(6) by (auto simp: encrypt_nonempty_def store_encrypt_secret_def split: sum.splits)
  have "decrypt_secret (ix_crypto ix) enc (encryption_key s) = Inr secret"
    using secret_round_trip [OF assms(1-3,5) enc] .
  moreover from this have "enc \<noteq> []"
    using assms(4) by (auto simp: decrypt_secret_def decrypt_aes256_gcm_def NONCE_SIZE_def split: if_splits)
  ultimately show ?thesis by (simp add: decrypt_nonempty_def store_decrypt_secret_def)
qed (use assms(6) in \<open>simp add: encrypt_nonempty_def decrypt_nonempty_def\<close>)

lemma schedule_round_trip [simp]: "schedule_or_default (schedule_as_str d) = d"
proof -
  have "schedule_or_default (schedule_as_str Daily) = Daily" "schedule_or_default (schedule_as_str Weekly) = Weekly"
    by code_simp+
  then show ?thesis by (cases d) simp_all
qed

text \<open>C40: the configuration of the mail relay is read back as it was stored, with the password
  for the mailer and without it for everybody else; storing it with an empty password keeps the
  password that was there.\<close>

theorem smtp_config_round_trip:
  assumes "gcm_correct (ix_crypto ix)" "encodings_correct (ix_crypto ix)" "length nonce = NONCE_SIZE"
    and "base64_decode (ix_crypto ix) [] = Some []" "utf8_valid (as_bytes (sm_password cfg))"
    and "fst (recipients_json sx) (sm_alert_recipients cfg) = Some json"
    and "snd (recipients_json sx) json = Some (sm_alert_recipients cfg)"
    and "get_smtp_config_with_secret ix sx s t = Inr old"
    and stored: "set_smtp_config ix sx nonce cfg s t = (Inr (), t')"
  shows "get_smtp_config_with_secret ix sx s t' = Inr (Some (cfg\<lparr>sm_password :=
      if sm_password cfg \<noteq> [] then sm_password cfg
      else (case old of Some c \<Rightarrow> sm_password c | None \<Rightarrow> [])\<rparr>))
    \<and> get_smtp_config sx t' = Some (cfg\<lparr>sm_password := []\<rparr>)"
proof -
  obtain enc where enc: "encrypt_nonempty ix s nonce (sm_password cfg) = Inr enc"
    using stored by (auto simp: set_smtp_config_def split: sum.splits)
  note keep = decrypt_setting [OF assms(1-5) enc]
  have old: "case smtp_row t of None \<Rightarrow> old = None
    | Some r \<Rightarrow> (\<exists>c. old = Some c \<and> decrypt_nonempty ix s (smr_password_enc r) = Inr (sm_password c))"
    using assms(8) by (auto simp: get_smtp_config_with_secret_def split: option.splits sum.splits)
  let ?pw = "if sm_password cfg \<noteq> [] then sm_password cfg else (case old of Some c \<Rightarrow> sm_password c | None \<Rightarrow> [])"
  obtain r where r: "smtp_row t' = Some r" "into_config_without_secret sx r = cfg\<lparr>sm_password := []\<rparr>"
    and pw: "smr_password_enc r = (if sm_password cfg \<noteq> [] then enc
      else (case smtp_row t of Some r \<Rightarrow> smr_password_enc r | None \<Rightarrow> []))"
    using stored by (auto simp: set_smtp_config_def enc assms(6,7) into_config_without_secret_def)
  have "decrypt_nonempty ix s (smr_password_enc r) = Inr ?pw"
    using keep old by (auto simp: pw decrypt_nonempty_def split: option.splits)
  then show ?thesis by (simp add: get_smtp_config_with_secret_def get_smtp_config_def r)
qed

definition toy_relay :: smtp_config where
  "toy_relay = smtp2go ''strix'' ''hunter2'' ''strix@example.org''"

theorem smtp_config_round_trip_witness:
  "get_smtp_config_with_secret toy_iam toy_settings toy_store
     (snd (set_smtp_config toy_iam toy_settings (replicate 12 0) toy_relay toy_store settings_new)) = Inr (Some toy_relay)"
proof -
  have lib: "gcm_correct (ix_crypto toy_iam)" "encodings_correct (ix_crypto toy_iam)"
    "length (replicate 12 0 :: bytes) = NONCE_SIZE" "base64_decode (ix_crypto toy_iam) [] = Some []"
    by (simp_all add: toy_iam_def NONCE_SIZE_def) (simp add: toy_crypto_def)
  have relay: "sm_password toy_relay = ''hunter2''" "sm_alert_recipients toy_relay = []"
    by (simp_all add: toy_relay_def smtp2go_def smtp_default_def)
  have utf: "utf8_valid (as_bytes (sm_password toy_relay))" unfolding relay by code_simp
  have codec: "fst (recipients_json toy_settings) (sm_alert_recipients toy_relay) = Some []"
    "snd (recipients_json toy_settings) [] = Some (sm_alert_recipients toy_relay)"
    by (simp_all add: toy_settings_def relay)
  have new: "get_smtp_config_with_secret toy_iam toy_settings toy_store settings_new = Inr None"
    by (simp add: get_smtp_config_with_secret_def settings_new_def)
  obtain enc where "store_encrypt_secret toy_iam toy_store (replicate 12 0) ''hunter2'' = Inr enc"
    using toy_encrypt [OF toy_store_tables(4)] by blast
  then have "fst (set_smtp_config toy_iam toy_settings (replicate 12 0) toy_relay toy_store settings_new) = Inr ()"
    by (simp add: set_smtp_config_def encrypt_nonempty_def relay toy_settings_def Let_def)
  then have "set_smtp_config toy_iam toy_settings (replicate 12 0) toy_relay toy_store settings_new =
      (Inr (), snd (set_smtp_config toy_iam toy_settings (replicate 12 0) toy_relay toy_store settings_new))"
    by (metis prod.collapse)
  from smtp_config_round_trip [OF lib utf codec new this] show ?thesis by (simp add: relay)
qed

text \<open>A provider that is updated through the admin API loses its mappings from groups to
  policies, and the reply to an update that keeps the secret says that there is none.\<close>

lemma update_erases_mappings:
  assumes "update_oidc_provider ix sx nonce (into_config i req) s t = (Inr (), t')"
    and "fst (mappings_json sx) Map.empty = Some json" "snd (mappings_json sx) json = Some Map.empty"
    and "get_oidc_provider ix sx i s t' = Inr (Some cfg)"
  shows "oc_group_policy_mappings cfg = Map.empty"
proof -
  obtain raw where raw: "oidc_config_to_raw ix sx s nonce (into_config i req) = Inr raw"
    using assms(1) by (auto simp: update_oidc_provider_def split: sum.splits)
  then have "opr_group_policy_mappings raw = json" "opr_id raw = i"
    using assms(2) by (auto simp: oidc_config_to_raw_def into_config_def split: sum.splits option.splits)
  then have "opr_group_policy_mappings r = json" if "r \<in> set (oidc_providers t')" "opr_id r = i" for r
    using assms(1) that by (auto simp: update_oidc_provider_def raw sql_update_def Let_def split: if_splits)
  moreover obtain r where "r \<in> set (oidc_providers t')" "opr_id r = i" "raw_to_oidc_config ix sx s r = Inr cfg"
    using assms(4) by (auto simp: get_oidc_provider_def split: option.splits sum.splits dest!: sql_query_row_SomeD)
  ultimately show ?thesis using assms(3) by (auto simp: raw_to_oidc_config_def split: sum.splits)
qed

lemma update_reply_without_secret:
  assumes "au_is_root user" "orq_client_secret req = None"
    and "fst (update_oidc_provider_admin ix sx nonce user i req st) = Reply 200 resp"
  shows "\<not> ors_has_client_secret resp"
proof -
  have "resp = oidc_provider_response_from (into_config i req)"
    using assms(1,3)
    by (simp add: update_oidc_provider_admin_def settings_call_def sso_bad_request_def Let_def
        split: prod.splits sum.splits)
  then show ?thesis using assms(2) by (simp add: into_config_def oidc_provider_response_from_def)
qed

end
