(* ===== verification/Email.thy ===== *)
theory Email
  imports Oidc_Login
begin

text \<open>
  \<^verbatim>\<open>strix-admin/src/email.rs\<close> and the test mail of \<^verbatim>\<open>smtp.rs\<close>: alerts and reports through the
  mail relay. What is sent is the list of messages the relay accepted, in order. The mail
  library and the text of a time are the fields of \<open>mail_ext\<close>; the texts of its errors are
  left out.
\<close>

section \<open>Sending\<close>

datatype email_error =
    NotConfigured | Disabled | NoRecipients | ConfigError iam_error | BuildError string | TransportError

record mail_message =
  mm_from_name :: "string option"
  mm_from_address :: string
  mm_to :: string
  mm_subject :: string
  mm_body :: string

text \<open>The texts that parse as an address and as a mailbox, the hosts for which a transport with or
  without STARTTLS can be built, the messages that can be built, and those the relay takes.\<close>

record mail_ext =
  valid_address :: "string \<Rightarrow> bool"
  valid_mailbox :: "string \<Rightarrow> bool"
  valid_relay :: "bool \<Rightarrow> string \<Rightarrow> bool"
  valid_message :: "mail_message \<Rightarrow> bool"
  relay_accepts :: "smtp_config \<Rightarrow> mail_message \<Rightarrow> bool"
  rfc3339 :: "instant \<Rightarrow> string"

type_synonym 'a mailing = "('a, email_error) result \<times> mail_message list"

definition active_config ::
  "'f iam_ext \<Rightarrow> settings_ext \<Rightarrow> iam_store \<Rightarrow> settings \<Rightarrow> (smtp_config, email_error) result" where
  "active_config ix sx s t =
     (case get_smtp_config_with_secret ix sx s t of
        Inl e \<Rightarrow> Inl (ConfigError e)
      | Inr None \<Rightarrow> Inl NotConfigured
      | Inr (Some cfg) \<Rightarrow> if sm_enabled cfg then Inr cfg else Inl Disabled)"

definition build_transport :: "mail_ext \<Rightarrow> smtp_config \<Rightarrow> (unit, email_error) result" where
  "build_transport mx cfg =
     (if valid_relay mx (sm_use_starttls cfg) (sm_host cfg) then Inr () else Inl (BuildError []))"

definition recipients :: "smtp_config \<Rightarrow> string option \<Rightarrow> string list" where
  "recipients cfg override_to =
     (case override_to of
        Some addressee \<Rightarrow> [addressee]
      | None \<Rightarrow>
          if sm_alert_recipients cfg \<noteq> [] then sm_alert_recipients cfg
          else if sm_from_address cfg \<noteq> [] then [sm_from_address cfg]
          else [])"

definition message_to :: "smtp_config \<Rightarrow> string \<Rightarrow> string \<Rightarrow> string \<Rightarrow> mail_message" where
  "message_to cfg subject body recipient =
     \<lparr>mm_from_name = sm_from_name cfg, mm_from_address = sm_from_address cfg, mm_to = recipient,
      mm_subject = subject, mm_body = body\<rparr>"

text \<open>One message after the other; the first that fails ends the loop.\<close>

fun send_each :: "mail_ext \<Rightarrow> smtp_config \<Rightarrow> string \<Rightarrow> string \<Rightarrow> string list \<Rightarrow> unit mailing" where
  "send_each mx cfg subject body [] = (Inr (), [])"
| "send_each mx cfg subject body (r # rs) =
     (if \<not> valid_mailbox mx r then (Inl (BuildError (''invalid recipient '' @ quoted r)), [])
      else
        let m = message_to cfg subject body r
        in if \<not> valid_message mx m then (Inl (BuildError []), [])
           else if \<not> relay_accepts mx cfg m then (Inl TransportError, [])
           else (case send_each mx cfg subject body rs of (result, sent) \<Rightarrow> (result, m # sent)))"

definition send_with :: "mail_ext \<Rightarrow> smtp_config \<Rightarrow> string list \<Rightarrow> string \<Rightarrow> string \<Rightarrow> unit mailing" where
  "send_with mx cfg to_all subject body =
     (if to_all = [] then (Inl NoRecipients, [])
      else if \<not> valid_address mx (sm_from_address cfg) then (Inl (BuildError ''invalid from address''), [])
      else (case build_transport mx cfg of
         Inl e \<Rightarrow> (Inl e, [])
       | Inr _ \<Rightarrow> send_each mx cfg subject body to_all))"

definition send_test ::
  "'f iam_ext \<Rightarrow> settings_ext \<Rightarrow> mail_ext \<Rightarrow> string option \<Rightarrow> iam_store \<Rightarrow> settings \<Rightarrow> unit mailing" where
  "send_test ix sx mx addressee s t =
     (case active_config ix sx s t of
        Inl e \<Rightarrow> (Inl e, [])
      | Inr cfg \<Rightarrow> send_with mx cfg (recipients cfg addressee) ''Strix SMTP test''
          (''This is a test email from Strix.'' @ [CHR 0x0A, CHR 0x0A]
            @ ''If you received this message, your SMTP relay ('' @ sm_host cfg @ '':''
            @ show_nat (unat (sm_port cfg)) @ '') is configured correctly.''))"

section \<open>Usage reports\<close>

definition usage_report_interval ::
  "'f iam_ext \<Rightarrow> settings_ext \<Rightarrow> iam_store \<Rightarrow> settings \<Rightarrow> int option" where
  "usage_report_interval ix sx s t =
     (case active_config ix sx s t of
        Inr cfg \<Rightarrow> if sm_send_usage_reports cfg then Some (schedule_interval (sm_usage_report_schedule cfg)) else None
      | Inl _ \<Rightarrow> None)"

text \<open>The paddings \<^verbatim>\<open>{:<n}\<close> and \<^verbatim>\<open>{:>n}\<close>.\<close>

definition pad_right :: "nat \<Rightarrow> string \<Rightarrow> string" where
  "pad_right n s = s @ replicate (n - length s) (CHR '' '')"

definition pad_left :: "nat \<Rightarrow> string \<Rightarrow> string" where
  "pad_left n s = replicate (n - length s) (CHR '' '') @ s"

definition usage_line :: "string \<Rightarrow> string \<Rightarrow> string \<Rightarrow> string" where
  "usage_line a b c = pad_right 32 a @ '' '' @ pad_left 14 b @ '' '' @ pad_left 16 c"

text \<open>The totals are sums without a bound; the code adds them in 64 bits.\<close>

definition build_usage_report :: "mail_ext \<Rightarrow> instant \<Rightarrow> local_store \<Rightarrow> string" where
  "build_usage_report mx now store =
     (let names = map bi_name (list_buckets store);
          usages = map (\<lambda>b. get_bucket_usage b store) names;
          rule = replicate 64 (CHR ''-'')
      in str_join [CHR 0x0A]
           ([''Strix storage usage report'', ''Generated: '' @ rfc3339 mx now, [],
             usage_line ''Bucket'' ''Objects'' ''Size (bytes)'', rule]
            @ map (\<lambda>(b, count, bytes). usage_line b (show_nat count) (show_nat bytes)) (zip names usages)
            @ [rule, usage_line (''TOTAL ('' @ show_nat (length names) @ '' buckets)'')
                 (show_nat (sum_list (map fst usages))) (show_nat (sum_list (map snd usages)))]))"

definition send_usage_report ::
  "'f iam_ext \<Rightarrow> settings_ext \<Rightarrow> mail_ext \<Rightarrow> instant \<Rightarrow> local_store \<Rightarrow> iam_store \<Rightarrow> settings \<Rightarrow> unit mailing" where
  "send_usage_report ix sx mx now store s t =
     (case active_config ix sx s t of
        Inl e \<Rightarrow> (Inl e, [])
      | Inr cfg \<Rightarrow>
          if \<not> sm_send_usage_reports cfg then (Inl Disabled, [])
          else send_with mx cfg (recipients cfg None) ''Strix storage usage report'' (build_usage_report mx now store))"

section \<open>Alerts\<close>

definition audit_is_security_relevant :: "audit_log_entry \<Rightarrow> bool" where
  "audit_is_security_relevant entry \<longleftrightarrow>
     al_status_code entry = 401 \<or> al_status_code entry = 403
     \<or> list_ex (str_contains (al_operation entry)) [''POST '', ''PUT '', ''DELETE '']
       \<and> list_ex (str_contains (al_operation entry))
           [''/users'', ''/groups'', ''/policies'', ''/access-keys'', ''/oidc'', ''/smtp'']"

definition text_or :: "string \<Rightarrow> string option \<Rightarrow> string" where
  "text_or other t = (case t of Some x \<Rightarrow> x | None \<Rightarrow> other)"

definition labelled :: "(string \<times> string) list \<Rightarrow> string" where
  "labelled entries = str_join [CHR 0x0A] (map (\<lambda>(label, x). label @ x) entries)"

definition audit_alert_body :: "mail_ext \<Rightarrow> audit_log_entry \<Rightarrow> string" where
  "audit_alert_body mx entry = ''A security-relevant event occurred on Strix.'' @ [CHR 0x0A, CHR 0x0A] @ labelled
     [(''Operation: '', al_operation entry), (''Principal: '', text_or ''(unauthenticated)'' (al_principal entry)),
      (''Source IP: '', text_or ''(unknown)'' (al_source_ip entry)),
      (''Status:    '', show_nat (unat (al_status_code entry))), (''Time:      '', rfc3339 mx (al_timestamp entry)),
      (''Request:   '', al_request_id entry)]"

text \<open>An alert is attempted; its failure is only logged. The result is what was sent.\<close>

definition maybe_alert_audit ::
  "'f iam_ext \<Rightarrow> settings_ext \<Rightarrow> mail_ext \<Rightarrow> audit_log_entry \<Rightarrow> iam_store \<Rightarrow> settings \<Rightarrow> mail_message list" where
  "maybe_alert_audit ix sx mx entry s t =
     (if \<not> audit_is_security_relevant entry then []
      else (case active_config ix sx s t of
         Inl _ \<Rightarrow> []
       | Inr cfg \<Rightarrow>
           if \<not> sm_alert_on_audit_events cfg then []
           else snd (send_with mx cfg (recipients cfg None) ''Strix security alert'' (audit_alert_body mx entry))))"

definition delivery_alert_body :: "mail_ext \<Rightarrow> notification_delivery_attempt \<Rightarrow> string" where
  "delivery_alert_body mx d = ''A notification delivery failed on Strix.'' @ [CHR 0x0A, CHR 0x0A] @ labelled
     [(''Bucket:      '', nd_bucket d), (''Rule:        '', nd_rule_id d),
      (''Destination: '', nd_target d @ '' ('' @ nd_destination_type d @ '')''), (''Event:       '', nd_event_type d),
      (''Object:      '', nd_object_key d), (''Attempts:    '', show_nat (unat (nd_attempts d))),
      (''Status:      '', delivery_status_to_string (nd_status d)),
      (''HTTP code:   '', text_or ''-'' (map_option (\<lambda>c. show_nat (unat c)) (nd_response_code d))),
      (''Last error:  '', text_or ''(none)'' (nd_last_error d)), (''Time:        '', rfc3339 mx (nd_timestamp d))]"

definition alert_delivery_failure ::
  "'f iam_ext \<Rightarrow> settings_ext \<Rightarrow> mail_ext \<Rightarrow> notification_delivery_attempt \<Rightarrow> iam_store \<Rightarrow> settings \<Rightarrow>
     mail_message list" where
  "alert_delivery_failure ix sx mx attempt s t =
     (case active_config ix sx s t of
        Inl _ \<Rightarrow> []
      | Inr cfg \<Rightarrow>
          if \<not> sm_alert_on_delivery_failure cfg then []
          else snd (send_with mx cfg (recipients cfg None) ''Strix notification delivery failure''
                 (delivery_alert_body mx attempt)))"

section \<open>The test mail\<close>

definition email_failure :: "email_error \<Rightarrow> error_text" where
  "email_failure e = (case e of
       NotConfigured \<Rightarrow> Plain ''SMTP is not configured''
     | Disabled \<Rightarrow> Plain ''SMTP sending is disabled''
     | NoRecipients \<Rightarrow> Plain ''no recipient specified''
     | ConfigError e \<Rightarrow> OfIam e
     | BuildError m \<Rightarrow> Plain (''failed to build email: '' @ m)
     | TransportError \<Rightarrow> Plain ''SMTP transport error: '')"

definition send_test_email_admin ::
  "'f iam_ext \<Rightarrow> settings_ext \<Rightarrow> mail_ext option \<Rightarrow> authenticated_user \<Rightarrow> string option \<Rightarrow> sso_state \<Rightarrow>
     unit api_reply \<times> mail_message list" where
  "send_test_email_admin ix sx email user addressee st =
     (if \<not> au_is_root user then (root_required, [])
      else (case email of
         None \<Rightarrow> (Failure 503 (error_new (Plain ''Email service is not available'')), [])
       | Some mx \<Rightarrow>
           (case send_test ix sx mx addressee (as_iam (ss_admin st)) (ss_settings st) of
              (Inr _, sent) \<Rightarrow> (StatusOnly 204, sent)
            | (Inl e, sent) \<Rightarrow> (Failure 400 (error_new (email_failure e)), sent))))"

section \<open>What is sent\<close>

text \<open>The recipients up to the first failure get the message, in order; the result is a success
  exactly when all of them do.\<close>

lemma send_each_prefix:
  "\<exists>n \<le> length rs. snd (send_each mx cfg subject body rs) = map (message_to cfg subject body) (take n rs)
     \<and> (fst (send_each mx cfg subject body rs) = Inr () \<longleftrightarrow> n = length rs)"
proof (induction rs)
  case (Cons r rs)
  then obtain n where n: "n \<le> length rs"
    "snd (send_each mx cfg subject body rs) = map (message_to cfg subject body) (take n rs)"
    "fst (send_each mx cfg subject body rs) = Inr () \<longleftrightarrow> n = length rs" by blast
  let ?ok = "valid_mailbox mx r \<and> valid_message mx (message_to cfg subject body r)
    \<and> relay_accepts mx cfg (message_to cfg subject body r)"
  show ?case
  proof (cases ?ok)
    case True
    then show ?thesis using n by (intro exI [of _ "Suc n"]) (auto simp: Let_def split: prod.split)
  next
    case False
    then show ?thesis by (intro exI [of _ 0]) (auto simp: Let_def)
  qed
qed simp

text \<open>A security alert goes to the configured recipients only, and only when the relay is enabled
  and alerts are on.\<close>

lemma security_alert_sent:
  assumes "m \<in> set (maybe_alert_audit ix sx mx entry s t)"
  shows "audit_is_security_relevant entry \<and> (\<exists>cfg. get_smtp_config_with_secret ix sx s t = Inr (Some cfg)
    \<and> sm_enabled cfg \<and> sm_alert_on_audit_events cfg \<and> mm_to m \<in> set (recipients cfg None))"
proof -
  obtain cfg where cfg: "audit_is_security_relevant entry" "active_config ix sx s t = Inr cfg"
    "sm_alert_on_audit_events cfg"
    "m \<in> set (snd (send_with mx cfg (recipients cfg None) ''Strix security alert'' (audit_alert_body mx entry)))"
    using assms by (cases "active_config ix sx s t") (auto simp: maybe_alert_audit_def split: if_splits)
  then have "m \<in> set (snd (send_each mx cfg ''Strix security alert'' (audit_alert_body mx entry) (recipients cfg None)))"
    by (auto simp: send_with_def split: if_splits sum.splits)
  then obtain n where "m \<in> set (map (message_to cfg ''Strix security alert'' (audit_alert_body mx entry))
      (take n (recipients cfg None)))"
    using send_each_prefix [where mx = mx and cfg = cfg and rs = "recipients cfg None"
      and subject = "''Strix security alert''" and body = "audit_alert_body mx entry"] by metis
  then have "mm_to m \<in> set (recipients cfg None)" by (auto simp: message_to_def dest: in_set_takeD)
  moreover have "get_smtp_config_with_secret ix sx s t = Inr (Some cfg)" "sm_enabled cfg"
    using cfg(2) by (auto simp: active_config_def split: sum.splits option.splits if_splits)
  ultimately show ?thesis using cfg(1,3) by blast
qed

end
