(* ===== verification/Server_Config.thy ===== *)
theory Server_Config
  imports Email
begin

text \<open>
  \<^verbatim>\<open>strix/src/main.rs\<close>: the configuration of the server and its validation, the secret of the
  session tokens, what the first start puts into the settings, the task that mails usage
  reports, the context of an S3 request and the health replies. The address of a socket is the
  text of its host, as \<^verbatim>\<open>Display\<close> renders it, and its port.
\<close>

section \<open>Configuration\<close>

type_synonym socket_addr = "string \<times> u16"

definition show_addr :: "socket_addr \<Rightarrow> string" where
  "show_addr a = fst a @ '':'' @ show_nat (unat (snd a))"

text \<open>The options that the code below reads.\<close>

record server_config =
  scf_address :: socket_addr
  scf_console_address :: socket_addr
  scf_metrics_address :: socket_addr
  scf_root_user :: string
  scf_root_password :: string
  scf_multipart_expiry_hours :: u32
  scf_s3_rate_limit :: u32
  scf_jwt_secret :: "string option"
  scf_oidc_enabled :: bool
  scf_oidc_provider :: string
  scf_oidc_issuer :: "string option"
  scf_oidc_client_id :: "string option"
  scf_oidc_client_secret :: "string option"
  scf_oidc_redirect_uri :: "string option"
  scf_oidc_scopes :: string
  scf_oidc_auto_create :: bool
  scf_smtp_host :: "string option"
  scf_smtp_port :: u16
  scf_smtp_user :: "string option"
  scf_smtp_pass :: "string option"
  scf_smtp_from :: "string option"

text \<open>The pairs \<open>i < j\<close> of listeners that share a port, in the order of the two loops.\<close>

fun port_conflicts :: "(socket_addr \<times> string) list \<Rightarrow> string list" where
  "port_conflicts [] = []"
| "port_conflicts ((a, name) # rest) =
     map (\<lambda>(b, other). name @ '' and '' @ other @ '' cannot use the same port '' @ show_nat (unat (snd a)) @ ''.'')
       (filter (\<lambda>(b, other). snd a = snd b) rest)
     @ port_conflicts rest"

definition config_errors :: "server_config \<Rightarrow> string list" where
  "config_errors c =
     (if scf_root_user c = [] then
        [''Root user not set. Set STRIX_ROOT_USER environment variable or use --root-user flag.'']
      else if length (scf_root_user c) < 3 then [''Root user must be at least 3 characters long.''] else [])
     @ (if scf_root_password c = [] then
          [''Root password not set. Set STRIX_ROOT_PASSWORD environment variable or use --root-password flag.'']
        else if length (scf_root_password c) < 8 then
          [''Root password must be at least 8 characters long for security.''] else [])
     @ port_conflicts [(scf_address c, ''S3 API''), (scf_console_address c, ''Admin/Console''),
         (scf_metrics_address c, ''Metrics'')]
     @ (if scf_multipart_expiry_hours c = 0 then [''Multipart expiry hours must be greater than 0.''] else [])"

definition config_validate :: "server_config \<Rightarrow> (unit, string list) result" where
  "config_validate c = (if config_errors c = [] then Inr () else Inl (config_errors c))"

definition jwt_secret_bytes :: "crypto_lib \<Rightarrow> server_config \<Rightarrow> (bytes option, string) result" where
  "jwt_secret_bytes cl c =
     (case scf_jwt_secret c of
        None \<Rightarrow> Inr None
      | Some s \<Rightarrow>
          if str_trim s = [] then Inr None
          else (case base64_decode cl (str_trim s) of
             None \<Rightarrow> Inl ''Invalid STRIX_JWT_SECRET base64''
           | Some decoded \<Rightarrow>
               if length decoded < 32 then
                 Inl (''STRIX_JWT_SECRET must decode to at least 32 bytes (got '' @ show_nat (length decoded) @ '')'')
               else Inr (Some (take 32 decoded))))"

lemma config_validate_iff:
  "config_validate c = Inr () \<longleftrightarrow> 3 \<le> length (scf_root_user c) \<and> 8 \<le> length (scf_root_password c)
     \<and> distinct (map snd [scf_address c, scf_console_address c, scf_metrics_address c])
     \<and> scf_multipart_expiry_hours c \<noteq> 0"
  by (auto simp: config_validate_def config_errors_def)

lemma jwt_secret_length: "jwt_secret_bytes cl c = Inr (Some k) \<Longrightarrow> length k = 32"
  by (auto simp: jwt_secret_bytes_def split: option.splits if_splits)

section \<open>The first start\<close>

definition build_env_oidc_provider :: "server_config \<Rightarrow> oidc_config option" where
  "build_env_oidc_provider c =
     (if \<not> scf_oidc_enabled c then None
      else
        let preset = to_lowercase (scf_oidc_provider c);
            issuer = (case scf_oidc_issuer c of
                Some i \<Rightarrow> i | None \<Rightarrow> if preset = ''google'' then ''https://accounts.google.com'' else [])
        in (case (scf_oidc_client_id c, scf_oidc_client_secret c) of
              (Some client_id, Some client_secret) \<Rightarrow>
                if issuer = [] then None
                else
                  let redirect = (case scf_oidc_redirect_uri c of
                          Some u \<Rightarrow> u
                        | None \<Rightarrow> ''http://'' @ show_addr (scf_console_address c) @ ''/api/v1/auth/callback'');
                      (name, username_claim, groups_claim) =
                        (if preset = ''azure'' then (''Azure AD'', ''preferred_username'', Some ''groups'')
                         else if preset = ''google'' then (''Google'', ''email'', None)
                         else (''SSO'', ''preferred_username'', None))
                  in Some \<lparr>oc_id = preset, oc_name = name, oc_enabled = True, oc_issuer_url = issuer,
                       oc_client_id = client_id, oc_client_secret = client_secret, oc_redirect_uri = redirect,
                       oc_scopes = split_whitespace (scf_oidc_scopes c), oc_username_claim = username_claim,
                       oc_groups_claim = groups_claim, oc_auto_create_users = scf_oidc_auto_create c,
                       oc_default_policy = None, oc_group_policy_mappings = Map.empty\<rparr>
            | _ \<Rightarrow> None))"

definition seed_oidc_provider ::
  "'f iam_ext \<Rightarrow> settings_ext \<Rightarrow> bytes \<Rightarrow> server_config \<Rightarrow> iam_store \<Rightarrow> settings \<Rightarrow> settings" where
  "seed_oidc_provider ix sx nonce c s t =
     (case build_env_oidc_provider c of
        None \<Rightarrow> t
      | Some provider \<Rightarrow>
          if count_oidc_providers t = 0 then snd (create_oidc_provider ix sx nonce provider s t) else t)"

definition seed_smtp_config ::
  "'f iam_ext \<Rightarrow> settings_ext \<Rightarrow> bytes \<Rightarrow> server_config \<Rightarrow> iam_store \<Rightarrow> settings \<Rightarrow> settings" where
  "seed_smtp_config ix sx nonce c s t =
     (case (scf_smtp_host c, scf_smtp_user c, scf_smtp_pass c, scf_smtp_from c) of
        (Some host, Some user, Some pass, Some from_address) \<Rightarrow>
          (case get_smtp_config sx t of
             Some _ \<Rightarrow> t
           | None \<Rightarrow> snd (set_smtp_config ix sx nonce
               (smtp_default\<lparr>sm_enabled := True, sm_host := host, sm_port := scf_smtp_port c, sm_username := user,
                  sm_password := pass, sm_from_address := from_address, sm_use_starttls := (scf_smtp_port c \<noteq> 465)\<rparr>)
               s t))
      | _ \<Rightarrow> t)"

definition start_settings ::
  "'f iam_ext \<Rightarrow> settings_ext \<Rightarrow> bytes \<Rightarrow> bytes \<Rightarrow> server_config \<Rightarrow> iam_store \<Rightarrow> settings \<Rightarrow> settings" where
  "start_settings ix sx nonce1 nonce2 c s t = seed_oidc_provider ix sx nonce2 c s (seed_smtp_config ix sx nonce1 c s t)"

text \<open>The environment never overwrites what the console has stored.\<close>

lemma start_settings_keep:
  assumes "oidc_providers t \<noteq> []" "smtp_row t \<noteq> None"
  shows "start_settings ix sx nonce1 nonce2 c s t = t"
  using assms
  by (auto simp: start_settings_def seed_oidc_provider_def seed_smtp_config_def count_oidc_providers_def
      get_smtp_config_def split: option.splits)

definition server_csrf :: "server_config \<Rightarrow> csrf_config" where
  "server_csrf c = csrf_new [''http://'' @ show_addr (scf_console_address c),
     ''https://'' @ show_addr (scf_console_address c), ''http://localhost:9001'', ''http://127.0.0.1:9001'']"

section \<open>Usage reports\<close>

text \<open>One tick of the task, an hour after the one before: the time of the last report, and what
  is sent. Only a report that succeeds counts.\<close>

definition usage_report_tick ::
  "'f iam_ext \<Rightarrow> settings_ext \<Rightarrow> mail_ext \<Rightarrow> instant \<Rightarrow> local_store \<Rightarrow> iam_store \<Rightarrow> settings \<Rightarrow> instant \<Rightarrow>
     instant \<times> mail_message list" where
  "usage_report_tick ix sx mx now store s t last_sent =
     (case usage_report_interval ix sx s t of
        None \<Rightarrow> (last_sent, [])
      | Some interval \<Rightarrow>
          if now - last_sent \<ge> of_sql_datetime interval then
            (case send_usage_report ix sx mx now store s t of
               (Inr _, sent) \<Rightarrow> (now, sent)
             | (Inl _, sent) \<Rightarrow> (last_sent, sent))
          else (last_sent, []))"

fun usage_report_task ::
  "'f iam_ext \<Rightarrow> settings_ext \<Rightarrow> mail_ext \<Rightarrow> (instant \<times> local_store \<times> iam_store \<times> settings) list \<Rightarrow> instant \<Rightarrow>
     (instant \<times> mail_message list) list" where
  "usage_report_task ix sx mx [] last_sent = []"
| "usage_report_task ix sx mx ((now, store, s, t) # ticks) last_sent =
     (case usage_report_tick ix sx mx now store s t last_sent of
        (last', sent) \<Rightarrow> (now, sent) # usage_report_task ix sx mx ticks last')"

text \<open>A report is sent at least a day after the last one that succeeded.\<close>

lemma usage_report_spacing:
  assumes "usage_report_tick ix sx mx now store s t last_sent = (last', sent)" "sent \<noteq> []"
  shows "now - last_sent \<ge> of_sql_datetime (24 * 60 * 60)" "last' \<in> {last_sent, now}"
proof -
  have "schedule_interval d \<ge> 24 * 60 * 60" for d by (cases d) auto
  then have "of_sql_datetime (schedule_interval d) \<ge> of_sql_datetime (24 * 60 * 60)" for d
    by (simp add: of_sql_datetime_def nanos_per_sec_def)
  then have "of_sql_datetime interval \<ge> of_sql_datetime (24 * 60 * 60)"
    if "usage_report_interval ix sx s t = Some interval" for interval
    using that by (auto simp: usage_report_interval_def split: sum.splits if_splits)
  then show "now - last_sent \<ge> of_sql_datetime (24 * 60 * 60)" "last' \<in> {last_sent, now}"
    using assms
    by (fastforce simp: usage_report_tick_def split: option.splits if_splits prod.splits sum.splits)+
qed

section \<open>Requests and health\<close>

text \<open>The source address and the request id of an S3 request; both come from its headers.\<close>

definition s3_source_ip :: "(string \<rightharpoonup> string) \<Rightarrow> string option" where
  "s3_source_ip headers =
     (case Option.bind (headers ''x-forwarded-for'')
         (\<lambda>v. List.find (\<lambda>s. s \<noteq> []) (map str_trim (split_on (CHR '','') v))) of
        Some ip \<Rightarrow> Some ip
      | None \<Rightarrow> headers ''x-real-ip'')"

definition s3_request_id :: "string \<Rightarrow> (string \<rightharpoonup> string) \<Rightarrow> string" where
  "s3_request_id fresh_uuid headers = (case headers ''x-amz-request-id'' of Some i \<Rightarrow> i | None \<Rightarrow> fresh_uuid)"

definition content_length :: "(string \<rightharpoonup> string) \<Rightarrow> u64" where
  "content_length headers = (case Option.bind (headers ''content-length'') parse_u64 of Some n \<Rightarrow> n | None \<Rightarrow> 0)"

record health_response =
  hr_status :: string
  hr_storage :: "string option"
  hr_database :: "string option"
  hr_error :: "string option"

definition health_live :: health_response where
  "health_live = \<lparr>hr_status = ''ok'', hr_storage = None, hr_database = None, hr_error = None\<rparr>"

definition health_ready :: "bool \<Rightarrow> bool \<Rightarrow> u16 \<times> health_response" where
  "health_ready storage_ok db_ok =
     (if storage_ok \<and> db_ok then
        (200, \<lparr>hr_status = ''ok'', hr_storage = Some ''ok'', hr_database = Some ''ok'', hr_error = None\<rparr>)
      else
        (503, \<lparr>hr_status = ''error'',
          hr_storage = Some (if storage_ok then ''ok'' else ''error''),
          hr_database = Some (if db_ok then ''ok'' else ''error''),
          hr_error = Some (str_join '', '' ((if storage_ok then [] else [''storage unavailable''])
            @ (if db_ok then [] else [''database unavailable''])))\<rparr>))"

end
