(* ===== verification/Spec2Isabelle.thy ===== *)
theory Spec2Isabelle
  imports S3_Auth Store_Typing Listing_Pages S3_Behaviour Rate_Limiter Admin_Behaviour Admin_Logs
    Presign Auth_Provider Sso_Behaviour Server_Config
begin

text \<open>
  Strix, an S3-compatible object storage server. This development models the server's own
  logic, from the SQL rows and files up to the handlers of the S3 service and of the admin API,
  and proves what makes it correct.

  \<^bold>\<open>The program.\<close> An S3 request arrives at the handlers of \<^verbatim>\<open>strix-s3/src/service.rs\<close>.
  A handler asks \<^verbatim>\<open>check_authorization\<close>, which asks the IAM store
  (\<^verbatim>\<open>strix-iam/src/store.rs\<close>) for the identity policies of the caller and for the policy of the
  bucket, both judged by the policy engine (\<^verbatim>\<open>policy.rs\<close>). Then it calls the object store
  (\<^verbatim>\<open>strix-storage/src/localfs.rs\<close>), which keeps its metadata in SQLite and the bytes in files, and
  sends an event to the dispatcher (\<^verbatim>\<open>dispatcher.rs\<close>), which delivers it to the webhooks of the
  bucket and writes a delivery log. Administrators use the HTTP API of \<^verbatim>\<open>strix-admin\<close>, behind a
  login with a rate limiter, or the sign-on of an identity provider, and a chain of middleware.

  \<^bold>\<open>Ground.\<close> \<open>Strix_Prelude\<close> has the types that stand for Rust's \<^verbatim>\<open>Result\<close>, \<^verbatim>\<open>String\<close>, integers
  and times, the operations on text, and the collections \<open>table_simps\<close> and \<open>store_defs\<close>;
  \<open>Rust_Text\<close> adds the text functions of the request handlers. \<open>Sql_Table\<close> is a table as the
  list of its rows in insertion order, with one function for each kind of SQL statement that
  occurs, and the laws of keys, insertion, update and deletion on which all stores rest.
  \<open>Core_Types\<close> has the errors of \<^verbatim>\<open>strix-core/src/error.rs\<close> with their codes and HTTP
  statuses, and the enumerations with a text form; its locale \<open>text_codec\<close> is interpreted for
  each of them, giving the round trips.

  \<^bold>\<open>Identity and access.\<close> \<open>Wildcard\<close>: \<^verbatim>\<open>matches_wildcard\<close>, the dynamic program over the table of
  booleans, equivalent to the language of the pattern. \<open>Policy\<close> and \<open>Bucket_Policy\<close>: policies,
  statements, ARNs, principals, conditions, CIDR ranges and validation; the locale
  \<open>deny_overrides\<close> proves once, for both kinds of policy, that a matching deny wins whatever the
  order. \<open>Password\<close> and \<open>Crypto\<close>: strength rules, ETags, AES-GCM framing, SSE-C keys, secrets at
  rest. \<open>Iam_Store\<close> is the state \<open>iam_store\<close> (the tables of users, keys, policies, groups,
  sessions) with every operation of \<^verbatim>\<open>IamStore\<close> on it; \<open>Iam_Invariant\<close> has the step relation
  and the invariant of all reachable states, \<open>Iam_Authz\<close> the meaning of \<^verbatim>\<open>is_authorized\<close>.
  \<open>S3_Auth\<close> is the authentication of \<^verbatim>\<open>iam_auth.rs\<close> and \<^verbatim>\<open>check_authorization\<close>, with the life of
  access keys and sessions: creation, expiry, deactivation, deletion.

  \<^bold>\<open>The object store.\<close> \<open>Store_Types\<close> has the rows, requests and responses and the record
  \<open>local_store\<close>: tables, files by path, master key. \<open>Local_Fs\<close>: paths, encryption, buckets,
  tenants. \<open>Objects\<close>: get, head, put, copy, delete, versions and delete markers. \<open>Multipart\<close>:
  uploads and the cleanup task. \<open>Object_Lock\<close>: retention and legal hold. \<open>Listing\<close>: the two
  listings. \<open>Bucket_Config\<close>: CORS, object lock, lifecycle, notification and tagging documents,
  whose common contract is the locale \<open>config_store\<close>, interpreted for each document.
  \<open>Audit_Log\<close>: the two logs.

  The relation \<open>store_step\<close> of \<open>Store_Invariant\<close> is one operation with any arguments, and
  \<open>store_reachable\<close> the states that sequences of them reach from an empty store, at any times;
  \<open>spaced_reachable\<close> those where every new version was created in a later second than the
  versions of its key beside it. The invariant holds in the former, and the latter have one
  current version for each key; the last section shows how a key gets two when two versions
  share a second. On top of the invariant, \<open>Store_Effect\<close> says what each write does to rows and
  blobs, \<open>Store_Typing\<close> that the columns with a fallback decode, \<open>Store_Retention\<close> that a locked
  version survives, and \<open>Store_History\<close> that the tables and files refine, in the spaced states, a
  map from keys to histories of versions. \<open>Object_Io\<close> and \<open>Multipart_Content\<close> prove that what was put or completed is read
  back, with the error paths; \<open>Listing_Pages\<close> that following the continuation tokens ends and
  misses nothing.

  \<^bold>\<open>The services.\<close> \<open>S3_Service\<close>, \<open>S3_Objects\<close>, \<open>S3_Uploads\<close> and \<open>S3_Rules\<close> are the handlers of
  \<^verbatim>\<open>service.rs\<close>, on the state \<open>server\<close>: the store and the channel of events. \<open>S3_Requests\<close> joins
  them in the function \<open>serve\<close> on the datatype of all requests, and proves that a request
  without permission changes nothing but the audit log, and that every request acts on the store
  by its operations, at the times it reads from the clock, so a store behind the S3 API stays
  reachable and the invariants above hold of it. \<open>S3_Behaviour\<close> has range
  requests and customer keys as a client sees them. \<open>Dispatcher\<close> has the rules, the delivery
  with retries and back-off and the loop over the channel. \<open>Rate_Limiter\<close> is the limiter in
  memory with its middleware of \<^verbatim>\<open>main.rs\<close>, \<open>Login_Limit\<close> the persistent one, \<open>Admin_Auth\<close> the
  tokens and the middleware of the admin API, \<open>Admin_Login\<close> its two login handlers.

  \<^bold>\<open>The admin API.\<close> \<open>Admin_Api\<close> has the replies, errors and pages of \<^verbatim>\<open>strix-admin/src/lib.rs\<close> and
  the calls of the stores by which a handler chooses its status; the handlers of
  \<^verbatim>\<open>handlers.rs\<close> follow in \<open>Admin_Users\<close>, \<open>Admin_Groups\<close> (groups, managed and bucket policies, the
  simulator, temporary credentials), \<open>Admin_Buckets\<close> (buckets, tenants, objects, usage),
  \<open>Admin_Logs\<close> (logs and notification rules) and \<open>Presign\<close> (presigned URLs, with \<^verbatim>\<open>presign.rs\<close>). All
  act on the state \<open>admin_state\<close>. \<open>Admin_Behaviour\<close> proves what administrators see: no
  policy authorizes a new user and its key works, tenants are kept apart, a lock that is asked for is not set.
  \<open>Auth_Provider\<close> is the map of credentials of \<^verbatim>\<open>strix-s3/src/auth.rs\<close>.

  \<^bold>\<open>Sign-on, mail and start.\<close> \<open>Idp_Store\<close> has the identity providers and the mail relay with their
  two tables (the record \<open>settings\<close>) and encrypted secrets; \<open>Oidc_Login\<close> the authorization code
  flow of \<^verbatim>\<open>oidc_client.rs\<close> and \<^verbatim>\<open>oidc.rs\<close> on \<open>sso_state\<close>, and the root user's handlers of the
  settings; \<open>Sso_Behaviour\<close> proves that a session needs a verified ID token and is issued once,
  and that secrets which come in empty are kept. \<open>Email\<close> has the alerts and reports of
  \<^verbatim>\<open>email.rs\<close>: what is mailed, and to whom. \<open>Server_Config\<close> has the validation of the options
  of \<^verbatim>\<open>main.rs\<close>, the settings of the first start, the report task and the health replies.

  \<^bold>\<open>Conventions.\<close> A Rust \<^verbatim>\<open>Result\<close> is a sum with the error on the left; an operation that writes
  returns its result with the new state, also when it fails half way, as several do. Integers
  that can wrap are words (\<^verbatim>\<open>u16\<close> part numbers, \<^verbatim>\<open>u32\<close> counters and limits, \<^verbatim>\<open>u64\<close> ranges);
  sizes and counts that cannot are naturals. A time is an integer number of nanoseconds, a
  column filled by \<^verbatim>\<open>datetime('now')\<close> one of seconds. The current time, fresh ids, nonces and
  the chunks of a body, the last possibly an I/O error, are arguments. Code outside the
  repository is a field of a record of functions: \<open>crypto_lib\<close> (digests, AES-GCM, base64),
  \<open>policy_std\<close>, \<open>iam_ext\<close> (argon2, random strings, JSON), \<open>store_ext\<close> (JSON documents), \<open>s3s_ext\<close>
  (the s3s crate), \<open>network\<close> (HTTP client and mail), \<open>web_ext\<close> (JSON web tokens, URLs),
  \<open>presign_ext\<close> (dates, URL encoding), \<open>settings_ext\<close> (JSON of the settings), \<open>oidc_ext\<close> (replies of an
  identity provider, verification of its tokens) and \<open>mail_ext\<close> (the mail library). The
  theorems that rely on their documented behaviour say so, as \<open>gcm_correct\<close> or
  \<open>codec_reads\<close>; the witnesses instantiate the records with small concrete functions.

  \<^bold>\<open>Loops and bounds.\<close> All loops of the sources run over finite data or count up to a limit, and
  are structural recursions, folds, or (the delivery of a webhook) recursions over the retries
  that remain. The only fuel is that of the client in \<open>Listing_Pages\<close>; one page for each object
  and one more are shown to be enough.

  \<^bold>\<open>Time.\<close> Fresh ULIDs are new and have 26 characters. Nothing is assumed of the clock unless a
  theorem says so: the code finds the version to promote by a creation time in seconds, so what
  depends on the single current version of a key is stated for the spaced states, or for states
  where no key has two (\<open>single_current\<close>). A request reads the clock once for its checks and its
  log, and once for each operation of the store. Operations are atomic: each handler runs its statements one after the other
  on one connection, and the interleaving of two handlers between their statements is not
  modelled.

  \<^bold>\<open>Not modelled.\<close> Input and output as such: sockets, HTTP, the SQLite engine, opening files and
  listeners at process start, the router, telemetry and metrics (the rest of \<^verbatim>\<open>main.rs\<close>,
  \<^verbatim>\<open>metrics.rs\<close>, \<^verbatim>\<open>telemetry.rs\<close>), the command line client and the web console, which call the
  HTTP interfaces and keep no state of the server; SQL text of \<^verbatim>\<open>migrations.rs\<close>, whose keys and
  references are in the operations that rely on them; the server information of the admin API.
  The mail that the audit middleware tries to send before it writes its entry is
  \<open>maybe_alert_audit\<close>, and is not part of the middleware's model, whose state it leaves alone.
\<close>

end
